(* ===== verification/Trino_Prelude.thy ===== *)
theory Trino_Prelude
  imports Main "HOL-Library.Word" "HOL-Library.Monad_Syntax"
begin

text \<open>
  The part of Rust's standard library the driver uses, and the generic lemmas the component
  theories share.

  Strings. A Rust \<open>str\<close> is a sequence of Unicode scalar values. It is modelled by \<open>string\<close>,
  a list of \<open>char\<close>, where a \<open>char\<close> stands for the scalar with the same code: the model covers
  text over the scalars U+0000 to U+00FF and is exact there (whitespace, case folding, digits and
  byte lengths included). No function of the driver branches on a scalar above U+00FF other than
  to test it for being whitespace or for having a case.

  Integers. Fixed-width integers are \<open>int\<close>, with the range of the Rust type checked wherever the
  code parses, converts or uses checked arithmetic, and wrapped where it casts. Bit masks and the
  transaction epoch are \<open>word\<close>s.

  Failure. \<open>Result<T, E>\<close> is \<open>'e + 'a\<close> with \<open>Inl\<close> for the error, \<open>Option<T>\<close> is \<open>option\<close>, and
  a computation that may panic is a \<open>run\<close>.
\<close>

named_theorems str_simps \<open>evaluation of the string operations on constructors\<close>
named_theorems parse_simps \<open>parsing of integers from text\<close>

section \<open>Results and panics\<close>

fun bind_res :: "'e + 'a \<Rightarrow> ('a \<Rightarrow> 'e + 'b) \<Rightarrow> 'e + 'b" where
  "bind_res (Inl e) f = Inl e"
| "bind_res (Inr a) f = f a"

lemma bind_res_Inr_iff:
  "bind_res m f = Inr b \<longleftrightarrow> (\<exists>a. m = Inr a \<and> f a = Inr b)"
  by (cases m) auto

lemma bind_res_Inl_iff:
  "bind_res m f = Inl e \<longleftrightarrow> m = Inl e \<or> (\<exists>a. m = Inr a \<and> f a = Inl e)"
  by (cases m) auto

text \<open>\<open>Option::or_else\<close>.\<close>

definition or_else :: "'a option \<Rightarrow> 'a option \<Rightarrow> 'a option" where
  "or_else a b = (case a of None \<Rightarrow> b | Some v \<Rightarrow> Some v)"

fun ok_or :: "'e \<Rightarrow> 'a option \<Rightarrow> 'e + 'a" where
  "ok_or e None = Inl e"
| "ok_or e (Some a) = Inr a"

lemma ok_or_Inr_iff: "ok_or e m = Inr a \<longleftrightarrow> m = Some a"
  by (cases m) auto

text \<open>\<open>Panic\<close> is a Rust panic that unwinds out of the computation.\<close>

datatype 'a run = Ret 'a | Panic

fun bind_run :: "'a run \<Rightarrow> ('a \<Rightarrow> 'b run) \<Rightarrow> 'b run" where
  "bind_run (Ret a) f = f a"
| "bind_run Panic f = Panic"

lemma bind_run_Ret_iff: "bind_run m f = Ret b \<longleftrightarrow> (\<exists>a. m = Ret a \<and> f a = Ret b)"
  by (cases m) auto

fun run_seq :: "'a run list \<Rightarrow> 'a list run" where
  "run_seq [] = Ret []"
| "run_seq (x # xs) = bind_run x (\<lambda>a. bind_run (run_seq xs) (\<lambda>as. Ret (a # as)))"

lemma run_seq_Ret_iff: "run_seq xs = Ret ys \<longleftrightarrow> xs = map Ret ys"
  by (induction xs arbitrary: ys) (auto simp: bind_run_Ret_iff Cons_eq_map_conv)

lemma run_seq_map_Ret [simp]: "run_seq (map (\<lambda>x. Ret (f x)) xs) = Ret (map f xs)"
  by (induction xs) auto

lemma run_seq_no_panic: "Panic \<notin> set xs \<Longrightarrow> \<exists>ys. run_seq xs = Ret ys"
proof (induction xs)
  case Nil
  then show ?case by simp
next
  case (Cons x xs)
  then show ?case by (cases x) auto
qed

lemma run_seq_length: "run_seq xs = Ret ys \<Longrightarrow> length ys = length xs"
  by (auto simp: run_seq_Ret_iff)

section \<open>Characters\<close>

abbreviation sq :: char where "sq \<equiv> CHR 0x27"
abbreviation dq :: char where "dq \<equiv> CHR 0x22"
abbreviation bsl :: char where "bsl \<equiv> CHR 0x5C"

definition is_digit :: "char \<Rightarrow> bool" where
  "is_digit c \<longleftrightarrow> 48 \<le> (of_char c :: nat) \<and> (of_char c :: nat) \<le> 57"

definition digit_val :: "char \<Rightarrow> nat" where
  "digit_val c = of_char c - 48"

definition digit_char :: "nat \<Rightarrow> char" where
  "digit_char d = char_of (48 + d)"

text \<open>\<open>char::is_whitespace\<close> on the scalars up to U+00FF.\<close>

definition is_ws :: "char \<Rightarrow> bool" where
  "is_ws c \<longleftrightarrow> (of_char c :: nat) \<in> {9, 10, 11, 12, 13, 32, 133, 160}"

definition ascii_upper_char :: "char \<Rightarrow> char" where
  "ascii_upper_char c =
     (let n = of_char c :: nat in if 97 \<le> n \<and> n \<le> 122 then char_of (n - 32) else c)"

definition ascii_lower_char :: "char \<Rightarrow> char" where
  "ascii_lower_char c =
     (let n = of_char c :: nat in if 65 \<le> n \<and> n \<le> 90 then char_of (n + 32) else c)"

text \<open>\<open>str::to_lowercase\<close>: besides A to Z, U+00C0 to U+00DE but the multiplication sign.\<close>

definition lower_char :: "char \<Rightarrow> char" where
  "lower_char c =
     (let n = of_char c :: nat
      in if (65 \<le> n \<and> n \<le> 90) \<or> (192 \<le> n \<and> n \<le> 222 \<and> n \<noteq> 215) then char_of (n + 32) else c)"

abbreviation to_ascii_uppercase :: "string \<Rightarrow> string" where
  "to_ascii_uppercase \<equiv> map ascii_upper_char"

abbreviation to_ascii_lowercase :: "string \<Rightarrow> string" where
  "to_ascii_lowercase \<equiv> map ascii_lower_char"

abbreviation to_lowercase :: "string \<Rightarrow> string" where
  "to_lowercase \<equiv> map lower_char"

text \<open>
  \<open>str::to_uppercase\<close> on the scalars up to U+00FF: U+00DF becomes two letters; the capitals of U+00B5 and
  U+00FF are outside the range and stand for themselves, which no comparison here sees.
\<close>

definition upper_char :: "char \<Rightarrow> string" where
  "upper_char c =
     (let n = of_char c :: nat
      in if n = 223 then ''SS''
         else if (97 \<le> n \<and> n \<le> 122) \<or> (224 \<le> n \<and> n \<le> 254 \<and> n \<noteq> 247) then [char_of (n - 32)]
         else [c])"

definition to_uppercase :: "string \<Rightarrow> string" where
  "to_uppercase s = concat (map upper_char s)"

definition eq_ignore_ascii_case :: "string \<Rightarrow> string \<Rightarrow> bool" where
  "eq_ignore_ascii_case a b \<longleftrightarrow> to_ascii_lowercase a = to_ascii_lowercase b"

text \<open>
  On a literal character, a \<open>Char\<close> of eight bits with the lowest first, case folding sets or
  clears bit five.
\<close>

lemma lower_char_Char [str_simps]:
  "lower_char (Char b0 b1 b2 b3 b4 b5 b6 b7) =
     (if b6 \<and> \<not> b5 \<and>
         (if b7 then \<not> (b0 \<and> b1 \<and> b2 \<and> b3 \<and> b4) \<and> \<not> (b0 \<and> b1 \<and> b2 \<and> \<not> b3 \<and> b4)
          else (b0 \<or> b1 \<or> b2 \<or> b3 \<or> b4) \<and> \<not> (b4 \<and> b3 \<and> (b2 \<or> (b0 \<and> b1))))
      then Char b0 b1 b2 b3 b4 True b6 b7 else Char b0 b1 b2 b3 b4 b5 b6 b7)"
  by (cases b0; cases b1; cases b2; cases b3; cases b4; cases b5; cases b6; cases b7;
      simp add: lower_char_def of_char_def char_of_def bit_Suc_0_iff)

lemma ascii_lower_char_Char [str_simps]:
  "ascii_lower_char (Char b0 b1 b2 b3 b4 b5 b6 b7) =
     (if b6 \<and> \<not> b5 \<and> \<not> b7 \<and>
         (b0 \<or> b1 \<or> b2 \<or> b3 \<or> b4) \<and> \<not> (b4 \<and> b3 \<and> (b2 \<or> (b0 \<and> b1)))
      then Char b0 b1 b2 b3 b4 True b6 b7 else Char b0 b1 b2 b3 b4 b5 b6 b7)"
  by (cases b0; cases b1; cases b2; cases b3; cases b4; cases b5; cases b6; cases b7;
      simp add: ascii_lower_char_def of_char_def char_of_def bit_Suc_0_iff)

lemma ascii_upper_char_Char [str_simps]:
  "ascii_upper_char (Char b0 b1 b2 b3 b4 b5 b6 b7) =
     (if b6 \<and> b5 \<and> \<not> b7 \<and>
         (b0 \<or> b1 \<or> b2 \<or> b3 \<or> b4) \<and> \<not> (b4 \<and> b3 \<and> (b2 \<or> (b0 \<and> b1)))
      then Char b0 b1 b2 b3 b4 False b6 b7 else Char b0 b1 b2 b3 b4 b5 b6 b7)"
  by (cases b0; cases b1; cases b2; cases b3; cases b4; cases b5; cases b6; cases b7;
      simp add: ascii_upper_char_def of_char_def char_of_def bit_Suc_0_iff)

lemma is_digit_Char [str_simps]:
  "is_digit (Char b0 b1 b2 b3 b4 b5 b6 b7) \<longleftrightarrow>
     b4 \<and> b5 \<and> \<not> b6 \<and> \<not> b7 \<and> \<not> (b3 \<and> (b1 \<or> b2))"
  by (cases b0; cases b1; cases b2; cases b3; cases b4; cases b5; cases b6; cases b7;
      simp add: is_digit_def of_char_def)

lemma digit_char_props:
  assumes "d < 10"
  shows "is_digit (digit_char d)" and "digit_val (digit_char d) = d"
  using assms by (simp_all add: is_digit_def digit_val_def digit_char_def)

lemma digit_char_eval [str_simps]:
  "digit_char 0 = CHR ''0''" "digit_char (Suc 0) = CHR ''1''" "digit_char 1 = CHR ''1''"
  "digit_char 2 = CHR ''2''" "digit_char 3 = CHR ''3''" "digit_char 4 = CHR ''4''"
  "digit_char 5 = CHR ''5''" "digit_char 6 = CHR ''6''" "digit_char 7 = CHR ''7''"
  "digit_char 8 = CHR ''8''" "digit_char 9 = CHR ''9''"
  by (simp_all add: digit_char_def char_of_def bit_Suc_0_iff)

lemma digit_char_val: "is_digit c \<Longrightarrow> digit_char (digit_val c) = c"
  by (simp add: is_digit_def digit_val_def digit_char_def)

lemma digit_val_less: "is_digit c \<Longrightarrow> digit_val c < 10"
  unfolding is_digit_def digit_val_def by linarith

lemma not_digit [simp]:
  "\<not> is_digit CHR ''-''" "\<not> is_digit CHR ''+''" "\<not> is_digit CHR '':''"
  "\<not> is_digit CHR ''.''" "\<not> is_digit sq" "\<not> is_digit CHR '' ''" "\<not> is_digit CHR '',''"
  "\<not> is_digit CHR ''(''" "\<not> is_digit CHR '')''" "\<not> is_digit CHR ''?''" "\<not> is_digit dq"
  by (simp_all add: is_digit_def)

lemma digit_not_ws: "is_digit c \<Longrightarrow> \<not> is_ws c"
  by (auto simp: is_digit_def is_ws_def)

lemma digit_lower_char: "is_digit c \<Longrightarrow> lower_char c = c"
  by (auto simp: is_digit_def lower_char_def)

lemma is_ws_Char [str_simps]:
  "is_ws (Char b0 b1 b2 b3 b4 b5 b6 b7) \<longleftrightarrow>
     (\<not> b6 \<and> \<not> b4 \<and> \<not> b7 \<and> \<not> b5 \<and> b3 \<and> (b0 \<or> b1 \<or> b2) \<and> \<not> (b1 \<and> b2)) \<or>
     (\<not> b0 \<and> \<not> b1 \<and> \<not> b2 \<and> \<not> b3 \<and> \<not> b4 \<and> b5 \<and> \<not> b6) \<or>
     (b0 \<and> \<not> b1 \<and> b2 \<and> \<not> b3 \<and> \<not> b4 \<and> \<not> b5 \<and> \<not> b6 \<and> b7)"
  by (cases b0; cases b1; cases b2; cases b3; cases b4; cases b5; cases b6; cases b7;
      simp add: is_ws_def of_char_def)

section \<open>Slices, splits and searches\<close>

definition trim_start :: "string \<Rightarrow> string" where
  "trim_start s = dropWhile is_ws s"

definition trim_end :: "string \<Rightarrow> string" where
  "trim_end s = rev (dropWhile is_ws (rev s))"

definition trim :: "string \<Rightarrow> string" where
  "trim s = trim_end (trim_start s)"

fun split_once :: "char \<Rightarrow> string \<Rightarrow> (string \<times> string) option" where
  "split_once d [] = None"
| "split_once d (c # cs) =
     (if c = d then Some ([], cs) else map_option (\<lambda>(a, b). (c # a, b)) (split_once d cs))"

definition rsplit_once :: "char \<Rightarrow> string \<Rightarrow> (string \<times> string) option" where
  "rsplit_once d s = map_option (\<lambda>(a, b). (rev b, rev a)) (split_once d (rev s))"

fun split_on :: "char \<Rightarrow> string \<Rightarrow> string list" where
  "split_on d [] = [[]]"
| "split_on d (c # cs) =
     (if c = d then [] # split_on d cs
      else (case split_on d cs of [] \<Rightarrow> [[c]] | p # ps \<Rightarrow> (c # p) # ps))"

text \<open>\<open>str::splitn\<close> yields at most \<open>n\<close> pieces, the last one unsplit.\<close>

fun splitn :: "nat \<Rightarrow> char \<Rightarrow> string \<Rightarrow> string list" where
  "splitn 0 d s = []"
| "splitn (Suc 0) d s = [s]"
| "splitn (Suc (Suc n)) d s =
     (case split_once d s of None \<Rightarrow> [s] | Some (a, b) \<Rightarrow> a # splitn (Suc n) d b)"

text \<open>
  The iterators of the parsers: \<open>parts = s.splitn(3, d)\<close> with three \<open>parts.next()?\<close>, and
  \<open>parts = s.splitn(2, d)\<close> with a first piece, always there, and an optional second one.
\<close>

definition split3 :: "char \<Rightarrow> string \<Rightarrow> (string \<times> string \<times> string) option" where
  "split3 d s = (case splitn 3 d s of [a, b, c] \<Rightarrow> Some (a, b, c) | _ \<Rightarrow> None)"

definition split2 :: "char \<Rightarrow> string \<Rightarrow> string \<times> string option" where
  "split2 d s = (case splitn 2 d s of [a, b] \<Rightarrow> (a, Some b) | _ \<Rightarrow> (s, None))"

fun find_char :: "char \<Rightarrow> string \<Rightarrow> nat option" where
  "find_char d [] = None"
| "find_char d (c # cs) = (if c = d then Some 0 else map_option Suc (find_char d cs))"

definition rfind_char :: "char \<Rightarrow> string \<Rightarrow> nat option" where
  "rfind_char d s = map_option (\<lambda>i. length s - Suc i) (find_char d (rev s))"

text \<open>\<open>s.get(i..j)\<close> at character boundaries: \<open>None\<close> for a reversed or out-of-range slice.\<close>

definition get_slice :: "string \<Rightarrow> nat \<Rightarrow> nat \<Rightarrow> string option" where
  "get_slice s i j = (if i \<le> j \<and> j \<le> length s then Some (take (j - i) (drop i s)) else None)"

fun strip_prefix :: "string \<Rightarrow> string \<Rightarrow> string option" where
  "strip_prefix [] s = Some s"
| "strip_prefix (p # ps) [] = None"
| "strip_prefix (p # ps) (c # cs) = (if p = c then strip_prefix ps cs else None)"

text \<open>\<open>s.split_whitespace().next()\<close>.\<close>

definition first_word :: "string \<Rightarrow> string option" where
  "first_word s =
     (case takeWhile (Not \<circ> is_ws) (dropWhile is_ws s) of [] \<Rightarrow> None | w \<Rightarrow> Some w)"

text \<open>\<open>str::replace\<close> for a non-empty pattern: leftmost, non-overlapping.\<close>

function replace_str :: "string \<Rightarrow> string \<Rightarrow> string \<Rightarrow> string" where
  "replace_str p r [] = []"
| "replace_str p r (c # cs) =
     (case strip_prefix p (c # cs) of
        Some rest \<Rightarrow> if length rest < length (c # cs) then r @ replace_str p r rest else c # cs
      | None \<Rightarrow> c # replace_str p r cs)"
  by pat_completeness auto
termination
  by (relation "measure (\<lambda>(p, r, s). length s)") auto

text \<open>\<open>str::contains\<close>.\<close>

fun contains_str :: "string \<Rightarrow> string \<Rightarrow> bool" where
  "contains_str [] p \<longleftrightarrow> p = []"
| "contains_str (c # cs) p \<longleftrightarrow> strip_prefix p (c # cs) \<noteq> None \<or> contains_str cs p"

definition starts_with :: "string \<Rightarrow> char \<Rightarrow> bool" where
  "starts_with s c \<longleftrightarrow> (case s of [] \<Rightarrow> False | x # _ \<Rightarrow> x = c)"

fun join :: "string \<Rightarrow> string list \<Rightarrow> string" where
  "join sep [] = []"
| "join sep [p] = p"
| "join sep (p # q # ps) = p @ sep @ join sep (q # ps)"

lemma split_once_Some:
  "split_once d s = Some (a, b) \<longleftrightarrow> s = a @ d # b \<and> d \<notin> set a"
proof (induction s arbitrary: a)
  case Nil
  then show ?case by simp
next
  case (Cons c cs)
  show ?case
  proof (cases a)
    case Nil
    then show ?thesis by (auto split: option.splits)
  next
    case (Cons x xs)
    with Cons.IH [of xs] show ?thesis by auto
  qed
qed

lemma split_once_append [simp]: "d \<notin> set a \<Longrightarrow> split_once d (a @ d # b) = Some (a, b)"
  by (simp add: split_once_Some)

lemma split_once_None: "split_once d s = None \<longleftrightarrow> d \<notin> set s"
  by (induction s) (auto split: option.splits)

lemma split3_split_once:
  "split3 d s = do { (a, r) \<leftarrow> split_once d s; (b, c) \<leftarrow> split_once d r; Some (a, b, c) }"
  by (simp add: split3_def numeral_3_eq_3 split: option.split)

lemma split3_Some:
  "split3 d s = Some (a, b, c) \<longleftrightarrow> s = a @ d # b @ d # c \<and> d \<notin> set a \<and> d \<notin> set b"
  by (auto simp: split3_split_once bind_eq_Some_conv split_once_Some)

lemma split3_eval [simp]:
  "d \<notin> set a \<Longrightarrow> d \<notin> set b \<Longrightarrow> split3 d (a @ d # b @ d # c) = Some (a, b, c)"
  by (simp add: split3_Some)

lemma split2_split_once:
  "split2 d s = (case split_once d s of None \<Rightarrow> (s, None) | Some (a, b) \<Rightarrow> (a, Some b))"
  by (simp add: split2_def numeral_2_eq_2 split: option.split)

lemma split2_simps [simp]:
  "d \<notin> set a \<Longrightarrow> split2 d (a @ d # b) = (a, Some b)"
  "d \<notin> set a \<Longrightarrow> split2 d a = (a, None)"
  using split_once_None [of d a] by (simp_all add: split2_split_once)

lemma rsplit_once_Some:
  "rsplit_once d s = Some (a, b) \<longleftrightarrow> s = a @ d # b \<and> d \<notin> set b"
proof -
  have "rsplit_once d s = Some (a, b) \<longleftrightarrow> split_once d (rev s) = Some (rev b, rev a)"
    by (auto simp: rsplit_once_def)
  also have "\<dots> \<longleftrightarrow> rev s = rev b @ d # rev a \<and> d \<notin> set b"
    by (simp add: split_once_Some)
  also have "rev s = rev b @ d # rev a \<longleftrightarrow> s = a @ d # b"
    by (metis append.assoc append_Cons append_Nil rev.simps(2) rev_append rev_rev_ident)
  finally show ?thesis .
qed

lemma rsplit_once_None: "rsplit_once d s = None \<longleftrightarrow> d \<notin> set s"
  by (simp add: rsplit_once_def split_once_None)

lemma split_on_nonempty [simp]: "split_on d s \<noteq> []"
  by (induction s) (auto split: list.splits)

lemma split_on_no_sep: "d \<notin> set s \<Longrightarrow> split_on d s = [s]"
  by (induction s) auto

lemma split_on_append: "d \<notin> set a \<Longrightarrow> split_on d (a @ d # b) = a # split_on d b"
  by (induction a) auto

lemma split_on_join:
  "ps \<noteq> [] \<Longrightarrow> \<forall>p \<in> set ps. d \<notin> set p \<Longrightarrow> split_on d (join [d] ps) = ps"
  by (induction "[d]" ps rule: join.induct) (auto simp: split_on_no_sep split_on_append)

lemma join_split_on: "join [d] (split_on d s) = s"
proof (induction s)
  case Nil
  then show ?case by simp
next
  case (Cons c cs)
  obtain p ps where "split_on d cs = p # ps"
    by (cases "split_on d cs") auto
  with Cons show ?case by (cases ps) auto
qed

lemma split_on_pieces: "p \<in> set (split_on d s) \<Longrightarrow> d \<notin> set p"
  by (induction s arbitrary: p) (auto split: list.splits if_splits)

lemma strip_prefix_Some: "strip_prefix p s = Some r \<longleftrightarrow> s = p @ r"
  by (induction p s rule: strip_prefix.induct) auto

lemma find_char_Some:
  "find_char d s = Some i \<longleftrightarrow> i < length s \<and> s ! i = d \<and> d \<notin> set (take i s)"
proof (induction s arbitrary: i)
  case Nil
  then show ?case by simp
next
  case (Cons c cs)
  then show ?case by (cases i) auto
qed

lemma find_char_append: "d \<notin> set a \<Longrightarrow> find_char d (a @ d # b) = Some (length a)"
  by (induction a) auto

lemma find_char_None: "find_char d s = None \<longleftrightarrow> d \<notin> set s"
  by (induction s) auto

lemma rfind_char_append: "d \<notin> set b \<Longrightarrow> rfind_char d (a @ d # b) = Some (length a)"
  by (simp add: rfind_char_def find_char_append)

lemma trim_no_ws:
  assumes "s = [] \<or> (\<not> is_ws (hd s) \<and> \<not> is_ws (last s))"
  shows "trim s = s"
proof (cases "s = []")
  case True
  then show ?thesis by (simp add: trim_def trim_start_def trim_end_def)
next
  case False
  with assms have h: "\<not> is_ws (hd s)" and l: "\<not> is_ws (last s)" by auto
  from h have "dropWhile is_ws s = s" by (cases s) auto
  moreover from l False have "dropWhile is_ws (rev s) = rev s"
    by (cases "rev s") (auto simp: last_rev hd_rev [symmetric])
  ultimately show ?thesis by (simp add: trim_def trim_start_def trim_end_def)
qed

lemma trim_digits: "list_all is_digit s \<Longrightarrow> trim s = s"
proof (cases "s = []")
  case False
  assume "list_all is_digit s"
  with False have "is_digit (hd s)" "is_digit (last s)"
    by (auto simp: list_all_iff)
  then show ?thesis by (auto intro!: trim_no_ws dest: digit_not_ws)
qed (simp add: trim_no_ws)

lemma trim_end_idem: "trim_end (trim_end s) = trim_end s"
  by (simp add: trim_end_def dropWhile_idem)

lemma trim_end_snoc: "trim_end (s @ [c]) = (if is_ws c then trim_end s else s @ [c])"
  by (simp add: trim_end_def)

lemma trim_end_Nil [simp]: "trim_end [] = []"
  by (simp add: trim_end_def)

lemma trim_end_prefix: "\<exists>t. s = trim_end s @ t \<and> list_all is_ws t"
proof (induction s rule: rev_induct)
  case Nil
  then show ?case by simp
next
  case (snoc c s)
  then obtain t where t: "s = trim_end s @ t" "list_all is_ws t" by blast
  show ?case
  proof (cases "is_ws c")
    case True
    with t have "s @ [c] = trim_end (s @ [c]) @ (t @ [c])" and "list_all is_ws (t @ [c])"
      by (simp_all add: trim_end_snoc)
    then show ?thesis by blast
  next
    case False
    then have "s @ [c] = trim_end (s @ [c]) @ []" by (simp add: trim_end_snoc)
    moreover have "list_all is_ws []" by simp
    ultimately show ?thesis by blast
  qed
qed

section \<open>Decimal text\<close>

fun show_nat :: "nat \<Rightarrow> string" where
  "show_nat n = (if n < 10 then [digit_char n] else show_nat (n div 10) @ [digit_char (n mod 10)])"

declare show_nat.simps [simp del]

definition show_int :: "int \<Rightarrow> string" where
  "show_int i = (if i < 0 then CHR ''-'' # show_nat (nat (- i)) else show_nat (nat i))"

text \<open>Formatting with a minimal width and zero padding, \<open>{n:0w}\<close>, for a non-negative number.\<close>

definition zpad :: "nat \<Rightarrow> nat \<Rightarrow> string" where
  "zpad w n = replicate (w - length (show_nat n)) CHR ''0'' @ show_nat n"

definition digits_val :: "string \<Rightarrow> nat" where
  "digits_val s = foldl (\<lambda>n c. 10 * n + digit_val c) 0 s"

definition parse_digits :: "string \<Rightarrow> nat option" where
  "parse_digits s = (if s = [] \<or> \<not> list_all is_digit s then None else Some (digits_val s))"

text \<open>
  \<open>str::parse\<close> for an integer type with the range \<open>lo\<close> to \<open>hi\<close>: an optional sign (a minus only
  for a signed type), at least one digit, and the value in range.
\<close>

definition parse_int :: "bool \<Rightarrow> int \<Rightarrow> int \<Rightarrow> string \<Rightarrow> int option" where
  "parse_int sg lo hi s =
     (case s of
        [] \<Rightarrow> None
      | c # cs \<Rightarrow>
          (let neg = (c = CHR ''-'' \<and> sg);
               ds = (if neg \<or> c = CHR ''+'' then cs else s)
           in case parse_digits ds of
                None \<Rightarrow> None
              | Some n \<Rightarrow>
                  (let v = (if neg then - int n else int n)
                   in if lo \<le> v \<and> v \<le> hi then Some v else None)))"

abbreviation "i8_max \<equiv> (127 :: int)"
abbreviation "i16_max \<equiv> (32767 :: int)"
abbreviation "i32_max \<equiv> (2147483647 :: int)"
abbreviation "i64_max \<equiv> (9223372036854775807 :: int)"
abbreviation "u16_max \<equiv> (65535 :: int)"
abbreviation "u32_max \<equiv> (4294967295 :: int)"
abbreviation "u64_max \<equiv> (18446744073709551615 :: int)"

definition fits :: "int \<Rightarrow> int \<Rightarrow> int \<Rightarrow> int option" where
  "fits lo hi v = (if lo \<le> v \<and> v \<le> hi then Some v else None)"

abbreviation "to_i8 \<equiv> fits (- i8_max - 1) i8_max"
abbreviation "to_i16 \<equiv> fits (- i16_max - 1) i16_max"
abbreviation "to_i32 \<equiv> fits (- i32_max - 1) i32_max"
abbreviation "to_i64 \<equiv> fits (- i64_max - 1) i64_max"
abbreviation "to_u16 \<equiv> fits 0 u16_max"
abbreviation "to_u32 \<equiv> fits 0 u32_max"
abbreviation "to_u64 \<equiv> fits 0 u64_max"

abbreviation "parse_i16 \<equiv> parse_int True (- i16_max - 1) i16_max"
abbreviation "parse_i32 \<equiv> parse_int True (- i32_max - 1) i32_max"
abbreviation "parse_i64 \<equiv> parse_int True (- i64_max - 1) i64_max"
abbreviation "parse_u16 \<equiv> parse_int False 0 u16_max"
abbreviation "parse_u64 \<equiv> parse_int False 0 u64_max"

definition hex_digit :: "bool \<Rightarrow> nat \<Rightarrow> char" where
  "hex_digit upper n =
     (if n < 10 then digit_char n else char_of ((if upper then 65 else 97) + (n - 10)))"

text \<open>\<open>{s:?}\<close> of a string.\<close>

definition debug_char :: "char \<Rightarrow> string" where
  "debug_char c =
     (let n = of_char c :: nat in
      if n = 0 then [bsl, CHR ''0'']
      else if n = 9 then [bsl, CHR ''t'']
      else if n = 10 then [bsl, CHR ''n'']
      else if n = 13 then [bsl, CHR ''r'']
      else if c = dq \<or> c = bsl then [bsl, c]
      else if n < 32 \<or> (127 \<le> n \<and> n \<le> 160) \<or> n = 173
        then [bsl, CHR ''u'', CHR ''{''] @
             (if n < 16 then [] else [hex_digit False (n div 16)]) @ [hex_digit False (n mod 16)] @
             [CHR ''}'']
      else [c])"

definition debug_string :: "string \<Rightarrow> string" where
  "debug_string s = dq # concat (map debug_char s) @ [dq]"

lemma fits_Some: "fits lo hi v = Some r \<longleftrightarrow> r = v \<and> lo \<le> v \<and> v \<le> hi"
  by (auto simp: fits_def)

lemma parse_int_range: "parse_int sg lo hi s = Some v \<Longrightarrow> lo \<le> v \<and> v \<le> hi"
  by (auto simp: parse_int_def Let_def split: list.splits option.splits if_splits)

lemma digits_val_Nil [simp]: "digits_val [] = 0"
  by (simp add: digits_val_def)

lemma foldl_digits_shift:
  "foldl (\<lambda>n c. 10 * n + digit_val c) k s
     = k * 10 ^ length s + foldl (\<lambda>n c. 10 * n + digit_val c) 0 s"
proof (induction s arbitrary: k)
  case Nil
  then show ?case by simp
next
  case (Cons c cs)
  show ?case
    using Cons [of "10 * k + digit_val c"] Cons [of "digit_val c"] by (simp add: algebra_simps)
qed

lemma digits_val_append:
  "digits_val (a @ b) = digits_val a * 10 ^ length b + digits_val b"
  using foldl_digits_shift [of "digits_val a" b] by (simp add: digits_val_def)

lemma digits_val_zeros [simp]: "digits_val (replicate n CHR ''0'') = 0"
  by (induction n) (simp_all add: digits_val_def digit_val_def)

lemma digits_val_less: "list_all is_digit s \<Longrightarrow> digits_val s < 10 ^ length s"
proof (induction s rule: rev_induct)
  case Nil
  then show ?case by simp
next
  case (snoc c s)
  then have "digits_val s < 10 ^ length s" and "digit_val c < 10"
    by (auto dest: digit_val_less)
  then have "digits_val s * 10 + digit_val c < (10 ^ length s) * 10"
    by linarith
  then show ?case by (simp add: digits_val_append digits_val_def algebra_simps)
qed

lemma show_nat_props:
  shows "list_all is_digit (show_nat n)" and "show_nat n \<noteq> []" and "digits_val (show_nat n) = n"
proof -
  have "list_all is_digit (show_nat n) \<and> show_nat n \<noteq> [] \<and> digits_val (show_nat n) = n"
  proof (induction n rule: show_nat.induct)
    case (1 n)
    show ?case
    proof (cases "n < 10")
      case True
      then show ?thesis
        by (simp add: show_nat.simps [of n] digit_char_props digits_val_def)
    next
      case False
      with 1 have ih: "list_all is_digit (show_nat (n div 10))"
        "digits_val (show_nat (n div 10)) = n div 10" by simp_all
      have "digits_val [digit_char (n mod 10)] = n mod 10"
        by (simp add: digits_val_def digit_char_props)
      with False ih show ?thesis
        by (simp add: show_nat.simps [of n] digits_val_append digit_char_props)
    qed
  qed
  then show "list_all is_digit (show_nat n)" and "show_nat n \<noteq> []"
    and "digits_val (show_nat n) = n" by simp_all
qed

lemma show_nat_length: "n < 10 ^ w \<Longrightarrow> 0 < w \<Longrightarrow> length (show_nat n) \<le> w"
proof (induction n arbitrary: w rule: show_nat.induct)
  case (1 n)
  show ?case
  proof (cases "n < 10")
    case True
    with 1 show ?thesis by (simp add: show_nat.simps [of n])
  next
    case False
    then obtain v where w: "w = Suc v" "0 < v"
      using 1(2,3) by (cases w; cases "w - 1") auto
    with 1(2) have "n div 10 < 10 ^ v" by (simp add: less_mult_imp_div_less mult.commute)
    with False w 1(1) show ?thesis by (simp add: show_nat.simps [of n])
  qed
qed

lemma zpad_props:
  shows "list_all is_digit (zpad w n)" and "zpad w n \<noteq> []" and "digits_val (zpad w n) = n"
proof -
  have "is_digit CHR ''0''" by (simp add: is_digit_def)
  then show "list_all is_digit (zpad w n)"
    using show_nat_props(1) [of n] by (auto simp: zpad_def list_all_iff)
  show "zpad w n \<noteq> []" by (simp add: zpad_def show_nat_props)
  show "digits_val (zpad w n) = n"
    by (simp add: zpad_def digits_val_append show_nat_props)
qed

lemma zpad_length: "n < 10 ^ w \<Longrightarrow> 0 < w \<Longrightarrow> length (zpad w n) = w"
  using show_nat_length [of n w] by (simp add: zpad_def)

lemma parse_digits_simps [parse_simps]:
  "parse_digits (show_nat n) = Some n" "parse_digits (zpad w n) = Some n"
  by (simp_all add: parse_digits_def show_nat_props zpad_props)

lemma parse_int_digits:
  assumes "list_all is_digit s" and "s \<noteq> []"
  shows "parse_int sg lo hi s = fits lo hi (int (digits_val s))"
proof -
  obtain c cs where s: "s = c # cs" using assms by (cases s) auto
  with assms have "c \<noteq> CHR ''-''" "c \<noteq> CHR ''+''" by auto
  with s assms show ?thesis by (auto simp: parse_int_def parse_digits_def fits_def)
qed

lemma parse_int_zpad [parse_simps]: "parse_int sg lo hi (zpad w n) = fits lo hi (int n)"
  by (simp add: parse_int_digits zpad_props)

lemma parse_int_show_nat [parse_simps]:
  "parse_int sg lo hi (show_nat n) = fits lo hi (int n)"
  by (simp add: parse_int_digits show_nat_props)

lemma parse_int_show_int: "parse_int True lo hi (show_int i) = fits lo hi i"
proof (cases "i < 0")
  case True
  then show ?thesis by (simp add: show_int_def parse_int_def parse_simps fits_def)
next
  case False
  then show ?thesis by (simp add: show_int_def parse_int_show_nat)
qed

lemma digits_notin: "list_all is_digit s \<Longrightarrow> \<not> is_digit c \<Longrightarrow> c \<notin> set s"
  by (auto simp: list_all_iff)

lemma zpad_notin [simp]: "\<not> is_digit c \<Longrightarrow> c \<notin> set (zpad w n)"
  by (simp add: digits_notin zpad_props)

lemma show_nat_notin [simp]: "\<not> is_digit c \<Longrightarrow> c \<notin> set (show_nat n)"
  by (simp add: digits_notin show_nat_props)

end
