(* ===== verification/Type_Names.thy ===== *)
theory Type_Names
  imports Trino_Prelude
begin

text \<open>
  Trino's type names, their ODBC types, column sizes and scales: the first half of
  \<open>src/src/type_conversion.rs\<close>.

  \<open>trino_type_name\<close> is the driver's own enum; \<open>trino_ty\<close> is the client library's type of a
  result column, with the constructors the driver matches. \<open>sql_type\<close> names the ODBC type
  codes the driver uses; the numbers behind them belong to another package. That package's
  formula for a column's character length, \<open>column_size\<close>, is the parameter \<open>colsz\<close> (SQL type,
  precision, scale), and its marker for an undeterminable precision is the parameter \<open>undet\<close>.
\<close>

section \<open>Type names and SQL types\<close>

datatype sql_type =
    EXT_BIT | EXT_TINY_INT | SMALLINT | INTEGER | EXT_BIG_INT | REAL | DOUBLE | DECIMAL
  | EXT_W_VARCHAR | EXT_W_CHAR | EXT_LONG_VAR_BINARY | DATE | TIME | TIMESTAMP | ANSI_CHAR | ANSI_VARCHAR
  | DATETIME

datatype trino_type_name =
    TnBoolean | TnTinyInt | TnSmallInt | TnInteger | TnBigInt | TnReal | TnDouble | TnDecimal
  | TnVarchar | TnChar | TnVarbinary | TnDate | TnTime | TnTimeWithTimeZone | TnTimestamp
  | TnTimestampWithTimeZone | TnJson | TnUuid | TnIntervalDayToSecond | TnIntervalYearToMonth

text \<open>\<open>ALL_VARIANTS\<close>: the source lists the variants and has the compiler check the list.\<close>

definition ALL_VARIANTS :: "trino_type_name list" where
  "ALL_VARIANTS =
     [TnBoolean, TnTinyInt, TnSmallInt, TnInteger, TnBigInt, TnReal, TnDouble, TnDecimal,
      TnVarchar, TnChar, TnVarbinary, TnDate, TnTime, TnTimeWithTimeZone, TnTimestamp,
      TnTimestampWithTimeZone, TnJson, TnUuid, TnIntervalDayToSecond, TnIntervalYearToMonth]"

instantiation trino_type_name :: enum
begin

definition "enum_trino_type_name = ALL_VARIANTS"
definition "enum_all_trino_type_name P = list_all P ALL_VARIANTS"
definition "enum_ex_trino_type_name P = list_ex P ALL_VARIANTS"

instance
proof
  have all: "(t :: trino_type_name) \<in> set ALL_VARIANTS" for t
    by (cases t) (simp_all add: ALL_VARIANTS_def)
  show univ: "(UNIV :: trino_type_name set) = set enum_class.enum"
    using all by (auto simp: enum_trino_type_name_def)
  show "distinct (enum_class.enum :: trino_type_name list)"
    by (simp add: enum_trino_type_name_def ALL_VARIANTS_def)
  show "enum_class.enum_all P \<longleftrightarrow> Ball UNIV P" for P :: "trino_type_name \<Rightarrow> bool"
    using all by (auto simp: enum_all_trino_type_name_def list_all_iff)
  show "enum_class.enum_ex P \<longleftrightarrow> Bex UNIV P" for P :: "trino_type_name \<Rightarrow> bool"
    using all by (auto simp: enum_ex_trino_type_name_def list_ex_iff)
qed

end

fun type_name :: "trino_type_name \<Rightarrow> string" where
  "type_name TnBoolean = ''BOOLEAN''"
| "type_name TnTinyInt = ''TINYINT''"
| "type_name TnSmallInt = ''SMALLINT''"
| "type_name TnInteger = ''INTEGER''"
| "type_name TnBigInt = ''BIGINT''"
| "type_name TnReal = ''REAL''"
| "type_name TnDouble = ''DOUBLE''"
| "type_name TnDecimal = ''DECIMAL''"
| "type_name TnVarchar = ''VARCHAR''"
| "type_name TnChar = ''CHAR''"
| "type_name TnVarbinary = ''VARBINARY''"
| "type_name TnDate = ''DATE''"
| "type_name TnTime = ''TIME''"
| "type_name TnTimeWithTimeZone = ''TIME WITH TIME ZONE''"
| "type_name TnTimestamp = ''TIMESTAMP''"
| "type_name TnTimestampWithTimeZone = ''TIMESTAMP WITH TIME ZONE''"
| "type_name TnJson = ''JSON''"
| "type_name TnUuid = ''UUID''"
| "type_name TnIntervalDayToSecond = ''INTERVAL DAY TO SECOND''"
| "type_name TnIntervalYearToMonth = ''INTERVAL YEAR TO MONTH''"

text \<open>
  The argument is cut out of the middle, and what follows it is kept:
  \<open>timestamp(3) with time zone\<close> is \<open>timestamp with time zone\<close>.
\<close>

definition strip_precision_param :: "string \<Rightarrow> string" where
  "strip_precision_param nm =
     (let lower = to_lowercase (trim nm) in
      case find_char CHR ''('' lower of
        None \<Rightarrow> lower
      | Some start \<Rightarrow>
          (case find_char CHR '')'' (drop start lower) of
             None \<Rightarrow> lower
           | Some off \<Rightarrow>
               (let end' = start + off;
                    prefix = trim_end (take start lower);
                    suffix = trim (drop (end' + 1) lower)
                in if suffix = [] then prefix else prefix @ '' '' @ suffix)))"

text \<open>The \<open>match\<close> of \<open>TrinoTypeName::parse\<close>.\<close>

definition type_name_of_base :: "string \<Rightarrow> trino_type_name option" where
  "type_name_of_base base =
     (if base = ''boolean'' then Some TnBoolean
      else if base = ''tinyint'' then Some TnTinyInt
      else if base = ''smallint'' then Some TnSmallInt
      else if base = ''integer'' \<or> base = ''int'' then Some TnInteger
      else if base = ''bigint'' then Some TnBigInt
      else if base = ''real'' then Some TnReal
      else if base = ''double'' \<or> base = ''double precision'' then Some TnDouble
      else if base = ''decimal'' \<or> base = ''numeric'' then Some TnDecimal
      else if base = ''varchar'' \<or> base = ''character varying'' \<or> base = ''string''
        then Some TnVarchar
      else if base = ''char'' then Some TnChar
      else if base = ''varbinary'' then Some TnVarbinary
      else if base = ''date'' then Some TnDate
      else if base = ''time'' then Some TnTime
      else if base = ''time with time zone'' then Some TnTimeWithTimeZone
      else if base = ''timestamp'' then Some TnTimestamp
      else if base = ''timestamp with time zone'' then Some TnTimestampWithTimeZone
      else if base = ''json'' then Some TnJson
      else if base = ''uuid'' then Some TnUuid
      else if base = ''interval day to second'' then Some TnIntervalDayToSecond
      else if base = ''interval year to month'' then Some TnIntervalYearToMonth
      else None)"

definition parse_type_name :: "string \<Rightarrow> trino_type_name option" where
  "parse_type_name nm = type_name_of_base (strip_precision_param nm)"

fun type_sql_type :: "trino_type_name \<Rightarrow> sql_type" where
  "type_sql_type TnBoolean = EXT_BIT"
| "type_sql_type TnTinyInt = EXT_TINY_INT"
| "type_sql_type TnSmallInt = SMALLINT"
| "type_sql_type TnInteger = INTEGER"
| "type_sql_type TnBigInt = EXT_BIG_INT"
| "type_sql_type TnReal = REAL"
| "type_sql_type TnDouble = DOUBLE"
| "type_sql_type TnDecimal = DECIMAL"
| "type_sql_type TnVarchar = EXT_W_VARCHAR"
| "type_sql_type TnChar = EXT_W_CHAR"
| "type_sql_type TnVarbinary = EXT_LONG_VAR_BINARY"
| "type_sql_type TnDate = DATE"
| "type_sql_type TnTime = TIME"
| "type_sql_type TnTimeWithTimeZone = TIME"
| "type_sql_type TnTimestamp = TIMESTAMP"
| "type_sql_type TnTimestampWithTimeZone = TIMESTAMP"
| "type_sql_type TnJson = EXT_W_VARCHAR"
| "type_sql_type TnUuid = EXT_W_VARCHAR"
| "type_sql_type TnIntervalDayToSecond = EXT_W_VARCHAR"
| "type_sql_type TnIntervalYearToMonth = EXT_W_VARCHAR"

definition MAX_FRACTIONAL_SECONDS_PRECISION :: int where
  "MAX_FRACTIONAL_SECONDS_PRECISION = 12"

definition DEFAULT_TEMPORAL_SCALE :: int where
  "DEFAULT_TEMPORAL_SCALE = 3"

section \<open>Column sizes and scales from a type name\<close>

type_synonym column_size_fn = "sql_type \<Rightarrow> int \<Rightarrow> int \<Rightarrow> int"

fun fixed_precision :: "column_size_fn \<Rightarrow> trino_type_name \<Rightarrow> int option" where
  "fixed_precision colsz TnTinyInt = Some (colsz EXT_TINY_INT 0 0)"
| "fixed_precision colsz TnSmallInt = Some (colsz SMALLINT 0 0)"
| "fixed_precision colsz TnInteger = Some (colsz INTEGER 0 0)"
| "fixed_precision colsz TnBigInt = Some (colsz EXT_BIG_INT 0 0)"
| "fixed_precision colsz TnReal = Some (colsz REAL 0 0)"
| "fixed_precision colsz TnDouble = Some (colsz DOUBLE 0 0)"
| "fixed_precision colsz TnBoolean = Some (colsz EXT_BIT 0 0)"
| "fixed_precision colsz TnDate = Some (colsz DATE 0 0)"
| "fixed_precision colsz TnTime = Some (colsz TIME 0 DEFAULT_TEMPORAL_SCALE)"
| "fixed_precision colsz TnTimeWithTimeZone = Some (colsz TIME 0 DEFAULT_TEMPORAL_SCALE)"
| "fixed_precision colsz TnTimestamp = Some (colsz TIMESTAMP 0 DEFAULT_TEMPORAL_SCALE)"
| "fixed_precision colsz TnTimestampWithTimeZone =
     Some (colsz TIMESTAMP 0 DEFAULT_TEMPORAL_SCALE)"
| "fixed_precision colsz t = None"

definition has_precision_param :: "trino_type_name \<Rightarrow> bool" where
  "has_precision_param t \<longleftrightarrow> t \<in> {TnVarchar, TnChar, TnDecimal}"

definition has_scale_param :: "trino_type_name \<Rightarrow> bool" where
  "has_scale_param t \<longleftrightarrow> t = TnDecimal"

definition has_temporal_scale_param :: "trino_type_name \<Rightarrow> bool" where
  "has_temporal_scale_param t \<longleftrightarrow>
     t \<in> {TnTime, TnTimeWithTimeZone, TnTimestamp, TnTimestampWithTimeZone}"

text \<open>The text between the first opening and the last closing parenthesis.\<close>

definition parse_precision_param :: "string \<Rightarrow> int option" where
  "parse_precision_param nm =
     do {
       start \<leftarrow> find_char CHR ''('' nm;
       end' \<leftarrow> rfind_char CHR '')'' nm;
       arg \<leftarrow> get_slice nm (start + 1) end';
       parse_i32 (trim (hd (split_on CHR '','' arg)))
     }"

definition parse_scale_param :: "string \<Rightarrow> int option" where
  "parse_scale_param nm =
     do {
       start \<leftarrow> find_char CHR ''('' nm;
       end' \<leftarrow> rfind_char CHR '')'' nm;
       arg \<leftarrow> get_slice nm (start + 1) end';
       (case split_on CHR '','' arg of
          first # second # rest \<Rightarrow> parse_i32 (trim second)
        | _ \<Rightarrow> None)
     }"

definition temporal_scale_param :: "string \<Rightarrow> int" where
  "temporal_scale_param nm =
     (case Option.bind (parse_precision_param nm) to_i16 of
        None \<Rightarrow> DEFAULT_TEMPORAL_SCALE
      | Some s \<Rightarrow> s)"

definition type_name_precision :: "column_size_fn \<Rightarrow> string \<Rightarrow> int option" where
  "type_name_precision colsz nm =
     do {
       ty \<leftarrow> parse_type_name nm;
       if has_precision_param ty then parse_precision_param nm
       else if has_temporal_scale_param ty
         then Some (colsz (type_sql_type ty) 0 (temporal_scale_param nm))
       else fixed_precision colsz ty
     }"

definition type_name_scale :: "string \<Rightarrow> int option" where
  "type_name_scale nm =
     do {
       ty \<leftarrow> parse_type_name nm;
       if has_scale_param ty then parse_scale_param nm
       else if has_temporal_scale_param ty then Some (temporal_scale_param nm)
       else None
     }"

definition trino_type_name_to_sql_type :: "string \<Rightarrow> sql_type" where
  "trino_type_name_to_sql_type nm =
     (case parse_type_name nm of None \<Rightarrow> EXT_W_VARCHAR | Some t \<Rightarrow> type_sql_type t)"

section \<open>The client library's column types\<close>

datatype trino_int = TI64 | TI32 | TI16 | TI8
datatype trino_float = TF64 | TF32

datatype trino_ty =
    TyInt trino_int | TyFloat trino_float | TyBoolean | TyVarchar | TyChar nat | TyDate | TyTime
  | TyTimeWithTimeZone | TyTimestamp | TyTimestampWithTimeZone | TyDecimal nat nat | TyUuid
  | TyJson | TyIpAddress | TyIntervalYearToMonth | TyIntervalDayToSecond | TyVarBinary
  | TyArray trino_ty | TyMap trino_ty trino_ty | TyRow "(string \<times> trino_ty) list"
  | TyTuple "trino_ty list" | TyOption trino_ty | TyUnknown

fun trino_ty_to_sql_type :: "trino_ty \<Rightarrow> sql_type" where
  "trino_ty_to_sql_type (TyInt TI64) = EXT_BIG_INT"
| "trino_ty_to_sql_type (TyInt TI32) = INTEGER"
| "trino_ty_to_sql_type (TyInt TI16) = SMALLINT"
| "trino_ty_to_sql_type (TyInt TI8) = EXT_TINY_INT"
| "trino_ty_to_sql_type (TyFloat TF64) = DOUBLE"
| "trino_ty_to_sql_type (TyFloat TF32) = REAL"
| "trino_ty_to_sql_type TyBoolean = EXT_BIT"
| "trino_ty_to_sql_type TyVarchar = EXT_W_VARCHAR"
| "trino_ty_to_sql_type (TyChar n) = EXT_W_VARCHAR"
| "trino_ty_to_sql_type TyDate = DATE"
| "trino_ty_to_sql_type TyTime = TIME"
| "trino_ty_to_sql_type TyTimeWithTimeZone = TIME"
| "trino_ty_to_sql_type TyTimestamp = TIMESTAMP"
| "trino_ty_to_sql_type TyTimestampWithTimeZone = TIMESTAMP"
| "trino_ty_to_sql_type (TyDecimal p s) = DECIMAL"
| "trino_ty_to_sql_type TyUuid = EXT_W_VARCHAR"
| "trino_ty_to_sql_type TyJson = EXT_W_VARCHAR"
| "trino_ty_to_sql_type TyIpAddress = EXT_W_VARCHAR"
| "trino_ty_to_sql_type TyIntervalYearToMonth = EXT_W_VARCHAR"
| "trino_ty_to_sql_type TyIntervalDayToSecond = EXT_W_VARCHAR"
| "trino_ty_to_sql_type TyVarBinary = EXT_LONG_VAR_BINARY"
| "trino_ty_to_sql_type (TyArray t) = EXT_W_VARCHAR"
| "trino_ty_to_sql_type (TyMap k v) = EXT_W_VARCHAR"
| "trino_ty_to_sql_type (TyRow fs) = EXT_W_VARCHAR"
| "trino_ty_to_sql_type (TyTuple ts) = EXT_W_VARCHAR"
| "trino_ty_to_sql_type (TyOption t) = trino_ty_to_sql_type t"
| "trino_ty_to_sql_type TyUnknown = EXT_W_VARCHAR"

definition precision_as_u32 :: "int \<Rightarrow> int" where
  "precision_as_u32 n = (case to_u32 n of None \<Rightarrow> 0 | Some m \<Rightarrow> m)"

text \<open>\<open>i32::try_from(n).unwrap_or(i32::MAX)\<close>.\<close>

definition usize_as_i32 :: "nat \<Rightarrow> int" where
  "usize_as_i32 n = (case to_i32 (int n) of None \<Rightarrow> i32_max | Some m \<Rightarrow> m)"

fun trino_ty_precision :: "column_size_fn \<Rightarrow> int \<Rightarrow> trino_ty \<Rightarrow> int" where
  "trino_ty_precision colsz undet (TyInt TI8) = precision_as_u32 (colsz EXT_TINY_INT 0 0)"
| "trino_ty_precision colsz undet (TyInt TI16) = precision_as_u32 (colsz SMALLINT 0 0)"
| "trino_ty_precision colsz undet (TyInt TI32) = precision_as_u32 (colsz INTEGER 0 0)"
| "trino_ty_precision colsz undet (TyInt TI64) = precision_as_u32 (colsz EXT_BIG_INT 0 0)"
| "trino_ty_precision colsz undet (TyFloat TF32) = precision_as_u32 (colsz REAL 0 0)"
| "trino_ty_precision colsz undet (TyFloat TF64) = precision_as_u32 (colsz DOUBLE 0 0)"
| "trino_ty_precision colsz undet (TyChar n) =
     precision_as_u32 (colsz EXT_W_CHAR (usize_as_i32 n) 0)"
| "trino_ty_precision colsz undet TyBoolean = precision_as_u32 (colsz EXT_BIT 0 0)"
| "trino_ty_precision colsz undet TyDate = precision_as_u32 (colsz DATE 0 0)"
| "trino_ty_precision colsz undet TyTime =
     precision_as_u32 (colsz TIME 0 DEFAULT_TEMPORAL_SCALE)"
| "trino_ty_precision colsz undet TyTimeWithTimeZone =
     precision_as_u32 (colsz TIME 0 DEFAULT_TEMPORAL_SCALE)"
| "trino_ty_precision colsz undet TyTimestamp =
     precision_as_u32 (colsz TIMESTAMP 0 DEFAULT_TEMPORAL_SCALE)"
| "trino_ty_precision colsz undet TyTimestampWithTimeZone =
     precision_as_u32 (colsz TIMESTAMP 0 DEFAULT_TEMPORAL_SCALE)"
| "trino_ty_precision colsz undet (TyDecimal p s) =
     precision_as_u32 (colsz DECIMAL (usize_as_i32 p) 0)"
| "trino_ty_precision colsz undet (TyOption t) = trino_ty_precision colsz undet t"
| "trino_ty_precision colsz undet t = undet"

text \<open>\<open>s as i16\<close> keeps the low sixteen bits.\<close>

definition as_i16 :: "int \<Rightarrow> int" where
  "as_i16 n = (n + i16_max + 1) mod 65536 - i16_max - 1"

fun trino_ty_scale :: "trino_ty \<Rightarrow> int" where
  "trino_ty_scale (TyDecimal p s) = as_i16 (int s)"
| "trino_ty_scale (TyOption t) = trino_ty_scale t"
| "trino_ty_scale t = 0"

section \<open>Case folding and trimming\<close>

lemma is_ws_lower [simp]: "is_ws (lower_char c) = is_ws c"
  by (auto simp: is_ws_def lower_char_def Let_def)

lemma lower_char_idem [simp]: "lower_char (lower_char c) = lower_char c"
  by (auto simp: lower_char_def Let_def)

lemma of_char_lower:
  "(of_char (lower_char c) :: nat) =
     (let n = of_char c in if (65 \<le> n \<and> n \<le> 90) \<or> (192 \<le> n \<and> n \<le> 222 \<and> n \<noteq> 215) then n + 32 else n)"
  by (auto simp: lower_char_def Let_def)

lemma lower_char_eq:
  assumes "(of_char d :: nat) < 65"
  shows "lower_char c = d \<longleftrightarrow> c = d"
proof
  assume "lower_char c = d"
  with assms have "(of_char (lower_char c) :: nat) < 65" by simp
  then have "lower_char c = c" by (auto simp: of_char_lower Let_def lower_char_def split: if_splits)
  with \<open>lower_char c = d\<close> show "c = d" by simp
next
  assume "c = d"
  with assms show "lower_char c = d" by (simp add: lower_char_def)
qed

lemma to_lowercase_notin: "(of_char d :: nat) < 65 \<Longrightarrow> d \<notin> set s \<Longrightarrow> d \<notin> set (to_lowercase s)"
  using lower_char_eq by auto metis

lemma to_lowercase_idem [simp]: "to_lowercase (to_lowercase s) = to_lowercase s"
  by simp

lemma dropWhile_ws_lower: "dropWhile is_ws (to_lowercase s) = to_lowercase (dropWhile is_ws s)"
  by (induction s) auto

lemma trim_lower: "trim (to_lowercase s) = to_lowercase (trim s)"
  by (simp add: trim_def trim_start_def trim_end_def dropWhile_ws_lower rev_map)

lemma strip_precision_param_lower:
  "strip_precision_param (to_lowercase s) = strip_precision_param s"
  by (simp only: strip_precision_param_def trim_lower to_lowercase_idem)

text \<open>The name with the argument cut out, for an argument with no closing parenthesis.\<close>

lemma strip_precision_param_arg:
  assumes "to_lowercase (trim s) = p @ CHR ''('' # a @ CHR '')'' # q"
    and "CHR ''('' \<notin> set p" and "CHR '')'' \<notin> set a"
  shows "strip_precision_param s =
    (if trim q = [] then trim_end p else trim_end p @ '' '' @ trim q)"
proof -
  let ?l = "p @ CHR ''('' # a @ CHR '')'' # q"
  have "find_char CHR ''('' ?l = Some (length p)"
    using assms(2) by (rule find_char_append)
  moreover have "find_char CHR '')'' (drop (length p) ?l) = Some (Suc (length a))"
    using find_char_append [of "CHR '')''" "CHR ''('' # a" q] assms(3) by simp
  ultimately show ?thesis
    using assms(1) by (simp add: strip_precision_param_def Let_def)
qed

lemma strip_precision_param_bare:
  "to_lowercase (trim s) = l \<Longrightarrow> CHR ''('' \<notin> set l \<Longrightarrow> strip_precision_param s = l"
  using find_char_None [of "CHR ''(''" l] by (auto simp: strip_precision_param_def Let_def)

section \<open>Declared type names\<close>

text \<open>
  How \<open>information_schema\<close> spells a column of a type, with the argument in parentheses: it
  follows the first word of a time-zone-aware type. A specification, not code.
\<close>

fun declared_name :: "trino_type_name \<Rightarrow> string option \<Rightarrow> string" where
  "declared_name t None = type_name t"
| "declared_name TnTimeWithTimeZone (Some a) = ''TIME('' @ a @ '') WITH TIME ZONE''"
| "declared_name TnTimestampWithTimeZone (Some a) = ''TIMESTAMP('' @ a @ '') WITH TIME ZONE''"
| "declared_name t (Some a) = type_name t @ ''('' @ a @ '')''"

definition declared_head :: "trino_type_name \<Rightarrow> string" where
  "declared_head t =
     (if t = TnTimeWithTimeZone then ''TIME''
      else if t = TnTimestampWithTimeZone then ''TIMESTAMP'' else type_name t)"

definition declared_tail :: "trino_type_name \<Rightarrow> string" where
  "declared_tail t =
     (if t = TnTimeWithTimeZone \<or> t = TnTimestampWithTimeZone then '' WITH TIME ZONE'' else [])"

lemma declared_name_split:
  "declared_name t (Some a) = declared_head t @ CHR ''('' # a @ CHR '')'' # declared_tail t"
  by (cases t) (simp_all add: declared_head_def declared_tail_def)

lemma declared_head_props:
  "CHR ''('' \<notin> set (declared_head t)" "CHR ''('' \<notin> set (to_lowercase (declared_head t))"
  "CHR '')'' \<notin> set (declared_head t)" "CHR '')'' \<notin> set (declared_tail t)"
  "CHR ''('' \<notin> set (to_lowercase (type_name t))"
  by (cases t; simp add: declared_head_def declared_tail_def str_simps)+

lemma declared_parse_parts:
  "to_lowercase (type_name t) =
     (if trim (to_lowercase (declared_tail t)) = [] then trim_end (to_lowercase (declared_head t))
      else trim_end (to_lowercase (declared_head t)) @ '' '' @
           trim (to_lowercase (declared_tail t)))"
  by (cases t;
      simp add: declared_head_def declared_tail_def trim_def trim_start_def trim_end_def str_simps)

lemma type_name_of_base_name:
  "type_name_of_base (to_lowercase (type_name t)) = Some t"
  by (cases t; simp add: type_name_of_base_def str_simps)

lemma parse_type_name_base:
  "strip_precision_param s = to_lowercase (type_name t) \<Longrightarrow> parse_type_name s = Some t"
  by (simp add: parse_type_name_def type_name_of_base_name)

lemma parse_type_name_spelling:
  assumes "to_lowercase (trim s) = to_lowercase (declared_name t a)"
    and "\<And>x. a = Some x \<Longrightarrow> CHR '')'' \<notin> set x"
  shows "parse_type_name s = Some t"
proof (cases a)
  case None
  with assms have "strip_precision_param s = to_lowercase (type_name t)"
    using strip_precision_param_bare [of s] declared_head_props(5) [of t] by auto
  then show ?thesis by (rule parse_type_name_base)
next
  case (Some x)
  have "to_lowercase (trim s) =
      to_lowercase (declared_head t) @ CHR ''('' # to_lowercase x @ CHR '')'' #
      to_lowercase (declared_tail t)"
    using assms(1) Some by (simp add: declared_name_split lower_char_eq)
  moreover have "CHR '')'' \<notin> set (to_lowercase x)"
    using assms(2) Some by (intro to_lowercase_notin) auto
  ultimately have "strip_precision_param s = to_lowercase (type_name t)"
    using strip_precision_param_arg declared_head_props(2) declared_parse_parts by presburger
  then show ?thesis by (rule parse_type_name_base)
qed

section \<open>Sizes and scales of declared types\<close>

lemma declared_arg:
  assumes "CHR '')'' \<notin> set a"
  shows "parse_precision_param (declared_name t (Some a)) =
           parse_i32 (trim (hd (split_on CHR '','' a)))"
    and "parse_scale_param (declared_name t (Some a)) =
           (case split_on CHR '','' a of
              first # second # rest \<Rightarrow> parse_i32 (trim second) | _ \<Rightarrow> None)"
proof -
  let ?h = "declared_head t" and ?q = "declared_tail t"
  let ?n = "?h @ CHR ''('' # a @ CHR '')'' # ?q"
  have "find_char CHR ''('' ?n = Some (length ?h)"
    by (rule find_char_append [OF declared_head_props(1)])
  moreover have "rfind_char CHR '')'' ?n = Some (length ?h + 1 + length a)"
    using rfind_char_append [OF declared_head_props(4), of "?h @ CHR ''('' # a"] by simp
  moreover have "get_slice ?n (length ?h + 1) (length ?h + 1 + length a) = Some a"
    by (simp add: get_slice_def)
  ultimately show "parse_precision_param (declared_name t (Some a)) =
           parse_i32 (trim (hd (split_on CHR '','' a)))"
    and "parse_scale_param (declared_name t (Some a)) =
           (case split_on CHR '','' a of
              first # second # rest \<Rightarrow> parse_i32 (trim second) | _ \<Rightarrow> None)"
    by (simp_all add: parse_precision_param_def parse_scale_param_def declared_name_split)
qed

lemma trim_declared: "trim (declared_name t (Some a)) = declared_name t (Some a)"
  by (rule trim_no_ws, cases t) (simp_all add: str_simps)

lemma parse_type_name_declared:
  "CHR '')'' \<notin> set a \<Longrightarrow> parse_type_name (declared_name t (Some a)) = Some t"
  by (rule parse_type_name_spelling [where a = "Some a"]) (simp_all add: trim_declared)

lemma show_nat_trim [simp]: "trim (show_nat n) = show_nat n"
  by (simp add: trim_digits show_nat_props)

lemma declared_args_of_numbers:
  assumes "int n \<le> i32_max"
  shows "parse_precision_param (declared_name t (Some (show_nat n))) = Some (int n)"
    and "parse_precision_param (declared_name t (Some (show_nat n @ CHR '','' # show_nat s))) =
           Some (int n)"
  using assms by (simp_all add: declared_arg split_on_no_sep split_on_append parse_int_show_nat fits_def)

lemma declared_scale_of_numbers:
  assumes "int s \<le> i32_max"
  shows "parse_scale_param (declared_name t (Some (show_nat n @ CHR '','' # show_nat s))) =
           Some (int s)"
  using assms by (simp add: declared_arg split_on_no_sep split_on_append parse_int_show_nat fits_def)

text \<open>
  C36: a declared type name is recognised whatever its case and surrounding white space, with or
  without an argument in parentheses, also where the argument stands in the middle of the name
  (\<open>timestamp(6) with time zone\<close> is not mistaken for \<open>timestamp\<close>).
\<close>

theorem type_name_parse_roundtrip:
  assumes "to_lowercase (trim s) = to_lowercase (declared_name t a)"
    and "\<And>x. a = Some x \<Longrightarrow> CHR '')'' \<notin> set x"
  shows "parse_type_name s = Some t"
  using assms by (rule parse_type_name_spelling)

theorem type_name_parse_roundtrip_witness:
  "parse_type_name ''  Timestamp(6) With Time Zone '' = Some TnTimestampWithTimeZone \<and>
   parse_type_name ''decimal(10,2)'' = Some TnDecimal"
proof
  show "parse_type_name ''  Timestamp(6) With Time Zone '' = Some TnTimestampWithTimeZone"
    by (rule type_name_parse_roundtrip [of _ _ "Some ''6''"])
       (simp_all add: str_simps trim_def trim_start_def trim_end_def)
  show "parse_type_name ''decimal(10,2)'' = Some TnDecimal"
    by (rule type_name_parse_roundtrip [of _ _ "Some ''10,2''"])
       (simp_all add: str_simps trim_def trim_start_def trim_end_def)
qed

lemma sizes_of_declared:
  assumes "int n \<le> i32_max" and "int s \<le> i16_max"
  shows "has_temporal_scale_param t \<Longrightarrow>
      type_name_precision colsz (declared_name t (Some (show_nat s))) =
        Some (colsz (type_sql_type t) 0 (int s)) \<and>
      type_name_scale (declared_name t (Some (show_nat s))) = Some (int s) \<and>
      type_name_precision colsz (declared_name t None) = Some (colsz (type_sql_type t) 0 3) \<and>
      type_name_scale (declared_name t None) = Some 3"
    and "t \<in> {TnVarchar, TnChar} \<Longrightarrow>
      type_name_precision colsz (declared_name t (Some (show_nat n))) = Some (int n) \<and>
      type_name_scale (declared_name t (Some (show_nat n))) = None"
    and "type_name_precision colsz
        (declared_name TnDecimal (Some (show_nat n @ CHR '','' # show_nat s))) = Some (int n) \<and>
      type_name_scale
        (declared_name TnDecimal (Some (show_nat n @ CHR '','' # show_nat s))) = Some (int s)"
proof -
  have s: "int s \<le> i32_max" using assms(2) by simp
  have bare: "find_char CHR ''('' (type_name u) = None" for u
    by (cases u) simp_all
  have pn: "parse_type_name (type_name u) = Some u" for u
    by (rule parse_type_name_spelling [where a = None], simp_all, cases u)
       (simp_all add: trim_def trim_start_def trim_end_def str_simps)
  note [simp] = parse_type_name_declared declared_args_of_numbers declared_scale_of_numbers
    has_temporal_scale_param_def has_precision_param_def has_scale_param_def
    type_name_precision_def type_name_scale_def temporal_scale_param_def fits_def
    DEFAULT_TEMPORAL_SCALE_def
  show "has_temporal_scale_param t \<Longrightarrow>
      type_name_precision colsz (declared_name t (Some (show_nat s))) =
        Some (colsz (type_sql_type t) 0 (int s)) \<and>
      type_name_scale (declared_name t (Some (show_nat s))) = Some (int s) \<and>
      type_name_precision colsz (declared_name t None) = Some (colsz (type_sql_type t) 0 3) \<and>
      type_name_scale (declared_name t None) = Some 3"
    using assms s bare [of t] pn [of t]
    by (auto simp del: declared_name.simps(2-) type_name.simps simp: parse_precision_param_def [of "type_name t"])
  show "t \<in> {TnVarchar, TnChar} \<Longrightarrow>
      type_name_precision colsz (declared_name t (Some (show_nat n))) = Some (int n) \<and>
      type_name_scale (declared_name t (Some (show_nat n))) = None"
    using assms by (auto simp del: declared_name.simps)
  show "type_name_precision colsz
        (declared_name TnDecimal (Some (show_nat n @ CHR '','' # show_nat s))) = Some (int n) \<and>
      type_name_scale
        (declared_name TnDecimal (Some (show_nat n @ CHR '','' # show_nat s))) = Some (int s)"
    using assms s by (simp del: declared_name.simps)
qed

text \<open>
  C37: the size and the scale read from a declared type name. The one argument of a temporal type
  is its fractional-seconds scale \<open>s\<close>, so its size is the formula's at \<open>s\<close> and never \<open>s\<close> itself;
  a temporal type without an argument has the scale 3 throughout; \<open>varchar(n)\<close> and \<open>char(n)\<close> have
  the size \<open>n\<close> and no scale; \<open>decimal(p,s)\<close> has the size \<open>p\<close> and the scale \<open>s\<close>.
\<close>

theorem declared_type_sizes:
  assumes "int n \<le> i32_max" and "int s \<le> i16_max"
    and "has_temporal_scale_param t" and "c \<in> {TnVarchar, TnChar}"
  shows "type_name_precision colsz (declared_name t (Some (show_nat s))) =
        Some (colsz (type_sql_type t) 0 (int s)) \<and>
      type_name_scale (declared_name t (Some (show_nat s))) = Some (int s) \<and>
      type_name_precision colsz (declared_name t None) = Some (colsz (type_sql_type t) 0 3) \<and>
      type_name_scale (declared_name t None) = Some 3 \<and>
      type_name_precision colsz (declared_name c (Some (show_nat n))) = Some (int n) \<and>
      type_name_scale (declared_name c (Some (show_nat n))) = None \<and>
      type_name_precision colsz
        (declared_name TnDecimal (Some (show_nat n @ CHR '','' # show_nat s))) = Some (int n) \<and>
      type_name_scale
        (declared_name TnDecimal (Some (show_nat n @ CHR '','' # show_nat s))) = Some (int s)"
  using sizes_of_declared(1) [OF assms(1,2), where t = t and colsz = colsz]
    sizes_of_declared(2) [OF assms(1,2), where t = c and colsz = colsz]
    sizes_of_declared(3) [OF assms(1,2), where colsz = colsz] assms(3,4)
  by (simp only: simp_thms)

text \<open>The ODBC formulas for the lengths of the temporal types, for the witnesses.\<close>

definition odbc_column_size :: column_size_fn where
  "odbc_column_size t p s =
     (case t of EXT_BIT \<Rightarrow> 1 | EXT_TINY_INT \<Rightarrow> 3 | SMALLINT \<Rightarrow> 5 | INTEGER \<Rightarrow> 10
      | EXT_BIG_INT \<Rightarrow> 19 | REAL \<Rightarrow> 7 | DOUBLE \<Rightarrow> 15 | DATE \<Rightarrow> 10
      | TIME \<Rightarrow> (if s = 0 then 8 else 9 + s) | TIMESTAMP \<Rightarrow> (if s = 0 then 19 else 20 + s)
      | _ \<Rightarrow> p)"

theorem declared_type_sizes_witness:
  "type_name_precision odbc_column_size ''TIMESTAMP(6) WITH TIME ZONE'' = Some 26 \<and>
   type_name_scale ''TIMESTAMP(6) WITH TIME ZONE'' = Some 6 \<and>
   type_name_precision odbc_column_size ''DECIMAL(10,6)'' = Some 10"
  using declared_type_sizes [of 10 6 TnTimestampWithTimeZone TnChar odbc_column_size]
  by (simp add: has_temporal_scale_param_def odbc_column_size_def show_nat.simps str_simps)

section \<open>The two ways to type a result column\<close>

text \<open>
  A result column is typed from its name where the name parses, and from the client's \<open>TrinoTy\<close>
  otherwise. \<open>ty_of_name\<close> is the client's type of a name (a specification).
\<close>

fun ty_of_name :: "trino_type_name \<Rightarrow> trino_ty" where
  "ty_of_name TnBoolean = TyBoolean"
| "ty_of_name TnTinyInt = TyInt TI8"
| "ty_of_name TnSmallInt = TyInt TI16"
| "ty_of_name TnInteger = TyInt TI32"
| "ty_of_name TnBigInt = TyInt TI64"
| "ty_of_name TnReal = TyFloat TF32"
| "ty_of_name TnDouble = TyFloat TF64"
| "ty_of_name TnDecimal = TyDecimal 38 0"
| "ty_of_name TnVarchar = TyVarchar"
| "ty_of_name TnChar = TyChar 1"
| "ty_of_name TnVarbinary = TyVarBinary"
| "ty_of_name TnDate = TyDate"
| "ty_of_name TnTime = TyTime"
| "ty_of_name TnTimeWithTimeZone = TyTimeWithTimeZone"
| "ty_of_name TnTimestamp = TyTimestamp"
| "ty_of_name TnTimestampWithTimeZone = TyTimestampWithTimeZone"
| "ty_of_name TnJson = TyJson"
| "ty_of_name TnUuid = TyUuid"
| "ty_of_name TnIntervalDayToSecond = TyIntervalDayToSecond"
| "ty_of_name TnIntervalYearToMonth = TyIntervalYearToMonth"

fun optional :: "nat \<Rightarrow> trino_ty \<Rightarrow> trino_ty" where
  "optional 0 t = t"
| "optional (Suc n) t = TyOption (optional n t)"

lemma optional_transparent:
  "trino_ty_to_sql_type (optional k t) = trino_ty_to_sql_type t"
  "trino_ty_precision colsz undet (optional k t) = trino_ty_precision colsz undet t"
  "trino_ty_scale (optional k t) = trino_ty_scale t"
  by (induction k) simp_all

text \<open>
  C38: the two ways agree. The SQL type of the client's type is that of the name for every type
  but \<open>char\<close>, which the fallback widens to a varchar; the fixed size of a name is the size of the
  client's type, wherever the size formula keeps to 32 unsigned bits; and wrapping the client's
  type in any number of optional layers changes neither type, size nor scale.
\<close>

theorem type_paths_agree:
  assumes "\<And>ty p s. 0 \<le> colsz ty p s \<and> colsz ty p s \<le> i32_max"
  shows "trino_ty_to_sql_type (optional k (ty_of_name t)) =
           (if t = TnChar then EXT_W_VARCHAR else type_sql_type t) \<and>
         (\<forall>p. fixed_precision colsz t = Some p \<longrightarrow>
            trino_ty_precision colsz undet (optional k (ty_of_name t)) = p) \<and>
         trino_ty_scale (optional k ty) = trino_ty_scale ty"
proof -
  have b: "0 \<le> colsz ty p s" "colsz ty p s \<le> u32_max" for ty p s
    using assms [of ty p s] by simp_all
  then show ?thesis
    by (cases t) (auto simp: optional_transparent precision_as_u32_def fits_def)
qed

theorem type_paths_agree_witness:
  "trino_ty_precision odbc_column_size 0 (TyOption (TyInt TI64)) = 19"
proof -
  define c :: column_size_fn where "c = (\<lambda>t p s. max 0 (min i32_max (odbc_column_size t p s)))"
  have "trino_ty_precision c 0 (optional 1 (ty_of_name TnBigInt)) = 19"
    using type_paths_agree [of c 1 TnBigInt 0 TyDate]
    by (simp add: c_def odbc_column_size_def)
  then show ?thesis by (simp add: c_def odbc_column_size_def)
qed

end
