(* ===== verification/Value_Conversion.thy ===== *)
theory Value_Conversion
  imports Type_Names
begin

text \<open>
  The conversion of a Trino value, a JSON value of the wire format under a column type, to the
  value the ODBC layer delivers: the second half of \<open>src/src/type_conversion.rs\<close>.

  Other packages supply the JSON numbers (\<open>'n\<close>), floating-point arithmetic (\<open>'d\<close> for \<open>f64\<close>,
  \<open>'s\<close> for \<open>f32\<close>), base64, and the calendar (\<open>'z\<close> a named zone, \<open>'o\<close> a fixed offset, \<open>'t\<close> a date
  and time without zone): they are the records \<open>json_ext\<close> and \<open>chrono_ext\<close>, and the clock is the
  instant \<open>now\<close>. Subtracting a time difference panics when the result leaves the calendar, which
  is \<open>None\<close> of \<open>sub_seconds\<close>; a conversion is a \<open>run\<close> for this reason.
\<close>

section \<open>Values\<close>

datatype 'n json =
    JNull | JBool bool | JNum 'n | JStr string | JArr "'n json list"
  | JObj "(string \<times> 'n json) list"

text \<open>
  \<open>ColumnValue\<close> of the ODBC core: the constructors the driver builds or matches. It is declared
  non-exhaustive there, and \<open>COther\<close> is what a match of the driver takes with its wildcard.
\<close>

datatype ('d, 's) column_value =
    CNull | CBool bool | CI8 int | CI16 int | CI32 int | CI64 int | CF32 's | CF64 'd
  | CString string | CJson string | CDecimal string | CBytes "8 word list" | CGuid "8 word list"
  | CDate int int int
  | CTime int int int int
  | CTimestamp int int int int int int int
  | CTimestampTz int int int int int int int int
  | CArray "('d, 's) column_value list"
  | CMap "(('d, 's) column_value \<times> ('d, 's) column_value) list"
  | CRow "('d, 's) column_value list"
  | CIntervalYearMonth | CIntervalDayTime | COther

record ('n, 'd, 's) json_ext =
  num_i64 :: "'n \<Rightarrow> int option"
  num_f64 :: "'n \<Rightarrow> 'd option"
  json_to_string :: "'n json \<Rightarrow> string"
  f64_nan :: 'd
  f64_inf :: 'd
  f64_neg_inf :: 'd
  f64_finite :: "'d \<Rightarrow> bool"
  f32_finite :: "'s \<Rightarrow> bool"
  f64_as_f32 :: "'d \<Rightarrow> 's"
  f32_display :: "'s \<Rightarrow> string"
  f64_display :: "'d \<Rightarrow> string"
  base64_standard :: "string \<Rightarrow> 8 word list option"

record ('z, 'o, 't) chrono_ext =
  tz_utc :: 'z
  tz_of_name :: "string \<Rightarrow> 'z option"
  east_opt :: "int \<Rightarrow> 'o option"
  local_minus_utc :: "'o \<Rightarrow> int"
  named_offset :: "'z \<Rightarrow> 't \<Rightarrow> int"
  named_wall_time :: "'z \<Rightarrow> 't \<Rightarrow> 't"
  fixed_wall_time :: "'o \<Rightarrow> 't \<Rightarrow> 't"
  date_exists :: "int \<Rightarrow> int \<Rightarrow> int \<Rightarrow> bool"
  mk_datetime :: "int \<Rightarrow> int \<Rightarrow> int \<Rightarrow> int \<Rightarrow> int \<Rightarrow> int \<Rightarrow> int \<Rightarrow> 't option"
  try_seconds :: "int \<Rightarrow> int option"
  sub_seconds :: "'t \<Rightarrow> int \<Rightarrow> 't option"
  earliest_utc :: "'z \<Rightarrow> 't \<Rightarrow> 't option"
  datetime_fields :: "'t \<Rightarrow> int \<times> int \<times> int \<times> int \<times> int \<times> int"

section \<open>Dates, times and fractions\<close>

abbreviation "parse_u32 \<equiv> parse_int False 0 u32_max"

definition parse_ymd :: "string \<Rightarrow> (int \<times> int \<times> int) option" where
  "parse_ymd s =
     (let (negative, rest) =
            (case strip_prefix ''-'' s of Some r \<Rightarrow> (True, r) | None \<Rightarrow> (False, s))
      in do {
           (y, m, d) \<leftarrow> split3 CHR ''-'' rest;
           magnitude \<leftarrow> parse_i16 y;
           year \<leftarrow> (if negative then to_i16 (- magnitude) else Some magnitude);
           month \<leftarrow> parse_u16 m;
           day \<leftarrow> parse_u16 d;
           Some (year, month, day)
         })"

definition parse_trino_date :: "string \<Rightarrow> ('d, 's) column_value option" where
  "parse_trino_date s = map_option (\<lambda>(y, m, d). CDate y m d) (parse_ymd s)"

text \<open>
  \<open>s.get(..n)\<close>: the prefix of \<open>n\<close> bytes, \<open>None\<close> when that is not a character boundary. A scalar
  from U+0080 to U+00FF takes two bytes.
\<close>

definition char_bytes :: "char \<Rightarrow> nat" where
  "char_bytes c = (if (of_char c :: nat) < 128 then 1 else 2)"

definition byte_length :: "string \<Rightarrow> nat" where
  "byte_length s = sum_list (map char_bytes s)"

fun byte_prefix :: "nat \<Rightarrow> string \<Rightarrow> string option" where
  "byte_prefix n [] = (if n = 0 then Some [] else None)"
| "byte_prefix n (c # cs) =
     (if n = 0 then Some []
      else if char_bytes c \<le> n then map_option ((#) c) (byte_prefix (n - char_bytes c) cs)
      else None)"

definition parse_fraction_nanos :: "string \<Rightarrow> int" where
  "parse_fraction_nanos frac =
     (let padded = frac @ replicate (9 - length frac) CHR ''0''
      in case Option.bind (byte_prefix 9 padded) parse_u32 of None \<Rightarrow> 0 | Some n \<Rightarrow> n)"

text \<open>\<open>SS[.fraction]\<close>, the tail the three time parsers share, with their own integer type.\<close>

definition parse_seconds :: "(string \<Rightarrow> int option) \<Rightarrow> string \<Rightarrow> (int \<times> int) option" where
  "parse_seconds parse sec_part =
     (let (s, frac) = split2 CHR ''.'' sec_part in
      do {
        second \<leftarrow> parse s;
        Some (second, case frac of None \<Rightarrow> 0 | Some f \<Rightarrow> parse_fraction_nanos f)
      })"

definition parse_trino_time :: "string \<Rightarrow> ('d, 's) column_value option" where
  "parse_trino_time s0 =
     do {
       s \<leftarrow> first_word s0;
       (h, m, sec_part) \<leftarrow> split3 CHR '':'' s;
       hour \<leftarrow> parse_u16 h;
       minute \<leftarrow> parse_u16 m;
       (second, fraction) \<leftarrow> parse_seconds parse_u16 sec_part;
       Some (CTime hour minute second fraction)
     }"

definition shift_time :: "string \<Rightarrow> int \<Rightarrow> ('d, 's) column_value option" where
  "shift_time time_part offset_minutes =
     do {
       (h, m, sec_part) \<leftarrow> split3 CHR '':'' (trim time_part);
       hour \<leftarrow> parse_i32 h;
       minute \<leftarrow> parse_i32 m;
       (second, fraction) \<leftarrow> parse_seconds parse_i32 sec_part;
       a \<leftarrow> to_i32 (hour * 60);
       b \<leftarrow> to_i32 (a + minute);
       total \<leftarrow> to_i32 (b - offset_minutes);
       let wrapped = total mod (24 * 60);
       hour' \<leftarrow> to_u16 (wrapped div 60);
       minute' \<leftarrow> to_u16 (wrapped mod 60);
       second' \<leftarrow> to_u16 second;
       Some (CTime hour' minute' second' fraction)
     }"

text \<open>\<open>t.rfind(['+', '-'])\<close>, as the text before the last sign and the text from it on.\<close>

definition rsplit_sign :: "string \<Rightarrow> (string \<times> string) option" where
  "rsplit_sign t =
     (let is_sign = (\<lambda>c. c = CHR ''+'' \<or> c = CHR ''-'');
          body = rev (takeWhile (Not \<circ> is_sign) (rev t))
      in case dropWhile (Not \<circ> is_sign) (rev t) of
           [] \<Rightarrow> None
         | sg # before \<Rightarrow> Some (rev before, sg # body))"

definition parse_trino_time_with_tz :: "string \<Rightarrow> int \<Rightarrow> ('d, 's) column_value option" where
  "parse_trino_time_with_tz s session_offset_minutes =
     (let t = trim s in
      case rsplit_once CHR '' '' t of
        Some (time_part, zone) \<Rightarrow>
          (let offset_minutes = (if eq_ignore_ascii_case zone ''UTC'' then 0 else 0)
           in shift_time time_part (offset_minutes - session_offset_minutes))
      | None \<Rightarrow>
          do {
            (time_part, offset_part) \<leftarrow> rsplit_sign t;
            let sign = (if starts_with offset_part CHR ''-'' then - 1 else 1);
            let (op_h, op_m) = split2 CHR '':'' (drop 1 offset_part);
            oh \<leftarrow> parse_i32 op_h;
            om \<leftarrow> parse_i32 (case op_m of None \<Rightarrow> ''0'' | Some m \<Rightarrow> m);
            a \<leftarrow> to_i32 (oh * 60);
            b \<leftarrow> to_i32 (a + om);
            offset_minutes \<leftarrow> to_i32 (b * sign);
            shift \<leftarrow> to_i32 (offset_minutes - session_offset_minutes);
            shift_time time_part shift
          })"

definition base64_decode :: "('n, 'd, 's) json_ext \<Rightarrow> string \<Rightarrow> ('d, 's) column_value option" where
  "base64_decode x s = map_option CBytes (base64_standard x s)"

definition parse_trino_timestamp :: "string \<Rightarrow> ('d, 's) column_value option" where
  "parse_trino_timestamp s =
     do {
       (date_str, rest) \<leftarrow> split_once CHR '' '' s;
       time_str \<leftarrow> first_word rest;
       (year, month, day) \<leftarrow> parse_ymd date_str;
       (h, m, sec_frac) \<leftarrow> split3 CHR '':'' time_str;
       hour \<leftarrow> parse_u16 h;
       minute \<leftarrow> parse_u16 m;
       (second, fraction) \<leftarrow> parse_seconds parse_u16 sec_frac;
       Some (CTimestamp year month day hour minute second fraction)
     }"

section \<open>The session time zone\<close>

datatype ('z, 'o) session_zone = Named 'z | Fixed 'o

definition SessionZone_UTC :: "('z, 'o, 't) chrono_ext \<Rightarrow> ('z, 'o) session_zone" where
  "SessionZone_UTC c = Named (tz_utc c)"

definition session_zone_parse ::
    "('z, 'o, 't) chrono_ext \<Rightarrow> string \<Rightarrow> ('z, 'o) session_zone option" where
  "session_zone_parse c s0 =
     (let s = trim s0 in
      case s of
        [] \<Rightarrow> None
      | b # body \<Rightarrow>
          if b \<noteq> CHR ''+'' \<and> b \<noteq> CHR ''-'' then map_option Named (tz_of_name c s)
          else do {
            let sign = (if b = CHR ''+'' then 1 else - 1);
            (h, m) \<leftarrow> split_once CHR '':'' body;
            if byte_length h \<noteq> 2 \<or> byte_length m \<noteq> 2 then None
            else do {
              h' \<leftarrow> parse_i32 h;
              m' \<leftarrow> parse_i32 m;
              if h' > 18 \<or> m' > 59 then None
              else map_option Fixed (east_opt c (sign * (h' * 3600 + m' * 60)))
            }
          })"

text \<open>Division of \<open>i32\<close> truncates toward zero.\<close>

definition tdiv :: "int \<Rightarrow> int \<Rightarrow> int" where
  "tdiv a b = (if a < 0 then - ((- a) div b) else a div b)"

definition offset_minutes_at ::
    "('z, 'o, 't) chrono_ext \<Rightarrow> ('z, 'o) session_zone \<Rightarrow> 't \<Rightarrow> int" where
  "offset_minutes_at c zone utc =
     (let seconds = (case zone of Named tz \<Rightarrow> named_offset c tz utc
                     | Fixed off \<Rightarrow> local_minus_utc c off)
      in tdiv seconds 60)"

definition wall_time :: "('z, 'o, 't) chrono_ext \<Rightarrow> ('z, 'o) session_zone \<Rightarrow> 't \<Rightarrow> 't" where
  "wall_time c zone utc =
     (case zone of Named tz \<Rightarrow> named_wall_time c tz utc | Fixed off \<Rightarrow> fixed_wall_time c off utc)"

text \<open>Arithmetic on \<open>i64\<close> without a check wraps in a release build.\<close>

definition wrap_i64 :: "int \<Rightarrow> int" where
  "wrap_i64 n = (n + 2 ^ 63) mod 2 ^ 64 - 2 ^ 63"

definition parse_numeric_offset ::
    "('z, 'o, 't) chrono_ext \<Rightarrow> int \<Rightarrow> string \<Rightarrow> int option" where
  "parse_numeric_offset c sign hhmm =
     (let (hh, mm) = split2 CHR '':'' hhmm in
      do {
        h \<leftarrow> parse_i64 hh;
        let m = (case Option.bind mm parse_i64 of None \<Rightarrow> 0 | Some v \<Rightarrow> v);
        try_seconds c (wrap_i64 (sign * wrap_i64 (wrap_i64 (h * 3600) + wrap_i64 (m * 60))))
      })"

text \<open>\<open>ndt - parse_numeric_offset(sign, rest)?\<close>: no value, a value, or the panic of the subtraction.\<close>

definition apply_numeric_offset ::
    "('z, 'o, 't) chrono_ext \<Rightarrow> 't \<Rightarrow> int \<Rightarrow> string \<Rightarrow> 't option run" where
  "apply_numeric_offset c ndt sign rest =
     (case parse_numeric_offset c sign rest of
        None \<Rightarrow> Ret None
      | Some secs \<Rightarrow>
          (case sub_seconds c ndt secs of None \<Rightarrow> Panic | Some utc \<Rightarrow> Ret (Some utc)))"

definition timestamp_instant ::
    "('z, 'o, 't) chrono_ext \<Rightarrow> 't \<Rightarrow> string \<Rightarrow> 't option run" where
  "timestamp_instant c ndt tz_part =
     (case strip_prefix ''+'' tz_part of
        Some rest \<Rightarrow> apply_numeric_offset c ndt 1 rest
      | None \<Rightarrow>
          (case strip_prefix ''-'' tz_part of
             Some rest \<Rightarrow> apply_numeric_offset c ndt (- 1) rest
           | None \<Rightarrow>
               Ret (do {
                 tz \<leftarrow> tz_of_name c tz_part;
                 earliest_utc c tz ndt
               })))"

definition parse_trino_timestamp_tz ::
    "('z, 'o, 't) chrono_ext \<Rightarrow> string \<Rightarrow> ('z, 'o) session_zone
       \<Rightarrow> ('d, 's) column_value option run" where
  "parse_trino_timestamp_tz c s session =
     (case rsplit_once CHR '' '' s of
        None \<Rightarrow> Ret None
      | Some (datetime_part, tz_tail) \<Rightarrow>
          (case (parse_trino_timestamp datetime_part :: ('d, 's) column_value option) of
             Some (CTimestamp year month day hour minute second fraction) \<Rightarrow>
               (case mk_datetime c year month day hour minute second fraction of
                  None \<Rightarrow> Ret None
                | Some ndt \<Rightarrow>
                    bind_run (timestamp_instant c ndt (trim tz_tail)) (\<lambda>utc.
                      Ret (do {
                        utc_ndt \<leftarrow> utc;
                        let (y, mo, d, h, mi, sec) =
                          datetime_fields c (wall_time c session utc_ndt);
                        year' \<leftarrow> to_i16 y;
                        Some (CTimestamp year' mo d h mi sec fraction)
                      })))
           | _ \<Rightarrow> Ret None))"

section \<open>Detecting lost fractional digits\<close>

definition fraction_exceeds_nanoseconds :: "string \<Rightarrow> bool" where
  "fraction_exceeds_nanoseconds txt =
     (case split_once CHR ''.'' txt of
        None \<Rightarrow> False
      | Some (_, rest) \<Rightarrow> list_ex (\<lambda>c. c \<noteq> CHR ''0'') (drop 9 (takeWhile is_digit rest)))"

function discards_fractional_seconds :: "'n json \<Rightarrow> trino_ty \<Rightarrow> bool" where
  "discards_fractional_seconds val ty =
     (case ty of
        TyTime \<Rightarrow> (case val of JStr s \<Rightarrow> fraction_exceeds_nanoseconds s | _ \<Rightarrow> False)
      | TyTimeWithTimeZone \<Rightarrow> (case val of JStr s \<Rightarrow> fraction_exceeds_nanoseconds s | _ \<Rightarrow> False)
      | TyTimestamp \<Rightarrow> (case val of JStr s \<Rightarrow> fraction_exceeds_nanoseconds s | _ \<Rightarrow> False)
      | TyTimestampWithTimeZone \<Rightarrow>
          (case val of JStr s \<Rightarrow> fraction_exceeds_nanoseconds s | _ \<Rightarrow> False)
      | TyOption inner \<Rightarrow> discards_fractional_seconds val inner
      | TyArray inner \<Rightarrow>
          (case val of JArr items \<Rightarrow> list_ex (\<lambda>v. discards_fractional_seconds v inner) items
           | _ \<Rightarrow> False)
      | TyMap key_ty val_ty \<Rightarrow>
          (case val of
             JObj m \<Rightarrow>
               list_ex (\<lambda>(k, v). discards_fractional_seconds (JStr k) key_ty \<or>
                                 discards_fractional_seconds v val_ty) m
           | _ \<Rightarrow> False)
      | TyRow fs \<Rightarrow>
          (case val of
             JArr items \<Rightarrow>
               list_ex (\<lambda>(v, f). discards_fractional_seconds v (snd f)) (zip items fs)
           | _ \<Rightarrow> False)
      | TyTuple fs \<Rightarrow>
          (case val of
             JArr items \<Rightarrow> list_ex (\<lambda>(v, t). discards_fractional_seconds v t) (zip items fs)
           | _ \<Rightarrow> False)
      | _ \<Rightarrow> False)"
  by pat_completeness auto

lemma size_row_field:
  "(n, t) \<in> set fs \<Longrightarrow> size (t :: trino_ty) < Suc (size_list (size_prod (\<lambda>x. 0) size) fs)"
  by (induction fs) auto

lemma size_tuple_field: "t \<in> set fs \<Longrightarrow> size (t :: trino_ty) < Suc (size_list size fs)"
  by (induction fs) auto

termination discards_fractional_seconds
  by (relation "measure (\<lambda>(v, t). size t)")
     (auto dest!: set_zip_rightD intro: size_row_field size_tuple_field)

declare discards_fractional_seconds.simps [simp del]

section \<open>The conversion\<close>

definition trino_special_float :: "('n, 'd, 's) json_ext \<Rightarrow> string \<Rightarrow> 'd option" where
  "trino_special_float x s =
     (if s = ''NaN'' then Some (f64_nan x)
      else if s = ''Infinity'' then Some (f64_inf x)
      else if s = ''-Infinity'' then Some (f64_neg_inf x)
      else None)"

definition json_as_text :: "('n, 'd, 's) json_ext \<Rightarrow> 'n json \<Rightarrow> string" where
  "json_as_text x val = (case val of JStr s \<Rightarrow> s | other \<Rightarrow> json_to_string x other)"

definition as_i64 :: "('n, 'd, 's) json_ext \<Rightarrow> 'n json \<Rightarrow> int option" where
  "as_i64 x val = (case val of JNum n \<Rightarrow> num_i64 x n | _ \<Rightarrow> None)"

definition as_f64 :: "('n, 'd, 's) json_ext \<Rightarrow> 'n json \<Rightarrow> 'd option" where
  "as_f64 x val = (case val of JNum n \<Rightarrow> num_f64 x n | _ \<Rightarrow> None)"

definition as_str :: "'n json \<Rightarrow> string option" where
  "as_str val = (case val of JStr s \<Rightarrow> Some s | _ \<Rightarrow> None)"

text \<open>A narrow integer column: in range, or the text.\<close>

definition narrow_int ::
    "('n, 'd, 's) json_ext \<Rightarrow> (int \<Rightarrow> int option) \<Rightarrow> (int \<Rightarrow> ('d, 's) column_value) \<Rightarrow> 'n json
       \<Rightarrow> ('d, 's) column_value" where
  "narrow_int x narrow mk val =
     (case as_i64 x val of
        Some n \<Rightarrow>
          (case narrow n of Some v \<Rightarrow> mk v | None \<Rightarrow> CString (json_as_text x val))
      | None \<Rightarrow> CString (json_as_text x val))"

text \<open>A column Trino sends as a string: parsed, or the string; anything else as JSON text.\<close>

definition of_wire_string ::
    "('n, 'd, 's) json_ext \<Rightarrow> (string \<Rightarrow> ('d, 's) column_value option run) \<Rightarrow> 'n json
       \<Rightarrow> ('d, 's) column_value run" where
  "of_wire_string x parse val =
     (case val of
        JStr s \<Rightarrow>
          bind_run (parse s)
            (\<lambda>r. Ret (case r of Some v \<Rightarrow> v | None \<Rightarrow> CString s))
      | other \<Rightarrow> Ret (CString (json_to_string x other)))"

definition wire_text :: "('n, 'd, 's) json_ext \<Rightarrow> 'n json \<Rightarrow> string" where
  "wire_text x val = (case val of JStr s \<Rightarrow> s | other \<Rightarrow> json_to_string x other)"

text \<open>
  \<open>json_to_column_value\<close>. The two match arms per narrow type are \<open>narrow_int\<close>; the parse or
  keep arms of the temporal and binary types are \<open>of_wire_string\<close>.
\<close>

function json_to_column_value ::
    "('n, 'd, 's) json_ext \<Rightarrow> ('z, 'o, 't) chrono_ext \<Rightarrow> 't \<Rightarrow> 'n json \<Rightarrow> trino_ty
       \<Rightarrow> ('z, 'o) session_zone \<Rightarrow> ('d, 's) column_value run" where
  "json_to_column_value x c now val ty session =
     (if val = JNull then Ret CNull
      else case ty of
        TyInt TI64 \<Rightarrow>
          Ret (case or_else (as_i64 x val) (Option.bind (as_str val) parse_i64) of
                 Some n \<Rightarrow> CI64 n | None \<Rightarrow> CString (json_as_text x val))
      | TyInt TI32 \<Rightarrow> Ret (narrow_int x to_i32 CI32 val)
      | TyInt TI16 \<Rightarrow> Ret (narrow_int x to_i16 CI16 val)
      | TyInt TI8 \<Rightarrow> Ret (narrow_int x to_i8 CI8 val)
      | TyFloat TF64 \<Rightarrow>
          Ret (case or_else (as_f64 x val) (Option.bind (as_str val) (trino_special_float x)) of
                 Some f \<Rightarrow> CF64 f | None \<Rightarrow> CString (json_as_text x val))
      | TyFloat TF32 \<Rightarrow>
          Ret (case or_else (as_f64 x val) (Option.bind (as_str val) (trino_special_float x)) of
                 Some f \<Rightarrow>
                   (let n = f64_as_f32 x f
                    in if f32_finite x n \<or> \<not> f64_finite x f then CF32 n
                       else CString (json_as_text x val))
               | None \<Rightarrow> CString (json_as_text x val))
      | TyBoolean \<Rightarrow>
          Ret (case val of JBool b \<Rightarrow> CBool b | _ \<Rightarrow> CString (json_as_text x val))
      | TyDate \<Rightarrow> of_wire_string x (\<lambda>s. Ret (parse_trino_date s)) val
      | TyTime \<Rightarrow> of_wire_string x (\<lambda>s. Ret (parse_trino_time s)) val
      | TyTimeWithTimeZone \<Rightarrow>
          of_wire_string x
            (\<lambda>s. Ret (parse_trino_time_with_tz s (offset_minutes_at c session now))) val
      | TyTimestamp \<Rightarrow> of_wire_string x (\<lambda>s. Ret (parse_trino_timestamp s)) val
      | TyTimestampWithTimeZone \<Rightarrow>
          of_wire_string x (\<lambda>s. parse_trino_timestamp_tz c s session) val
      | TyDecimal _ _ \<Rightarrow> Ret (CDecimal (wire_text x val))
      | TyJson \<Rightarrow> Ret (CJson (wire_text x val))
      | TyIntervalYearToMonth \<Rightarrow> Ret (CString (wire_text x val))
      | TyIntervalDayToSecond \<Rightarrow> Ret (CString (wire_text x val))
      | TyVarBinary \<Rightarrow> of_wire_string x (\<lambda>s. Ret (base64_decode x s)) val
      | TyArray inner \<Rightarrow>
          (case val of
             JArr items \<Rightarrow>
               bind_run (run_seq (map (\<lambda>v. json_to_column_value x c now v inner session) items))
                 (\<lambda>vals. Ret (CArray vals))
           | _ \<Rightarrow> Ret (CString (json_to_string x val)))
      | TyMap key_ty val_ty \<Rightarrow>
          (case val of
             JObj m \<Rightarrow>
               bind_run
                 (run_seq (map (\<lambda>(k, v).
                    bind_run (json_to_column_value x c now (JStr k) key_ty session) (\<lambda>key_col.
                    bind_run (json_to_column_value x c now v val_ty session) (\<lambda>val_col.
                    Ret (key_col, val_col)))) m))
                 (\<lambda>pairs. Ret (CMap pairs))
           | _ \<Rightarrow> Ret (CString (json_to_string x val)))
      | TyRow fs \<Rightarrow>
          (case val of
             JArr items \<Rightarrow>
               bind_run (run_seq (map (\<lambda>(v, f).
                    json_to_column_value x c now v (snd f) session) (zip items fs)))
                 (\<lambda>vals. Ret (CRow vals))
           | _ \<Rightarrow> Ret (CString (json_to_string x val)))
      | TyTuple fs \<Rightarrow>
          (case val of
             JArr items \<Rightarrow>
               bind_run (run_seq (map (\<lambda>(v, t).
                    json_to_column_value x c now v t session) (zip items fs)))
                 (\<lambda>vals. Ret (CRow vals))
           | _ \<Rightarrow> Ret (CString (json_to_string x val)))
      | TyOption inner \<Rightarrow> json_to_column_value x c now val inner session
      | _ \<Rightarrow> Ret (CString (wire_text x val)))"
  by pat_completeness auto
termination
  by (relation "measure (\<lambda>(x, c, now, v, t, session). size t)")
     (auto dest!: set_zip_rightD intro: size_row_field size_tuple_field)

declare json_to_column_value.simps [simp del]

lemma json_null [simp]: "json_to_column_value x c now JNull ty session = Ret CNull"
  by (simp add: json_to_column_value.simps)

section \<open>Concrete externals\<close>

text \<open>
  Concrete externals for the witnesses: integer JSON numbers, a calendar of one day whose
  instants are seconds, and offsets that are their seconds.
\<close>

definition demo_json :: "(int, int, int) json_ext" where
  "demo_json =
     \<lparr>num_i64 = to_i64, num_f64 = Some, json_to_string = (\<lambda>j. ''?''), f64_nan = 0, f64_inf = 0,
      f64_neg_inf = 0, f64_finite = (\<lambda>f. True), f32_finite = (\<lambda>f. True), f64_as_f32 = id,
      f32_display = show_int, f64_display = show_int, base64_standard = (\<lambda>s. None)\<rparr>"

definition demo_chrono :: "(unit, int, int) chrono_ext" where
  "demo_chrono =
     \<lparr>tz_utc = (), tz_of_name = (\<lambda>s. if s = ''UTC'' then Some () else None),
      east_opt = fits (- 86399) 86399, local_minus_utc = id, named_offset = (\<lambda>z t. 0),
      named_wall_time = (\<lambda>z t. t), fixed_wall_time = (\<lambda>off t. t + off),
      date_exists = (\<lambda>y m d. 1 \<le> m \<and> m \<le> 12 \<and> 1 \<le> d \<and> d \<le> 31),
      mk_datetime = (\<lambda>y mo d h mi s f. Some (h * 3600 + mi * 60 + s)),
      try_seconds = fits (- 9223372036854775) 9223372036854775,
      sub_seconds = (\<lambda>t secs. if \<bar>secs\<bar> \<le> 8000000000000 then Some (t - secs) else None),
      earliest_utc = (\<lambda>z t. Some t),
      datetime_fields = (\<lambda>t. (2000, 1, 1, t div 3600 mod 24, t div 60 mod 60, t mod 60))\<rparr>"

end
