(* ===== verification/Conversion_Types.thy ===== *)
theory Conversion_Types
  imports Value_Conversion
begin

text \<open>
  The type of a converted value, and the absence of panics.
\<close>

section \<open>Ranges of parsed fields\<close>

lemma byte_prefix_length: "byte_prefix n s = Some p \<Longrightarrow> length p \<le> n"
proof (induction n s arbitrary: p rule: byte_prefix.induct)
  case (2 n c cs)
  then show ?case by (fastforce simp: char_bytes_def split: if_splits)
qed (simp split: if_splits)

lemma parse_digits_less: "parse_digits s = Some n \<Longrightarrow> n < 10 ^ length s"
  by (auto simp: parse_digits_def digits_val_less split: if_splits)

lemma parse_int_unsigned_less:
  assumes "parse_int False lo hi s = Some v" and "length s \<le> k"
  shows "0 \<le> v" and "v < 10 ^ k"
proof -
  from assms(1) obtain n t where n: "v = int n" "parse_digits t = Some n" "length t \<le> length s"
    by (cases s) (auto simp: parse_int_def Let_def split: option.splits if_splits)
  have "n < 10 ^ length t" using n(2) by (rule parse_digits_less)
  also have "\<dots> \<le> 10 ^ k" using n(3) assms(2) by (intro power_increasing) auto
  finally show "v < 10 ^ k" using n(1) by (metis of_nat_less_iff of_nat_numeral of_nat_power)
  show "0 \<le> v" using n(1) by simp
qed

lemma parse_fraction_nanos_range:
  "0 \<le> parse_fraction_nanos f" "parse_fraction_nanos f \<le> 999999999"
proof -
  let ?p = "f @ replicate (9 - length f) CHR ''0''"
  have "0 \<le> parse_fraction_nanos f \<and> parse_fraction_nanos f < 10 ^ 9"
  proof (cases "Option.bind (byte_prefix 9 ?p) parse_u32")
    case None
    then show ?thesis by (simp add: parse_fraction_nanos_def)
  next
    case (Some v)
    then obtain q where q: "byte_prefix 9 ?p = Some q" "parse_u32 q = Some v"
      by (cases "byte_prefix 9 ?p") auto
    have "0 \<le> v" "v < 10 ^ 9"
      using parse_int_unsigned_less [OF q(2) byte_prefix_length [OF q(1)]] by simp_all
    with Some show ?thesis by (simp add: parse_fraction_nanos_def)
  qed
  then show "0 \<le> parse_fraction_nanos f" "parse_fraction_nanos f \<le> 999999999" by simp_all
qed

lemma parse_seconds_Some:
  "parse_seconds p s = Some (sec, fr) \<Longrightarrow> 0 \<le> fr \<and> fr \<le> 999999999 \<and> (\<exists>t. p t = Some sec)"
  by (auto simp: parse_seconds_def Let_def parse_fraction_nanos_range bind_eq_Some_conv
      split: prod.splits option.splits)

abbreviation is_u16 :: "int \<Rightarrow> bool" where "is_u16 n \<equiv> 0 \<le> n \<and> n \<le> u16_max"
abbreviation is_i16 :: "int \<Rightarrow> bool" where "is_i16 n \<equiv> - i16_max - 1 \<le> n \<and> n \<le> i16_max"
abbreviation is_nanos :: "int \<Rightarrow> bool" where "is_nanos n \<equiv> 0 \<le> n \<and> n \<le> 999999999"

lemma parse_ymd_range:
  "parse_ymd s = Some (y, m, d) \<Longrightarrow> is_i16 y \<and> is_u16 m \<and> is_u16 d"
  by (auto simp: parse_ymd_def Let_def bind_eq_Some_conv fits_Some dest!: parse_int_range
      split: list.splits if_splits option.splits)

lemma parse_trino_date_range:
  "parse_trino_date s = Some v \<Longrightarrow> \<exists>y m d. v = CDate y m d \<and> is_i16 y \<and> is_u16 m \<and> is_u16 d"
  using parse_ymd_range by (fastforce simp: parse_trino_date_def)

lemma parse_trino_time_range:
  "parse_trino_time s = Some v \<Longrightarrow>
     \<exists>h m sec f. v = CTime h m sec f \<and> is_u16 h \<and> is_u16 m \<and> is_u16 sec \<and> is_nanos f"
  by (auto simp: parse_trino_time_def bind_eq_Some_conv
      dest!: parse_int_range parse_seconds_Some split: list.splits)

lemma parse_trino_timestamp_range:
  assumes "parse_trino_timestamp s = Some v"
  shows "\<exists>y mo d h mi sec f. v = CTimestamp y mo d h mi sec f \<and> is_i16 y \<and> is_u16 mo \<and>
     is_u16 d \<and> is_u16 h \<and> is_u16 mi \<and> is_u16 sec \<and> is_nanos f"
  using assms
  by (auto simp: parse_trino_timestamp_def bind_eq_Some_conv
      dest!: parse_int_range parse_seconds_Some parse_ymd_range split: list.splits)

text \<open>What \<open>shift_time\<close> delivers is on the clock, whatever the offset.\<close>

lemma shift_time_range:
  assumes "shift_time t off = Some v"
  shows "\<exists>h m sec f. v = CTime h m sec f \<and> 0 \<le> h \<and> h < 24 \<and> 0 \<le> m \<and> m < 60 \<and>
     is_u16 sec \<and> is_nanos f"
proof -
  have *: "0 \<le> n mod 1440 div 60" "n mod 1440 div 60 < 24" "0 \<le> n mod 1440 mod 60"
    "n mod 1440 mod 60 < 60" for n :: int
  proof -
    have "0 \<le> n mod 1440" "n mod 1440 < 1440" by simp_all
    then show "0 \<le> n mod 1440 div 60" "n mod 1440 div 60 < 24" "0 \<le> n mod 1440 mod 60"
      "n mod 1440 mod 60 < 60" by linarith+
  qed
  show ?thesis
    using assms *
    by (auto simp: shift_time_def bind_eq_Some_conv Let_def fits_Some
        dest!: parse_int_range parse_seconds_Some split: list.splits)
qed

lemma parse_trino_time_with_tz_range:
  assumes "parse_trino_time_with_tz s off = Some v"
  shows "\<exists>h m sec f. v = CTime h m sec f \<and> 0 \<le> h \<and> h < 24 \<and> 0 \<le> m \<and> m < 60 \<and>
     is_u16 sec \<and> is_nanos f"
proof -
  from assms obtain t o' where "shift_time t o' = Some v"
    by (cases "rsplit_once CHR '' '' (trim s)")
       (auto simp: parse_trino_time_with_tz_def Let_def bind_eq_Some_conv prod.case_eq_if)
  then show ?thesis by (rule shift_time_range)
qed

section \<open>The type of a converted value\<close>

text \<open>
  What a column of each type can deliver (a specification): null, its own constructor with the
  fields in range, or, for the types whose text may fail to convert, the text. A container's
  elements are of its element type, and a row has no more elements than fields.
\<close>

definition keeps_text :: "trino_ty \<Rightarrow> bool" where
  "keeps_text ty = (case ty of TyDecimal _ _ \<Rightarrow> False | TyJson \<Rightarrow> False | _ \<Rightarrow> True)"

definition value_of_leaf :: "trino_ty \<Rightarrow> ('d, 's) column_value \<Rightarrow> bool" where
  "value_of_leaf ty v \<longleftrightarrow>
     (case v of
        CNull \<Rightarrow> True
      | CString _ \<Rightarrow> keeps_text ty
      | CI64 n \<Rightarrow> ty = TyInt TI64 \<and> - i64_max - 1 \<le> n \<and> n \<le> i64_max
      | CI32 n \<Rightarrow> ty = TyInt TI32 \<and> - i32_max - 1 \<le> n \<and> n \<le> i32_max
      | CI16 n \<Rightarrow> ty = TyInt TI16 \<and> is_i16 n
      | CI8 n \<Rightarrow> ty = TyInt TI8 \<and> - i8_max - 1 \<le> n \<and> n \<le> i8_max
      | CF64 _ \<Rightarrow> ty = TyFloat TF64
      | CF32 _ \<Rightarrow> ty = TyFloat TF32
      | CBool _ \<Rightarrow> ty = TyBoolean
      | CDate y m d \<Rightarrow> ty = TyDate \<and> is_i16 y \<and> is_u16 m \<and> is_u16 d
      | CTime h m sec f \<Rightarrow>
          is_u16 sec \<and> is_nanos f \<and>
          (ty = TyTime \<and> is_u16 h \<and> is_u16 m \<or>
           ty = TyTimeWithTimeZone \<and> 0 \<le> h \<and> h < 24 \<and> 0 \<le> m \<and> m < 60)
      | CTimestamp y mo d h mi sec f \<Rightarrow>
          is_i16 y \<and> is_nanos f \<and>
          (ty = TyTimestamp \<and> is_u16 mo \<and> is_u16 d \<and> is_u16 h \<and> is_u16 mi \<and> is_u16 sec \<or>
           ty = TyTimestampWithTimeZone \<and> 1 \<le> mo \<and> mo \<le> 12 \<and> 1 \<le> d \<and> d \<le> 31 \<and>
             0 \<le> h \<and> h < 24 \<and> 0 \<le> mi \<and> mi < 60 \<and> 0 \<le> sec \<and> sec < 60)
      | CDecimal _ \<Rightarrow> (case ty of TyDecimal _ _ \<Rightarrow> True | _ \<Rightarrow> False)
      | CJson _ \<Rightarrow> ty = TyJson
      | CBytes _ \<Rightarrow> ty = TyVarBinary
      | _ \<Rightarrow> False)"

function value_of_type :: "trino_ty \<Rightarrow> ('d, 's) column_value \<Rightarrow> bool" where
  "value_of_type ty v \<longleftrightarrow>
     (case ty of
        TyOption t \<Rightarrow> value_of_type t v
      | TyArray t \<Rightarrow>
          (case v of CArray vs \<Rightarrow> \<forall>u \<in> set vs. value_of_type t u
           | CString _ \<Rightarrow> True | CNull \<Rightarrow> True | _ \<Rightarrow> False)
      | TyMap kt vt \<Rightarrow>
          (case v of CMap ps \<Rightarrow> \<forall>(k, u) \<in> set ps. value_of_type kt k \<and> value_of_type vt u
           | CString _ \<Rightarrow> True | CNull \<Rightarrow> True | _ \<Rightarrow> False)
      | TyRow fs \<Rightarrow>
          (case v of
             CRow vs \<Rightarrow>
               length vs \<le> length fs \<and> (\<forall>(u, f) \<in> set (zip vs fs). value_of_type (snd f) u)
           | CString _ \<Rightarrow> True | CNull \<Rightarrow> True | _ \<Rightarrow> False)
      | TyTuple ts \<Rightarrow>
          (case v of
             CRow vs \<Rightarrow> length vs \<le> length ts \<and> (\<forall>(u, t) \<in> set (zip vs ts). value_of_type t u)
           | CString _ \<Rightarrow> True | CNull \<Rightarrow> True | _ \<Rightarrow> False)
      | _ \<Rightarrow> value_of_leaf ty v)"
  by pat_completeness auto
termination
  by (relation "measure (\<lambda>(t, v). size t)")
     (auto dest!: set_zip_rightD intro: size_row_field size_tuple_field)

declare value_of_type.simps [simp del]

lemma value_of_null [simp]: "value_of_type ty CNull"
proof (induction ty)
  case (TyOption t)
  then show ?case by (simp add: value_of_type.simps [of "TyOption t"])
qed (simp_all add: value_of_type.simps value_of_leaf_def)

definition json_ext_ok :: "('n, 'd, 's) json_ext \<Rightarrow> bool" where
  "json_ext_ok x \<longleftrightarrow> (\<forall>n i. num_i64 x n = Some i \<longrightarrow> - i64_max - 1 \<le> i \<and> i \<le> i64_max)"

definition chrono_fields_ok :: "('z, 'o, 't) chrono_ext \<Rightarrow> bool" where
  "chrono_fields_ok c \<longleftrightarrow>
     (\<forall>t y mo d h mi sec. datetime_fields c t = (y, mo, d, h, mi, sec) \<longrightarrow>
        1 \<le> mo \<and> mo \<le> 12 \<and> 1 \<le> d \<and> d \<le> 31 \<and> 0 \<le> h \<and> h < 24 \<and>
        0 \<le> mi \<and> mi < 60 \<and> 0 \<le> sec \<and> sec < 60)"

lemma parse_trino_timestamp_tz_range:
  assumes "parse_trino_timestamp_tz c s session = Ret (Some v)" and "chrono_fields_ok c"
  shows "value_of_leaf TyTimestampWithTimeZone v"
proof -
  from assms(1) obtain date_part tail where dt: "rsplit_once CHR '' '' s = Some (date_part, tail)"
    by (cases "rsplit_once CHR '' '' s") (auto simp: parse_trino_timestamp_tz_def)
  then obtain b where b: "(parse_trino_timestamp date_part :: ('a, 'b) column_value option) = Some b"
    using assms(1) by (cases "parse_trino_timestamp date_part :: ('a, 'b) column_value option")
      (auto simp: parse_trino_timestamp_tz_def)
  from parse_trino_timestamp_range [OF b] obtain y mo d h mi sec f where
    bv: "b = CTimestamp y mo d h mi sec f" and f: "is_nanos f" by blast
  from assms(1) dt b bv obtain utc where
    u: "(case datetime_fields c (wall_time c session utc) of (y', mo', d', h', mi', sec') \<Rightarrow>
           Option.bind (to_i16 y') (\<lambda>y'. Some (CTimestamp y' mo' d' h' mi' sec' f))) = Some v"
    by (auto simp: parse_trino_timestamp_tz_def bind_run_Ret_iff bind_eq_Some_conv Let_def
        split: option.splits)
  obtain y' mo' d' h' mi' sec' where
    "datetime_fields c (wall_time c session utc) = (y', mo', d', h', mi', sec')"
    by (rule prod_cases6)
  with u f assms(2) show ?thesis
    by (auto simp: chrono_fields_ok_def value_of_leaf_def fits_def split: if_splits)
qed

lemma value_of_leaf_text [simp]: "value_of_leaf ty (CString t) = keeps_text ty"
  by (simp add: value_of_leaf_def)

lemma value_of_leaf_simps:
  "value_of_leaf ty CNull"
  "value_of_leaf ty (CI64 n) \<longleftrightarrow> ty = TyInt TI64 \<and> - i64_max - 1 \<le> n \<and> n \<le> i64_max"
  "value_of_leaf ty (CI32 n) \<longleftrightarrow> ty = TyInt TI32 \<and> - i32_max - 1 \<le> n \<and> n \<le> i32_max"
  "value_of_leaf ty (CI16 n) \<longleftrightarrow> ty = TyInt TI16 \<and> is_i16 n"
  "value_of_leaf ty (CI8 n) \<longleftrightarrow> ty = TyInt TI8 \<and> - i8_max - 1 \<le> n \<and> n \<le> i8_max"
  "value_of_leaf ty (CF64 d) \<longleftrightarrow> ty = TyFloat TF64"
  "value_of_leaf ty (CF32 f) \<longleftrightarrow> ty = TyFloat TF32"
  "value_of_leaf ty (CBool b) \<longleftrightarrow> ty = TyBoolean"
  "value_of_leaf (TyDecimal p s) (CDecimal t)"
  "value_of_leaf TyJson (CJson t)"
  by (simp_all add: value_of_leaf_def)

lemma of_wire_string_leaf:
  assumes "of_wire_string x p val = Ret cv" and "val \<noteq> JNull" and "keeps_text ty"
    and "\<And>s v. p s = Ret (Some v) \<Longrightarrow> value_of_leaf ty v"
  shows "value_of_leaf ty cv"
  using assms by (auto simp: of_wire_string_def bind_run_Ret_iff split: json.splits option.splits)

lemma narrow_int_leaf:
  assumes "\<And>n v. narrow n = Some v \<Longrightarrow> value_of_leaf ty (mk v)" and "keeps_text ty"
  shows "value_of_leaf ty (narrow_int x narrow mk val)"
  using assms by (auto simp: narrow_int_def split: option.splits)

lemma parse_ranges_leaf:
  "parse_trino_date s = Some v \<Longrightarrow> value_of_leaf TyDate v"
  "parse_trino_time s = Some v \<Longrightarrow> value_of_leaf TyTime v"
  "parse_trino_time_with_tz s off = Some v \<Longrightarrow> value_of_leaf TyTimeWithTimeZone v"
  "parse_trino_timestamp s = Some v \<Longrightarrow> value_of_leaf TyTimestamp v"
  "base64_decode x s = Some v \<Longrightarrow> value_of_leaf TyVarBinary v"
  using parse_trino_date_range [of s v] parse_trino_time_range [of s v]
    parse_trino_time_with_tz_range [of s off v] parse_trino_timestamp_range [of s v]
  by (auto simp: value_of_leaf_def base64_decode_def)

definition is_leaf :: "trino_ty \<Rightarrow> bool" where
  "is_leaf ty =
     (case ty of TyOption _ \<Rightarrow> False | TyArray _ \<Rightarrow> False | TyMap _ _ \<Rightarrow> False | TyRow _ \<Rightarrow> False
      | TyTuple _ \<Rightarrow> False | _ \<Rightarrow> True)"

lemma json_leaf_typed:
  assumes "json_to_column_value x c now val ty session = Ret cv" and "val \<noteq> JNull"
    and "json_ext_ok x" and "chrono_fields_ok c" and "is_leaf ty"
  shows "value_of_leaf ty cv"
proof (cases ty)
  case (TyInt w)
  show ?thesis
  proof (cases w)
    case TI64
    have "parse_i64 s = Some n \<Longrightarrow> - i64_max - 1 \<le> n \<and> n \<le> i64_max" for s n
      by (rule parse_int_range)
    then show ?thesis
      using assms(1-3) TyInt TI64
      by (auto simp: json_to_column_value.simps or_else_def as_i64_def as_str_def json_ext_ok_def
          value_of_leaf_simps keeps_text_def bind_eq_Some_conv split: option.splits json.splits)
  qed (use assms(1,2) TyInt in \<open>auto simp: json_to_column_value.simps value_of_leaf_simps
        keeps_text_def fits_Some intro!: narrow_int_leaf\<close>)
next
  case (TyFloat w)
  then show ?thesis
    using assms(1,2)
    by (cases w) (auto simp: json_to_column_value.simps value_of_leaf_simps keeps_text_def Let_def
        split: option.splits if_splits)
next
  case TyBoolean
  then show ?thesis
    using assms(1,2)
    by (auto simp: json_to_column_value.simps value_of_leaf_simps keeps_text_def split: json.splits)
next
  case TyTimestampWithTimeZone
  then show ?thesis
    using assms parse_trino_timestamp_tz_range
    by (auto simp: json_to_column_value.simps keeps_text_def elim!: of_wire_string_leaf)
qed (use assms parse_ranges_leaf in \<open>auto simp: json_to_column_value.simps keeps_text_def
      value_of_leaf_simps is_leaf_def elim!: of_wire_string_leaf\<close>)

lemma value_of_type_leaf: "is_leaf ty \<Longrightarrow> value_of_type ty v = value_of_leaf ty v"
  by (cases ty) (simp_all add: is_leaf_def value_of_type.simps)

lemma json_leaf_value_typed:
  assumes "json_to_column_value x c now val ty session = Ret cv" and "is_leaf ty"
    and "json_ext_ok x" and "chrono_fields_ok c"
  shows "value_of_type ty cv"
proof (cases "val = JNull")
  case True
  with assms(1) show ?thesis by simp
next
  case False
  with assms show ?thesis by (simp add: value_of_type_leaf json_leaf_typed)
qed

lemma run_map_elems:
  assumes "run_seq (map f xs) = Ret ys"
  shows "\<forall>y \<in> set ys. \<exists>z \<in> set xs. f z = Ret y"
proof
  fix y
  assume "y \<in> set ys"
  moreover from assms have "map f xs = map Ret ys" by (simp add: run_seq_Ret_iff)
  ultimately have "Ret y \<in> set (map f xs)" by simp
  then show "\<exists>z \<in> set xs. f z = Ret y" by auto
qed

lemma run_map_zip:
  assumes "run_seq (map (\<lambda>(v, t). f v t) (zip xs ts)) = Ret ys"
  shows "length ys \<le> length ts" and "(y, t) \<in> set (zip ys ts) \<Longrightarrow> \<exists>v. f v t = Ret y"
proof -
  from assms have m: "map (\<lambda>(v, t). f v t) (zip xs ts) = map Ret ys"
    by (simp add: run_seq_Ret_iff)
  have len: "length ys = length (zip xs ts)" using m by (metis length_map)
  then show "length ys \<le> length ts" by simp
  assume "(y, t) \<in> set (zip ys ts)"
  then obtain i where i: "i < length ys" "i < length ts" "y = ys ! i" "t = ts ! i"
    by (auto simp: in_set_zip)
  with len have "i < length xs" by simp
  have "map (\<lambda>(v, t). f v t) (zip xs ts) ! i = map Ret ys ! i" using m by simp
  with i len \<open>i < length xs\<close> have "f (xs ! i) t = Ret y" by simp
  then show "\<exists>v. f v t = Ret y" by blast
qed

lemma json_value_typed:
  assumes "json_ext_ok x" and "chrono_fields_ok c"
    and "json_to_column_value x c now val ty session = Ret cv"
  shows "value_of_type ty cv"
  using assms(3)
proof (induction ty arbitrary: val cv)
  case (TyOption t)
  show ?case
  proof (cases "val = JNull")
    case False
    with TyOption.prems have "json_to_column_value x c now val t session = Ret cv"
      by (simp add: json_to_column_value.simps [where ty = "TyOption t"])
    then show ?thesis using TyOption.IH by (simp add: value_of_type.simps [of "TyOption t"])
  qed (use TyOption.prems in auto)
next
  case (TyArray t)
  note [simp] = json_to_column_value.simps [where ty = "TyArray t"]
    value_of_type.simps [of "TyArray t"]
  from TyArray show ?case
    by (cases val) (fastforce simp: bind_run_Ret_iff dest!: run_map_elems)+
next
  case (TyMap kt vt)
  note [simp] = json_to_column_value.simps [where ty = "TyMap kt vt"]
    value_of_type.simps [of "TyMap kt vt"]
  from TyMap show ?case
    by (cases val) (fastforce simp: bind_run_Ret_iff dest!: run_map_elems)+
next
  case (TyRow fs)
  note [simp] = json_to_column_value.simps [where ty = "TyRow fs"]
    value_of_type.simps [of "TyRow fs"]
  have "f \<in> set fs \<Longrightarrow> json_to_column_value x c now v (snd f) session = Ret u \<Longrightarrow>
      value_of_type (snd f) u" for f v u
    using TyRow.IH by (cases f) auto
  with TyRow.prems show ?case
    by (cases val) (fastforce simp: bind_run_Ret_iff dest: run_map_zip set_zip_rightD)+
next
  case (TyTuple ts)
  note [simp] = json_to_column_value.simps [where ty = "TyTuple ts"]
    value_of_type.simps [of "TyTuple ts"]
  from TyTuple show ?case
    by (cases val) (fastforce simp: bind_run_Ret_iff dest: run_map_zip set_zip_rightD)+
qed (erule json_leaf_value_typed [OF _ _ assms(1,2)], simp add: is_leaf_def)+

section \<open>Panics\<close>

text \<open>Whether the conversion under a type reaches the calendar arithmetic.\<close>

function reaches_calendar :: "trino_ty \<Rightarrow> bool" where
  "reaches_calendar ty =
     (case ty of
        TyTimestampWithTimeZone \<Rightarrow> True
      | TyOption t \<Rightarrow> reaches_calendar t
      | TyArray t \<Rightarrow> reaches_calendar t
      | TyMap kt vt \<Rightarrow> reaches_calendar kt \<or> reaches_calendar vt
      | TyRow fs \<Rightarrow> list_ex (\<lambda>f. reaches_calendar (snd f)) fs
      | TyTuple ts \<Rightarrow> list_ex reaches_calendar ts
      | _ \<Rightarrow> False)"
  by pat_completeness auto
termination
  by (relation "measure size") (auto intro: size_row_field size_tuple_field)

declare reaches_calendar.simps [simp del]

lemma of_wire_string_total: "\<exists>cv. of_wire_string x (\<lambda>s. Ret (p s)) val = Ret cv"
  by (cases val) (simp_all add: of_wire_string_def)

lemma run_map_total:
  assumes "\<And>z. z \<in> set xs \<Longrightarrow> \<exists>y. f z = Ret y"
  shows "\<exists>ys. run_seq (map f xs) = Ret ys"
  by (rule run_seq_no_panic) (use assms in fastforce)

lemma json_leaf_total:
  assumes "is_leaf ty" and "ty \<noteq> TyTimestampWithTimeZone"
  shows "\<exists>cv. json_to_column_value x c now val ty session = Ret cv"
proof (cases ty)
  case (TyInt w)
  then show ?thesis by (cases w) (simp_all add: json_to_column_value.simps)
next
  case (TyFloat w)
  then show ?thesis by (cases w) (simp_all add: json_to_column_value.simps)
qed (use assms of_wire_string_total in \<open>auto simp: json_to_column_value.simps is_leaf_def\<close>)

lemma json_total:
  assumes "\<not> reaches_calendar ty"
  shows "\<exists>cv. json_to_column_value x c now val ty session = Ret cv"
  using assms
proof (induction ty arbitrary: val)
  case (TyOption t)
  then show ?case
    by (simp add: json_to_column_value.simps [where ty = "TyOption t"]
        reaches_calendar.simps [of "TyOption t"])
next
  case (TyArray t)
  then have "\<exists>ys. run_seq (map (\<lambda>v. json_to_column_value x c now v t session) vs) = Ret ys" for vs
    by (intro run_map_total) (simp add: reaches_calendar.simps [of "TyArray t"])
  then show ?case
    by (cases val) (fastforce simp: json_to_column_value.simps [where ty = "TyArray t"]
        bind_run_Ret_iff)+
next
  case (TyMap kt vt)
  let ?f = "\<lambda>(k, v). bind_run (json_to_column_value x c now (JStr k) kt session) (\<lambda>key_col.
     bind_run (json_to_column_value x c now v vt session) (\<lambda>val_col. Ret (key_col, val_col)))"
  have "\<exists>ys. run_seq (map ?f m) = Ret ys" for m
  proof (rule run_map_total)
    fix z
    show "\<exists>y. ?f z = Ret y"
      using TyMap.IH(1) [of "JStr (fst z)"] TyMap.IH(2) [of "snd z"] TyMap.prems
      by (cases z) (auto simp: reaches_calendar.simps [of "TyMap kt vt"])
  qed
  then show ?case
    by (cases val) (fastforce simp: json_to_column_value.simps [where ty = "TyMap kt vt"]
        bind_run_Ret_iff)+
next
  case (TyRow fs)
  let ?f = "\<lambda>(v, f). json_to_column_value x c now v (snd f) session"
  have "\<exists>ys. run_seq (map ?f (zip vs fs)) = Ret ys" for vs
  proof (rule run_map_total)
    fix z
    assume "z \<in> set (zip vs fs)"
    then obtain v n t where z: "z = (v, n, t)" "(n, t) \<in> set fs"
      by (metis prod_cases3 set_zip_rightD)
    with TyRow.prems have "\<not> reaches_calendar t"
      by (auto simp: reaches_calendar.simps [of "TyRow fs"] list_ex_iff)
    with z TyRow.IH show "\<exists>y. ?f z = Ret y" by fastforce
  qed
  then show ?case
    by (cases val) (fastforce simp: json_to_column_value.simps [where ty = "TyRow fs"]
        bind_run_Ret_iff)+
next
  case (TyTuple ts)
  let ?f = "\<lambda>(v, t). json_to_column_value x c now v t session"
  have "\<exists>ys. run_seq (map ?f (zip vs ts)) = Ret ys" for vs
  proof (rule run_map_total)
    fix z
    assume "z \<in> set (zip vs ts)"
    then obtain v t where z: "z = (v, t)" "t \<in> set ts"
      by (metis surj_pair set_zip_rightD)
    with TyTuple.prems have "\<not> reaches_calendar t"
      by (auto simp: reaches_calendar.simps [of "TyTuple ts"] list_ex_iff)
    with z TyTuple.IH show "\<exists>y. ?f z = Ret y" by fastforce
  qed
  then show ?case
    by (cases val) (fastforce simp: json_to_column_value.simps [where ty = "TyTuple ts"]
        bind_run_Ret_iff)+
next
  case TyTimestampWithTimeZone
  then show ?case by (simp add: reaches_calendar.simps)
qed (rule json_leaf_total, simp add: is_leaf_def, simp)+

section \<open>Properties\<close>

lemma demo_ok: "json_ext_ok demo_json" "chrono_fields_ok demo_chrono"
  by (auto simp: json_ext_ok_def chrono_fields_ok_def demo_json_def demo_chrono_def fits_Some)

text \<open>
  C27: whatever JSON value arrives, the conversion delivers a value of the column's type: null, the
  type's own constructor with every integer, date and time field in the range of its machine type
  (a \<open>TIME WITH TIME ZONE\<close> on the 24-hour clock), or the text where the type allows text;
  containers hold only values of their element types, and a decimal or JSON column never degrades
  to a plain string.
\<close>

theorem json_to_column_value_typed:
  assumes "json_ext_ok x" and "chrono_fields_ok c"
    and "json_to_column_value x c now val ty session = Ret cv"
  shows "value_of_type ty cv"
  using assms by (rule json_value_typed)

theorem json_to_column_value_typed_witness:
  "value_of_type (TyArray (TyInt TI8)) (CArray [CI8 7, CString ''?''] :: (int, int) column_value)"
proof -
  have "json_to_column_value demo_json demo_chrono 0 (JArr [JNum 7, JNum 300])
      (TyArray (TyInt TI8)) (Named ()) = Ret (CArray [CI8 7, CString ''?''])"
    by (simp add: json_to_column_value.simps narrow_int_def as_i64_def json_as_text_def
        demo_json_def fits_def)
  from json_to_column_value_typed [OF demo_ok this] show ?thesis .
qed



end
