(* ===== verification/Conversion_Times.thy ===== *)
theory Conversion_Times
  imports Conversion_Types
begin

text \<open>
  Dates, times, zones and fractions of a second: what the parsers read and what is lost.
\<close>

section \<open>Fractional seconds\<close>

lemma digit_bytes: "is_digit c \<Longrightarrow> char_bytes c = 1"
  by (auto simp: is_digit_def char_bytes_def)

lemma byte_prefix_digits:
  "list_all is_digit s \<Longrightarrow> n \<le> length s \<Longrightarrow> byte_prefix n s = Some (take n s)"
proof (induction n s rule: byte_prefix.induct)
  case (2 n c cs)
  then show ?case by (cases n) (auto simp: digit_bytes)
qed simp

lemma parse_fraction_nanos_digits:
  assumes "list_all is_digit f"
  shows "parse_fraction_nanos f =
    (if length f \<le> 9 then int (digits_val f) * 10 ^ (9 - length f) else int (digits_val (take 9 f)))"
proof -
  let ?z = "replicate (9 - length f) CHR ''0''"
  let ?p = "take 9 (f @ ?z)"
  have d: "list_all is_digit (f @ ?z)" using assms by (auto simp: list_all_iff str_simps)
  have dp: "list_all is_digit ?p" using d by (auto simp: list_all_iff dest: in_set_takeD)
  have bp: "byte_prefix 9 (f @ ?z) = Some ?p"
    by (rule byte_prefix_digits [OF d]) simp
  have len: "length ?p = 9" by simp
  then have ne: "?p \<noteq> []" by (metis list.size(3) zero_neq_numeral)
  have "digits_val ?p < 10 ^ 9" using digits_val_less [OF dp] len by simp
  then have "parse_u32 ?p = Some (int (digits_val ?p))"
    using parse_int_digits [OF dp ne] by (simp add: fits_def)
  with bp have "parse_fraction_nanos f = int (digits_val ?p)"
    by (simp add: parse_fraction_nanos_def Let_def)
  then show ?thesis by (simp add: digits_val_append)
qed

lemma digits_val_zero_iff:
  "list_all is_digit s \<Longrightarrow> digits_val s = 0 \<longleftrightarrow> list_all (\<lambda>c. c = CHR ''0'') s"
proof (induction s rule: rev_induct)
  case (snoc c s)
  have "is_digit c \<Longrightarrow> digit_val c = 0 \<longleftrightarrow> c = CHR ''0''"
    using digit_char_val [of c] digit_char_eval(1) by (auto simp: digit_val_def)
  with snoc show ?case by (auto simp: digits_val_append digits_val_def)
qed (simp add: digits_val_def)

lemma fraction_exceeds_digits:
  assumes "CHR ''.'' \<notin> set pre" and "list_all is_digit f" and "rest = [] \<or> \<not> is_digit (hd rest)"
  shows "fraction_exceeds_nanoseconds (pre @ CHR ''.'' # f @ rest) \<longleftrightarrow>
    \<not> list_all (\<lambda>c. c = CHR ''0'') (drop 9 f)"
proof -
  have "takeWhile is_digit (f @ rest) = f"
    using assms(2,3) by (cases rest) (auto simp: list_all_iff takeWhile_append2 takeWhile_eq_all_conv)
  then show ?thesis
    using assms(1) by (simp add: fraction_exceeds_nanoseconds_def list_ex_iff list_all_iff)
qed

lemma fraction_loss:
  assumes "CHR ''.'' \<notin> set pre" and "list_all is_digit f" and "rest = [] \<or> \<not> is_digit (hd rest)"
  shows "fraction_exceeds_nanoseconds (pre @ CHR ''.'' # f @ rest) \<longleftrightarrow>
    parse_fraction_nanos f * 10 ^ length f \<noteq> int (digits_val f) * 10 ^ 9"
proof (cases "length f \<le> 9")
  case True
  then have "(10 :: int) ^ (9 - length f) * 10 ^ length f = 10 ^ 9"
    by (simp flip: power_add)
  with True show ?thesis
    using fraction_exceeds_digits [OF assms] parse_fraction_nanos_digits [OF assms(2)]
    by (simp add: mult.assoc)
next
  case False
  define a b where "a = take 9 f" and "b = drop 9 f"
  have f: "f = a @ b" "length a = 9" using False by (simp_all add: a_def b_def)
  have "list_all is_digit b" using assms(2) f(1) by simp
  then have z: "digits_val b = 0 \<longleftrightarrow> list_all (\<lambda>c. c = CHR ''0'') b" by (rule digits_val_zero_iff)
  have "parse_fraction_nanos f = int (digits_val a)"
    using False parse_fraction_nanos_digits [OF assms(2)] by (simp add: a_def)
  moreover have "int (digits_val f) = int (digits_val a) * 10 ^ length b + int (digits_val b)"
    using f(1) by (simp add: digits_val_append)
  moreover have "(10 :: int) ^ length f = 10 ^ length b * 10 ^ 9"
    using f by (simp add: power_add)
  ultimately have "parse_fraction_nanos f * 10 ^ length f = int (digits_val f) * 10 ^ 9
      \<longleftrightarrow> digits_val b = 0"
    by (simp add: algebra_simps)
  then show ?thesis using fraction_exceeds_digits [OF assms] z by (simp add: b_def)
qed

section \<open>Times of day\<close>

text \<open>
  A time of day shifted by an offset names the same instant: in minutes past midnight the result
  differs from the text's time by the offset, modulo one day.
\<close>

lemma shift_time_fields:
  assumes "h < 24" and "m < 60"
    and "parse_seconds parse_i32 sp = Some (sec, f)" and "0 \<le> sec" and "sec \<le> u16_max"
    and "\<bar>off\<bar> \<le> 1000000" and "sp \<noteq> []" and "\<not> is_ws (last sp)"
  shows "shift_time (zpad 2 h @ CHR '':'' # zpad 2 m @ CHR '':'' # sp) off =
    Some (CTime ((int h * 60 + int m - off) mod 1440 div 60)
                ((int h * 60 + int m - off) mod 1440 mod 60) sec f)"
proof -
  let ?t = "zpad 2 h @ CHR '':'' # zpad 2 m @ CHR '':'' # sp"
  have hd: "hd ?t = hd (zpad 2 h)" using zpad_props(2) [of 2 h] by simp
  have "is_digit (hd (zpad 2 h))"
    using zpad_props(1) [of 2 h] zpad_props(2) [of 2 h] by (auto simp: list_all_iff)
  then have t: "trim ?t = ?t"
    using assms(7,8) hd by (intro trim_no_ws) (auto dest: digit_not_ws)
  define n where "n = int h * 60 + int m - off"
  have r: "0 \<le> n mod 1440" "n mod 1440 < 1440" by simp_all
  then have q: "0 \<le> n mod 1440 div 60" "n mod 1440 div 60 \<le> u16_max" by linarith+
  have "n mod 1440 mod 60 < 60" by simp
  then have p: "n mod 1440 mod 60 \<le> u16_max" by linarith
  have i: "- i32_max - 1 \<le> n" "n \<le> i32_max" using assms(1,2,6) by (simp_all add: n_def)
  show ?thesis
    using assms q p i unfolding n_def
    by (simp add: shift_time_def t parse_int_zpad fits_def Let_def)
qed

lemma span_append:
  assumes "\<forall>c \<in> set a. P c" and "\<not> P s"
  shows "takeWhile P (a @ s # b) = a" and "dropWhile P (a @ s # b) = s # b"
  using assms by (induction a) auto

lemma rsplit_sign_append:
  assumes "s = CHR ''+'' \<or> s = CHR ''-''" and "CHR ''+'' \<notin> set b" and "CHR ''-'' \<notin> set b"
  shows "rsplit_sign (a @ s # b) = Some (a, s # b)"
proof -
  let ?P = "Not \<circ> (\<lambda>c. c = CHR ''+'' \<or> c = CHR ''-'')"
  have all: "\<forall>c \<in> set (rev b). ?P c"
  proof
    fix c assume "c \<in> set (rev b)"
    then have "c \<in> set b" by simp
    with assms(2,3) have "c \<noteq> CHR ''+''" "c \<noteq> CHR ''-''" by blast+
    then show "?P c" by simp
  qed
  have "\<not> ?P s" using assms(1) by auto
  with all have "takeWhile ?P (rev b @ s # rev a) = rev b"
    and "dropWhile ?P (rev b @ s # rev a) = s # rev a"
    by (blast intro: span_append)+
  then show ?thesis by (simp add: rsplit_sign_def Let_def)
qed

definition clock_text :: "nat \<Rightarrow> nat \<Rightarrow> string \<Rightarrow> string" where
  "clock_text h m sp = zpad 2 h @ CHR '':'' # zpad 2 m @ CHR '':'' # sp"

definition offset_text :: "bool \<Rightarrow> nat \<Rightarrow> nat \<Rightarrow> string" where
  "offset_text neg h m = (if neg then CHR ''-'' else CHR ''+'') # zpad 2 h @ CHR '':'' # zpad 2 m"

lemma trim_digit_ends:
  assumes "s \<noteq> []" and "is_digit (hd s)" and "is_digit (last s)"
  shows "trim s = s"
  using assms by (intro trim_no_ws) (auto dest: digit_not_ws)

lemma zpad_ends: "is_digit (hd (zpad w n))" "is_digit (last (zpad w n))"
  using zpad_props(1) [of w n] zpad_props(2) [of w n] by (auto simp: list_all_iff)

lemma time_with_offset:
  assumes "h < 24" and "m < 60" and "parse_seconds parse_i32 sp = Some (sec, f)"
    and "0 \<le> sec" and "sec \<le> u16_max" and "sp \<noteq> []" and "\<not> is_ws (last sp)"
    and "CHR '' '' \<notin> set sp" and "oh < 100" and "om < 100" and "\<bar>session\<bar> \<le> 1440"
  shows "parse_trino_time_with_tz (clock_text h m sp @ offset_text neg oh om) session =
    (let off = (if neg then - 1 else 1) * (int oh * 60 + int om);
         n = (int h * 60 + int m - (off - session)) mod 1440
     in Some (CTime (n div 60) (n mod 60) sec f :: ('d, 's) column_value))"
proof -
  let ?sg = "if neg then CHR ''-'' else CHR ''+''"
  let ?o = "zpad 2 oh @ CHR '':'' # zpad 2 om"
  let ?t = "clock_text h m sp @ offset_text neg oh om"
  have hd: "hd ?t = hd (zpad 2 h)" and last: "last ?t = last (zpad 2 om)"
    using zpad_props(2) by (simp_all add: clock_text_def offset_text_def)
  then have t: "trim ?t = ?t"
    using zpad_ends by (intro trim_digit_ends) (simp_all add: clock_text_def)
  have "CHR '' '' \<notin> set ?t" using assms(8) by (simp add: clock_text_def offset_text_def)
  then have sp: "rsplit_once CHR '' '' ?t = None" by (simp add: rsplit_once_None)
  have sg: "rsplit_sign ?t = Some (clock_text h m sp, ?sg # ?o)"
    unfolding offset_text_def by (rule rsplit_sign_append) auto
  define off where "off = (if neg then - 1 else 1) * (int oh * 60 + int om)"
  have b: "\<bar>off\<bar> \<le> 6100" using assms(9,10) by (auto simp: off_def)
  have "(shift_time (clock_text h m sp) (off - session) :: ('d, 's) column_value option) =
      Some (CTime ((int h * 60 + int m - (off - session)) mod 1440 div 60)
        ((int h * 60 + int m - (off - session)) mod 1440 mod 60) sec f)"
    unfolding clock_text_def using assms b by (intro shift_time_fields) auto
  moreover have "(parse_trino_time_with_tz ?t session :: ('d, 's) column_value option) =
      shift_time (clock_text h m sp) (off - session)"
  proof -
    have "- i32_max - 1 \<le> off - session" "off - session \<le> i32_max" using b assms(11) by simp_all
    then show ?thesis
      using assms(9,10)
      unfolding parse_trino_time_with_tz_def Let_def t sp sg option.case
      by (cases neg) (simp_all add: starts_with_def parse_int_zpad fits_def off_def)
  qed
  ultimately show ?thesis by (simp only: off_def Let_def)
qed

section \<open>Zones and offsets\<close>

lemma zpad_byte_length: "n < 10 ^ w \<Longrightarrow> 0 < w \<Longrightarrow> byte_length (zpad w n) = w"
proof -
  assume "n < 10 ^ w" "0 < w"
  moreover have "list_all is_digit s \<Longrightarrow> byte_length s = length s" for s
    by (induction s) (simp_all add: byte_length_def digit_bytes)
  ultimately show ?thesis using zpad_props(1) [of w n] by (simp add: zpad_length)
qed

lemma session_zone_offset:
  assumes "h < 100" and "m < 100"
  shows "session_zone_parse c (offset_text neg h m) =
    (if h \<le> 18 \<and> m \<le> 59
     then map_option Fixed (east_opt c ((if neg then - 1 else 1) * (int h * 3600 + int m * 60)))
     else None)"
proof -
  have "last (offset_text neg h m) = last (zpad 2 m)"
    using zpad_props(2) by (simp add: offset_text_def)
  then have "trim (offset_text neg h m) = offset_text neg h m"
    using digit_not_ws [OF zpad_ends(2), of 2 m]
    by (intro trim_no_ws) (auto simp: offset_text_def str_simps)
  then show ?thesis
    using assms
    by (simp add: session_zone_parse_def offset_text_def zpad_byte_length parse_int_zpad fits_def
        Let_def)
qed

lemma numeric_offset:
  assumes "h < 100" and "m < 100"
  shows "parse_numeric_offset c sg (zpad 2 h @ CHR '':'' # zpad 2 m) =
    try_seconds c (wrap_i64 (sg * (int h * 3600 + int m * 60)))"
  using assms
  by (simp add: parse_numeric_offset_def parse_int_zpad fits_def wrap_i64_def Let_def)

lemma timestamp_tz_offset:
  assumes "(parse_trino_timestamp d :: ('d, 's) column_value option) =
             Some (CTimestamp y mo dd h mi sec f)"
    and "mk_datetime c y mo dd h mi sec f = Some ndt" and "oh < 100" and "om < 100"
    and "try_seconds c ((if neg then - 1 else 1) * (int oh * 3600 + int om * 60)) = Some secs"
    and "datetime_fields c (wall_time c session utc) = (y', mo', d', h', mi', sec')"
    and "sub_seconds c ndt secs = Some utc" and "is_i16 y'"
  shows "parse_trino_timestamp_tz c (d @ CHR '' '' # offset_text neg oh om) session =
    Ret (Some (CTimestamp y' mo' d' h' mi' sec' f :: ('d, 's) column_value))"
proof -
  have "last (offset_text neg oh om) = last (zpad 2 om)"
    using zpad_props(2) by (simp add: offset_text_def)
  then have t: "trim (offset_text neg oh om) = offset_text neg oh om"
    using digit_not_ws [OF zpad_ends(2), of 2 om]
    by (intro trim_no_ws) (auto simp: offset_text_def str_simps)
  have r: "rsplit_once CHR '' '' (d @ CHR '' '' # offset_text neg oh om) = Some (d, offset_text neg oh om)"
    by (simp add: rsplit_once_Some offset_text_def)
  have w: "wrap_i64 ((if neg then - 1 else 1) * (int oh * 3600 + int om * 60)) =
      (if neg then - 1 else 1) * (int oh * 3600 + int om * 60)"
    using assms(3,4) by (simp add: wrap_i64_def)
  have "timestamp_instant c ndt (offset_text neg oh om) = Ret (Some utc)"
    using assms(3-5,7) numeric_offset [OF assms(3,4), of c] w
    by (cases neg) (simp_all add: timestamp_instant_def apply_numeric_offset_def offset_text_def)
  then show ?thesis
    using assms by (simp add: parse_trino_timestamp_tz_def r t fits_def)
qed

section \<open>Reading rendered dates and times\<close>

definition date_text :: "nat \<Rightarrow> nat \<Rightarrow> nat \<Rightarrow> string" where
  "date_text y m d = zpad 4 y @ CHR ''-'' # zpad 2 m @ CHR ''-'' # zpad 2 d"

lemma zpad_Cons: obtains c cs where "zpad w n = c # cs" and "is_digit c" and "list_all is_digit cs"
proof -
  obtain c cs where "zpad w n = c # cs" using zpad_props(2) by (cases "zpad w n") auto
  with zpad_props(1) [of w n] show ?thesis using that by simp
qed

lemma strip_prefix_zpad [simp]: "\<not> is_digit p \<Longrightarrow> strip_prefix [p] (zpad w n @ r) = None"
  by (rule zpad_Cons [of w n]) auto

lemma parse_ymd_text:
  assumes "int y \<le> i16_max" and "int m \<le> u16_max" and "int d \<le> u16_max"
  shows "parse_ymd (date_text y m d) = Some (int y, int m, int d)"
    and "parse_ymd (CHR ''-'' # date_text y m d) = Some (- int y, int m, int d)"
  using assms by (simp_all add: parse_ymd_def date_text_def parse_int_zpad fits_def Let_def)

lemma first_word_no_ws: "list_all (Not \<circ> is_ws) s \<Longrightarrow> s \<noteq> [] \<Longrightarrow> first_word s = Some s"
proof -
  assume a: "list_all (Not \<circ> is_ws) s" "s \<noteq> []"
  then obtain c cs where s: "s = c # cs" by (cases s) auto
  with a have "dropWhile is_ws s = s" by simp
  moreover have "takeWhile (Not \<circ> is_ws) s = s" using a by (simp add: list_all_iff takeWhile_eq_all_conv)
  ultimately show ?thesis using s by (simp add: first_word_def)
qed

lemma digits_no_ws: "list_all is_digit s \<Longrightarrow> list_all (Not \<circ> is_ws) s"
  using digit_not_ws by (auto simp: list_all_iff)

lemma first_word_clock [simp]:
  "list_all (Not \<circ> is_ws) sp \<Longrightarrow> first_word (clock_text h m sp) = Some (clock_text h m sp)"
  using digits_no_ws [OF zpad_props(1)]
  by (intro first_word_no_ws) (simp_all add: clock_text_def str_simps)

lemma parse_timestamp_text:
  assumes "parse_ymd ds = Some (y, mo, d)" and "CHR '' '' \<notin> set ds"
    and "int h \<le> u16_max" and "int mi \<le> u16_max" and "list_all (Not \<circ> is_ws) sp"
    and "parse_seconds parse_u16 sp = Some (sec, f)"
  shows "parse_trino_timestamp (ds @ CHR '' '' # clock_text h mi sp) =
    Some (CTimestamp y mo d (int h) (int mi) sec f)"
proof -
  have "split3 CHR '':'' (clock_text h mi sp) = Some (zpad 2 h, zpad 2 mi, sp)"
    by (simp add: clock_text_def)
  then show ?thesis
    using assms by (simp add: parse_trino_timestamp_def parse_int_zpad fits_def)
qed

lemma parse_time_text:
  assumes "int h \<le> u16_max" and "int mi \<le> u16_max" and "list_all (Not \<circ> is_ws) sp"
    and "parse_seconds parse_u16 sp = Some (sec, f)"
  shows "parse_trino_time (clock_text h mi sp) = Some (CTime (int h) (int mi) sec f)"
proof -
  have "split3 CHR '':'' (clock_text h mi sp) = Some (zpad 2 h, zpad 2 mi, sp)"
    by (simp add: clock_text_def)
  then show ?thesis
    using assms by (simp add: parse_trino_time_def parse_int_zpad fits_def)
qed

text \<open>Seconds with nine fractional digits, as the driver renders them.\<close>

definition seconds_text :: "nat \<Rightarrow> nat \<Rightarrow> string" where
  "seconds_text s f = zpad 2 s @ CHR ''.'' # zpad 9 f"

lemma parse_seconds_text:
  assumes "int s \<le> u16_max" and "f \<le> 999999999"
  shows "parse_seconds parse_u16 (seconds_text s f) = Some (int s, int f)"
    and "list_all (Not \<circ> is_ws) (seconds_text s f)"
proof -
  have "length (zpad 9 f) = 9" using assms(2) by (simp add: zpad_length)
  then have "parse_fraction_nanos (zpad 9 f) = int f"
    by (simp add: parse_fraction_nanos_digits zpad_props)
  then show "parse_seconds parse_u16 (seconds_text s f) = Some (int s, int f)"
    using assms(1) by (simp add: parse_seconds_def seconds_text_def parse_int_zpad fits_def)
  show "list_all (Not \<circ> is_ws) (seconds_text s f)"
    using digits_no_ws [OF zpad_props(1)] by (simp add: seconds_text_def str_simps)
qed

section \<open>Properties\<close>

text \<open>
  A \<open>TIMESTAMP WITH TIME ZONE\<close> with a numeric offset is delivered as the wall time in the
  session zone of the instant the offset fixes: the local time less the signed offset. Its
  fraction is that of the text.
\<close>

theorem timestamp_tz_numeric_offset:
  assumes "(parse_trino_timestamp d :: ('d, 's) column_value option) =
             Some (CTimestamp y mo dd h mi sec f)"
    and "mk_datetime c y mo dd h mi sec f = Some ndt" and "oh < 100" and "om < 100"
    and "try_seconds c ((if neg then - 1 else 1) * (int oh * 3600 + int om * 60)) = Some secs"
    and "datetime_fields c (wall_time c session utc) = (y', mo', d', h', mi', sec')"
    and "sub_seconds c ndt secs = Some utc" and "is_i16 y'"
  shows "parse_trino_timestamp_tz c (d @ CHR '' '' # offset_text neg oh om) session =
    Ret (Some (CTimestamp y' mo' d' h' mi' sec' f :: ('d, 's) column_value))"
  using assms by (rule timestamp_tz_offset)

theorem timestamp_tz_numeric_offset_witness:
  "parse_trino_timestamp_tz demo_chrono
     ((date_text 2000 1 1 @ CHR '' '' # clock_text 12 30 (seconds_text 0 500000000)) @
       CHR '' '' # offset_text False 2 0) (Fixed (- 3600)) =
   Ret (Some (CTimestamp 2000 1 1 9 30 0 500000000 :: (int, int) column_value))"
proof -
  have "(parse_trino_timestamp (date_text 2000 1 1 @ CHR '' '' #
      clock_text 12 30 (seconds_text 0 500000000)) :: (int, int) column_value option) =
      Some (CTimestamp 2000 1 1 12 30 0 500000000)"
    using parse_timestamp_text [OF parse_ymd_text(1), of 2000 1 1 12 30 "seconds_text 0 500000000"
        0 500000000] parse_seconds_text [of 0 500000000]
    by (simp add: date_text_def)
  from timestamp_tz_numeric_offset [OF this, of demo_chrono 45000 2 0 False 7200 "Fixed (- 3600)"
      37800]
  show ?thesis by (simp add: demo_chrono_def wall_time_def fits_def)
qed

text \<open>
  The numeric offset of a \<open>TIMESTAMP WITH TIME ZONE\<close> is not bounded before it is subtracted:
  for an offset whose hours fit 64 bits but whose subtraction leaves the calendar, the conversion
  panics instead of keeping the text as it does for every other unreadable value.
\<close>

theorem timestamp_tz_offset_panics:
  assumes "(parse_trino_timestamp d :: ('d, 's) column_value option) =
             Some (CTimestamp y mo dd h mi sec f)"
    and "mk_datetime c y mo dd h mi sec f = Some ndt"
    and "parse_numeric_offset c 1 (show_nat hours) = Some secs" and "sub_seconds c ndt secs = None"
  shows "json_to_column_value x c now (JStr (d @ CHR '' '' # CHR ''+'' # show_nat hours))
    TyTimestampWithTimeZone session = (Panic :: ('d, 's) column_value run)"
proof -
  have t: "trim (CHR ''+'' # show_nat hours) = CHR ''+'' # show_nat hours"
    using show_nat_props(1,2) [of hours]
    by (intro trim_no_ws) (auto simp: str_simps list_all_iff dest!: digit_not_ws)
  have "rsplit_once CHR '' '' (d @ CHR '' '' # CHR ''+'' # show_nat hours) =
      Some (d, CHR ''+'' # show_nat hours)"
    by (simp add: rsplit_once_Some)
  then have "parse_trino_timestamp_tz c (d @ CHR '' '' # CHR ''+'' # show_nat hours) session =
      (Panic :: ('d, 's) column_value option run)"
    using assms t by (simp add: parse_trino_timestamp_tz_def timestamp_instant_def
        apply_numeric_offset_def)
  then show ?thesis
    by (simp add: json_to_column_value.simps of_wire_string_def)
qed

theorem timestamp_tz_offset_panics_witness:
  "json_to_column_value demo_json demo_chrono 0
     (JStr ((date_text 2000 1 1 @ CHR '' '' # clock_text 12 30 (seconds_text 0 0)) @
        CHR '' '' # CHR ''+'' # show_nat 99999999999)) TyTimestampWithTimeZone (Named ()) = Panic"
proof -
  have "(parse_trino_timestamp (date_text 2000 1 1 @ CHR '' '' #
      clock_text 12 30 (seconds_text 0 0)) :: (int, int) column_value option) =
      Some (CTimestamp 2000 1 1 12 30 0 0)"
    using parse_timestamp_text [OF parse_ymd_text(1), of 2000 1 1 12 30 "seconds_text 0 0" 0 0]
      parse_seconds_text [of 0 0]
    by (simp add: date_text_def)
  from timestamp_tz_offset_panics [OF this, of demo_chrono 45000 99999999999 359999999996400]
  show ?thesis
    by (simp add: demo_chrono_def parse_numeric_offset_def parse_int_show_nat fits_def wrap_i64_def)
qed

text \<open>
  The warning for lost fractional digits is exact: for a temporal text whose fraction is a run
  of digits, whatever precedes its point and whatever follows it, the driver reports lost digits
  if and only if the nanoseconds it keeps differ from the fraction the text wrote.
\<close>

theorem fraction_loss_reported:
  assumes "CHR ''.'' \<notin> set pre" and "list_all is_digit f" and "rest = [] \<or> \<not> is_digit (hd rest)"
  shows "discards_fractional_seconds (JStr (pre @ CHR ''.'' # f @ rest)) TyTimestampWithTimeZone \<longleftrightarrow>
    parse_fraction_nanos f * 10 ^ length f \<noteq> int (digits_val f) * 10 ^ 9"
  using fraction_loss [OF assms] by (simp add: discards_fractional_seconds.simps)

theorem fraction_loss_reported_witness:
  "discards_fractional_seconds
     (JStr (''2000-01-01 10:00:00'' @ CHR ''.'' # ''123456789012'' @ '' +02:00''))
     TyTimestampWithTimeZone"
proof -
  have f: "list_all is_digit ''123456789012''" by (simp add: str_simps)
  have "parse_fraction_nanos ''123456789012'' = 123456789"
    and "digits_val ''123456789012'' = 123456789012"
    using parse_fraction_nanos_digits [OF f]
    by (simp_all add: digits_val_def digit_val_def)
  with fraction_loss_reported [OF _ f, of "''2000-01-01 10:00:00''" "'' +02:00''"]
  show ?thesis by (simp add: str_simps)
qed

text \<open>
  A \<open>TIME WITH TIME ZONE\<close> with a numeric offset is delivered as the time of day of the same
  instant in the session zone, wrapped into one day: in minutes past midnight, the text's time
  less its offset plus the session's. Seconds and fraction are unchanged.
\<close>

theorem time_tz_delivered:
  assumes "h < 24" and "m < 60" and "s \<le> 60" and "f \<le> 999999999"
    and "oh < 100" and "om < 100" and "\<bar>session\<bar> \<le> 1440"
  shows "parse_trino_time_with_tz (clock_text h m (seconds_text s f) @ offset_text neg oh om) session =
    (let off = (if neg then - 1 else 1) * (int oh * 60 + int om);
         n = (int h * 60 + int m - (off - session)) mod 1440
     in Some (CTime (n div 60) (n mod 60) (int s) (int f) :: ('d, 's) column_value))"
proof -
  have "length (zpad 9 f) = 9" using assms(4) by (simp add: zpad_length)
  then have "parse_fraction_nanos (zpad 9 f) = int f"
    by (simp add: parse_fraction_nanos_digits zpad_props)
  then have p: "parse_seconds parse_i32 (seconds_text s f) = Some (int s, int f)"
    using assms(3) by (simp add: parse_seconds_def seconds_text_def parse_int_zpad fits_def)
  have l: "last (seconds_text s f) = last (zpad 9 f)"
    using zpad_props(2) by (simp add: seconds_text_def)
  have "CHR '' '' \<notin> set (seconds_text s f)" by (simp add: seconds_text_def)
  then show ?thesis
    using assms(3) digit_not_ws [OF zpad_ends(2), of 9 f]
    by (intro time_with_offset [OF assms(1,2) p _ _ _ _ _ assms(5-7)])
       (simp_all add: l, simp add: seconds_text_def)
qed

theorem time_tz_delivered_witness:
  "parse_trino_time_with_tz (clock_text 1 0 (seconds_text 30 5) @ offset_text False 2 0) 0 =
     Some (CTime 23 0 30 5 :: (int, int) column_value)"
  using time_tz_delivered [of 1 0 30 5 2 0 0 False, where ?'d = int and ?'s = int] by (simp add: Let_def)

text \<open>
  A session zone given as a signed offset of two-digit hours and minutes is accepted exactly
  up to 18 hours and 59 minutes, and stands for that many seconds east of UTC.
\<close>

theorem session_zone_of_offset:
  assumes "h < 100" and "m < 100"
  shows "session_zone_parse c (offset_text neg h m) =
    (if h \<le> 18 \<and> m \<le> 59
     then map_option Fixed (east_opt c ((if neg then - 1 else 1) * (int h * 3600 + int m * 60)))
     else None)"
  using assms by (rule session_zone_offset)

theorem session_zone_of_offset_witness:
  "session_zone_parse demo_chrono (offset_text True 5 30) = Some (Fixed (- 19800)) \<and>
   session_zone_parse demo_chrono (offset_text False 19 0) = None"
  using session_zone_of_offset [of 5 30 demo_chrono True]
    session_zone_of_offset [of 19 0 demo_chrono False]
  by (simp add: demo_chrono_def fits_def)

end
