(* ===== verification/Sql_Quoting.thy ===== *)
theory Sql_Quoting
  imports Trino_Prelude
begin

text \<open>
  Quoted tokens of SQL. The driver quotes text in three places: bound parameters
  (\<open>src/src/backend/params.rs\<close>), and the string literals and delimited identifiers of the
  metadata queries (\<open>src/src/backend/metadata.rs\<close>, \<open>src/src/backend.rs\<close>). Each doubles the
  delimiter inside the text. The locale \<open>sql_quoting\<close> is what the callers rely on, stated over
  the reader of a quoted token that standard SQL prescribes; the component theories interpret it
  with the functions of the code.
\<close>

section \<open>The reader\<close>

text \<open>
  Reading after the opening delimiter: a doubled delimiter is one character, a single one closes
  the token. The result is the text and what follows the token.
\<close>

fun read_body :: "char \<Rightarrow> string \<Rightarrow> (string \<times> string) option" where
  "read_body d [] = None"
| "read_body d [c] = (if c = d then Some ([], []) else None)"
| "read_body d (c # e # cs) =
     (if c \<noteq> d then map_option (\<lambda>(t, r). (c # t, r)) (read_body d (e # cs))
      else if e = d then map_option (\<lambda>(t, r). (d # t, r)) (read_body d cs)
      else Some ([], e # cs))"

definition read_quoted :: "char \<Rightarrow> string \<Rightarrow> (string \<times> string) option" where
  "read_quoted d s = (case s of [] \<Rightarrow> None | c # cs \<Rightarrow> if c = d then read_body d cs else None)"

text \<open>The text with every delimiter doubled.\<close>

definition double_char :: "char \<Rightarrow> string \<Rightarrow> string" where
  "double_char d s = concat (map (\<lambda>c. if c = d then [d, d] else [c]) s)"

lemma double_char_simps [simp]:
  "double_char d [] = []"
  "double_char d (c # s) = (if c = d then [d, d] else [c]) @ double_char d s"
  by (simp_all add: double_char_def)

lemma read_body_double:
  "\<not> starts_with r d \<Longrightarrow> read_body d (double_char d s @ d # r) = Some (s, r)"
proof (induction s)
  case Nil
  then show ?case by (cases r) (simp_all add: starts_with_def)
next
  case (Cons c s)
  obtain x xs where "double_char d s @ d # r = x # xs"
    by (cases "double_char d s") auto
  with Cons show ?case by auto
qed

lemma read_quoted_double:
  "\<not> starts_with r d \<Longrightarrow> read_quoted d (d # double_char d s @ d # r) = Some (s, r)"
  by (simp add: read_quoted_def read_body_double)

lemma replace_str_double: "replace_str [d] [d, d] s = double_char d s"
  by (induction s) auto

section \<open>The interface\<close>

locale sql_quoting =
  fixes delim :: char and quote :: "string \<Rightarrow> string"
  assumes quote_reads: "\<not> starts_with r delim \<Longrightarrow> read_quoted delim (quote s @ r) = Some (s, r)"
begin

lemma quote_prefix_free:
  assumes "\<not> starts_with r delim" and "\<not> starts_with u delim" and "quote s @ r = quote t @ u"
  shows "s = t \<and> r = u"
proof -
  have "Some (s, r) = read_quoted delim (quote s @ r)" by (simp only: quote_reads [OF assms(1)])
  also have "\<dots> = Some (t, u)" by (simp only: assms(3) quote_reads [OF assms(2)])
  finally show ?thesis by simp
qed

lemma quote_inj: "quote s = quote t \<longleftrightarrow> s = t"
  using quote_prefix_free [of "[]" "[]" s t] by (auto simp: starts_with_def)

text \<open>
  A template of fixed pieces and quoted texts determines the texts: no text can change where a
  later piece or text begins.
\<close>

lemma template_inj:
  assumes "pre @ quote s @ mid @ quote t @ post = pre @ quote s' @ mid @ quote t' @ post"
    and "\<not> starts_with mid delim" and "mid \<noteq> []" and "\<not> starts_with post delim"
  shows "s = s' \<and> t = t'"
proof -
  have m: "\<not> starts_with (mid @ w) delim" for w
    using assms(2,3) by (cases mid) (auto simp: starts_with_def)
  have "quote s @ mid @ quote t @ post = quote s' @ mid @ quote t' @ post"
    using assms(1) by simp
  from quote_prefix_free [OF m m this] have "s = s'" and "quote t @ post = quote t' @ post" by auto
  with quote_inj show ?thesis by auto
qed

end

section \<open>String literals and delimited identifiers of the metadata queries\<close>

text \<open>\<open>format!("'{}'", s.replace('\'', "''"))\<close> and \<open>format!("\"{}\"", s.replace('"', "\"\""))\<close>.\<close>

definition sql_literal :: "string \<Rightarrow> string" where
  "sql_literal s = sq # replace_str [sq] [sq, sq] s @ [sq]"

definition sql_identifier :: "string \<Rightarrow> string" where
  "sql_identifier s = dq # replace_str [dq] [dq, dq] s @ [dq]"

interpretation lit: sql_quoting sq sql_literal
  by unfold_locales (simp add: sql_literal_def replace_str_double read_quoted_double)

interpretation ident: sql_quoting dq sql_identifier
  by unfold_locales (simp add: sql_identifier_def replace_str_double read_quoted_double)

end
