(* ===== verification/Errors.thy ===== *)
theory Errors
  imports Trino_Prelude
begin

text \<open>
  Errors and their diagnostics: the driver's \<open>TrinoError\<close>, the classification of the client
  library's errors, the conversion to the ODBC core's error type, and the liveness flag
  (\<open>src/src/backend.rs\<close>).

  \<open>client_error\<close> has the constructors of the client library's error type the driver matches, and
  one for the rest; \<open>odbc_error\<close> is what the driver builds of the ODBC core's error: a message, an
  SQLSTATE, a native code and a source. SQLSTATEs are their five characters.
\<close>

section \<open>Error types\<close>

text \<open>A transport error: the tests the driver makes, its text and the texts of its causes.\<close>

record http_error =
  is_connect :: bool
  is_timeout :: bool
  http_text :: string
  http_causes :: "string list"

record query_error =
  error_name :: string
  error_message :: string
  error_code :: int

datatype client_error =
    ErrQuery query_error
  | ErrHttp http_error
  | ErrHttpNotOk nat string string
  | ErrForbidden string
  | ErrOAuth2 string
  | ErrReachMaxAttempt nat
  | ErrTransaction string
  | ErrOther string

datatype query_cause = Transport client_error | Server string string

datatype trino_error =
    General string
  | Runtime string
  | MissingParam string
  | NotImplemented string
  | ConnectionFailed trino_error int
  | CommunicationLinkFailure string
  | QueryTimeout string
  | AuthFailure string
  | AuthConfig string
  | Query query_cause int
  | OperationCancelled query_cause int
  | Odbc odbc_error
and odbc_error =
    OdbcGeneral string string int "error_source option"
  | OdbcNotImplemented string
and error_source = CauseSource query_cause | TrinoSource trino_error

text \<open>The SQLSTATEs behind the core's named constructors, as ODBC numbers them.\<close>

abbreviation general_error :: string where "general_error \<equiv> ''HY000''"
abbreviation client_unable_to_establish_connection :: string where
  "client_unable_to_establish_connection \<equiv> ''08001''"
abbreviation communication_link_failure :: string where
  "communication_link_failure \<equiv> ''08S01''"
abbreviation timeout_expired :: string where "timeout_expired \<equiv> ''HYT00''"
abbreviation invalid_auth_spec :: string where "invalid_auth_spec \<equiv> ''28000''"
abbreviation invalid_datetime_format :: string where "invalid_datetime_format \<equiv> ''22007''"
abbreviation invalid_cursor_state :: string where "invalid_cursor_state \<equiv> ''24000''"
abbreviation invalid_descriptor_index :: string where "invalid_descriptor_index \<equiv> ''07009''"
abbreviation transaction_rolled_back :: string where "transaction_rolled_back \<equiv> ''25S03''"

definition odbc_general :: "string \<Rightarrow> string \<Rightarrow> odbc_error" where
  "odbc_general message state = OdbcGeneral message state 0 None"

fun sqlstate :: "odbc_error \<Rightarrow> string" where
  "sqlstate (OdbcGeneral _ state _ _) = state"
| "sqlstate (OdbcNotImplemented _) = ''HYC00''"

fun native_code :: "odbc_error \<Rightarrow> int" where
  "native_code (OdbcGeneral _ _ native _) = native"
| "native_code (OdbcNotImplemented _) = 0"

section \<open>Classification of client errors\<close>

definition TRINO_ERROR_USER_CANCELED :: int where
  "TRINO_ERROR_USER_CANCELED = 3"

definition SQL_STATE_CANCELLED :: string where
  "SQL_STATE_CANCELLED = ''HY008''"

definition query_cause :: "client_error \<Rightarrow> query_cause \<times> int" where
  "query_cause e =
     (case e of
        ErrQuery q \<Rightarrow> (Server (error_name q) (error_message q), error_code q)
      | other \<Rightarrow> (Transport other, 0))"

fun append_causes :: "string \<Rightarrow> string list \<Rightarrow> string" where
  "append_causes txt [] = txt"
| "append_causes txt (segment # causes) =
     append_causes (if contains_str txt segment then txt else txt @ '': '' @ segment) causes"

definition flatten_causes :: "http_error \<Rightarrow> string" where
  "flatten_causes err = append_causes (http_text err) (http_causes err)"

text \<open>The match of \<open>map_trino_error\<close>, its guarded arms in their order.\<close>

definition map_trino_error :: "client_error \<Rightarrow> trino_error" where
  "map_trino_error e =
     (let other = (let (source, native) = query_cause e in Query source native) in
      case e of
        ErrQuery q \<Rightarrow>
          if error_code q = TRINO_ERROR_USER_CANCELED
          then (let (source, native) = query_cause e in OperationCancelled source native)
          else other
      | ErrHttp req_err \<Rightarrow>
          if is_connect req_err
          then CommunicationLinkFailure
                 (''unable to reach Trino server: '' @ flatten_causes req_err)
          else if is_timeout req_err
          then QueryTimeout (''request timed out: '' @ flatten_causes req_err)
          else other
      | ErrHttpNotOk status status_text reason \<Rightarrow>
          if status = 401 \<or> status = 403
          then AuthFailure (''HTTP '' @ status_text @ '': '' @ reason)
          else other
      | ErrForbidden message \<Rightarrow> AuthFailure message
      | ErrOAuth2 message \<Rightarrow> AuthFailure (''OAuth2 authentication failed: '' @ message)
      | ErrReachMaxAttempt n \<Rightarrow>
          QueryTimeout (''query failed after '' @ show_nat n @ '' retry attempts'')
      | ErrTransaction message \<Rightarrow> General (''transaction error: '' @ message)
      | ErrOther _ \<Rightarrow> other)"

definition cancelled_between_requests :: trino_error where
  "cancelled_between_requests =
     OperationCancelled (Server ''USER_CANCELED'' ''the query was cancelled'')
       TRINO_ERROR_USER_CANCELED"

text \<open>\<open>Liveness::note\<close> and \<open>map_trino_error_on\<close>: the flag, true once the link is lost.\<close>

definition liveness_note :: "bool \<Rightarrow> trino_error \<Rightarrow> bool" where
  "liveness_note dead e = (case e of CommunicationLinkFailure _ \<Rightarrow> True | _ \<Rightarrow> dead)"

definition map_trino_error_on :: "bool \<Rightarrow> client_error \<Rightarrow> trino_error \<times> bool" where
  "map_trino_error_on dead e =
     (let mapped = map_trino_error e in (mapped, liveness_note dead mapped))"

section \<open>Diagnostics\<close>

definition from_odbc_error :: "odbc_error \<Rightarrow> trino_error" where
  "from_odbc_error source = Odbc source"

text \<open>
  The \<open>Display\<close> of the variants. An \<open>Odbc\<close> error displays as its source, a text of the core that
  the conversion below never asks for; it is empty here.
\<close>

definition display_error :: "trino_error \<Rightarrow> string" where
  "display_error e =
     (case e of
        General message \<Rightarrow> ''Trino error: '' @ message
      | Runtime source \<Rightarrow> ''Tokio runtime error: '' @ source
      | MissingParam nm \<Rightarrow> ''Missing parameter: '' @ nm
      | NotImplemented feature \<Rightarrow> feature @ '' is not implemented''
      | ConnectionFailed _ _ \<Rightarrow> ''connection failed''
      | CommunicationLinkFailure message \<Rightarrow> ''Communication link failure: '' @ message
      | QueryTimeout message \<Rightarrow> ''Query timed out: '' @ message
      | AuthFailure message \<Rightarrow> ''Authentication failed: '' @ message
      | AuthConfig message \<Rightarrow> message
      | Query _ _ \<Rightarrow> ''query failed''
      | OperationCancelled _ _ \<Rightarrow> ''query was cancelled''
      | Odbc _ \<Rightarrow> [])"

definition to_odbc_error :: "trino_error \<Rightarrow> odbc_error" where
  "to_odbc_error e =
     (case e of
        Odbc source \<Rightarrow> source
      | Query source native \<Rightarrow>
          OdbcGeneral ''query failed'' general_error native (Some (CauseSource source))
      | NotImplemented feature \<Rightarrow> OdbcNotImplemented feature
      | ConnectionFailed source native \<Rightarrow>
          OdbcGeneral ''connection failed'' client_unable_to_establish_connection native
            (Some (TrinoSource source))
      | CommunicationLinkFailure message \<Rightarrow> odbc_general message communication_link_failure
      | QueryTimeout message \<Rightarrow> odbc_general message timeout_expired
      | AuthFailure message \<Rightarrow> odbc_general message invalid_auth_spec
      | AuthConfig message \<Rightarrow> odbc_general message invalid_auth_spec
      | OperationCancelled source native \<Rightarrow>
          OdbcGeneral ''query was cancelled'' SQL_STATE_CANCELLED native
            (Some (CauseSource source))
      | _ \<Rightarrow> odbc_general (display_error e) general_error)"

definition connection_failed :: "trino_error \<Rightarrow> trino_error" where
  "connection_failed e =
     (let native = (case e of Query _ n \<Rightarrow> n | _ \<Rightarrow> 0) in ConnectionFailed e native)"

text \<open>The reclassification of \<open>validate_connection\<close>.\<close>

definition validation_outcome :: "trino_error + 'a \<Rightarrow> trino_error + unit" where
  "validation_outcome r =
     (case r of
        Inr _ \<Rightarrow> Inr ()
      | Inl (AuthFailure m) \<Rightarrow> Inl (AuthFailure m)
      | Inl (QueryTimeout m) \<Rightarrow> Inl (QueryTimeout m)
      | Inl e \<Rightarrow> Inl (connection_failed e))"

section \<open>Properties\<close>

definition diagnostic :: "client_error \<Rightarrow> odbc_error" where
  "diagnostic e = to_odbc_error (map_trino_error e)"

lemmas error_defs = diagnostic_def to_odbc_error_def map_trino_error_def query_cause_def
  odbc_general_def TRINO_ERROR_USER_CANCELED_def SQL_STATE_CANCELLED_def

lemma diagnostic_query:
  "sqlstate (diagnostic (ErrQuery q)) = (if error_code q = 3 then ''HY008'' else ''HY000'')"
  "native_code (diagnostic (ErrQuery q)) = error_code q"
  by (simp_all add: error_defs)

lemma diagnostic_no_code: "\<nexists>q. e = ErrQuery q \<Longrightarrow> native_code (diagnostic e) = 0"
  by (cases e) (simp_all add: error_defs)

lemma diagnostic_link:
  "sqlstate (diagnostic e) = ''08S01'' \<longleftrightarrow> (\<exists>h. e = ErrHttp h \<and> is_connect h)"
  by (cases e) (auto simp: error_defs split: if_splits)

lemma liveness_on: "snd (map_trino_error_on dead e) \<longleftrightarrow> dead \<or> sqlstate (diagnostic e) = ''08S01''"
  by (cases e) (auto simp: error_defs map_trino_error_on_def liveness_note_def Let_def)


text \<open>
  An error of the ODBC core survives the round trip through the driver's error type unchanged,
  SQLSTATE included, and no other error of the driver is turned into one of the core's
  not-implemented errors or loses its native code.
\<close>

theorem odbc_error_roundtrip:
  "to_odbc_error (from_odbc_error oe) = oe \<and>
   native_code (to_odbc_error e) =
     (case e of Query _ n \<Rightarrow> n | OperationCancelled _ n \<Rightarrow> n | ConnectionFailed _ n \<Rightarrow> n
      | Odbc oe' \<Rightarrow> native_code oe' | _ \<Rightarrow> 0)"
  by (cases e) (simp_all add: error_defs from_odbc_error_def)

text \<open>
  A failed connection attempt is reported as 28000, HYT00 or 08001 and nothing else: an
  authentication failure and a timeout keep their own SQLSTATE, everything else becomes 08001 with
  the coordinator's error code on the record and the whole failure as its source. The one code
  that is lost is that of a query cancelled during the attempt.
\<close>

theorem connect_failure_states:
  assumes "validation_outcome (Inl (map_trino_error e) :: trino_error + 'a) = Inl f"
  shows "sqlstate (to_odbc_error f) \<in> {''28000'', ''HYT00'', ''08001''} \<and>
    (sqlstate (diagnostic e) \<in> {''28000'', ''HYT00''} \<longrightarrow>
       sqlstate (to_odbc_error f) = sqlstate (diagnostic e)) \<and>
    (sqlstate (to_odbc_error f) = ''08001'' \<longrightarrow> f = connection_failed (map_trino_error e)) \<and>
    native_code (to_odbc_error f) =
      (if sqlstate (diagnostic e) = ''HY008'' then 0 else native_code (diagnostic e))"
  using assms
  by (cases e)
     (auto simp: error_defs validation_outcome_def connection_failed_def split: if_splits)

theorem connect_failure_states_witness:
  "sqlstate (to_odbc_error (connection_failed (map_trino_error
     (ErrQuery \<lparr>error_name = ''CATALOG_NOT_FOUND'', error_message = [], error_code = 44\<rparr>)))) = ''08001'' \<and>
   native_code (to_odbc_error (connection_failed (map_trino_error
     (ErrQuery \<lparr>error_name = ''CATALOG_NOT_FOUND'', error_message = [], error_code = 44\<rparr>)))) = 44"
proof -
  let ?e = "ErrQuery \<lparr>error_name = ''CATALOG_NOT_FOUND'', error_message = [], error_code = 44\<rparr>"
  have "validation_outcome (Inl (map_trino_error ?e) :: trino_error + unit) =
      Inl (connection_failed (map_trino_error ?e))"
    by (simp add: error_defs validation_outcome_def)
  from connect_failure_states [OF this] show ?thesis
    by (simp add: error_defs connection_failed_def)
qed

end
