(* ===== verification/Params.thy ===== *)
theory Params
  imports Value_Conversion Sql_Quoting Errors
begin

text \<open>
  Parameter binding by interpolation (\<open>src/src/backend/params.rs\<close>): the rendering of a bound
  value as a SQL literal, and the substitution of the literals for the placeholders of a
  statement.
\<close>

section \<open>Rendering helpers\<close>

definition hex_byte :: "bool \<Rightarrow> 8 word \<Rightarrow> string" where
  "hex_byte upper b = [hex_digit upper (unat b div 16), hex_digit upper (unat b mod 16)]"

text \<open>\<open>{i:0w}\<close> for a signed number: the sign takes one place of the width.\<close>

definition zpad_int :: "nat \<Rightarrow> int \<Rightarrow> string" where
  "zpad_int w i = (if i < 0 then CHR ''-'' # zpad (w - 1) (nat (- i)) else zpad w (nat i))"

definition quote_string :: "string \<Rightarrow> string" where
  "quote_string s = sq # concat (map (\<lambda>c. if c = sq then [sq, c] else [c]) s) @ [sq]"

definition is_plain_decimal :: "string \<Rightarrow> bool" where
  "is_plain_decimal s =
     (let body =
        (case or_else (strip_prefix ''-'' s) (strip_prefix ''+'' s) of
           Some b \<Rightarrow> b | None \<Rightarrow> s)
      in if body = [] then False
         else case split_once CHR ''.'' body of
           None \<Rightarrow> list_all is_digit body
         | Some (ipart, frac) \<Rightarrow>
             ipart \<noteq> [] \<and> frac \<noteq> [] \<and> list_all is_digit ipart \<and> list_all is_digit frac)"

definition nanos :: "int \<Rightarrow> string" where
  "nanos fraction = zpad 9 (nat (min fraction 999999999))"

definition year4 :: "int \<Rightarrow> string" where
  "year4 year =
     (if year < 0 then CHR ''-'' # zpad 4 (nat (- year)) else zpad 4 (nat year))"

definition invalid_datetime :: "string \<Rightarrow> string \<Rightarrow> trino_error" where
  "invalid_datetime what rendered =
     from_odbc_error
       (odbc_general (''bound '' @ what @ '' is not a valid value: '' @ rendered)
          invalid_datetime_format)"

definition date_literal :: "int \<Rightarrow> int \<Rightarrow> int \<Rightarrow> string" where
  "date_literal year month day =
     year4 year @ CHR ''-'' # zpad 2 (nat month) @ CHR ''-'' # zpad 2 (nat day)"

definition clock_literal :: "int \<Rightarrow> int \<Rightarrow> int \<Rightarrow> string" where
  "clock_literal hour minute second =
     zpad 2 (nat hour) @ CHR '':'' # zpad 2 (nat minute) @ CHR '':'' # zpad 2 (nat second)"

definition check_date ::
    "('z, 'o, 't) chrono_ext \<Rightarrow> int \<Rightarrow> int \<Rightarrow> int \<Rightarrow> trino_error + unit" where
  "check_date c year month day =
     (if date_exists c year month day then Inr ()
      else Inl (invalid_datetime ''date'' (date_literal year month day)))"

definition check_time :: "int \<Rightarrow> int \<Rightarrow> int \<Rightarrow> trino_error + unit" where
  "check_time hour minute second =
     (if hour < 24 \<and> minute < 60 \<and> second \<le> 61 then Inr ()
      else Inl (invalid_datetime ''time'' (clock_literal hour minute second)))"

section \<open>Literals\<close>

definition unsupported :: "string \<Rightarrow> trino_error" where
  "unsupported what = General (what @ '' is not supported as a bound parameter'')"

definition guid_text :: "8 word list \<Rightarrow> string" where
  "guid_text b =
     (let hx = (\<lambda>i j. concat (map (hex_byte False) (take (j - i) (drop i b)))) in
      hx 0 4 @ ''-'' @ hx 4 6 @ ''-'' @ hx 6 8 @ ''-'' @ hx 8 10 @ ''-'' @ hx 10 16)"

text \<open>
  \<open>render_literal\<close>. A \<open>CGuid\<close> is an array of sixteen bytes. The offset of a \<open>CTimestampTz\<close> is a
  number of minutes whose absolute value its type holds.
\<close>

definition render_literal ::
    "('n, 'd, 's) json_ext \<Rightarrow> ('z, 'o, 't) chrono_ext \<Rightarrow> ('d, 's) column_value
       \<Rightarrow> trino_error + string" where
  "render_literal x c value =
     (case value of
        CNull \<Rightarrow> Inr ''NULL''
      | CBool b \<Rightarrow> Inr (if b then ''TRUE'' else ''FALSE'')
      | CI8 v \<Rightarrow> Inr (show_int v)
      | CI16 v \<Rightarrow> Inr (show_int v)
      | CI32 v \<Rightarrow> Inr (show_int v)
      | CI64 v \<Rightarrow> Inr (show_int v)
      | CF32 v \<Rightarrow>
          if \<not> f32_finite x v then Inl (unsupported ''non-finite REAL'')
          else Inr (''REAL '' @ sq # f32_display x v @ [sq])
      | CF64 v \<Rightarrow>
          if \<not> f64_finite x v then Inl (unsupported ''non-finite DOUBLE'')
          else Inr (''DOUBLE '' @ sq # f64_display x v @ [sq])
      | CString s \<Rightarrow> Inr (quote_string s)
      | CJson s \<Rightarrow> Inr (''JSON '' @ quote_string s)
      | CDecimal s \<Rightarrow>
          if \<not> is_plain_decimal s
          then Inl (General (''invalid DECIMAL parameter value: '' @ debug_string s))
          else Inr (''DECIMAL '' @ sq # s @ [sq])
      | CBytes b \<Rightarrow> Inr (''X'' @ sq # concat (map (hex_byte True) b) @ [sq])
      | CGuid b \<Rightarrow> Inr (''UUID '' @ sq # guid_text b @ [sq])
      | CDate year month day \<Rightarrow>
          bind_res (check_date c year month day) (\<lambda>_.
          Inr (''DATE '' @ sq # date_literal year month day @ [sq]))
      | CTime hour minute second fraction \<Rightarrow>
          bind_res (check_time hour minute second) (\<lambda>_.
          Inr (''TIME '' @ sq # clock_literal hour minute second @ CHR ''.'' # nanos fraction @ [sq]))
      | CTimestamp year month day hour minute second fraction \<Rightarrow>
          bind_res (check_date c year month day) (\<lambda>_.
          bind_res (check_time hour minute second) (\<lambda>_.
          Inr (''TIMESTAMP '' @ sq # date_literal year month day @ CHR '' '' #
               clock_literal hour minute second @ CHR ''.'' # nanos fraction @ [sq])))
      | CTimestampTz year month day hour minute second fraction timezone_offset_minutes \<Rightarrow>
          (let sign = (if timezone_offset_minutes < 0 then CHR ''-'' else CHR ''+'');
               abs_offset = \<bar>timezone_offset_minutes\<bar> in
           bind_res (check_date c year month day) (\<lambda>_.
           bind_res (check_time hour minute second) (\<lambda>_.
           Inr (''TIMESTAMP '' @ sq # date_literal year month day @ CHR '' '' #
                clock_literal hour minute second @ CHR ''.'' # nanos fraction @ CHR '' '' # sign #
                zpad_int 2 (abs_offset div 60) @ CHR '':'' # zpad_int 2 (abs_offset mod 60) @ [sq]))))
      | CArray _ \<Rightarrow> Inl (unsupported ''ARRAY'')
      | CMap _ \<Rightarrow> Inl (unsupported ''MAP'')
      | CRow _ \<Rightarrow> Inl (unsupported ''ROW'')
      | CIntervalYearMonth \<Rightarrow> Inl (unsupported ''INTERVAL YEAR TO MONTH'')
      | CIntervalDayTime \<Rightarrow> Inl (unsupported ''INTERVAL DAY TO SECOND'')
      | COther \<Rightarrow> Inl (unsupported ''this parameter type''))"

section \<open>Interpolation\<close>

definition not_enough :: "nat \<Rightarrow> nat \<Rightarrow> trino_error" where
  "not_enough next bound =
     General (''not enough parameters bound: placeholder '' @ show_nat (next + 1) @
       '' has no value ('' @ show_nat bound @ '' bound)'')"

definition count_mismatch :: "nat \<Rightarrow> nat \<Rightarrow> trino_error" where
  "count_mismatch bound next =
     General (''parameter count mismatch: '' @ show_nat bound @ '' bound, '' @ show_nat next @
       '' placeholders in statement'')"

text \<open>
  The loop over the characters: the remaining text, the text written so far, the index of the next
  parameter and whether the position is inside a string literal. \<open>render\<close> is \<open>render_literal\<close>.
\<close>

fun interpolate_loop ::
    "('v \<Rightarrow> trino_error + string) \<Rightarrow> 'v list \<Rightarrow> string \<Rightarrow> string \<Rightarrow> nat \<Rightarrow> bool
       \<Rightarrow> trino_error + (string \<times> nat)" where
  "interpolate_loop render params [] out next in_string = Inr (out, next)"
| "interpolate_loop render params (c # cs) out next in_string =
     (if c = sq \<and> \<not> in_string then interpolate_loop render params cs (out @ [c]) next True
      else if c = sq then
        (case cs of
           e # cs' \<Rightarrow>
             if e = sq then interpolate_loop render params cs' (out @ [c, sq]) next True
             else interpolate_loop render params cs (out @ [c]) next False
         | [] \<Rightarrow> interpolate_loop render params cs (out @ [c]) next False)
      else if c = CHR ''?'' \<and> \<not> in_string then
        (if next < length params then
           bind_res (render (params ! next)) (\<lambda>t.
             interpolate_loop render params cs (out @ t) (next + 1) in_string)
         else Inl (not_enough next (length params)))
      else interpolate_loop render params cs (out @ [c]) next in_string)"

definition interpolate_with ::
    "('v \<Rightarrow> trino_error + string) \<Rightarrow> string \<Rightarrow> 'v list \<Rightarrow> trino_error + string" where
  "interpolate_with render sql params =
     bind_res (interpolate_loop render params sql [] 0 False) (\<lambda>(out, next).
       if next \<noteq> length params then Inl (count_mismatch (length params) next) else Inr out)"

definition interpolate_params ::
    "('n, 'd, 's) json_ext \<Rightarrow> ('z, 'o, 't) chrono_ext \<Rightarrow> string \<Rightarrow> ('d, 's) column_value list
       \<Rightarrow> trino_error + string" where
  "interpolate_params x c = interpolate_with (render_literal x c)"

section \<open>Interpolation against its specification\<close>

text \<open>
  The statement cut at its placeholders: the question marks that follow an even number of quotes.
  A specification that looks at one character at a time and knows nothing of escaped quotes.
\<close>

fun segments :: "bool \<Rightarrow> string \<Rightarrow> string list" where
  "segments quoted [] = [[]]"
| "segments quoted (c # cs) =
     (if c = CHR ''?'' \<and> \<not> quoted then [] # segments quoted cs
      else (let ps = segments (if c = sq then \<not> quoted else quoted) cs
            in (c # hd ps) # tl ps))"

fun weave :: "string list \<Rightarrow> string list \<Rightarrow> string" where
  "weave (s # ss) (t # ts) = s @ t @ weave ss ts"
| "weave ss ts = concat ss"

fun fill ::
    "('v \<Rightarrow> trino_error + string) \<Rightarrow> 'v list \<Rightarrow> string list \<Rightarrow> string \<Rightarrow> nat
       \<Rightarrow> trino_error + (string \<times> nat)" where
  "fill render params [] out next = Inr (out, next)"
| "fill render params [seg] out next = Inr (out @ seg, next)"
| "fill render params (seg # segs) out next =
     (if next < length params then
        bind_res (render (params ! next)) (\<lambda>t.
          fill render params segs (out @ seg @ t) (next + 1))
      else Inl (not_enough next (length params)))"

lemma segments_nonempty [simp]: "segments q s \<noteq> []"
  by (induction q s rule: segments.induct) (auto simp: Let_def)

lemma segments_hd_tl: "hd (segments q s) # tl (segments q s) = segments q s"
  by simp

lemma fill_push:
  "segs \<noteq> [] \<Longrightarrow> fill render params ((c # hd segs) # tl segs) out next =
     fill render params segs (out @ [c]) next"
  by (cases segs; cases "tl segs") auto

lemma fill_push2:
  "segs \<noteq> [] \<Longrightarrow> fill render params ((c # d # hd segs) # tl segs) out next =
     fill render params segs (out @ [c, d]) next"
  using fill_push [of "(d # hd segs) # tl segs" render params c out] by (simp add: fill_push)

lemma fill_empty:
  "segs \<noteq> [] \<Longrightarrow> fill render params ([] # segs) out next =
     (if next < length params then
        bind_res (render (params ! next)) (\<lambda>t. fill render params segs (out @ t) (next + 1))
      else Inl (not_enough next (length params)))"
  by (cases segs) auto

lemma interpolate_loop_fill:
  "interpolate_loop render params s out next q = fill render params (segments q s) out next"
proof (induction render params s out "next" q rule: interpolate_loop.induct)
  case (2 render params c cs out nx q)
  show ?case
  proof (cases "c = sq")
    case False
    then show ?thesis using 2 by (auto simp: Let_def fill_push fill_empty)
  next
    case True
    show ?thesis
    proof (cases q)
      case False
      then show ?thesis using 2 True by (simp add: Let_def fill_push)
    next
      case q: True
      show ?thesis
      proof (cases cs)
        case Nil
        then show ?thesis using True q by simp
      next
        case (Cons e cs')
        then show ?thesis
          using 2 True q by (cases "e = sq") (simp_all add: Let_def fill_push fill_push2)
      qed
    qed
  qed
qed simp

lemma join_segments: "join ''?'' (segments q s) = s"
proof (induction q s rule: segments.induct)
  case (2 q c cs)
  obtain p ps where s: "segments q cs = p # ps"
    by (cases "segments q cs") simp_all
  obtain p' ps' where s': "segments (if c = sq then \<not> q else q) cs = p' # ps'"
    by (cases "segments (if c = sq then \<not> q else q) cs") simp_all
  show ?case using 2 s s' by (cases ps; cases ps') (auto simp: Let_def)
qed simp

lemma fill_Inr:
  assumes "segs \<noteq> []"
  shows "fill render params segs out next = Inr (res, n) \<longleftrightarrow>
    n = next + (length segs - 1) \<and> (1 < length segs \<longrightarrow> n \<le> length params) \<and>
    (\<exists>ts. list_all2 (\<lambda>p t. render p = Inr t) (take (length segs - 1) (drop next params)) ts \<and>
       res = out @ weave segs ts)"
  using assms
proof (induction render params segs out "next" rule: fill.induct)
  case (3 render params seg s2 segs out nx)
  show ?case
  proof (cases "nx < length params")
    case False
    then show ?thesis by auto
  next
    case True
    then have d: "take (Suc k) (drop nx params) =
        params ! nx # take k (drop (Suc nx) params)" for k
      by (simp add: Cons_nth_drop_Suc [symmetric])
    show ?thesis
    proof (cases "render (params ! nx)")
      case (Inl e)
      then show ?thesis using True d by (simp add: list_all2_Cons1)
    next
      case (Inr t)
      then show ?thesis
        using 3(1) [OF True, of t] True d
        by (auto simp: list_all2_Cons1 numeral_2_eq_2)
    qed
  qed
qed auto

lemma fill_short:
  assumes "\<And>i. i < length ps \<Longrightarrow> \<exists>t. render (ps ! i) = Inr t"
    and "nx \<le> length ps" and "length ps - nx + 1 < length segs"
  shows "fill render ps segs out nx = Inl (not_enough (length ps) (length ps))"
  using assms(2,3)
proof (induction segs arbitrary: out nx rule: induct_list012)
  case (3 s1 s2 segs)
  show ?case
  proof (cases "nx < length ps")
    case True
    then obtain t where "render (ps ! nx) = Inr t" using assms(1) by blast
    with True 3 show ?thesis by simp
  next
    case False
    with 3 show ?thesis by simp
  qed
qed auto

lemma fill_long:
  assumes "\<And>i. i < length ps \<Longrightarrow> \<exists>t. render (ps ! i) = Inr t"
    and "segs \<noteq> []" and "nx + length segs \<le> length ps"
  shows "\<exists>o'. fill render ps segs out nx = Inr (o', nx + length segs - 1)"
  using assms(2,3)
proof (induction segs arbitrary: out nx rule: induct_list012)
  case (3 s1 s2 segs)
  then obtain t where "render (ps ! nx) = Inr t" using assms(1) [of nx] by auto
  with 3(2) [of "Suc nx" "out @ s1 @ t"] 3(3,4) show ?case by simp
qed auto

lemma fill_bad:
  assumes "\<And>i. i < length ps \<Longrightarrow> \<exists>t. render (ps ! i) = Inr t" and "render p = Inl e"
    and "nx \<le> length ps" and "length ps - nx + 1 < length segs"
  shows "fill render (ps @ p # qs) segs out nx = Inl e"
  using assms(3,4)
proof (induction segs arbitrary: out nx rule: induct_list012)
  case (3 s1 s2 segs)
  show ?case
  proof (cases "nx < length ps")
    case True
    then obtain t where "render (ps ! nx) = Inr t" using assms(1) by blast
    with True 3 show ?thesis by (simp add: nth_append)
  next
    case False
    with 3 assms(2) show ?thesis by (simp add: nth_append)
  qed
qed auto

section \<open>Quoting of rendered literals\<close>

lemma quote_string_double: "quote_string s = sq # double_char sq s @ [sq]"
proof -
  have "concat (map (\<lambda>c. if c = sq then [sq, c] else [c]) s) = double_char sq s"
    by (induction s) simp_all
  then show ?thesis by (simp add: quote_string_def)
qed

interpretation par: sql_quoting sq quote_string
  by unfold_locales (simp add: quote_string_double read_quoted_double)

lemma double_char_id: "d \<notin> set s \<Longrightarrow> double_char d s = s"
  by (induction s) auto

lemma quote_string_plain: "sq \<notin> set s \<Longrightarrow> quote_string s = sq # s @ [sq]"
  by (simp add: quote_string_double double_char_id)

lemma decimal_sign:
  "\<exists>sg. s = sg @ (case or_else (strip_prefix ''-'' s) (strip_prefix ''+'' s) of Some b \<Rightarrow> b | None \<Rightarrow> s)
     \<and> sg \<in> {[], ''-'', ''+''}"
  by (cases s) (auto simp: or_else_def)

lemma plain_decimal_grammar:
  "is_plain_decimal s \<longleftrightarrow>
     (\<exists>sg ds fs. s = sg @ ds @ fs \<and> sg \<in> {[], ''-'', ''+''} \<and> ds \<noteq> [] \<and> list_all is_digit ds \<and>
        (fs = [] \<or> (\<exists>f. fs = CHR ''.'' # f \<and> f \<noteq> [] \<and> list_all is_digit f)))"
  (is "?L \<longleftrightarrow> ?R")
proof
  define body where "body =
    (case or_else (strip_prefix ''-'' s) (strip_prefix ''+'' s) of Some b \<Rightarrow> b | None \<Rightarrow> s)"
  obtain sg where sg: "s = sg @ body" "sg \<in> {[], ''-'', ''+''}"
    unfolding body_def using decimal_sign by blast
  assume ?L
  then have b: "body \<noteq> []" and c: "case split_once CHR ''.'' body of None \<Rightarrow> list_all is_digit body
      | Some (i, f) \<Rightarrow> i \<noteq> [] \<and> f \<noteq> [] \<and> list_all is_digit i \<and> list_all is_digit f"
    by (auto simp: is_plain_decimal_def body_def [symmetric] Let_def split: if_splits)
  show ?R
  proof (cases "split_once CHR ''.'' body")
    case None
    with b c sg show ?thesis
      by (intro exI [of _ sg] exI [of _ body] exI [of _ "[]"]) simp
  next
    case (Some p)
    then obtain i f where "split_once CHR ''.'' body = Some (i, f)" by (cases p) auto
    with b c sg show ?thesis
      by (intro exI [of _ sg] exI [of _ i] exI [of _ "CHR ''.'' # f"]) (auto simp: split_once_Some)
  qed
next
  assume ?R
  then obtain sg ds fs where s: "s = sg @ ds @ fs" and sg: "sg \<in> {[], ''-'', ''+''}"
    and ds: "ds \<noteq> []" "list_all is_digit ds"
    and fs: "fs = [] \<or> (\<exists>f. fs = CHR ''.'' # f \<and> f \<noteq> [] \<and> list_all is_digit f)" by blast
  obtain d ds' where d: "ds = d # ds'" "is_digit d" using ds by (cases ds) auto
  then have "d \<noteq> CHR ''-''" "d \<noteq> CHR ''+''" by auto
  then have "(case or_else (strip_prefix ''-'' s) (strip_prefix ''+'' s) of
      Some b \<Rightarrow> b | None \<Rightarrow> s) = ds @ fs"
    using sg d s by (auto simp: or_else_def)
  moreover have "CHR ''.'' \<notin> set ds" using ds digits_notin by auto
  moreover from this have "split_once CHR ''.'' ds = None" by (simp add: split_once_None)
  ultimately show ?L using ds fs by (auto simp: is_plain_decimal_def Let_def)
qed

lemma plain_decimal_chars: "is_plain_decimal s \<Longrightarrow> sq \<notin> set s"
  by (auto simp: plain_decimal_grammar dest!: digits_notin [of _ sq])

lemma hex_digit_not_quote:
  assumes "n < 16"
  shows "hex_digit u n \<noteq> sq"
proof (cases "n < 10")
  case True
  then show ?thesis
    using digit_char_props(1) [of n] not_digit(5) by (auto simp: hex_digit_def)
next
  case False
  then have "(of_char (hex_digit u n) :: nat) = (if u then 65 else 97) + (n - 10)"
    using assms by (simp add: hex_digit_def)
  then have "(of_char (hex_digit u n) :: nat) \<noteq> 39" by auto
  then show ?thesis by auto
qed

lemma hex_byte_not_quote: "sq \<notin> set (hex_byte u b)"
proof -
  have "unat b < 256" using unsigned_less [of b] by simp
  then have "unat b div 16 < 16" "unat b mod 16 < 16" by (simp_all add: less_mult_imp_div_less)
  then show ?thesis
    using hex_digit_not_quote [of "unat b div 16" u] hex_digit_not_quote [of "unat b mod 16" u]
    by (auto simp: hex_byte_def)
qed

lemma hex_bytes_not_quote: "sq \<notin> set (concat (map (hex_byte u) bs))"
  using hex_byte_not_quote by (induction bs) auto

lemma show_int_not_quote: "sq \<notin> set (show_int i)"
  by (simp add: show_int_def)

lemma temporal_not_quote:
  "sq \<notin> set (date_literal y m d)" "sq \<notin> set (clock_literal h mi s)" "sq \<notin> set (nanos f)"
  "sq \<notin> set (zpad_int w i)" "sq \<notin> set (guid_text b)"
  using hex_bytes_not_quote
  by (simp_all add: date_literal_def year4_def clock_literal_def nanos_def zpad_int_def
      guid_text_def Let_def)

definition quote_free_floats :: "('n, 'd, 's) json_ext \<Rightarrow> bool" where
  "quote_free_floats x \<longleftrightarrow> (\<forall>v. sq \<notin> set (f32_display x v)) \<and> (\<forall>v. sq \<notin> set (f64_display x v))"

text \<open>
  The shape of a literal: one word with no quote in it, or a quote-free keyword and one quoted
  token.
\<close>

definition literal_shape :: "string \<Rightarrow> bool" where
  "literal_shape t \<longleftrightarrow>
     sq \<notin> set t \<or> (\<exists>kw body. t = kw @ quote_string body \<and> sq \<notin> set kw)"

lemma literal_shape_plain: "sq \<notin> set kw \<Longrightarrow> sq \<notin> set s \<Longrightarrow> literal_shape (kw @ sq # s @ [sq])"
  unfolding literal_shape_def using quote_string_plain [of s] by metis

lemma literal_shape_quote: "sq \<notin> set kw \<Longrightarrow> literal_shape (kw @ quote_string s)"
  unfolding literal_shape_def by blast

lemma render_literal_shape:
  assumes "quote_free_floats x" and "render_literal x c v = Inr t"
  shows "literal_shape t"
proof (cases v)
  case (CDecimal s)
  then show ?thesis
    using assms plain_decimal_chars [of s] literal_shape_plain [of "''DECIMAL ''" s]
    by (simp add: render_literal_def split: if_splits)
next
  case (CString s)
  then show ?thesis using assms literal_shape_quote [of "[]" s] by (simp add: render_literal_def)
next
  case (CJson s)
  then show ?thesis using assms literal_shape_quote [of "''JSON ''" s] by (simp add: render_literal_def)
next
  case (CBytes b)
  then show ?thesis
    using assms literal_shape_plain [of "''X''" "concat (map (hex_byte True) b)"]
      hex_bytes_not_quote [of True b] by (auto simp: render_literal_def)
next
  case (CGuid b)
  then show ?thesis
    using assms literal_shape_plain [of "''UUID ''" "guid_text b"] temporal_not_quote(5) [of b]
    by (auto simp: render_literal_def)
next
  case (CF32 f)
  then show ?thesis
    using assms literal_shape_plain [of "''REAL ''" "f32_display x f"]
    by (simp add: render_literal_def quote_free_floats_def split: if_splits)
next
  case (CF64 f)
  then show ?thesis
    using assms literal_shape_plain [of "''DOUBLE ''" "f64_display x f"]
    by (simp add: render_literal_def quote_free_floats_def split: if_splits)
next
  case (CDate y m d)
  then show ?thesis
    using assms literal_shape_plain [of "''DATE ''" "date_literal y m d"]
    by (auto simp: render_literal_def bind_res_Inr_iff temporal_not_quote)
next
  case (CTime h m s f)
  then show ?thesis
    using assms literal_shape_plain [of "''TIME ''" "clock_literal h m s @ CHR ''.'' # nanos f"]
    by (auto simp: render_literal_def bind_res_Inr_iff temporal_not_quote)
next
  case (CTimestamp y mo d h mi s f)
  then show ?thesis
    using assms literal_shape_plain [of "''TIMESTAMP ''"
        "date_literal y mo d @ CHR '' '' # clock_literal h mi s @ CHR ''.'' # nanos f"]
    by (auto simp: render_literal_def bind_res_Inr_iff temporal_not_quote)
next
  case (CTimestampTz y mo d h mi s f off)
  then show ?thesis
    using assms literal_shape_plain [of "''TIMESTAMP ''"
        "date_literal y mo d @ CHR '' '' # clock_literal h mi s @ CHR ''.'' # nanos f @
         CHR '' '' # (if off < 0 then CHR ''-'' else CHR ''+'') # zpad_int 2 (\<bar>off\<bar> div 60) @
         CHR '':'' # zpad_int 2 (\<bar>off\<bar> mod 60)"]
    by (auto simp: render_literal_def bind_res_Inr_iff temporal_not_quote Let_def)
qed (use assms show_int_not_quote in \<open>auto simp: render_literal_def literal_shape_def\<close>)

section \<open>Properties\<close>

lemma interpolate_Inr_iff:
  "interpolate_params x c sql ps = Inr out \<longleftrightarrow>
     length (segments False sql) = length ps + 1 \<and>
     (\<exists>ts. list_all2 (\<lambda>p t. render_literal x c p = Inr t) ps ts \<and>
        out = weave (segments False sql) ts)"
proof -
  let ?segs = "segments False sql"
  obtain k where k: "length ?segs = Suc k" by (cases ?segs) simp_all
  have "interpolate_params x c sql ps = Inr out \<longleftrightarrow>
      fill (render_literal x c) ps ?segs [] 0 = Inr (out, length ps)"
    by (auto simp: interpolate_params_def interpolate_with_def interpolate_loop_fill
        bind_res_Inr_iff split: if_splits)
  also have "\<dots> \<longleftrightarrow> length ps = k \<and> (\<exists>ts. list_all2 (\<lambda>p t. render_literal x c p = Inr t)
      (take k ps) ts \<and> out = weave ?segs ts)"
    using k by (subst fill_Inr) auto
  finally show ?thesis using k by auto
qed

text \<open>
  C18: interpolation succeeds exactly when the statement, cut at the question marks that follow an
  even number of quotes, has one piece more than there are parameters and every parameter renders;
  the result is the pieces woven with the rendered literals, in order, and nothing else of the
  statement changes (the pieces joined with question marks are the statement).
\<close>

theorem interpolation_weaves:
  "(interpolate_params x c sql ps = Inr out \<longleftrightarrow>
     length (segments False sql) = length ps + 1 \<and>
     (\<exists>ts. list_all2 (\<lambda>p t. render_literal x c p = Inr t) ps ts \<and>
        out = weave (segments False sql) ts)) \<and>
   join ''?'' (segments False sql) = sql"
  using interpolate_Inr_iff join_segments by blast



text \<open>
  The decimals that may be bound are exactly an optional sign, digits, and optionally a point
  with more digits; every other text is refused before any SQL is written.
\<close>

theorem bound_decimal_grammar:
  "(\<exists>t. render_literal x c (CDecimal s) = Inr t) \<longleftrightarrow>
     (\<exists>sg ds fs. s = sg @ ds @ fs \<and> sg \<in> {[], ''-'', ''+''} \<and> ds \<noteq> [] \<and> list_all is_digit ds \<and>
        (fs = [] \<or> (\<exists>f. fs = CHR ''.'' # f \<and> f \<noteq> [] \<and> list_all is_digit f)))"
  using plain_decimal_grammar [of s] by (auto simp: render_literal_def)

text \<open>
  A negative integer is rendered bare, so a placeholder right after a minus sign becomes two
  minus signs in the statement sent to the coordinator, which open a comment.
\<close>

theorem negative_after_minus:
  "interpolate_params x c ''SELECT 10-?'' [CI32 (- 3)] = Inr ''SELECT 10--3''"
  by (simp add: interpolate_params_def interpolate_with_def render_literal_def show_int_def
      show_nat.simps str_simps)

text \<open>
  Where the counts do not match, the failure says which: with every parameter renderable, a
  statement with more placeholders than parameters fails at the first placeholder without a value
  and one with fewer reports both counts; and a parameter that has no literal form fails the
  statement, unless a placeholder before it already did.
\<close>

theorem interpolation_errors:
  assumes "list_all2 (\<lambda>p t. render_literal x c p = Inr t) ps ts"
  shows "(length ps + 1 < length (segments False sql) \<longrightarrow>
      interpolate_params x c sql ps = Inl (not_enough (length ps) (length ps))) \<and>
    (length (segments False sql) < length ps + 1 \<longrightarrow>
      interpolate_params x c sql ps =
        Inl (count_mismatch (length ps) (length (segments False sql) - 1))) \<and>
    (render_literal x c p = Inl e \<longrightarrow> length ps + 1 < length (segments False sql) \<longrightarrow>
      interpolate_params x c sql (ps @ p # qs) = Inl e)"
proof -
  have r: "i < length ps \<Longrightarrow> \<exists>t. render_literal x c (ps ! i) = Inr t" for i
    using assms by (auto simp: list_all2_conv_all_nth)
  have pos: "0 < length (segments False sql)" by simp
  have off: "length (segments False sql) < Suc (length ps) \<Longrightarrow>
      length (segments False sql) - Suc 0 \<noteq> length ps"
    using pos by linarith
  show ?thesis
    using r off fill_short [of ps "render_literal x c" 0 "segments False sql" "[]"]
      fill_long [of ps "render_literal x c" "segments False sql" 0 "[]"]
      fill_bad [of ps "render_literal x c" p e 0 "segments False sql" qs "[]"]
    by (auto simp: interpolate_params_def interpolate_with_def interpolate_loop_fill)
qed

theorem interpolation_errors_witness:
  "interpolate_params demo_json demo_chrono ''a = ? and b = ?'' [CI8 1] = Inl (not_enough 1 1) \<and>
   interpolate_params demo_json demo_chrono ''a = 1'' [CI8 1] = Inl (count_mismatch 1 0)"
  using interpolation_errors [of demo_json demo_chrono "[CI8 1]" "[''1'']" "''a = ? and b = ?''"]
    interpolation_errors [of demo_json demo_chrono "[CI8 1]" "[''1'']" "''a = 1''"]
  by (simp add: render_literal_def show_int_def show_nat.simps str_simps)

end
