(* ===== verification/Params_Temporal.thy ===== *)
theory Params_Temporal
  imports Params Conversion_Times
begin

text \<open>
  A bound date or timestamp, rendered as a literal and read back by the driver's own parsers.
\<close>

section \<open>Reading a rendered date back\<close>

lemma date_literal_text:
  "0 \<le> y \<Longrightarrow> date_literal y m d = date_text (nat y) (nat m) (nat d)"
  "y < 0 \<Longrightarrow> date_literal y m d = CHR ''-'' # date_text (nat (- y)) (nat m) (nat d)"
  by (simp_all add: date_literal_def year4_def date_text_def)

lemma parse_date_literal:
  assumes "is_i16 y" and "is_u16 m" and "is_u16 d"
  shows "parse_ymd (date_literal y m d) = (if y = - 32768 then None else Some (y, m, d))"
proof -
  consider "0 \<le> y" | "y = - 32768" | "- 32768 < y" "y < 0" using assms(1) by linarith
  then show ?thesis
  proof cases
    case 1
    then show ?thesis using assms by (simp add: date_literal_text parse_ymd_text)
  next
    case 2
    then show ?thesis
      by (simp add: date_literal_text date_text_def parse_ymd_def parse_int_zpad fits_def)
  next
    case 3
    then show ?thesis using assms by (simp add: date_literal_text parse_ymd_text)
  qed
qed

lemma parse_clock_literal:
  assumes "is_u16 s" and "is_nanos f"
  shows "clock_literal h mi s @ CHR ''.'' # nanos f =
      clock_text (nat h) (nat mi) (seconds_text (nat s) (nat f))"
    and "parse_seconds parse_u16 (seconds_text (nat s) (nat f)) = Some (s, f)"
    and "list_all (Not \<circ> is_ws) (seconds_text (nat s) (nat f))"
proof -
  have f: "nat f \<le> 999999999" using assms(2) by linarith
  show "parse_seconds parse_u16 (seconds_text (nat s) (nat f)) = Some (s, f)"
    and "list_all (Not \<circ> is_ws) (seconds_text (nat s) (nat f))"
    using assms parse_seconds_text [OF _ f, of "nat s"] by simp_all
  show "clock_literal h mi s @ CHR ''.'' # nanos f =
      clock_text (nat h) (nat mi) (seconds_text (nat s) (nat f))"
    using assms(2)
    by (simp add: clock_literal_def clock_text_def seconds_text_def nanos_def min_def)
qed



end
