(* ===== verification/Escape_Dialect.thy ===== *)
theory Escape_Dialect
  imports Sql_Quoting
begin

text \<open>
  The translation of ODBC's \<open>{fn NAME(args)}\<close> escapes (\<open>src/src/escape_dialect.rs\<close>): the renaming
  hook, the rewriting hook with its argument splitter, and the renderers of date and time
  literals. The splitter walks an index over the text; the model keeps the text from the index on.
\<close>

section \<open>Names, units and targets\<close>

definition lookup_str :: "(string \<times> 'a) list \<Rightarrow> string \<Rightarrow> 'a option" where
  "lookup_str table key = map_of table key"

text \<open>\<open>remap_scalar_fn\<close>, from the name in upper case that its \<open>match\<close> looks at.\<close>

definition remap_upper :: "string \<Rightarrow> string option" where
  "remap_upper upper = lookup_str
     [(''UCASE'', ''upper''), (''LCASE'', ''lower''), (''CHAR'', ''chr''), (''LOG'', ''ln''),
      (''IFNULL'', ''coalesce''), (''DAYOFMONTH'', ''day_of_month''),
      (''DAYOFYEAR'', ''day_of_year'')]
     upper"

definition remap_scalar_fn :: "string \<Rightarrow> string option" where
  "remap_scalar_fn nm = remap_upper (to_ascii_uppercase nm)"

definition trino_interval_unit :: "string \<Rightarrow> string option" where
  "trino_interval_unit keyword = lookup_str
     [(''SQL_TSI_SECOND'', ''second''), (''SQL_TSI_MINUTE'', ''minute''), (''SQL_TSI_HOUR'', ''hour''),
      (''SQL_TSI_DAY'', ''day''), (''SQL_TSI_WEEK'', ''week''), (''SQL_TSI_MONTH'', ''month''),
      (''SQL_TSI_QUARTER'', ''quarter''), (''SQL_TSI_YEAR'', ''year'')]
     (to_ascii_uppercase (trim keyword))"

definition trino_convert_target :: "string \<Rightarrow> string option" where
  "trino_convert_target keyword = lookup_str
     [(''SQL_BIGINT'', ''BIGINT''), (''SQL_INTEGER'', ''INTEGER''), (''SQL_SMALLINT'', ''SMALLINT''),
      (''SQL_TINYINT'', ''TINYINT''), (''SQL_DOUBLE'', ''DOUBLE''), (''SQL_FLOAT'', ''DOUBLE''),
      (''SQL_REAL'', ''REAL''), (''SQL_DECIMAL'', ''DECIMAL''), (''SQL_NUMERIC'', ''DECIMAL''),
      (''SQL_BIT'', ''BOOLEAN''), (''SQL_CHAR'', ''VARCHAR''), (''SQL_VARCHAR'', ''VARCHAR''),
      (''SQL_LONGVARCHAR'', ''VARCHAR''), (''SQL_WCHAR'', ''VARCHAR''), (''SQL_WVARCHAR'', ''VARCHAR''),
      (''SQL_WLONGVARCHAR'', ''VARCHAR''), (''SQL_BINARY'', ''VARBINARY''),
      (''SQL_VARBINARY'', ''VARBINARY''), (''SQL_LONGVARBINARY'', ''VARBINARY''),
      (''SQL_DATE'', ''DATE''), (''SQL_TYPE_DATE'', ''DATE''), (''SQL_TIME'', ''TIME''),
      (''SQL_TYPE_TIME'', ''TIME''), (''SQL_TIMESTAMP'', ''TIMESTAMP''),
      (''SQL_TYPE_TIMESTAMP'', ''TIMESTAMP''), (''SQL_GUID'', ''UUID'')]
     (to_ascii_uppercase (trim keyword))"

section \<open>The argument splitter\<close>

text \<open>
  The text skipped by the three inner loops and the text after it: to the end of a literal whose
  opening quote has been consumed, to the end of a line, and to the end of a block comment whose
  opening has been consumed.
\<close>

fun skip_literal :: "char \<Rightarrow> string \<Rightarrow> string \<times> string" where
  "skip_literal q [] = ([], [])"
| "skip_literal q [c] = ([c], [])"
| "skip_literal q (c # e # cs) =
     (if c = q \<and> e = q then (let (a, r) = skip_literal q cs in (c # e # a, r))
      else if c = q then ([c], e # cs)
      else (let (a, r) = skip_literal q (e # cs) in (c # a, r)))"

definition skip_line :: "string \<Rightarrow> string \<times> string" where
  "skip_line s = (takeWhile (\<lambda>c. c \<noteq> CHR 0x0A) s, dropWhile (\<lambda>c. c \<noteq> CHR 0x0A) s)"

fun skip_block :: "string \<Rightarrow> string \<times> string" where
  "skip_block [] = ([], [])"
| "skip_block [c] = ([c], [])"
| "skip_block (c # e # cs) =
     (if c = CHR ''*'' \<and> e = CHR ''/'' then ([c, e], cs)
      else (let (a, r) = skip_block (e # cs) in (c # a, r)))"

lemma skip_literal_append: "skip_literal q s = (a, r) \<Longrightarrow> s = a @ r"
  by (induction q s arbitrary: a r rule: skip_literal.induct)
     (auto simp: Let_def split: if_splits prod.splits)

lemma skip_block_append: "skip_block s = (a, r) \<Longrightarrow> s = a @ r"
  by (induction s arbitrary: a r rule: skip_block.induct)
     (auto simp: Let_def split: if_splits prod.splits)

lemma skip_line_append: "skip_line s = (a, r) \<Longrightarrow> s = a @ r"
  by (auto simp: skip_line_def)

text \<open>
  One turn of the outer loop: the text it consumes, the text after it, the new depth, and whether
  it met a separator.
\<close>

definition next_is :: "string \<Rightarrow> char \<Rightarrow> bool" where
  "next_is cs e \<longleftrightarrow> (case cs of [] \<Rightarrow> False | x # _ \<Rightarrow> x = e)"

definition split_turn :: "char \<Rightarrow> string \<Rightarrow> nat \<Rightarrow> string \<times> string \<times> nat \<times> bool" where
  "split_turn c cs depth =
     (if c = sq \<or> c = dq then (let (a, r) = skip_literal c cs in (c # a, r, depth, False))
      else if c = CHR ''-'' \<and> next_is cs CHR ''-'' then
        (let (a, r) = skip_line cs in (c # a, r, depth, False))
      else if c = CHR ''/'' \<and> next_is cs CHR ''*'' then
        (let (a, r) = skip_block (tl cs) in (c # hd cs # a, r, depth, False))
      else if c = CHR ''('' then ([c], cs, depth + 1, False)
      else if c = CHR '')'' then ([c], cs, depth - 1, False)
      else if c = CHR '','' \<and> depth = 0 then ([], cs, depth, True)
      else ([c], cs, depth, False))"

lemma split_turn_consumes:
  "split_turn c cs depth = (a, r, d, b) \<Longrightarrow> c # cs = (if b then CHR '','' # r else a @ r)"
  by (auto simp: split_turn_def Let_def next_is_def split: if_splits prod.splits list.splits
      dest: skip_literal_append skip_block_append skip_line_append)

lemma split_turn_progress:
  assumes "split_turn c cs depth = (a, r, d, b)"
  shows "length r < Suc (length cs)"
proof -
  have "b \<or> a \<noteq> []"
    using assms by (auto simp: split_turn_def Let_def split: if_splits prod.splits)
  moreover have "length (c # cs) = length (if b then CHR '','' # r else a @ r)"
    using split_turn_consumes [OF assms] by simp
  ultimately show ?thesis by (cases b) auto
qed

text \<open>The pieces, before each is trimmed.\<close>

function split_raw :: "string \<Rightarrow> nat \<Rightarrow> string \<Rightarrow> string list" where
  "split_raw [] depth current = [current]"
| "split_raw (c # cs) depth current =
     (let (a, r, d, separator) = split_turn c cs depth in
      if separator then current # split_raw r d [] else split_raw r d (current @ a))"
  by pat_completeness auto
termination
  by (relation "measure (\<lambda>(s, d, cur). length s)") (auto dest!: split_turn_progress [OF sym])

declare split_raw.simps [simp del]

definition split_args :: "string \<Rightarrow> string list" where
  "split_args args = map trim (split_raw args 0 [])"

section \<open>Rewriting\<close>

definition TRUNCATE_LITERAL_SCALE_LIMIT :: int where
  "TRUNCATE_LITERAL_SCALE_LIMIT = 18"

definition rewrite_truncate :: "string \<Rightarrow> string \<Rightarrow> string" where
  "rewrite_truncate value digits =
     (let power_form =
        ''(truncate('' @ value @ '' * power(10, '' @ digits @ '')) / power(10, '' @ digits @ ''))''
      in case parse_i32 (trim digits) of
        None \<Rightarrow> power_form
      | Some d \<Rightarrow>
          if d = 0 then ''truncate('' @ value @ '')''
          else if 1 \<le> d \<and> d \<le> TRUNCATE_LITERAL_SCALE_LIMIT then
            (let scale = show_nat (10 ^ nat d) in
             ''(truncate('' @ value @ '' * '' @ scale @ '') / '' @ scale @ '')'')
          else if - TRUNCATE_LITERAL_SCALE_LIMIT \<le> d \<and> d < 0 then
            (let scale = show_nat (10 ^ nat (- d)) in
             ''(truncate('' @ value @ '' / '' @ scale @ '') * '' @ scale @ '')'')
          else power_form)"

text \<open>The \<open>match\<close> of \<open>rewrite_scalar_fn\<close> on the name in upper case, its guarded arms in order.\<close>

definition rewrite_upper :: "string \<Rightarrow> string \<Rightarrow> string option" where
  "rewrite_upper upper args =
     (let parts = split_args args;
          n = length parts;
          empty = (trim args = []);
          blank = [sq, CHR '' '', sq]
      in
      if upper = ''LOCATE'' \<and> n = 2 then
        Some (''position('' @ parts ! 0 @ '' IN '' @ parts ! 1 @ '')'')
      else if upper = ''LENGTH'' \<and> n = 1 then
        Some (''length(rtrim('' @ parts ! 0 @ '', '' @ blank @ ''))'')
      else if upper = ''LTRIM'' \<and> n = 1 then
        Some (''ltrim('' @ parts ! 0 @ '', '' @ blank @ '')'')
      else if upper = ''RTRIM'' \<and> n = 1 then
        Some (''rtrim('' @ parts ! 0 @ '', '' @ blank @ '')'')
      else if (upper = ''CURDATE'' \<or> upper = ''CURRENT_DATE'') \<and> empty then
        Some ''current_date''
      else if (upper = ''CURTIME'' \<or> upper = ''CURRENT_TIME'') \<and> empty then
        Some ''current_time''
      else if upper = ''CURRENT_TIMESTAMP'' \<and> empty then Some ''current_timestamp''
      else if upper = ''USERNAME'' \<and> empty then Some ''current_user''
      else if upper = ''DBNAME'' \<and> empty then Some ''current_catalog''
      else if upper = ''TIMESTAMPADD'' \<and> n = 3 then
        map_option (\<lambda>unit. ''date_add('' @ sq # unit @ sq # '', '' @ parts ! 1 @ '', '' @ parts ! 2 @ '')'')
          (trino_interval_unit (parts ! 0))
      else if upper = ''TIMESTAMPDIFF'' \<and> n = 3 then
        map_option (\<lambda>unit. ''date_diff('' @ sq # unit @ sq # '', '' @ parts ! 1 @ '', '' @ parts ! 2 @ '')'')
          (trino_interval_unit (parts ! 0))
      else if upper = ''CONVERT'' \<and> n = 2 then
        map_option (\<lambda>target. ''CAST('' @ parts ! 0 @ '' AS '' @ target @ '')'')
          (trino_convert_target (parts ! 1))
      else if upper = ''RAND'' \<and> n = 1 \<and> \<not> empty then Some ''random()''
      else if upper = ''TRUNCATE'' \<and> n = 2 then
        Some (rewrite_truncate (parts ! 0) (parts ! 1))
      else if upper = ''DAYOFWEEK'' \<and> n = 1 then
        Some (''((day_of_week('' @ parts ! 0 @ '') % 7) + 1)'')
      else None)"

definition rewrite_scalar_fn :: "string \<Rightarrow> string \<Rightarrow> string option" where
  "rewrite_scalar_fn nm args = rewrite_upper (to_ascii_uppercase nm) args"

definition render_date :: "string \<Rightarrow> string" where "render_date x = ''DATE '' @ x"
definition render_time :: "string \<Rightarrow> string" where "render_time x = ''TIME '' @ x"
definition render_timestamp :: "string \<Rightarrow> string" where "render_timestamp x = ''TIMESTAMP '' @ x"

text \<open>What \<open>dialect\<close> sets on the default dialect of the core: the quotes and the hooks.\<close>

record dialect_hooks =
  identifier_quotes :: "(char \<times> char) list"
  remap_hook :: "string \<Rightarrow> string option"
  rewrite_hook :: "string \<Rightarrow> string \<Rightarrow> string option"
  date_renderer :: "string \<Rightarrow> string"
  time_renderer :: "string \<Rightarrow> string"
  timestamp_renderer :: "string \<Rightarrow> string"

definition dialect :: dialect_hooks where
  "dialect =
     \<lparr>identifier_quotes = [(dq, dq)], remap_hook = remap_scalar_fn, rewrite_hook = rewrite_scalar_fn,
      date_renderer = render_date, time_renderer = render_time, timestamp_renderer = render_timestamp\<rparr>"

section \<open>The splitter loses nothing\<close>

lemma split_raw_nonempty [simp]: "split_raw s d cur \<noteq> []"
  by (induction s d cur rule: split_raw.induct) (simp_all add: split_raw.simps Let_def split: prod.split)

lemma join_Cons: "ps \<noteq> [] \<Longrightarrow> join sep (p # ps) = p @ sep @ join sep ps"
  by (cases ps) simp_all

lemma split_raw_turn:
  "split_turn c cs depth = (a, r, d, b) \<Longrightarrow> split_raw (c # cs) depth cur =
     (if b then cur # split_raw r d [] else split_raw r d (cur @ a))"
  by (simp add: split_raw.simps)

lemma join_split_raw: "join '','' (split_raw s d cur) = cur @ s"
proof (induction s d cur rule: split_raw.induct)
  case (2 c cs depth cur)
  obtain a r d b where t: "split_turn c cs depth = (a, r, d, b)" by (rule prod_cases4)
  have "join '','' (split_raw (c # cs) depth cur) = cur @ (if b then CHR '','' # r else a @ r)"
    unfolding split_raw_turn [OF t]
    using 2(1,2) [OF t [symmetric] refl refl refl] by (cases b) (simp_all add: join_Cons)
  then show ?case by (simp only: split_turn_consumes [OF t])
qed (simp add: split_raw.simps)

text \<open>
  The texts of arguments (a specification): plain characters, closed literals and identifiers
  that no quote follows, and parenthesised texts, which may hold commas.
\<close>

inductive arg_text :: "bool \<Rightarrow> string \<Rightarrow> bool" where
  arg_empty: "arg_text nested []"
| arg_char: "arg_text nested s \<Longrightarrow> c \<notin> {sq, dq, CHR ''('', CHR '')'', CHR ''-'', CHR ''/''} \<Longrightarrow>
    nested \<or> c \<noteq> CHR '','' \<Longrightarrow> arg_text nested (c # s)"
| arg_minus: "arg_text nested s \<Longrightarrow> c \<in> {CHR ''-'', CHR ''/''} \<Longrightarrow>
    s \<noteq> [] \<Longrightarrow> hd s \<notin> {CHR ''-'', CHR ''*''} \<Longrightarrow> arg_text nested (c # s)"
| arg_literal: "arg_text nested s \<Longrightarrow> q \<in> {sq, dq} \<Longrightarrow> \<not> starts_with s q \<Longrightarrow>
    arg_text nested (q # double_char q body @ q # s)"
| arg_parens: "arg_text True inner \<Longrightarrow> arg_text nested s \<Longrightarrow>
    arg_text nested (CHR ''('' # inner @ CHR '')'' # s)"

lemma skip_literal_double:
  "\<not> starts_with r q \<Longrightarrow> skip_literal q (double_char q body @ q # r) = (double_char q body @ [q], r)"
proof (induction body)
  case Nil
  then show ?case by (cases r) (simp_all add: starts_with_def)
next
  case (Cons c body)
  obtain x xs where "double_char q body @ q # r = x # xs"
    by (cases "double_char q body") auto
  with Cons show ?case by auto
qed

lemma split_raw_arg:
  assumes "arg_text nested s" and "nested \<longrightarrow> 0 < d"
    and "\<not> starts_with rest sq" and "\<not> starts_with rest dq"
  shows "split_raw (s @ rest) d cur = split_raw rest d (cur @ s)"
  using assms
proof (induction nested s arbitrary: d cur rest rule: arg_text.induct)
  case (arg_empty nested)
  then show ?case by simp
next
  case (arg_char nested s c)
  have "split_turn c (s @ rest) d = ([c], s @ rest, d, False)"
    using arg_char by (auto simp: split_turn_def)
  then show ?case
    using arg_char split_raw_turn [of c "s @ rest" d "[c]" "s @ rest" d False cur] by simp
next
  case (arg_minus nested s c)
  have "split_turn c (s @ rest) d = ([c], s @ rest, d, False)"
    using arg_minus by (cases s) (auto simp: split_turn_def next_is_def)
  then show ?case
    using arg_minus split_raw_turn [of c "s @ rest" d "[c]" "s @ rest" d False cur] by simp
next
  case (arg_literal nested s q body)
  have ns: "\<not> starts_with (s @ rest) q"
    using arg_literal by (cases s) (auto simp: starts_with_def)
  have "split_turn q (double_char q body @ q # s @ rest) d =
      (q # double_char q body @ [q], s @ rest, d, False)"
    using arg_literal.hyps(2) skip_literal_double [OF ns, of body] by (simp add: split_turn_def)
  then show ?case
    using arg_literal split_raw_turn [of q "double_char q body @ q # s @ rest" d
        "q # double_char q body @ [q]" "s @ rest" d False cur] by simp
next
  case (arg_parens inner nested s)
  let ?r = "CHR '')'' # s @ rest"
  have 1: "split_turn CHR ''('' (inner @ ?r) d = (''('', inner @ ?r, d + 1, False)"
    by (simp add: split_turn_def)
  have 2: "split_turn CHR '')'' (s @ rest) (d + 1) = ('')'', s @ rest, d, False)"
    by (simp add: split_turn_def)
  have "split_raw (inner @ ?r) (d + 1) (cur @ ''('') = split_raw ?r (d + 1) (cur @ ''('' @ inner)"
    using arg_parens.IH(1) [of "d + 1" ?r "cur @ ''(''"] by (simp add: starts_with_def)
  moreover have "split_raw (s @ rest) d (cur @ ''('' @ inner @ '')'') =
      split_raw rest d (cur @ ''('' @ inner @ '')'' @ s)"
    using arg_parens.IH(2) [of d rest "cur @ ''('' @ inner @ '')''"] arg_parens.prems by simp
  ultimately show ?case
    using split_raw_turn [OF 1, of cur] split_raw_turn [OF 2, of "cur @ ''('' @ inner"] by simp
qed

lemma split_args_join:
  assumes "as \<noteq> []" and "\<forall>a \<in> set as. arg_text False a"
  shows "split_raw (join '','' as) 0 [] = as"
  using assms
proof (induction as rule: induct_list012)
  case (2 a)
  then show ?case
    using split_raw_arg [of False a 0 "[]" "[]"] by (simp add: starts_with_def split_raw.simps)
next
  case (3 a b as)
  have "split_turn CHR '','' s 0 = ([], s, 0, True)" for s
    by (simp add: split_turn_def)
  then have "split_raw (CHR '','' # s) 0 a = a # split_raw s 0 []" for s
    using split_raw_turn by simp
  then show ?case
    using 3 split_raw_arg [of False a 0 "CHR '','' # join '','' (b # as)" "[]"]
    by (simp add: starts_with_def)
qed simp

section \<open>Parameter markers\<close>

abbreviation markers :: "string \<Rightarrow> nat" where "markers s \<equiv> count_list s CHR ''?''"

lemma markers_dropWhile: "markers (dropWhile is_ws s) = markers s"
  by (induction s) (auto simp: str_simps)

lemma markers_rev: "markers (rev s) = markers s"
  by (induction s) simp_all

lemma markers_trim: "markers (trim s) = markers s"
  by (simp add: trim_def trim_start_def trim_end_def markers_rev markers_dropWhile)

lemma markers_join: "markers (join '','' ps) = sum_list (map markers ps)"
  by (induction "'',''" ps rule: join.induct) simp_all

lemma markers_split: "sum_list (map markers (split_args args)) = markers args"
  using markers_join [of "split_raw args 0 []"]
  by (simp add: split_args_def join_split_raw markers_trim comp_def)

lemma split_args_parts:
  "length (split_args args) = 1 \<Longrightarrow> markers (split_args args ! 0) = markers args"
  "length (split_args args) = 2 \<Longrightarrow>
     markers (split_args args ! 0) + markers (split_args args ! 1) = markers args"
  "length (split_args args) = 3 \<Longrightarrow>
     markers (split_args args ! 0) + markers (split_args args ! 1) + markers (split_args args ! 2) =
       markers args"
  using markers_split [of args]
  by (auto simp: length_Suc_conv numeral_2_eq_2 numeral_3_eq_3)

lemma markers_zero: "markers s = 0 \<longleftrightarrow> CHR ''?'' \<notin> set s"
  by (simp add: count_list_0_iff)

lemma ascii_upper_marker: "CHR ''?'' \<in> set s \<Longrightarrow> CHR ''?'' \<in> set (to_ascii_uppercase s)"
proof -
  have "ascii_upper_char CHR ''?'' = CHR ''?''" by (simp add: str_simps)
  then show "CHR ''?'' \<in> set s \<Longrightarrow> CHR ''?'' \<in> set (to_ascii_uppercase s)" by force
qed

lemma keyword_no_marker:
  assumes "lookup_str table (to_ascii_uppercase (trim p)) = Some u"
    and "\<forall>(k, v) \<in> set table. CHR ''?'' \<notin> set k \<and> CHR ''?'' \<notin> set v"
  shows "markers p = 0" and "markers u = 0"
proof -
  have m: "(to_ascii_uppercase (trim p), u) \<in> set table"
    using assms(1) by (auto simp: lookup_str_def dest: map_of_SomeD)
  with assms(2) have "CHR ''?'' \<notin> set (to_ascii_uppercase (trim p))" by auto
  then have "CHR ''?'' \<notin> set (trim p)" using ascii_upper_marker by blast
  then show "markers p = 0" using markers_trim [of p] by (simp add: count_list_0_iff)
  show "markers u = 0" using m assms(2) by (auto simp: count_list_0_iff)
qed

lemma unit_no_marker:
  "trino_interval_unit p = Some u \<Longrightarrow> markers p = 0 \<and> markers u = 0"
  using keyword_no_marker by (fastforce simp: trino_interval_unit_def)

lemma target_no_marker:
  "trino_convert_target p = Some u \<Longrightarrow> markers p = 0 \<and> markers u = 0"
  unfolding trino_convert_target_def by (intro conjI; erule keyword_no_marker; simp)

section \<open>Properties\<close>

text \<open>
  C39: the argument splitter cuts exactly at the commas between arguments. For arguments made of
  plain characters, closed string literals and quoted identifiers, and nested parentheses, all of
  which may hold commas of their own, it returns the arguments, each trimmed.
\<close>

theorem split_args_of_join:
  assumes "as \<noteq> []" and "\<forall>a \<in> set as. arg_text False a"
  shows "split_args (join '','' as) = map trim as"
  using split_args_join [OF assms] by (simp add: split_args_def)

theorem split_args_of_join_witness:
  "split_args ([sq, CHR '','', sq] @ '', f(a,b)'') = [[sq, CHR '','', sq], ''f(a,b)'']"
proof -
  have "arg_text False (sq # double_char sq '','' @ sq # [])"
    by (intro arg_literal arg_empty) (simp_all add: starts_with_def)
  then have 1: "arg_text False [sq, CHR '','', sq]" by simp
  have "arg_text True ''a,b''" by (intro arg_char arg_empty) simp_all
  then have "arg_text False (CHR ''('' # ''a,b'' @ CHR '')'' # [])" by (intro arg_parens arg_empty)
  then have "arg_text False ''(a,b)''" by simp
  then have 2: "arg_text False '' f(a,b)''" by (rule arg_char [OF arg_char]) simp_all
  from split_args_of_join [of "[[sq, CHR '','', sq], '' f(a,b)'']"] 1 2
  show ?thesis by (simp add: trim_def trim_start_def trim_end_def str_simps)
qed

text \<open>
  C40: a rewritten escape keeps every parameter marker of its arguments, once: for all functions but
  RAND, whose seed is dropped, and TRUNCATE, whose scale may be repeated, the rewritten text holds
  exactly as many question marks as the arguments.
\<close>

theorem rewrite_keeps_markers:
  assumes "rewrite_scalar_fn nm args = Some out"
    and "to_ascii_uppercase nm \<noteq> ''RAND''" and "to_ascii_uppercase nm \<noteq> ''TRUNCATE''"
  shows "markers out = markers args"
proof -
  have e: "trim args = [] \<Longrightarrow> markers args = 0" using markers_trim [of args] by simp
  show ?thesis
    using assms split_args_parts [of args] e unit_no_marker target_no_marker
    by (auto simp: rewrite_scalar_fn_def rewrite_upper_def Let_def split: if_splits)
qed

theorem rewrite_keeps_markers_witness:
  "rewrite_scalar_fn ''locate'' ''?, name'' = Some ''position(? IN name)'' \<and>
   markers ''position(? IN name)'' = markers ''?, name''"
proof -
  have "rewrite_scalar_fn ''locate'' ''?, name'' = Some ''position(? IN name)''"
    by (simp add: rewrite_scalar_fn_def rewrite_upper_def split_args_def split_raw.simps split_turn_def trim_def
        trim_start_def trim_end_def str_simps)
  with rewrite_keeps_markers [OF this] show ?thesis by (simp add: str_simps)
qed

text \<open>
  TRUNCATE with a literal number of digits of at most 18 in magnitude never reaches the
  double-valued power function: it is scaled by the power of ten written out, which fits a
  64-bit integer, multiplying before and dividing after for a positive number of digits and the
  other way round for a negative one.
\<close>

theorem truncate_literal_scale:
  assumes "parse_i32 (trim digits) = Some d" and "\<bar>d\<bar> \<le> 18"
  shows "rewrite_truncate v digits =
    (let scale = show_nat (10 ^ nat \<bar>d\<bar>) in
     if d = 0 then ''truncate('' @ v @ '')''
     else if 0 < d then ''(truncate('' @ v @ '' * '' @ scale @ '') / '' @ scale @ '')''
     else ''(truncate('' @ v @ '' / '' @ scale @ '') * '' @ scale @ '')'') \<and>
    (10 :: int) ^ nat \<bar>d\<bar> \<le> i64_max"
proof -
  have "(10 :: int) ^ nat \<bar>d\<bar> \<le> 10 ^ 18" using assms(2) by (intro power_increasing) auto
  then show ?thesis
    using assms by (auto simp: rewrite_truncate_def TRUNCATE_LITERAL_SCALE_LIMIT_def Let_def)
qed

theorem truncate_literal_scale_witness:
  "rewrite_truncate ''x'' '' -2'' = ''(truncate(x / 100) * 100)''"
proof -
  have "parse_i32 (trim '' -2'') = Some (- 2)"
    by (simp add: trim_def trim_start_def trim_end_def str_simps parse_int_def parse_digits_def
        digits_val_def digit_val_def)
  from truncate_literal_scale [OF this, of "''x''"] show ?thesis
    by (simp add: Let_def show_nat.simps str_simps)
qed

text \<open>
  The two hooks divide the work: both ignore the case of the function name, and a name that one
  of them renames is never rewritten by the other.
\<close>

theorem hooks_disjoint:
  "rewrite_scalar_fn (to_ascii_uppercase nm) args = rewrite_scalar_fn nm args \<and>
   remap_scalar_fn (to_ascii_uppercase nm) = remap_scalar_fn nm \<and>
   (remap_scalar_fn nm = None \<or> rewrite_scalar_fn nm args = None)"
proof -
  have "ascii_upper_char (ascii_upper_char c) = ascii_upper_char c" for c
    by (auto simp: ascii_upper_char_def Let_def)
  then have idem: "to_ascii_uppercase (to_ascii_uppercase nm) = to_ascii_uppercase nm" by simp
  have "remap_upper u = None \<or> rewrite_upper u args = None" for u
    by (auto simp: remap_upper_def lookup_str_def rewrite_upper_def Let_def)
  then show ?thesis unfolding rewrite_scalar_fn_def remap_scalar_fn_def idem by simp
qed

text \<open>
  TRUNCATE scales its argument without putting it in parentheses, so a sum is scaled in its last
  term only; and a scale given as a parameter marker is written twice, so that one bound parameter
  meets two markers.
\<close>

theorem truncate_defects:
  "rewrite_scalar_fn ''TRUNCATE'' ''a + b, 1'' = Some ''(truncate(a + b * 10) / 10)'' \<and>
   rewrite_scalar_fn ''TRUNCATE'' ''x, ?'' =
     Some ''(truncate(x * power(10, ?)) / power(10, ?))''"
proof -
  note [simp] = split_args_def split_raw.simps split_turn_def trim_def trim_start_def trim_end_def
    str_simps next_is_def
  have "split_args ''a + b, 1'' = [''a + b'', ''1'']" and "split_args ''x, ?'' = [''x'', ''?'']"
    by simp_all
  moreover have "parse_i32 (trim ''1'') = Some 1" and "parse_i32 (trim ''?'') = None"
    by (simp_all add: parse_int_def parse_digits_def digits_val_def digit_val_def)
  moreover have "show_nat 10 = ''10''" by (simp add: show_nat.simps)
  ultimately show ?thesis
    by (simp add: rewrite_scalar_fn_def rewrite_upper_def rewrite_truncate_def TRUNCATE_LITERAL_SCALE_LIMIT_def
        del: split_args_def trim_def)
qed

end
