(* ===== verification/Conn_Params.thy ===== *)
theory Conn_Params
  imports Errors
begin

text \<open>
  Connection parameters (\<open>src/src/backend/types/connect_params.rs\<close>): the keys, the small parsers,
  and the validation of the whole parameter set. The core's parsed connection string is
  \<open>conn_string\<close>, the client library's time zones and encodings are parameters, and hash maps and
  sets are maps and sets.
\<close>

section \<open>Keys and defaults\<close>

definition PARAM_HOST :: string where "PARAM_HOST = ''host''"
definition PARAM_PORT :: string where "PARAM_PORT = ''port''"
definition PARAM_PROTOCOL :: string where "PARAM_PROTOCOL = ''protocol''"
definition PARAM_TLS_VERIFY :: string where "PARAM_TLS_VERIFY = ''tlsverify''"
definition PARAM_SSL_VERIFICATION :: string where "PARAM_SSL_VERIFICATION = ''sslverification''"
definition PARAM_CERTIFICATE :: string where "PARAM_CERTIFICATE = ''certificate''"
definition PARAM_CLIENT_CERTIFICATE :: string where
  "PARAM_CLIENT_CERTIFICATE = ''clientcertificate''"
definition PARAM_QUERY_TIMEOUT :: string where "PARAM_QUERY_TIMEOUT = ''querytimeout''"
definition PARAM_LOGIN_TIMEOUT :: string where "PARAM_LOGIN_TIMEOUT = ''logintimeout''"
definition PARAM_CATALOG :: string where "PARAM_CATALOG = ''catalog''"
definition PARAM_SCHEMA :: string where "PARAM_SCHEMA = ''schema''"
definition PARAM_SOURCE :: string where "PARAM_SOURCE = ''source''"
definition PARAM_CLIENT_TAGS :: string where "PARAM_CLIENT_TAGS = ''clienttags''"
definition PARAM_ACCESS_TOKEN :: string where "PARAM_ACCESS_TOKEN = ''accesstoken''"
definition PARAM_TOKEN :: string where "PARAM_TOKEN = ''token''"
definition PARAM_SESSION_PROPERTIES :: string where
  "PARAM_SESSION_PROPERTIES = ''sessionproperties''"
definition PARAM_EXTRA_CREDENTIALS :: string where
  "PARAM_EXTRA_CREDENTIALS = ''extracredentials''"
definition PARAM_RESOURCE_ESTIMATES :: string where
  "PARAM_RESOURCE_ESTIMATES = ''resourceestimates''"
definition PARAM_PATH :: string where "PARAM_PATH = ''path''"
definition PARAM_CLIENT_INFO :: string where "PARAM_CLIENT_INFO = ''clientinfo''"
definition PARAM_TRACE_TOKEN :: string where "PARAM_TRACE_TOKEN = ''tracetoken''"
definition PARAM_PROXY :: string where "PARAM_PROXY = ''proxy''"
definition PARAM_PROXY_USER :: string where "PARAM_PROXY_USER = ''proxyuser''"
definition PARAM_PROXY_PASSWORD :: string where "PARAM_PROXY_PASSWORD = ''proxypassword''"
definition PARAM_EXTRA_HEADERS :: string where "PARAM_EXTRA_HEADERS = ''extraheaders''"
definition PARAM_CLIENT_CAPABILITIES :: string where
  "PARAM_CLIENT_CAPABILITIES = ''clientcapabilities''"
definition PARAM_TIME_ZONE :: string where "PARAM_TIME_ZONE = ''timezone''"
definition PARAM_ROLES :: string where "PARAM_ROLES = ''roles''"
definition PARAM_SESSION_USER :: string where "PARAM_SESSION_USER = ''sessionuser''"
definition PARAM_LOCALE :: string where "PARAM_LOCALE = ''locale''"
definition PARAM_DISABLE_COMPRESSION :: string where
  "PARAM_DISABLE_COMPRESSION = ''disablecompression''"
definition PARAM_MAX_ATTEMPTS :: string where "PARAM_MAX_ATTEMPTS = ''maxattempts''"
definition PARAM_ENCODING :: string where "PARAM_ENCODING = ''encoding''"
definition PARAM_EXTERNAL_AUTHENTICATION :: string where
  "PARAM_EXTERNAL_AUTHENTICATION = ''externalauthentication''"
definition PARAM_EXTERNAL_AUTH_TIMEOUT :: string where
  "PARAM_EXTERNAL_AUTH_TIMEOUT = ''externalauthenticationtimeout''"

definition PAIR_SEPARATOR :: char where "PAIR_SEPARATOR = CHR '';''"
definition KEY_VALUE_SEPARATOR :: char where "KEY_VALUE_SEPARATOR = CHR '':''"
definition DEFAULT_PROTOCOL :: string where "DEFAULT_PROTOCOL = ''https''"
definition DEFAULT_QUERY_TIMEOUT_SECS :: int where "DEFAULT_QUERY_TIMEOUT_SECS = 30"
definition DEFAULT_EXTERNAL_AUTH_TIMEOUT_SECS :: int where
  "DEFAULT_EXTERNAL_AUTH_TIMEOUT_SECS = 300"

text \<open>The package version the build puts in is 0.2.0 (\<open>src/Cargo.toml\<close>).\<close>

definition DEFAULT_SOURCE :: string where
  "DEFAULT_SOURCE = ''stackable-odbc-trino/0.2.0''"

section \<open>The parsers of single values\<close>

text \<open>A \<open>HashMap<String, String>\<close>, filled pair by pair; a repeated name keeps its last value.\<close>

type_synonym string_map = "string \<rightharpoonup> string"

definition bad_pair :: "string \<Rightarrow> string \<Rightarrow> trino_error" where
  "bad_pair key pair =
     General (''invalid value for '' @ key @ '': '' @ debug_string pair @ '' is not '' @
       dq # ''name'' @ KEY_VALUE_SEPARATOR # ''value'' @ dq #
       ''. Pairs are separated by '' @ sq # PAIR_SEPARATOR # sq #
       '', so the whole value needs {braces} in a connection string'')"

definition empty_name :: "string \<Rightarrow> string \<Rightarrow> trino_error" where
  "empty_name key pair =
     General (''invalid value for '' @ key @ '': '' @ debug_string pair @ '' has an empty name'')"

fun insert_pairs :: "string \<Rightarrow> string list \<Rightarrow> string_map \<Rightarrow> trino_error + string_map" where
  "insert_pairs key [] m = Inr m"
| "insert_pairs key (pair # pairs) m =
     (if trim pair = [] then insert_pairs key pairs m
      else case split_once KEY_VALUE_SEPARATOR pair of
        None \<Rightarrow> Inl (bad_pair key pair)
      | Some (nm, val) \<Rightarrow>
          if trim nm = [] then Inl (empty_name key pair)
          else insert_pairs key pairs (m(trim nm \<mapsto> trim val)))"

definition parse_key_value_pairs :: "string \<Rightarrow> string \<Rightarrow> trino_error + string_map" where
  "parse_key_value_pairs key raw =
     insert_pairs key (split_on PAIR_SEPARATOR raw) Map.empty"

text \<open>\<open>str::split_once\<close> with a text as the separator.\<close>

fun split_once_str :: "string \<Rightarrow> string \<Rightarrow> (string \<times> string) option" where
  "split_once_str p [] = (if p = [] then Some ([], []) else None)"
| "split_once_str p (c # cs) =
     (case strip_prefix p (c # cs) of
        Some r \<Rightarrow> Some ([], r)
      | None \<Rightarrow> map_option (\<lambda>(a, b). (c # a, b)) (split_once_str p cs))"

definition url_authority :: "string \<Rightarrow> string" where
  "url_authority raw =
     (let after_scheme =
        (case split_once_str ''://'' raw of None \<Rightarrow> raw | Some (_, rest) \<Rightarrow> rest)
      in takeWhile (\<lambda>c. c \<notin> {CHR ''/'', CHR ''?'', CHR 0x23}) after_scheme)"

definition proxy_url :: "string \<Rightarrow> trino_error + string" where
  "proxy_url raw =
     (if CHR ''@'' \<in> set (url_authority raw)
      then Inl (General (''invalid value for '' @ PARAM_PROXY @
        '': credentials in the URL are not accepted, because the whole value is echoed back by '' @
        ''SQLDriverConnect. Use '' @ PARAM_PROXY_USER @ '' and '' @ PARAM_PROXY_PASSWORD @
        '' instead''))
      else Inr raw)"

datatype selected_role = RoleAll | RoleNone | RoleNamed string

definition selected_role :: "string \<Rightarrow> selected_role" where
  "selected_role value =
     (if to_ascii_uppercase value = ''ALL'' then RoleAll
      else if to_ascii_uppercase value = ''NONE'' then RoleNone
      else RoleNamed value)"

datatype tls_verification = TlsFull | TlsCaOnly | TlsNone

fun debug_tls :: "tls_verification \<Rightarrow> string" where
  "debug_tls TlsFull = ''Full''"
| "debug_tls TlsCaOnly = ''CaOnly''"
| "debug_tls TlsNone = ''None''"

definition parse_tls_one :: "string \<Rightarrow> string \<Rightarrow> trino_error + tls_verification" where
  "parse_tls_one key raw =
     (if eq_ignore_ascii_case raw ''true'' \<or> eq_ignore_ascii_case raw ''full'' then Inr TlsFull
      else if eq_ignore_ascii_case raw ''ca'' then Inr TlsCaOnly
      else if eq_ignore_ascii_case raw ''false'' \<or> eq_ignore_ascii_case raw ''none'' then Inr TlsNone
      else Inl (General (''invalid value for '' @ key @ '': '' @ debug_string raw @
        '', expected '' @ debug_string ''true'' @ ''/'' @ debug_string ''full'' @ '', '' @
        debug_string ''ca'' @ '', or '' @ debug_string ''false'' @ ''/'' @ debug_string ''none'')))"

definition parse_tls_verification ::
    "string option \<Rightarrow> string option \<Rightarrow> trino_error + tls_verification" where
  "parse_tls_verification tls_verify ssl_verification =
     (case (tls_verify, ssl_verification) of
        (None, None) \<Rightarrow> Inr TlsFull
      | (Some v, None) \<Rightarrow> parse_tls_one PARAM_TLS_VERIFY v
      | (None, Some v) \<Rightarrow> parse_tls_one PARAM_SSL_VERIFICATION v
      | (Some a, Some b) \<Rightarrow>
          bind_res (parse_tls_one PARAM_TLS_VERIFY a) (\<lambda>a'.
          bind_res (parse_tls_one PARAM_SSL_VERIFICATION b) (\<lambda>b'.
            if a' = b' then Inr a'
            else Inl (General (PARAM_TLS_VERIFY @ '' and '' @ PARAM_SSL_VERIFICATION @
              '' are the same setting and were given different values ('' @ debug_tls a' @
              '' and '' @ debug_tls b' @ ''); set only one'')))))"

definition parse_bool :: "string \<Rightarrow> string \<Rightarrow> trino_error + bool" where
  "parse_bool key raw =
     (if eq_ignore_ascii_case raw ''true'' then Inr True
      else if eq_ignore_ascii_case raw ''false'' then Inr False
      else Inl (General (''invalid value for '' @ key @ '': '' @ debug_string raw @
        '', expected '' @ debug_string ''true'' @ '' or '' @ debug_string ''false'')))"

text \<open>The elements of a comma-separated list, trimmed, without the empty ones.\<close>

definition comma_list :: "string option \<Rightarrow> string set" where
  "comma_list raw =
     (case raw of
        None \<Rightarrow> {}
      | Some r \<Rightarrow> set (filter (\<lambda>t. t \<noteq> []) (map trim (split_on CHR '','' r))))"

section \<open>The parameter set\<close>

text \<open>
  The core's parsed connection string: a lookup by key, and the user and password keywords it
  defines itself.
\<close>

record conn_string =
  get_param :: "string \<Rightarrow> string option"
  cs_user :: "string option"
  cs_password :: "string option"

text \<open>The client library's parsers of a time zone name and of a query-data encoding.\<close>

record ('z, 'e) client_ext =
  parse_tz :: "string \<Rightarrow> 'z option"
  spooling_of :: "string \<Rightarrow> 'e option"

record ('z, 'e) conn_params =
  p_host :: string
  p_port :: int
  p_user :: "string option"
  p_password :: "string option"
  p_access_token :: "string option"
  p_secure :: bool
  p_tls :: tls_verification
  p_certificate :: "string option"
  p_client_certificate :: "string option"
  p_query_timeout :: int
  p_catalog :: "string option"
  p_schema :: "string option"
  p_source :: string
  p_client_tags :: "string set"
  p_session_properties :: string_map
  p_extra_credentials :: string_map
  p_resource_estimates :: string_map
  p_path :: "string option"
  p_client_info :: "string option"
  p_trace_token :: "string option"
  p_session_user :: "string option"
  p_locale :: "string option"
  p_roles :: "string \<rightharpoonup> selected_role"
  p_time_zone :: "'z option"
  p_extra_headers :: string_map
  p_client_capabilities :: "string set"
  p_proxy :: "string option"
  p_proxy_user :: "string option"
  p_proxy_password :: "string option"
  p_external_authentication :: bool
  p_external_auth_timeout :: int
  p_compression_disabled :: bool
  p_max_attempts :: "int option"
  p_spooling_encoding :: "'e option"

definition proxy_credentials :: "('z, 'e) conn_params \<Rightarrow> (string \<times> string) option" where
  "proxy_credentials p =
     (case (p_proxy_user p, p_proxy_password p) of (Some u, Some w) \<Rightarrow> Some (u, w) | _ \<Rightarrow> None)"

section \<open>Validation, one parameter group at a time\<close>

definition opt_or :: "'a \<Rightarrow> 'a option \<Rightarrow> 'a" where
  "opt_or d m = (case m of None \<Rightarrow> d | Some a \<Rightarrow> a)"

definition required :: "conn_string \<Rightarrow> string \<Rightarrow> trino_error + string" where
  "required ps key = ok_or (MissingParam key) (get_param ps key)"

definition read_port :: "string \<Rightarrow> trino_error + int" where
  "read_port s = ok_or (General (''invalid port: '' @ s)) (parse_u16 s)"

definition read_bool :: "conn_string \<Rightarrow> string \<Rightarrow> trino_error + bool" where
  "read_bool ps key = (case get_param ps key of None \<Rightarrow> Inr False | Some v \<Rightarrow> parse_bool key v)"

definition read_user :: "conn_string \<Rightarrow> bool \<Rightarrow> trino_error + string option" where
  "read_user ps external =
     (case cs_user ps of
        Some u \<Rightarrow> Inr (Some u)
      | None \<Rightarrow> if external then Inr None else Inl (MissingParam ''user''))"

definition read_secure :: "conn_string \<Rightarrow> trino_error + bool" where
  "read_secure ps =
     (let v = opt_or DEFAULT_PROTOCOL (get_param ps PARAM_PROTOCOL) in
      if eq_ignore_ascii_case v ''https'' then Inr True
      else if eq_ignore_ascii_case v ''http'' then Inr False
      else Inl (General (''invalid value for '' @ PARAM_PROTOCOL @ '': '' @ debug_string v @
        '', expected '' @ debug_string ''http'' @ '' or '' @ debug_string ''https'')))"

definition check_certificates ::
    "bool \<Rightarrow> tls_verification \<Rightarrow> string option \<Rightarrow> string option \<Rightarrow> trino_error + unit" where
  "check_certificates is_secure verification cert client_cert =
     (let named = (if cert \<noteq> None then [PARAM_CERTIFICATE] else []) @
                  (if client_cert \<noteq> None then [PARAM_CLIENT_CERTIFICATE] else []) in
      if \<not> is_secure \<and> named \<noteq> []
      then Inl (General (join '' and '' named @ '' cannot be combined with '' @ PARAM_PROTOCOL @
        ''=http: there is no TLS session for it to apply to, so it would be read from nowhere and '' @
        ''verify nothing. Remove it, or set '' @ PARAM_PROTOCOL @ ''=https''))
      else if verification = TlsCaOnly \<and> cert = None
      then Inl (General (PARAM_TLS_VERIFY @
        ''=ca verifies the certificate chain but not the hostname, and needs the chain to verify '' @
        ''against: supply '' @ PARAM_CERTIFICATE @ ''=<pem>''))
      else Inr ())"

definition read_pairs :: "conn_string \<Rightarrow> string \<Rightarrow> trino_error + string_map" where
  "read_pairs ps key =
     (case get_param ps key of None \<Rightarrow> Inr Map.empty | Some raw \<Rightarrow> parse_key_value_pairs key raw)"

definition read_proxy :: "conn_string \<Rightarrow> trino_error + string option" where
  "read_proxy ps =
     (case get_param ps PARAM_PROXY of
        None \<Rightarrow> Inr None
      | Some raw \<Rightarrow> bind_res (proxy_url raw) (\<lambda>u. Inr (Some u)))"

definition check_proxy ::
    "string option \<Rightarrow> string option \<Rightarrow> string option \<Rightarrow> trino_error + unit" where
  "check_proxy url px_user px_password =
     (if (px_user \<noteq> None) \<noteq> (px_password \<noteq> None)
      then Inl (General (PARAM_PROXY_USER @ '' and '' @ PARAM_PROXY_PASSWORD @ '' must be set together''))
      else if url = None \<and> px_user \<noteq> None
      then Inl (General (PARAM_PROXY_USER @ '' was set without '' @ PARAM_PROXY))
      else Inr ())"

definition read_time_zone ::
    "('z, 'e) client_ext \<Rightarrow> conn_string \<Rightarrow> trino_error + 'z option" where
  "read_time_zone x ps =
     (case get_param ps PARAM_TIME_ZONE of
        None \<Rightarrow> Inr None
      | Some raw \<Rightarrow>
          bind_res (ok_or (General (''invalid value for '' @ PARAM_TIME_ZONE @ '': '' @ debug_string raw @
              '' is not an IANA time zone name, such as '' @ debug_string ''Europe/Berlin'' @ '' or '' @
              debug_string ''UTC'')) (parse_tz x raw))
            (\<lambda>z. Inr (Some z)))"

definition read_encoding ::
    "('z, 'e) client_ext \<Rightarrow> conn_string \<Rightarrow> trino_error + 'e option" where
  "read_encoding x ps =
     (case get_param ps PARAM_ENCODING of
        None \<Rightarrow> Inr None
      | Some raw \<Rightarrow>
          bind_res (ok_or (General (''invalid value for '' @ PARAM_ENCODING @ '': '' @ debug_string raw @
              '', expected '' @ debug_string ''json'' @ '', '' @ debug_string ''json+zstd'' @ '' or '' @
              debug_string ''json+lz4'')) (spooling_of x (to_ascii_lowercase raw)))
            (\<lambda>e. Inr (Some e)))"

text \<open>\<open>parse\<close> to a 64-bit unsigned integer, refusing zero.\<close>

definition parse_positive :: "trino_error \<Rightarrow> string \<Rightarrow> trino_error + int" where
  "parse_positive err v =
     (case parse_u64 v of None \<Rightarrow> Inl err | Some n \<Rightarrow> if n = 0 then Inl err else Inr n)"

definition read_external_timeout :: "conn_string \<Rightarrow> trino_error + int" where
  "read_external_timeout ps =
     (case get_param ps PARAM_EXTERNAL_AUTH_TIMEOUT of
        None \<Rightarrow> Inr DEFAULT_EXTERNAL_AUTH_TIMEOUT_SECS
      | Some v \<Rightarrow>
          parse_positive (General (''invalid value for '' @ PARAM_EXTERNAL_AUTH_TIMEOUT @ '': '' @
            debug_string v @ '', expected a positive number of seconds'')) v)"

definition read_max_attempts :: "conn_string \<Rightarrow> trino_error + int option" where
  "read_max_attempts ps =
     (case get_param ps PARAM_MAX_ATTEMPTS of
        None \<Rightarrow> Inr None
      | Some v \<Rightarrow>
          bind_res (parse_positive (General (''invalid value for '' @ PARAM_MAX_ATTEMPTS @ '': '' @
            debug_string v @ '', expected a positive integer'')) v) (\<lambda>n. Inr (Some n)))"

definition timeout_key :: "conn_string \<Rightarrow> (string \<times> string) option" where
  "timeout_key ps =
     (case or_else (map_option (\<lambda>v. (PARAM_QUERY_TIMEOUT, v)) (get_param ps PARAM_QUERY_TIMEOUT))
             (map_option (\<lambda>v. (PARAM_LOGIN_TIMEOUT, v)) (get_param ps PARAM_LOGIN_TIMEOUT)) of
        None \<Rightarrow> None
      | Some (k, v) \<Rightarrow> if trim v = [] then None else Some (k, v))"

definition read_query_timeout :: "conn_string \<Rightarrow> trino_error + int" where
  "read_query_timeout ps =
     (case timeout_key ps of
        None \<Rightarrow> Inr DEFAULT_QUERY_TIMEOUT_SECS
      | Some (key, v) \<Rightarrow>
          ok_or (General (''invalid value for '' @ key @ '': '' @ debug_string v @
            '', expected a whole number of seconds ('' @ key @ ''=0 disables the timeout)''))
            (parse_u64 (trim v)))"

definition read_source :: "conn_string \<Rightarrow> string" where
  "read_source ps =
     (case get_param ps PARAM_SOURCE of
        None \<Rightarrow> DEFAULT_SOURCE
      | Some s \<Rightarrow> if trim s = [] then DEFAULT_SOURCE else s)"

section \<open>The whole set\<close>

text \<open>
  \<open>TryFrom<&ConnectParams> for TrinoConnectParams\<close>: every check in the order of the code, the
  first failure being the result.
\<close>

definition try_from ::
    "('z, 'e) client_ext \<Rightarrow> conn_string \<Rightarrow> trino_error + ('z, 'e) conn_params" where
  "try_from x ps =
     bind_res (required ps PARAM_HOST) (\<lambda>v_host.
     bind_res (required ps PARAM_PORT) (\<lambda>port_str.
     bind_res (read_port port_str) (\<lambda>v_port.
     bind_res (read_bool ps PARAM_EXTERNAL_AUTHENTICATION) (\<lambda>v_external.
     bind_res (read_user ps v_external) (\<lambda>v_user.
     bind_res (read_secure ps) (\<lambda>v_secure.
     bind_res (parse_tls_verification (get_param ps PARAM_TLS_VERIFY)
                 (get_param ps PARAM_SSL_VERIFICATION)) (\<lambda>v_tls.
     bind_res (check_certificates v_secure v_tls (get_param ps PARAM_CERTIFICATE)
                 (get_param ps PARAM_CLIENT_CERTIFICATE)) (\<lambda>_.
     bind_res (read_pairs ps PARAM_SESSION_PROPERTIES) (\<lambda>v_session_properties.
     bind_res (read_pairs ps PARAM_EXTRA_CREDENTIALS) (\<lambda>v_extra_credentials.
     bind_res (read_pairs ps PARAM_EXTRA_HEADERS) (\<lambda>v_extra_headers.
     bind_res (read_proxy ps) (\<lambda>v_proxy.
     bind_res (check_proxy v_proxy (get_param ps PARAM_PROXY_USER)
                 (get_param ps PARAM_PROXY_PASSWORD)) (\<lambda>_.
     bind_res (read_pairs ps PARAM_RESOURCE_ESTIMATES) (\<lambda>v_resource_estimates.
     bind_res (read_pairs ps PARAM_ROLES) (\<lambda>v_roles.
     bind_res (read_time_zone x ps) (\<lambda>v_time_zone.
     bind_res (read_bool ps PARAM_DISABLE_COMPRESSION) (\<lambda>v_compression.
     bind_res (read_encoding x ps) (\<lambda>v_encoding.
     bind_res (read_external_timeout ps) (\<lambda>v_external_timeout.
     bind_res (read_max_attempts ps) (\<lambda>v_max_attempts.
     bind_res (read_query_timeout ps) (\<lambda>v_query_timeout.
     Inr \<lparr>p_host = v_host, p_port = v_port, p_user = v_user, p_password = cs_password ps,
       p_access_token = or_else (get_param ps PARAM_ACCESS_TOKEN) (get_param ps PARAM_TOKEN),
       p_secure = v_secure, p_tls = v_tls, p_certificate = get_param ps PARAM_CERTIFICATE,
       p_client_certificate = get_param ps PARAM_CLIENT_CERTIFICATE,
       p_query_timeout = v_query_timeout, p_catalog = get_param ps PARAM_CATALOG,
       p_schema = get_param ps PARAM_SCHEMA, p_source = read_source ps,
       p_client_tags = comma_list (get_param ps PARAM_CLIENT_TAGS),
       p_session_properties = v_session_properties, p_extra_credentials = v_extra_credentials,
       p_resource_estimates = v_resource_estimates, p_path = get_param ps PARAM_PATH,
       p_client_info = get_param ps PARAM_CLIENT_INFO,
       p_trace_token = get_param ps PARAM_TRACE_TOKEN,
       p_session_user = get_param ps PARAM_SESSION_USER, p_locale = get_param ps PARAM_LOCALE,
       p_roles = (\<lambda>c. map_option selected_role (v_roles c)), p_time_zone = v_time_zone,
       p_extra_headers = v_extra_headers,
       p_client_capabilities = comma_list (get_param ps PARAM_CLIENT_CAPABILITIES),
       p_proxy = v_proxy, p_proxy_user = get_param ps PARAM_PROXY_USER,
       p_proxy_password = get_param ps PARAM_PROXY_PASSWORD,
       p_external_authentication = v_external, p_external_auth_timeout = v_external_timeout,
       p_compression_disabled = v_compression, p_max_attempts = v_max_attempts,
       p_spooling_encoding = v_encoding\<rparr>)))))))))))))))))))))"

section \<open>Well-formed parameters\<close>

text \<open>What every accepted parameter set satisfies (a specification).\<close>

definition wf_params :: "('z, 'e) conn_params \<Rightarrow> bool" where
  "wf_params p \<longleftrightarrow>
     0 \<le> p_port p \<and> p_port p \<le> u16_max \<and>
     (p_user p = None \<longrightarrow> p_external_authentication p) \<and>
     (\<not> p_secure p \<longrightarrow> p_certificate p = None \<and> p_client_certificate p = None \<and> p_tls p \<noteq> TlsCaOnly) \<and>
     (p_tls p = TlsCaOnly \<longrightarrow> p_certificate p \<noteq> None) \<and>
     (p_proxy_user p = None \<longleftrightarrow> p_proxy_password p = None) \<and>
     (p_proxy p = None \<longrightarrow> p_proxy_user p = None) \<and>
     (\<forall>u. p_proxy p = Some u \<longrightarrow> CHR ''@'' \<notin> set (url_authority u)) \<and>
     0 \<le> p_query_timeout p \<and> p_query_timeout p \<le> u64_max \<and>
     0 < p_external_auth_timeout p \<and> p_external_auth_timeout p \<le> u64_max \<and>
     (\<forall>n. p_max_attempts p = Some n \<longrightarrow> 0 < n \<and> n \<le> u64_max) \<and>
     trim (p_source p) \<noteq> [] \<and> [] \<notin> p_client_tags p \<and> [] \<notin> p_client_capabilities p \<and>
     p_session_properties p [] = None \<and> p_extra_headers p [] = None \<and> p_roles p [] = None"

lemma insert_pairs_no_empty:
  "insert_pairs key ps m = Inr r \<Longrightarrow> m [] = None \<Longrightarrow> r [] = None"
  by (induction key ps m rule: insert_pairs.induct) (auto split: if_splits option.splits)

lemma read_pairs_no_empty: "read_pairs ps key = Inr m \<Longrightarrow> m [] = None"
  by (auto simp: read_pairs_def parse_key_value_pairs_def split: option.splits
      dest: insert_pairs_no_empty)

lemma parse_positive_Inr:
  "parse_positive e v = Inr n \<Longrightarrow> 0 < n \<and> n \<le> u64_max"
  using parse_int_range [of False 0 u64_max v] by (auto simp: parse_positive_def split: option.splits if_splits)

lemma read_port_range: "read_port s = Inr n \<Longrightarrow> 0 \<le> n \<and> n \<le> u16_max"
  using parse_int_range [of False 0 u16_max s] by (auto simp: read_port_def ok_or_Inr_iff)

lemma read_timeout_range: "read_query_timeout ps = Inr n \<Longrightarrow> 0 \<le> n \<and> n \<le> u64_max"
  using parse_int_range [of False 0 u64_max]
  by (auto simp: read_query_timeout_def DEFAULT_QUERY_TIMEOUT_SECS_def ok_or_Inr_iff
      split: option.splits dest!: parse_int_range)

lemma read_external_timeout_range:
  "read_external_timeout ps = Inr n \<Longrightarrow> 0 < n \<and> n \<le> u64_max"
  by (auto simp: read_external_timeout_def DEFAULT_EXTERNAL_AUTH_TIMEOUT_SECS_def
      split: option.splits dest: parse_positive_Inr)

lemma read_max_attempts_range:
  "read_max_attempts ps = Inr m \<Longrightarrow> \<forall>n. m = Some n \<longrightarrow> 0 < n \<and> n \<le> u64_max"
  by (auto simp: read_max_attempts_def bind_res_Inr_iff split: option.splits dest: parse_positive_Inr)

lemma read_proxy_authority:
  "read_proxy ps = Inr m \<Longrightarrow> \<forall>u. m = Some u \<longrightarrow> CHR ''@'' \<notin> set (url_authority u)"
  by (auto simp: read_proxy_def bind_res_Inr_iff proxy_url_def split: option.splits if_splits)

lemma check_certificates_Inr:
  "check_certificates sec t c cc = Inr u \<longleftrightarrow>
     (\<not> sec \<longrightarrow> c = None \<and> cc = None \<and> t \<noteq> TlsCaOnly) \<and> (t = TlsCaOnly \<longrightarrow> c \<noteq> None)"
  by (auto simp: check_certificates_def Let_def)

lemma check_proxy_Inr:
  "check_proxy url pu pw = Inr r \<longleftrightarrow> (pu = None \<longleftrightarrow> pw = None) \<and> (url = None \<longrightarrow> pu = None)"
  by (auto simp: check_proxy_def)

lemma read_source_nonblank: "trim (read_source ps) \<noteq> []"
proof -
  have "trim DEFAULT_SOURCE \<noteq> []"
    by (simp add: DEFAULT_SOURCE_def trim_def trim_start_def trim_end_def str_simps)
  then show ?thesis by (simp add: read_source_def split: option.split)
qed

lemma comma_list_no_empty: "[] \<notin> comma_list raw"
  by (simp add: comma_list_def split: option.split)

lemma read_user_None: "read_user ps e = Inr u \<Longrightarrow> u = None \<longrightarrow> e"
  by (auto simp: read_user_def split: option.splits if_splits)

lemma try_from_wf:
  assumes "try_from x ps = Inr p"
  shows "wf_params p"
  using assms unfolding try_from_def bind_res_Inr_iff
  apply (elim exE conjE)
  apply (simp only: sum.inject)
  apply hypsubst
  apply (drule read_port_range read_timeout_range read_external_timeout_range
      read_max_attempts_range read_pairs_no_empty read_proxy_authority read_user_None)+
  apply (simp only: check_certificates_Inr check_proxy_Inr)
  apply (unfold wf_params_def conn_params.simps)
  apply (intro conjI allI impI)
                     apply (simp_all add: comma_list_no_empty read_source_nonblank)
  done

section \<open>Key and value pairs\<close>

definition plain_name :: "string \<Rightarrow> bool" where
  "plain_name n \<longleftrightarrow> n \<noteq> [] \<and> trim n = n \<and> KEY_VALUE_SEPARATOR \<notin> set n \<and> PAIR_SEPARATOR \<notin> set n"

definition plain_value :: "string \<Rightarrow> bool" where
  "plain_value v \<longleftrightarrow> trim v = v \<and> PAIR_SEPARATOR \<notin> set v"

definition render_pair :: "string \<times> string \<Rightarrow> string" where
  "render_pair kv = fst kv @ KEY_VALUE_SEPARATOR # snd kv"

lemma trim_nonempty: "trim s = s \<Longrightarrow> s \<noteq> [] \<Longrightarrow> \<not> is_ws (hd s)"
proof -
  assume t: "trim s = s" and s: "s \<noteq> []"
  obtain u where "trim_start s = trim s @ u"
    using trim_end_prefix [of "trim_start s"] by (auto simp: trim_def)
  with t have "dropWhile is_ws s = s @ u" by (simp add: trim_start_def)
  then have "dropWhile is_ws s = s"
    by (metis append_Nil2 dropWhile_eq_self_iff length_append length_dropWhile_le
        add_le_same_cancel1 le_zero_eq length_0_conv)
  moreover obtain c l where "s = c # l" using s by (cases s) simp_all
  ultimately show ?thesis using length_dropWhile_le [of is_ws l] by (auto split: if_splits)
qed

lemma trim_with_head: "\<not> is_ws c \<Longrightarrow> trim (c # s) \<noteq> []"
proof -
  assume c: "\<not> is_ws c"
  then have "trim (c # s) = trim_end (c # s)" by (simp add: trim_def trim_start_def)
  moreover obtain u where "c # s = trim_end (c # s) @ u" "list_all is_ws u"
    using trim_end_prefix [of "c # s"] by blast
  ultimately show ?thesis using c by (cases "trim_end (c # s)") auto
qed

lemma insert_pairs_render:
  "\<forall>(n, v) \<in> set kvs. plain_name n \<and> plain_value v \<Longrightarrow>
     insert_pairs key (map render_pair kvs) m = Inr (m ++ map_of (rev kvs))"
proof (induction kvs arbitrary: m)
  case Nil
  then show ?case by simp
next
  case (Cons kv kvs)
  obtain n v where kv: "kv = (n, v)" by (cases kv)
  with Cons.prems have n: "plain_name n" and v: "plain_value v" by auto
  obtain c cs where nc: "n = c # cs" using n by (cases n) (auto simp: plain_name_def)
  with n have "\<not> is_ws c" using trim_nonempty [of n] by (simp add: plain_name_def)
  then have "trim (render_pair kv) \<noteq> []"
    using trim_with_head by (simp add: render_pair_def kv nc)
  moreover have "split_once KEY_VALUE_SEPARATOR (render_pair kv) = Some (n, v)"
    using n by (simp add: render_pair_def kv plain_name_def)
  ultimately show ?case
    using Cons n v kv by (simp add: plain_name_def plain_value_def map_add_assoc [symmetric])
qed

section \<open>Properties\<close>


definition demo_string :: conn_string where
  "demo_string =
     \<lparr>get_param = map_of [(''host'', ''trino''), (''port'', ''8443''), (''tlsverify'', ''CA''),
        (''certificate'', ''ca.pem''), (''maxattempts'', ''3'')],
      cs_user = Some ''alice'', cs_password = None\<rparr>"

lemmas param_keys = PARAM_HOST_def PARAM_PORT_def PARAM_PROTOCOL_def PARAM_TLS_VERIFY_def
  PARAM_SSL_VERIFICATION_def PARAM_CERTIFICATE_def PARAM_CLIENT_CERTIFICATE_def
  PARAM_QUERY_TIMEOUT_def PARAM_LOGIN_TIMEOUT_def PARAM_SOURCE_def PARAM_SESSION_PROPERTIES_def
  PARAM_EXTRA_CREDENTIALS_def PARAM_RESOURCE_ESTIMATES_def PARAM_PROXY_def PARAM_PROXY_USER_def
  PARAM_PROXY_PASSWORD_def PARAM_EXTRA_HEADERS_def PARAM_TIME_ZONE_def PARAM_ROLES_def
  PARAM_DISABLE_COMPRESSION_def PARAM_MAX_ATTEMPTS_def PARAM_ENCODING_def
  PARAM_EXTERNAL_AUTHENTICATION_def PARAM_EXTERNAL_AUTH_TIMEOUT_def


text \<open>
  A list of name and value pairs written with the two separators reads back as the map of the
  pairs, the last of a repeated name winning. Values may hold the separator of names and values.
\<close>

theorem key_value_pairs_roundtrip:
  assumes "kvs \<noteq> []" and "\<forall>(n, v) \<in> set kvs. plain_name n \<and> plain_value v"
  shows "parse_key_value_pairs key (join [PAIR_SEPARATOR] (map render_pair kvs)) =
    Inr (map_of (rev kvs))"
proof -
  have "\<forall>p \<in> set (map render_pair kvs). PAIR_SEPARATOR \<notin> set p"
    using assms(2)
    by (auto simp: render_pair_def plain_name_def plain_value_def PAIR_SEPARATOR_def
        KEY_VALUE_SEPARATOR_def)
  then have "split_on PAIR_SEPARATOR (join [PAIR_SEPARATOR] (map render_pair kvs)) = map render_pair kvs"
    using assms(1) by (intro split_on_join) simp_all
  then show ?thesis
    using insert_pairs_render [OF assms(2), of key Map.empty]
    by (simp add: parse_key_value_pairs_def)
qed

theorem key_value_pairs_roundtrip_witness:
  "parse_key_value_pairs ''k'' ''a:1;b:x:y'' = Inr [''a'' \<mapsto> ''1'', ''b'' \<mapsto> ''x:y'']"
  using key_value_pairs_roundtrip [of "[(''a'', ''1''), (''b'', ''x:y'')]" "''k''"]
  by (simp add: render_pair_def plain_name_def plain_value_def PAIR_SEPARATOR_def
      KEY_VALUE_SEPARATOR_def trim_def trim_start_def trim_end_def str_simps fun_upd_twist)

text \<open>
  The two names of the TLS setting are one setting: alone, either name reads the same words; set
  together they are accepted exactly when both read as the same mode, which is then the result; and
  without either the certificate is fully verified.
\<close>

theorem tls_setting_has_two_names:
  "(parse_tls_verification (Some a) None = Inr t \<longleftrightarrow> parse_tls_verification None (Some a) = Inr t) \<and>
   (parse_tls_verification (Some a) (Some b) = Inr t \<longleftrightarrow>
      parse_tls_verification (Some a) None = Inr t \<and> parse_tls_verification None (Some b) = Inr t) \<and>
   parse_tls_verification None None = Inr TlsFull"
proof -
  have "parse_tls_one k r = Inr u \<longleftrightarrow> parse_tls_one k' r = Inr u" for k k' r u
    by (simp add: parse_tls_one_def)
  then show ?thesis
    by (auto simp: parse_tls_verification_def bind_res_Inr_iff)
qed

text \<open>
  The request timeout. \<open>LoginTimeout\<close> counts only where \<open>QueryTimeout\<close> is not in the connection
  string at all: a blank \<open>QueryTimeout\<close> reads as the default of 30 seconds even when a login timeout
  is set. Otherwise the value is the number written, 0 included.
\<close>

theorem query_timeout_rules:
  "(get_param ps PARAM_QUERY_TIMEOUT = Some v \<longrightarrow> trim v = [] \<longrightarrow> read_query_timeout ps = Inr 30) \<and>
   (get_param ps PARAM_QUERY_TIMEOUT = None \<longrightarrow> get_param ps PARAM_LOGIN_TIMEOUT = Some v \<longrightarrow>
      trim v \<noteq> [] \<longrightarrow> (read_query_timeout ps = Inr n \<longleftrightarrow> parse_u64 (trim v) = Some n)) \<and>
   (get_param ps PARAM_QUERY_TIMEOUT = Some v \<longrightarrow> trim v \<noteq> [] \<longrightarrow>
      (read_query_timeout ps = Inr n \<longleftrightarrow> parse_u64 (trim v) = Some n))"
  by (auto simp: read_query_timeout_def timeout_key_def or_else_def DEFAULT_QUERY_TIMEOUT_SECS_def
      ok_or_Inr_iff)

theorem query_timeout_rules_witness:
  "read_query_timeout \<lparr>get_param = [PARAM_QUERY_TIMEOUT \<mapsto> '' '', PARAM_LOGIN_TIMEOUT \<mapsto> ''5''],
     cs_user = None, cs_password = None\<rparr> = Inr 30"
  using query_timeout_rules [of "\<lparr>get_param = [PARAM_QUERY_TIMEOUT \<mapsto> '' '', PARAM_LOGIN_TIMEOUT \<mapsto> ''5''],
     cs_user = None, cs_password = None\<rparr>" "'' ''"]
  by (simp add: PARAM_QUERY_TIMEOUT_def PARAM_LOGIN_TIMEOUT_def trim_def trim_start_def trim_end_def
      str_simps)

end
