(* ===== verification/Session_State.thy ===== *)
theory Session_State
  imports Value_Conversion Errors
begin

text \<open>
  What the threads of one connection share, and the operations on it (\<open>src/src/backend.rs\<close>,
  \<open>src/src/backend/execute.rs\<close>): the transaction state, the liveness flag, the cancel states of the
  statements, and the coordinator behind the HTTP client.

  The client library, the calendar, the ODBC core's size formula and so on are the record \<open>env\<close>.
  Every call of the client maps the state \<open>'w\<close> of the outside world, which holds the coordinator,
  the network and the client's own session data, to a result and a new world. \<open>'p\<close> is the undecoded
  payload of a page.

  \<open>sys\<close> holds the shared state. The atomics are its fields, an access being one step; the cancel
  states live in a store addressed by the token that names them, since a token and a statement
  share one.
\<close>

section \<open>The environment\<close>

record column =
  col_name :: string
  col_ty :: string

record 'p page =
  pg_id :: string
  pg_columns :: "column list option"
  pg_error :: "query_error option"
  pg_next :: "string option"
  pg_data :: "'p option"

text \<open>A row of the wire format is the list of its JSON values.\<close>

type_synonym 'n rows = "'n json list list"

record ('w, 'n, 'd, 's, 'z, 'o, 't, 'p) env =
  e_get :: "string \<Rightarrow> 'w \<Rightarrow> (client_error + 'p page) \<times> 'w"
  e_get_next :: "string \<Rightarrow> 'w \<Rightarrow> (client_error + 'p page) \<times> 'w"
  e_decode_page :: "'p \<Rightarrow> column list option \<Rightarrow> 'w \<Rightarrow> (client_error + 'n rows) \<times> 'w"
  e_get_all :: "string \<Rightarrow> 'w \<Rightarrow> (client_error + 'n rows) \<times> 'w"
  e_get_all_within :: "int \<Rightarrow> string \<Rightarrow> 'w \<Rightarrow> (client_error + 'n rows) option \<times> 'w"
  e_execute :: "string \<Rightarrow> 'w \<Rightarrow> (client_error + unit) \<times> 'w"
  e_cancel :: "string \<Rightarrow> 'w \<Rightarrow> (client_error + unit) \<times> 'w"
  e_begin :: "'w \<Rightarrow> (client_error + unit) \<times> 'w"
  e_commit :: "'w \<Rightarrow> (client_error + unit) \<times> 'w"
  e_rollback :: "'w \<Rightarrow> (client_error + unit) \<times> 'w"
  e_in_transaction :: "'w \<Rightarrow> bool"
  e_session_property :: "'w \<Rightarrow> string \<Rightarrow> string option"
  e_session_catalog :: "'w \<Rightarrow> string option"
  e_now :: "'w \<Rightarrow> 't"
  e_error_of :: "query_error \<Rightarrow> client_error"
  e_from_column :: "column \<Rightarrow> trino_ty option"
  e_column_size :: column_size_fn
  e_undeterminable :: int
  e_json :: "('n, 'd, 's) json_ext"
  e_chrono :: "('z, 'o, 't) chrono_ext"

section \<open>The shared state\<close>

record cancel_state =
  query_id :: "string option"
  poisoned :: bool
  cancelled :: bool

record 'w sys =
  world :: 'w
  autocommit :: bool
  aborted :: bool
  epoch :: "64 word"
  dead :: bool
  cancels :: "nat \<Rightarrow> cancel_state"

definition fresh_cancel_state :: cancel_state where
  "fresh_cancel_state = \<lparr>query_id = None, poisoned = False, cancelled = False\<rparr>"

text \<open>\<open>TransactionState::default\<close> and the defaults of the other shared parts.\<close>

definition initial_sys :: "'w \<Rightarrow> 'w sys" where
  "initial_sys w =
     \<lparr>world = w, autocommit = True, aborted = False, epoch = 0, dead = False,
      cancels = (\<lambda>t. fresh_cancel_state)\<rparr>"

text \<open>\<open>TransactionState\<close>.\<close>

definition txn_set_autocommit :: "bool \<Rightarrow> 'w sys \<Rightarrow> 'w sys" where
  "txn_set_autocommit enabled s = s\<lparr>autocommit := enabled\<rparr>"

definition txn_note_statement_error :: "'w sys \<Rightarrow> 'w sys" where
  "txn_note_statement_error s = (if \<not> autocommit s then s\<lparr>aborted := True\<rparr> else s)"

definition txn_begun :: "'w sys \<Rightarrow> 'w sys" where
  "txn_begun s = s\<lparr>aborted := False\<rparr>"

definition txn_ended :: "'w sys \<Rightarrow> 'w sys" where
  "txn_ended s = s\<lparr>epoch := epoch s + 1, aborted := False\<rparr>"

definition txn_outlived :: "64 word \<Rightarrow> 'w sys \<Rightarrow> bool" where
  "txn_outlived e s \<longleftrightarrow> epoch s \<noteq> e"

text \<open>\<open>CancelState\<close>.\<close>

definition update_cancel :: "nat \<Rightarrow> (cancel_state \<Rightarrow> cancel_state) \<Rightarrow> 'w sys \<Rightarrow> 'w sys" where
  "update_cancel t f s = s\<lparr>cancels := (cancels s)(t := f (cancels s t))\<rparr>"

definition begin_query :: "nat \<Rightarrow> string \<Rightarrow> 'w sys \<Rightarrow> 'w sys" where
  "begin_query t qid s =
     update_cancel t (\<lambda>c.
       let c' = c\<lparr>cancelled := False\<rparr> in
       if poisoned c' then c' else c'\<lparr>query_id := Some qid\<rparr>) s"

definition is_cancelled :: "nat \<Rightarrow> 'w sys \<Rightarrow> bool" where
  "is_cancelled t s = cancelled (cancels s t)"

text \<open>\<open>Backend::cancel_token\<close>: a fresh shared slot, at the token the caller names.\<close>

definition cancel_token :: "nat \<Rightarrow> 'w sys \<Rightarrow> 'w sys" where
  "cancel_token t s = update_cancel t (\<lambda>_. fresh_cancel_state) s"

section \<open>Calls of the client\<close>

text \<open>A call of the client that only moves the world.\<close>

definition call :: "('w \<Rightarrow> 'r \<times> 'w) \<Rightarrow> 'w sys \<Rightarrow> 'r \<times> 'w sys" where
  "call f s = (let (r, w) = f (world s) in (r, s\<lparr>world := w\<rparr>))"

text \<open>\<open>map_trino_error_on\<close> with the connection's liveness flag.\<close>

definition map_error_on :: "client_error \<Rightarrow> 'w sys \<Rightarrow> trino_error \<times> 'w sys" where
  "map_error_on e s = (let (m, d) = map_trino_error_on (dead s) e in (m, s\<lparr>dead := d\<rparr>))"

text \<open>\<open>TrinoConnection::statement_error\<close>.\<close>

definition statement_error :: "client_error \<Rightarrow> 'w sys \<Rightarrow> trino_error \<times> 'w sys" where
  "statement_error e s = map_error_on e (txn_note_statement_error s)"

definition in_transaction :: "('w, 'n, 'd, 's, 'z, 'o, 't, 'p) env \<Rightarrow> 'w sys \<Rightarrow> bool" where
  "in_transaction e s = e_in_transaction e (world s)"

definition ensure_transaction ::
    "('w, 'n, 'd, 's, 'z, 'o, 't, 'p) env \<Rightarrow> 'w sys \<Rightarrow> (trino_error + unit) \<times> 'w sys" where
  "ensure_transaction e s =
     (if autocommit s \<or> in_transaction e s then (Inr (), s)
      else
        (case call (e_begin e) s of
           (Inl err, s1) \<Rightarrow> (let (m, s2) = map_error_on err s1 in (Inl m, s2))
         | (Inr _, s1) \<Rightarrow> (Inr (), txn_begun s1)))"

definition rolled_back_error :: trino_error where
  "rolled_back_error =
     from_odbc_error (odbc_general
       (''the transaction was rolled back: Trino aborted it when an earlier '' @
        ''statement failed, and refuses to commit an aborted transaction'')
       transaction_rolled_back)"

definition end_tran ::
    "('w, 'n, 'd, 's, 'z, 'o, 't, 'p) env \<Rightarrow> bool \<Rightarrow> 'w sys \<Rightarrow> (trino_error + unit) \<times> 'w sys" where
  "end_tran e commit s =
     (if \<not> in_transaction e s then (Inr (), txn_begun s)
      else
        (let was_aborted = aborted s;
             s1 = txn_ended s
         in case call (if commit \<and> \<not> was_aborted then e_commit e else e_rollback e) s1 of
              (Inl err, s2) \<Rightarrow> (let (m, s3) = map_error_on err s2 in (Inl m, s3))
            | (Inr _, s2) \<Rightarrow>
                if was_aborted \<and> commit then (Inl rolled_back_error, s2) else (Inr (), s2)))"

definition set_autocommit ::
    "('w, 'n, 'd, 's, 'z, 'o, 't, 'p) env \<Rightarrow> bool \<Rightarrow> 'w sys \<Rightarrow> (trino_error + unit) \<times> 'w sys" where
  "set_autocommit e enabled s =
     (let (ended, s1) =
        (if enabled \<and> in_transaction e s then end_tran e True s else (Inr (), s))
      in (ended, txn_set_autocommit enabled s1))"

definition disconnect ::
    "('w, 'n, 'd, 's, 'z, 'o, 't, 'p) env \<Rightarrow> 'w sys \<Rightarrow> (trino_error + unit) \<times> 'w sys" where
  "disconnect e s =
     (if in_transaction e s then (Inr (), snd (end_tran e False s)) else (Inr (), s))"

definition poisoned_error :: trino_error where
  "poisoned_error =
     from_odbc_error (odbc_general ''cancel state was poisoned by an earlier panic'' general_error)"

text \<open>
  \<open>cancel\<close>, called by any thread: take the query id, publish the cancellation, then ask the
  coordinator.
\<close>

definition cancel ::
    "('w, 'n, 'd, 's, 'z, 'o, 't, 'p) env \<Rightarrow> nat \<Rightarrow> 'w sys \<Rightarrow> (trino_error + unit) \<times> 'w sys" where
  "cancel e t s =
     (if poisoned (cancels s t) then (Inl poisoned_error, s)
      else
        (case query_id (cancels s t) of
           None \<Rightarrow> (Inr (), s)
         | Some qid \<Rightarrow>
             (let s1 = update_cancel t (\<lambda>c. c\<lparr>query_id := None, cancelled := True\<rparr>) s in
              case call (e_cancel e qid) s1 of
                (Inl err, s2) \<Rightarrow> (let (m, s3) = map_error_on err s2 in (Inl m, s3))
              | (Inr _, s2) \<Rightarrow> (Inr (), s2))))"

definition connection_dead :: "'w sys \<Rightarrow> bool" where
  "connection_dead s = dead s"

section \<open>The session zone\<close>

definition TIME_ZONE_ID_PROPERTY :: string where
  "TIME_ZONE_ID_PROPERTY = ''time_zone_id''"

definition effective_session_zone ::
    "('z, 'o, 't) chrono_ext \<Rightarrow> string option \<Rightarrow> ('z, 'o) session_zone option
       \<Rightarrow> ('z, 'o) session_zone \<Rightarrow> ('z, 'o) session_zone" where
  "effective_session_zone c time_zone_id configured server_default =
     (let set_zone = Option.bind time_zone_id (session_zone_parse c) in
      case or_else set_zone configured of None \<Rightarrow> server_default | Some z \<Rightarrow> z)"

text \<open>The facts about the session a connection captures when it is made.\<close>

record ('z, 'o) conn =
  cn_dbms_version :: string
  cn_server_major :: int
  cn_configured_time_zone :: "('z, 'o) session_zone option"
  cn_server_time_zone :: "('z, 'o) session_zone"
  cn_data_source_name :: string
  cn_server_name :: string
  cn_user_name :: string
  cn_catalog :: "string option"

definition connection_session_zone ::
    "('w, 'n, 'd, 's, 'z, 'o, 't, 'p) env \<Rightarrow> ('z, 'o) conn \<Rightarrow> 'w sys \<Rightarrow> ('z, 'o) session_zone" where
  "connection_session_zone e cn s =
     effective_session_zone (e_chrono e)
       (e_session_property e (world s) TIME_ZONE_ID_PROPERTY)
       (cn_configured_time_zone cn) (cn_server_time_zone cn)"

section \<open>What each operation leaves alone\<close>

named_theorems session_defs \<open>the operations on the shared state\<close>

declare txn_set_autocommit_def [session_defs] txn_note_statement_error_def [session_defs]
  txn_begun_def [session_defs] txn_ended_def [session_defs] txn_outlived_def [session_defs]
  update_cancel_def [session_defs] begin_query_def [session_defs] is_cancelled_def [session_defs]
  cancel_token_def [session_defs] fresh_cancel_state_def [session_defs]
  in_transaction_def [session_defs]

lemma call_frame [simp]:
  "autocommit (snd (call f s)) = autocommit s" "aborted (snd (call f s)) = aborted s"
  "epoch (snd (call f s)) = epoch s" "dead (snd (call f s)) = dead s"
  "cancels (snd (call f s)) = cancels s"
  by (simp_all add: call_def split: prod.split)

lemma call_world: "call f s = (fst (f (world s)), s\<lparr>world := snd (f (world s))\<rparr>)"
  by (simp add: call_def split: prod.split)

lemma map_error_on_eq:
  "map_error_on e s =
     (map_trino_error e, s\<lparr>dead := liveness_note (dead s) (map_trino_error e)\<rparr>)"
  by (simp add: map_error_on_def map_trino_error_on_def Let_def)

lemma map_error_on_frame [simp]:
  "world (snd (map_error_on e s)) = world s"
  "autocommit (snd (map_error_on e s)) = autocommit s"
  "aborted (snd (map_error_on e s)) = aborted s" "epoch (snd (map_error_on e s)) = epoch s"
  "cancels (snd (map_error_on e s)) = cancels s"
  by (simp_all add: map_error_on_eq)

lemma txn_frame [simp]:
  "world (txn_note_statement_error s) = world s" "world (txn_begun s) = world s"
  "world (txn_ended s) = world s" "dead (txn_note_statement_error s) = dead s"
  "dead (txn_begun s) = dead s" "dead (txn_ended s) = dead s"
  "cancels (txn_note_statement_error s) = cancels s" "cancels (txn_begun s) = cancels s"
  "cancels (txn_ended s) = cancels s"
  "autocommit (txn_note_statement_error s) = autocommit s"
  "autocommit (txn_begun s) = autocommit s" "autocommit (txn_ended s) = autocommit s"
  by (simp_all add: session_defs)

lemma cancel_frame [simp]:
  "autocommit (snd (cancel e t s)) = autocommit s" "aborted (snd (cancel e t s)) = aborted s"
  "epoch (snd (cancel e t s)) = epoch s"
  by (simp_all add: cancel_def session_defs call_world map_error_on_eq Let_def
      split: option.split sum.split)

section \<open>The contract of the transaction state\<close>

text \<open>
  What the statements and the connection rely on: the flag says that the open transaction is
  aborted, the epoch counts the transactions that ended, and a result set recorded at an epoch
  outlives its transaction when the count has moved.
\<close>

datatype txn_event = Begun | Ended | Noted | Mode bool

locale transaction_state =
  fixes begun ended noted :: "'s \<Rightarrow> 's"
    and set_mode :: "bool \<Rightarrow> 's \<Rightarrow> 's"
    and is_aborted is_auto :: "'s \<Rightarrow> bool"
    and epoch_of :: "'s \<Rightarrow> 64 word"
    and outlived :: "64 word \<Rightarrow> 's \<Rightarrow> bool"
  assumes epoch_laws: "epoch_of (begun s) = epoch_of s" "epoch_of (noted s) = epoch_of s"
      "epoch_of (set_mode b s) = epoch_of s" "epoch_of (ended s) = epoch_of s + 1"
    and aborted_laws: "\<not> is_aborted (begun s)" "\<not> is_aborted (ended s)"
      "is_aborted (noted s) = (is_aborted s \<or> \<not> is_auto s)"
      "is_aborted (set_mode b s) = is_aborted s"
    and mode_laws: "is_auto (begun s) = is_auto s" "is_auto (ended s) = is_auto s"
      "is_auto (noted s) = is_auto s" "is_auto (set_mode b s) = b"
    and outlived_law: "outlived e s \<longleftrightarrow> epoch_of s \<noteq> e"
begin

fun apply_event :: "txn_event \<Rightarrow> 's \<Rightarrow> 's" where
  "apply_event Begun s = begun s"
| "apply_event Ended s = ended s"
| "apply_event Noted s = noted s"
| "apply_event (Mode b) s = set_mode b s"

lemma epoch_counts:
  "epoch_of (fold apply_event es s) = epoch_of s + of_nat (count_list es Ended)"
proof (induction es arbitrary: s)
  case (Cons x xs)
  then show ?case by (cases x) (simp_all add: epoch_laws algebra_simps)
qed simp

lemma outlived_iff:
  "outlived (epoch_of s) (fold apply_event es s) \<longleftrightarrow> \<not> 2 ^ 64 dvd count_list es Ended"
proof -
  have "(of_nat (count_list es Ended) :: 64 word) = 0 \<longleftrightarrow> 2 ^ 64 dvd count_list es Ended"
    by (simp add: word_of_nat_eq_0_iff)
  then show ?thesis by (simp add: outlived_law epoch_counts)
qed

lemma outlives:
  assumes "Ended \<in> set es" and "count_list es Ended < 2 ^ 64"
  shows "outlived (epoch_of s) (fold apply_event es s)"
  using assms count_list_0_iff [of es Ended] by (auto simp: outlived_iff dest: dvd_imp_le)

lemma abort_sticks:
  assumes "is_aborted s" and "Begun \<notin> set es" and "Ended \<notin> set es"
  shows "is_aborted (fold apply_event es s)"
  using assms
proof (induction es arbitrary: s)
  case (Cons x xs)
  then show ?case by (cases x) (simp_all add: aborted_laws)
qed simp

end

interpretation txn: transaction_state txn_begun txn_ended txn_note_statement_error
    txn_set_autocommit aborted autocommit epoch txn_outlived
  by unfold_locales (auto simp: session_defs)

section \<open>Transactions\<close>

text \<open>
  A step of the connection, or of the world around it, that leaves the open transaction open: a
  statement starting or failing, a cancellation, a switch to manual commit, anything the coordinator
  does. Only \<open>end_tran\<close> and what goes through it are missing.
\<close>

inductive quiet_step ::
    "('w, 'n, 'd, 's, 'z, 'o, 't, 'p) env \<Rightarrow> 'w sys \<Rightarrow> 'w sys \<Rightarrow> bool" for e where
  ensure: "in_transaction e s \<Longrightarrow> quiet_step e s (snd (ensure_transaction e s))"
| statement_failed: "quiet_step e s (snd (statement_error err s))"
| request_failed: "quiet_step e s (snd (map_error_on err s))"
| new_token: "quiet_step e s (cancel_token t s)"
| began: "quiet_step e s (begin_query t q s)"
| cancelled: "quiet_step e s (snd (cancel e t s))"
| manual: "quiet_step e s (snd (set_autocommit e False s))"
| environment: "quiet_step e s (s\<lparr>world := w\<rparr>)"

inductive_cases quiet_stepE: "quiet_step e s s'"

lemma note_aborted: "aborted (txn_note_statement_error s) = (aborted s \<or> \<not> autocommit s)"
  by (rule txn.aborted_laws(3))

lemma quiet_keeps_aborted:
  assumes "quiet_step e s s'" and "aborted s"
  shows "aborted s'"
  using assms
  by cases (auto simp: ensure_transaction_def statement_error_def note_aborted set_autocommit_def
      cancel_token_def begin_query_def update_cancel_def txn_set_autocommit_def)

lemma quiet_steps_keep_aborted:
  assumes "(quiet_step e)\<^sup>*\<^sup>* s s'" and "aborted s"
  shows "aborted s'"
  using assms by (induction rule: rtranclp_induct) (auto intro: quiet_keeps_aborted)

lemma statement_error_aborts: "\<not> autocommit s \<Longrightarrow> aborted (snd (statement_error err s))"
  by (simp add: statement_error_def note_aborted)

lemma end_tran_aborted:
  assumes "in_transaction e s" and "aborted s"
  shows "\<exists>m. fst (end_tran e True s) = Inl m"
  using assms by (auto simp: end_tran_def Let_def call_world map_error_on_eq split: sum.split)

lemma end_tran_commit_unused:
  assumes "aborted s"
  shows "end_tran (e\<lparr>e_commit := f\<rparr>) commit s = end_tran e commit s"
  using assms by (auto simp: end_tran_def in_transaction_def)

text \<open>
  C4: an aborted transaction is never committed. Once a statement of a manual-commit connection has
  failed, then whatever runs before the transaction is ended - further statements starting and
  failing, cancellations, mode switches, any move of the coordinator - a commit of the transaction
  still open reports an error, and what it does does not depend on the \<open>COMMIT\<close> request: that is
  not sent. If the rollback it sends instead succeeds, the error is 25S03.
\<close>

theorem aborted_never_commits:
  assumes manual: "\<not> autocommit s"
    and steps: "(quiet_step e)\<^sup>*\<^sup>* (snd (statement_error err s)) s'"
    and still_open: "in_transaction e s'"
  shows "(\<exists>m. fst (end_tran e True s') = Inl m) \<and>
    (\<forall>f. end_tran (e\<lparr>e_commit := f\<rparr>) True s' = end_tran e True s') \<and>
    (fst (e_rollback e (world s')) = Inr () \<longrightarrow> fst (end_tran e True s') = Inl rolled_back_error)"
proof -
  have "aborted s'"
    using quiet_steps_keep_aborted [OF steps statement_error_aborts [OF manual]] .
  moreover have "fst (e_rollback e (world s')) = Inr () \<Longrightarrow>
      fst (end_tran e True s') = Inl rolled_back_error"
    using \<open>aborted s'\<close> still_open
    by (simp add: end_tran_def Let_def call_world session_defs)
  ultimately show ?thesis using still_open end_tran_aborted end_tran_commit_unused by blast
qed

text \<open>
  A concrete environment for the witnesses: a scripted coordinator, whose world is the list of the
  responses it will still give and whether a transaction is open.
\<close>

type_synonym demo_rows = "int json list list"
type_synonym demo_world = "(client_error + demo_rows page) list \<times> bool"

definition demo_reply :: "string \<Rightarrow> demo_world \<Rightarrow> (client_error + demo_rows page) \<times> demo_world" where
  "demo_reply url w =
     (case fst w of
        [] \<Rightarrow> (Inl (ErrOther ''no more responses''), w)
      | r # rs \<Rightarrow> (r, (rs, snd w)))"

definition demo_env :: "(demo_world, int, int, int, unit, int, int, demo_rows) env" where
  "demo_env =
     \<lparr>e_get = demo_reply, e_get_next = demo_reply, e_decode_page = (\<lambda>p cols w. (Inr p, w)),
      e_get_all = (\<lambda>sql w. (Inr [], w)), e_get_all_within = (\<lambda>d sql w. (Some (Inr []), w)),
      e_execute = (\<lambda>sql w. (Inr (), w)), e_cancel = (\<lambda>q w. (Inr (), w)),
      e_begin = (\<lambda>w. (Inr (), (fst w, True))), e_commit = (\<lambda>w. (Inr (), (fst w, False))),
      e_rollback = (\<lambda>w. (Inr (), (fst w, False))), e_in_transaction = snd,
      e_session_property = (\<lambda>w k. None), e_session_catalog = (\<lambda>w. None), e_now = (\<lambda>w. 0),
      e_error_of = ErrQuery, e_from_column = (\<lambda>c. Some TyVarchar),
      e_column_size = (\<lambda>t p s. 10), e_undeterminable = 0, e_json = demo_json,
      e_chrono = demo_chrono\<rparr>"

lemma demo_env_simps [simp]:
  "e_get demo_env = demo_reply" "e_get_next demo_env = demo_reply"
  "e_decode_page demo_env p cols w = (Inr p, w)" "e_cancel demo_env q w = (Inr (), w)"
  "e_execute demo_env sql w = (Inr (), w)"
  "e_begin demo_env w = (Inr (), (fst w, True))" "e_commit demo_env w = (Inr (), (fst w, False))"
  "e_rollback demo_env w = (Inr (), (fst w, False))" "e_in_transaction demo_env = snd"
  "e_session_property demo_env w k = None" "e_now demo_env w = 0" "e_error_of demo_env = ErrQuery"
  "e_from_column demo_env c = Some TyVarchar" "e_json demo_env = demo_json"
  "e_chrono demo_env = demo_chrono"
  by (simp_all add: demo_env_def)

theorem aborted_never_commits_witness:
  "fst (end_tran demo_env True (snd (statement_error (ErrOther ''x'')
     (initial_sys ([], True)\<lparr>autocommit := False\<rparr>)))) = Inl rolled_back_error"
proof -
  let ?s = "(initial_sys ([], True) :: demo_world sys)\<lparr>autocommit := False\<rparr>"
  let ?s' = "snd (statement_error (ErrOther ''x'') ?s)"
  have "\<not> autocommit ?s" and "in_transaction demo_env ?s'"
    by (simp_all add: initial_sys_def in_transaction_def statement_error_def)
  from aborted_never_commits [OF this(1) rtranclp.rtrancl_refl this(2)] show ?thesis by simp
qed

text \<open>
  C17: what ending a transaction does to the shared state and to the wire. With nothing open it
  succeeds without a request and clears the abort flag. Otherwise it sends exactly one request - the
  commit when one is asked for and nothing failed, the rollback else - and it reports success
  exactly when that request succeeded and no commit of an aborted transaction was asked for. Every
  result set recorded before outlives its transaction exactly when one was open, and the autocommit
  mode and the cancel states are untouched. \<open>SQLSetConnectAttr\<close> to autocommit reports what the
  commit reports and records the mode whatever that is; to manual commit it sends nothing.
\<close>

theorem end_tran_contract:
  "world (snd (end_tran e commit s)) =
     (if \<not> in_transaction e s then world s
      else snd ((if commit \<and> \<not> aborted s then e_commit e else e_rollback e) (world s))) \<and>
   fst (end_tran e commit s) = (
     if \<not> in_transaction e s then Inr ()
     else case fst ((if commit \<and> \<not> aborted s then e_commit e else e_rollback e) (world s)) of
            Inl err \<Rightarrow> Inl (map_trino_error err)
          | Inr _ \<Rightarrow> if commit \<and> aborted s then Inl rolled_back_error else Inr ()) \<and>
   txn_outlived (epoch s) (snd (end_tran e commit s)) = in_transaction e s \<and>
   (\<not> aborted (snd (end_tran e commit s))) \<and>
   autocommit (snd (end_tran e commit s)) = autocommit s \<and>
   cancels (snd (end_tran e commit s)) = cancels s \<and>
   autocommit (snd (set_autocommit e mode s)) = mode \<and>
   fst (set_autocommit e True s) = fst (end_tran e True s) \<and>
   set_autocommit e False s = (Inr (), s\<lparr>autocommit := False\<rparr>)"
  by (intro conjI) (auto simp: end_tran_def set_autocommit_def session_defs call_world
      map_error_on_eq Let_def rolled_back_error_def split: sum.split)

text \<open>
  After a failed rollback of an aborted transaction the connection no longer knows that the
  transaction is aborted, although the client still holds it: the abort flag is cleared before the
  request, so the next commit sends the \<open>COMMIT\<close> the comments say is never sent.
\<close>

theorem failed_rollback_forgets_abort:
  assumes "aborted s" and "in_transaction e s"
    and "e_rollback e (world s) = (Inl err, w)" and "e_in_transaction e w"
  shows "\<not> aborted (snd (end_tran e True s)) \<and> in_transaction e (snd (end_tran e True s)) \<and>
    world (snd (end_tran e True (snd (end_tran e True s)))) = snd (e_commit e w)"
  using assms by (simp add: end_tran_def session_defs call_world map_error_on_eq Let_def split: sum.split)

theorem failed_rollback_forgets_abort_witness:
  "world (snd (end_tran (demo_env\<lparr>e_rollback := \<lambda>w. (Inl (ErrOther ''refused''), w)\<rparr>) True
     (snd (end_tran (demo_env\<lparr>e_rollback := \<lambda>w. (Inl (ErrOther ''refused''), w)\<rparr>) True
       ((initial_sys ([], True))\<lparr>autocommit := False, aborted := True\<rparr>))))) = ([], False)"
  using failed_rollback_forgets_abort
    [of "(initial_sys ([], True))\<lparr>autocommit := False, aborted := True\<rparr>"
      "demo_env\<lparr>e_rollback := \<lambda>w. (Inl (ErrOther ''refused''), w)\<rparr>" "ErrOther ''refused''"
      "([], True)"]
  by (simp add: initial_sys_def in_transaction_def)

section \<open>Cancellation\<close>

text \<open>
  \<open>SQLCancel\<close>. It acts on its own token only. With a query recorded it publishes the
  cancellation whatever the coordinator answers, it empties the slot, and a second call sends
  nothing more; with none it succeeds and changes nothing. The statement's epoch, the abort flag and
  the commit mode are untouched, and the connection is marked dead exactly if the request could not
  connect. Submitting a query clears the cancellation and makes the query the one to cancel.
\<close>

theorem cancel_contract:
  assumes "\<not> poisoned (cancels s t)"
  shows "(\<forall>t'. t' \<noteq> t \<longrightarrow> cancels (snd (cancel e t s)) t' = cancels s t') \<and>
    (case query_id (cancels s t) of
       Some q \<Rightarrow> is_cancelled t (snd (cancel e t s)) \<and>
         query_id (cancels (snd (cancel e t s)) t) = None \<and>
         world (snd (cancel e t s)) = snd (e_cancel e q (world s))
     | None \<Rightarrow> cancel e t s = (Inr (), s)) \<and>
    cancel e t (snd (cancel e t s)) = (Inr (), snd (cancel e t s)) \<and>
    \<not> is_cancelled t (begin_query t q' s) \<and> query_id (cancels (begin_query t q' s) t) = Some q'"
  using assms
  by (auto simp: cancel_def session_defs call_world map_error_on_eq Let_def
      split: option.split sum.split)

theorem cancel_contract_witness:
  "cancel demo_env 0 (snd (cancel demo_env 0 (begin_query 0 ''q1'' (initial_sys ([], False))))) =
     (Inr (), snd (cancel demo_env 0 (begin_query 0 ''q1'' (initial_sys ([], False)))))"
proof -
  have "\<not> poisoned (cancels (begin_query 0 ''q1'' (initial_sys ([], False))) 0)"
    by (simp add: initial_sys_def session_defs)
  from cancel_contract [OF this, of demo_env] show ?thesis by blast
qed

section \<open>The session zone of a statement\<close>

text \<open>
  The zone of a statement is the one \<open>SET TIME ZONE\<close> recorded, if it can be read, else the
  one the connection string names, else the server's. A zone of \<open>SET TIME ZONE\<close> that cannot be
  read is passed over, not an error.
\<close>

theorem session_zone_priority:
  "connection_session_zone e cn s =
     (case Option.bind (e_session_property e (world s) ''time_zone_id'')
             (session_zone_parse (e_chrono e)) of
        Some z \<Rightarrow> z
      | None \<Rightarrow> (case cn_configured_time_zone cn of
                  Some z \<Rightarrow> z | None \<Rightarrow> cn_server_time_zone cn))"
  by (simp add: connection_session_zone_def effective_session_zone_def TIME_ZONE_ID_PROPERTY_def
      or_else_def split: option.split)

end
