(* ===== verification/Races.thy ===== *)
theory Races
  imports Session_State
begin

text \<open>
  The shared state at the grain of its atomics. \<open>Session_State\<close> gives each operation on the
  cancellation slot and on the transaction's flags as one step; the threads of an application
  interleave their single loads, stores and requests. Here \<open>cancel\<close> and \<open>begin_query\<close>
  (\<open>src/src/backend/execute.rs\<close>, \<open>src/src/backend.rs\<close>), and \<open>end_tran\<close>, \<open>note_statement_error\<close> and
  the check of \<open>close_cursor\<close>, are cut at those points, one turn for each, and any number of threads
  take their turns in any order.
\<close>

section \<open>The cancellation slot\<close>

text \<open>\<open>cancel\<close>: the id is taken, then the flag stored, then the request sent.\<close>

datatype cancel_pc = CancelCalled | Holding string | Published string | CancelReturned

definition cancel_turn :: "cancel_pc \<Rightarrow> cancel_state \<Rightarrow> cancel_pc \<times> cancel_state \<times> string list" where
  "cancel_turn pc c =
     (case pc of
        CancelCalled \<Rightarrow>
          (if poisoned c then (CancelReturned, c, [])
           else (case query_id c of
                   None \<Rightarrow> (CancelReturned, c, [])
                 | Some q \<Rightarrow> (Holding q, c\<lparr>query_id := None\<rparr>, [])))
      | Holding q \<Rightarrow> (Published q, c\<lparr>cancelled := True\<rparr>, [])
      | Published q \<Rightarrow> (CancelReturned, c, [q])
      | CancelReturned \<Rightarrow> (CancelReturned, c, []))"

text \<open>\<open>begin_query\<close>: the flag is cleared, then the id recorded.\<close>

datatype begin_pc = Submitted | Cleared | Recorded

definition begin_turn :: "string \<Rightarrow> begin_pc \<Rightarrow> cancel_state \<Rightarrow> begin_pc \<times> cancel_state" where
  "begin_turn q pc c =
     (case pc of
        Submitted \<Rightarrow> (Cleared, c\<lparr>cancelled := False\<rparr>)
      | Cleared \<Rightarrow> (Recorded, if poisoned c then c else c\<lparr>query_id := Some q\<rparr>)
      | Recorded \<Rightarrow> (Recorded, c))"

text \<open>The turns of a call, taken without interruption, are the call of \<open>Session_State\<close>.\<close>

lemma cancel_turns:
  assumes "cancel_turn CancelCalled (cancels s t) = (pc1, c1, d1)" and "cancel_turn pc1 c1 = (pc2, c2, d2)"
    and "cancel_turn pc2 c2 = (pc3, c3, d3)"
  shows "cancels (snd (cancel e t s)) t = c3"
  using assms
  by (auto simp: cancel_turn_def cancel_def session_defs call_world map_error_on_eq Let_def
      split: option.splits sum.splits if_splits)

lemma begin_turns:
  assumes "begin_turn q Submitted (cancels s t) = (pc1, c1)" and "begin_turn q pc1 c1 = (pc2, c2)"
  shows "cancels (begin_query t q s) t = c2"
  using assms by (auto simp: begin_turn_def session_defs Let_def)

text \<open>
  One submission and any number of cancellations over one slot; \<open>deletes\<close> is the requests sent so far.
\<close>

record race =
  slot :: cancel_state
  beginner :: begin_pc
  cancellers :: "nat \<Rightarrow> cancel_pc"
  deletes :: "string list"

inductive race_step :: "string \<Rightarrow> race \<Rightarrow> race \<Rightarrow> bool" for q where
  begins: "begin_turn q (beginner r) (slot r) = (pc, c) \<Longrightarrow>
     race_step q r (r\<lparr>beginner := pc, slot := c\<rparr>)"
| cancels: "cancel_turn (cancellers r i) (slot r) = (pc, c, ds) \<Longrightarrow>
     race_step q r (r\<lparr>cancellers := (cancellers r)(i := pc), slot := c, deletes := deletes r @ ds\<rparr>)"

text \<open>A new token, at the moment the coordinator's first answer has arrived.\<close>

definition race_start :: race where
  "race_start =
     \<lparr>slot = fresh_cancel_state, beginner = Submitted, cancellers = (\<lambda>i. CancelCalled), deletes = []\<rparr>"

definition at_rest :: "cancel_pc \<Rightarrow> bool" where
  "at_rest pc \<longleftrightarrow> pc = CancelCalled \<or> pc = CancelReturned"

definition quiet_race :: "race \<Rightarrow> bool" where
  "quiet_race r \<longleftrightarrow> beginner r = Recorded \<and> (\<forall>i. at_rest (cancellers r i))"

text \<open>
  What can be reached, by the progress of the one cancellation that finds the id: not recorded yet,
  recorded, taken, published, sent.
\<close>

inductive race_phase :: "string \<Rightarrow> race \<Rightarrow> bool" for q where
  unrecorded: "beginner r \<noteq> Recorded \<Longrightarrow> slot r = fresh_cancel_state \<Longrightarrow> \<forall>i. at_rest (cancellers r i) \<Longrightarrow>
     deletes r = [] \<Longrightarrow> race_phase q r"
| recorded: "beginner r = Recorded \<Longrightarrow> slot r = fresh_cancel_state\<lparr>query_id := Some q\<rparr> \<Longrightarrow>
     \<forall>i. at_rest (cancellers r i) \<Longrightarrow> deletes r = [] \<Longrightarrow> race_phase q r"
| taken: "beginner r = Recorded \<Longrightarrow> slot r = fresh_cancel_state \<Longrightarrow> cancellers r i = Holding q \<Longrightarrow>
     \<forall>j. j \<noteq> i \<longrightarrow> at_rest (cancellers r j) \<Longrightarrow> deletes r = [] \<Longrightarrow> race_phase q r"
| published: "beginner r = Recorded \<Longrightarrow> slot r = fresh_cancel_state\<lparr>cancelled := True\<rparr> \<Longrightarrow>
     cancellers r i = Published q \<Longrightarrow> \<forall>j. j \<noteq> i \<longrightarrow> at_rest (cancellers r j) \<Longrightarrow> deletes r = [] \<Longrightarrow>
     race_phase q r"
| sent: "beginner r = Recorded \<Longrightarrow> slot r = fresh_cancel_state\<lparr>cancelled := True\<rparr> \<Longrightarrow>
     \<forall>i. at_rest (cancellers r i) \<Longrightarrow> deletes r = [q] \<Longrightarrow> race_phase q r"

lemma rest_turn:
  "at_rest pc \<Longrightarrow> query_id c = None \<Longrightarrow> cancel_turn pc c = (pc', c', ds) \<Longrightarrow>
     pc' = CancelReturned \<and> c' = c \<and> ds = []"
  by (auto simp: at_rest_def cancel_turn_def split: if_splits)

lemma at_rest_returned [simp]: "at_rest CancelReturned" "at_rest CancelCalled"
  "\<not> at_rest (Holding q)" "\<not> at_rest (Published q)"
  by (simp_all add: at_rest_def)

lemma begins_phase:
  assumes "race_phase q r" and "begin_turn q (beginner r) (slot r) = (pc, c)"
  shows "race_phase q (r\<lparr>beginner := pc, slot := c\<rparr>)"
  using assms(1)
proof cases
  case unrecorded
  then show ?thesis
    using assms(2) race_phase.unrecorded [of "r\<lparr>beginner := pc, slot := c\<rparr>" q]
      race_phase.recorded [of "r\<lparr>beginner := pc, slot := c\<rparr>" q]
    by (cases "beginner r") (auto simp: begin_turn_def fresh_cancel_state_def)
qed (use assms in \<open>auto simp: begin_turn_def intro: race_phase.intros\<close>)

lemma cancels_phase:
  assumes "race_phase q r" and "cancel_turn (cancellers r i) (slot r) = (pc, c, ds)"
  shows "race_phase q (r\<lparr>cancellers := (cancellers r)(i := pc), slot := c, deletes := deletes r @ ds\<rparr>)"
    (is "race_phase q ?r")
  using assms(1)
proof cases
  case unrecorded
  then have "pc = CancelReturned \<and> c = slot r \<and> ds = []"
    using rest_turn [OF _ _ assms(2)] by (simp add: fresh_cancel_state_def)
  with unrecorded show ?thesis by (intro race_phase.unrecorded) auto
next
  case recorded
  have "at_rest (cancellers r i)" using recorded(3) by blast
  then consider "cancellers r i = CancelCalled" | "cancellers r i = CancelReturned"
    by (auto simp: at_rest_def)
  then consider "pc = Holding q" "c = fresh_cancel_state" "ds = []"
    | "pc = CancelReturned" "c = slot r" "ds = []"
    using assms(2) recorded(2) by cases (simp_all add: cancel_turn_def fresh_cancel_state_def)
  then show ?thesis
  proof cases
    case 1
    with recorded show ?thesis by (intro race_phase.taken [of _ i]) auto
  next
    case 2
    with recorded show ?thesis by (intro race_phase.recorded) auto
  qed
next
  case (taken j)
  show ?thesis
  proof (cases "i = j")
    case True
    then have "pc = Published q" "c = fresh_cancel_state\<lparr>cancelled := True\<rparr>" "ds = []"
      using taken assms(2) by (auto simp: cancel_turn_def)
    with taken True show ?thesis by (intro race_phase.published [of _ i]) auto
  next
    case False
    then have "pc = CancelReturned \<and> c = slot r \<and> ds = []"
      using taken rest_turn [OF _ _ assms(2)] by (simp add: fresh_cancel_state_def)
    with taken False show ?thesis by (intro race_phase.taken [of _ j]) auto
  qed
next
  case (published j)
  show ?thesis
  proof (cases "i = j")
    case True
    then have "pc = CancelReturned" "c = slot r" "ds = [q]"
      using published assms(2) by (auto simp: cancel_turn_def)
    with published True show ?thesis by (intro race_phase.sent) auto
  next
    case False
    then have "pc = CancelReturned \<and> c = slot r \<and> ds = []"
      using published rest_turn [OF _ _ assms(2)] by (simp add: fresh_cancel_state_def)
    with published False show ?thesis by (intro race_phase.published [of _ j]) auto
  qed
next
  case sent
  then have "pc = CancelReturned \<and> c = slot r \<and> ds = []"
    using rest_turn [OF _ _ assms(2)] by (simp add: fresh_cancel_state_def)
  with sent show ?thesis by (intro race_phase.sent) auto
qed

lemma race_phase_step: "race_step q r r' \<Longrightarrow> race_phase q r \<Longrightarrow> race_phase q r'"
  by (auto elim!: race_step.cases intro: begins_phase cancels_phase)

lemma race_phase_start: "race_phase q race_start"
  by (rule race_phase.unrecorded) (simp_all add: race_start_def)

lemma race_phase_reach: "(race_step q)\<^sup>*\<^sup>* r r' \<Longrightarrow> race_phase q r \<Longrightarrow> race_phase q r'"
  by (induction rule: rtranclp_induct) (auto intro: race_phase_step)

text \<open>Once the id has been taken it stays taken.\<close>

definition past_recorded :: "race \<Rightarrow> bool" where
  "past_recorded r \<longleftrightarrow> beginner r = Recorded \<and> query_id (slot r) = None"

lemma past_recorded_step: "race_step q r r' \<Longrightarrow> past_recorded r \<Longrightarrow> past_recorded r'"
  by (auto simp: past_recorded_def begin_turn_def cancel_turn_def elim!: race_step.cases
      split: cancel_pc.splits if_splits option.splits)

lemma past_recorded_reach: "(race_step q)\<^sup>*\<^sup>* r r' \<Longrightarrow> past_recorded r \<Longrightarrow> past_recorded r'"
  by (induction rule: rtranclp_induct) (auto intro: past_recorded_step)

text \<open>
  C7: Cancellation is linearizable. However the turns of a submission and of any number of cancellations
  of its token interleave, at most one request to delete the query is sent, and never before the
  cancellation is visible to the fetch loop; when every call has returned, the slot holds what
  recording the query and then cancelling it, or cancelling first to no effect, would have left, and
  the request has been sent exactly in the first case. A cancellation called after the query was
  recorded is never lost, whoever sends its request.
\<close>

theorem cancel_linearizable:
  assumes "(race_step q)\<^sup>*\<^sup>* race_start r" and "cancels s t = fresh_cancel_state"
  shows "deletes r \<in> {[], [q]} \<and> (deletes r = [q] \<longrightarrow> cancelled (slot r)) \<and>
    (quiet_race r \<longrightarrow>
      deletes r = [] \<and> slot r = cancels (begin_query t q s) t \<and>
        slot r = cancels (begin_query t q (snd (cancel e t s))) t \<or>
      deletes r = [q] \<and> slot r = cancels (snd (cancel e t (begin_query t q s))) t) \<and>
    (beginner r = Recorded \<and> cancellers r i = CancelCalled \<and>
      cancel_turn CancelCalled (slot r) = (pc, c, ds) \<and>
      (race_step q)\<^sup>*\<^sup>* (r\<lparr>cancellers := (cancellers r)(i := pc), slot := c\<rparr>) r' \<and> quiet_race r' \<longrightarrow>
      cancelled (slot r') \<and> deletes r' = [q])"
proof -
  have phase: "race_phase q r" using race_phase_reach [OF assms(1) race_phase_start] .
  have alone: "cancels (begin_query t q s) t = fresh_cancel_state\<lparr>query_id := Some q\<rparr>"
    "cancels (begin_query t q (snd (cancel e t s))) t = fresh_cancel_state\<lparr>query_id := Some q\<rparr>"
    "cancels (snd (cancel e t (begin_query t q s))) t = fresh_cancel_state\<lparr>cancelled := True\<rparr>"
    using assms(2)
    by (simp_all add: cancel_def session_defs Let_def call_world map_error_on_eq fresh_cancel_state_def
        split: sum.split)
  have end_phase: "deletes r1 = [] \<and> slot r1 = fresh_cancel_state\<lparr>query_id := Some q\<rparr> \<or>
      deletes r1 = [q] \<and> slot r1 = fresh_cancel_state\<lparr>cancelled := True\<rparr>"
    if "race_phase q r1" and "quiet_race r1" for r1
    using that(1) by cases (use that(2) in \<open>auto simp: quiet_race_def\<close>, (metis at_rest_returned)+)
  have first: "deletes r \<in> {[], [q]} \<and> (deletes r = [q] \<longrightarrow> cancelled (slot r))"
    using phase by cases auto
  have second: "quiet_race r \<Longrightarrow>
      deletes r = [] \<and> slot r = cancels (begin_query t q s) t \<and>
        slot r = cancels (begin_query t q (snd (cancel e t s))) t \<or>
      deletes r = [q] \<and> slot r = cancels (snd (cancel e t (begin_query t q s))) t"
    using end_phase [OF phase] by (simp only: alone) blast
  have third: "cancelled (slot r') \<and> deletes r' = [q]"
    if *: "beginner r = Recorded" "cancellers r i = CancelCalled"
      "cancel_turn CancelCalled (slot r) = (pc, c, ds)"
      "(race_step q)\<^sup>*\<^sup>* (r\<lparr>cancellers := (cancellers r)(i := pc), slot := c\<rparr>) r'" "quiet_race r'"
  proof -
    let ?r1 = "r\<lparr>cancellers := (cancellers r)(i := pc), slot := c\<rparr>"
    have "ds = []" and gone: "query_id c = None"
      using *(3) phase by (auto simp: cancel_turn_def fresh_cancel_state_def split: if_splits option.splits
          elim: race_phase.cases)
    then have "race_phase q ?r1"
      using cancels_phase [OF phase, of i pc c ds] *(2,3) by simp
    then have r': "race_phase q r'" using race_phase_reach *(4) by blast
    have "past_recorded ?r1" using *(1) gone by (simp add: past_recorded_def)
    then have "query_id (slot r') = None" using past_recorded_reach *(4) by (auto simp: past_recorded_def)
    with end_phase [OF r' *(5)] show ?thesis by (auto simp: fresh_cancel_state_def)
  qed
  show ?thesis using first second third by blast
qed

definition demo_recorded :: race where
  "demo_recorded = race_start\<lparr>beginner := Recorded, slot := fresh_cancel_state\<lparr>query_id := Some ''q1''\<rparr>\<rparr>"

definition demo_sent :: race where
  "demo_sent = demo_recorded\<lparr>cancellers := (\<lambda>i. CancelCalled)(0 := CancelReturned),
     slot := fresh_cancel_state\<lparr>cancelled := True\<rparr>, deletes := [''q1'']\<rparr>"

lemma demo_recorded_reached: "(race_step ''q1'')\<^sup>*\<^sup>* race_start demo_recorded"
proof -
  have "race_step ''q1'' race_start (race_start\<lparr>beginner := Cleared, slot := fresh_cancel_state\<rparr>)"
    by (rule race_step.begins) (simp add: race_start_def begin_turn_def fresh_cancel_state_def)
  moreover have "race_step ''q1'' (race_start\<lparr>beginner := Cleared, slot := fresh_cancel_state\<rparr>)
      ((race_start\<lparr>beginner := Cleared, slot := fresh_cancel_state\<rparr>)
        \<lparr>beginner := Recorded, slot := fresh_cancel_state\<lparr>query_id := Some ''q1''\<rparr>\<rparr>)"
    by (rule race_step.begins) (simp add: begin_turn_def fresh_cancel_state_def)
  ultimately show ?thesis by (simp add: demo_recorded_def)
qed

lemma cancel_run:
  assumes "cancellers r i = CancelCalled" and "slot r = fresh_cancel_state\<lparr>query_id := Some k\<rparr>"
  shows "(race_step q)\<^sup>*\<^sup>* (r\<lparr>cancellers := (cancellers r)(i := Holding k), slot := fresh_cancel_state\<rparr>)
    (r\<lparr>cancellers := (cancellers r)(i := CancelReturned), slot := fresh_cancel_state\<lparr>cancelled := True\<rparr>,
      deletes := deletes r @ [k]\<rparr>)"
proof -
  let ?r1 = "r\<lparr>cancellers := (cancellers r)(i := Holding k), slot := fresh_cancel_state\<rparr>"
  have "race_step q ?r1 (?r1\<lparr>cancellers := (cancellers ?r1)(i := Published k),
      slot := fresh_cancel_state\<lparr>cancelled := True\<rparr>, deletes := deletes ?r1 @ []\<rparr>)"
    by (rule race_step.cancels) (simp add: cancel_turn_def)
  moreover have "race_step q (?r1\<lparr>cancellers := (cancellers ?r1)(i := Published k),
        slot := fresh_cancel_state\<lparr>cancelled := True\<rparr>\<rparr>)
      ((?r1\<lparr>cancellers := (cancellers ?r1)(i := Published k),
        slot := fresh_cancel_state\<lparr>cancelled := True\<rparr>\<rparr>)
       \<lparr>cancellers := (cancellers r)(i := CancelReturned), slot := fresh_cancel_state\<lparr>cancelled := True\<rparr>,
        deletes := deletes r @ [k]\<rparr>)"
    using race_step.cancels [of "?r1\<lparr>cancellers := (cancellers ?r1)(i := Published k),
        slot := fresh_cancel_state\<lparr>cancelled := True\<rparr>\<rparr>" i CancelReturned
        "fresh_cancel_state\<lparr>cancelled := True\<rparr>" "[k]" q]
    by (simp add: cancel_turn_def)
  ultimately show ?thesis by (simp add: rtranclp.rtrancl_into_rtrancl)
qed

theorem cancel_linearizable_witness:
  "quiet_race demo_sent \<and> cancelled (slot demo_sent) \<and> deletes demo_sent = [''q1'']"
proof -
  let ?s = "initial_sys ([], False) :: demo_world sys"
  have fresh: "cancels ?s 0 = fresh_cancel_state" by (simp add: initial_sys_def)
  have run: "(race_step ''q1'')\<^sup>*\<^sup>* (demo_recorded\<lparr>cancellers := (cancellers demo_recorded)(0 := Holding ''q1''),
      slot := fresh_cancel_state\<rparr>) demo_sent"
    using cancel_run [of demo_recorded 0 "''q1''" "''q1''"]
    by (simp add: demo_recorded_def demo_sent_def race_start_def)
  have quiet: "quiet_race demo_sent"
    by (simp add: quiet_race_def demo_sent_def demo_recorded_def)
  show ?thesis
    using cancel_linearizable [OF demo_recorded_reached fresh, of demo_env 0 "Holding ''q1''"
        fresh_cancel_state "[]" demo_sent] run quiet
    by (simp add: demo_recorded_def race_start_def cancel_turn_def fresh_cancel_state_def)
qed

text \<open>
  That every statement gets a new token is needed. Over a token that served an earlier query, a
  cancellation that holds the earlier id can publish it after the new query has been recorded: the
  new query is then seen as cancelled although the request names the old one.
\<close>

theorem reused_token_race:
  "\<exists>r. (race_step ''q2'')\<^sup>*\<^sup>* (race_start\<lparr>cancellers := (\<lambda>i. CancelCalled)(0 := Holding ''q1'')\<rparr>) r \<and>
     quiet_race r \<and> query_id (slot r) = Some ''q2'' \<and> cancelled (slot r) \<and> deletes r = [''q1'']"
proof -
  let ?c = "(\<lambda>i. CancelCalled)(0 := Holding ''q1'')"
  let ?r0 = "race_start\<lparr>cancellers := ?c\<rparr>"
  let ?r1 = "?r0\<lparr>beginner := Cleared\<rparr>"
  let ?r2 = "?r0\<lparr>beginner := Recorded, slot := fresh_cancel_state\<lparr>query_id := Some ''q2''\<rparr>\<rparr>"
  let ?on = "fresh_cancel_state\<lparr>query_id := Some ''q2'', cancelled := True\<rparr>"
  let ?r3 = "?r2\<lparr>cancellers := ?c(0 := Published ''q1''), slot := ?on\<rparr>"
  let ?r4 = "?r3\<lparr>cancellers := ?c(0 := CancelReturned), deletes := [''q1'']\<rparr>"
  have "race_step ''q2'' ?r0 ?r1"
    using race_step.begins [of "''q2''" ?r0 Cleared fresh_cancel_state]
    by (simp add: race_start_def begin_turn_def fresh_cancel_state_def)
  moreover have "race_step ''q2'' ?r1 ?r2"
    using race_step.begins [of "''q2''" ?r1 Recorded "fresh_cancel_state\<lparr>query_id := Some ''q2''\<rparr>"]
    by (simp add: race_start_def begin_turn_def fresh_cancel_state_def)
  moreover have "race_step ''q2'' ?r2 ?r3"
    using race_step.cancels [of ?r2 0 "Published ''q1''" ?on "[]" "''q2''"]
    by (simp add: race_start_def cancel_turn_def fresh_cancel_state_def)
  moreover have "race_step ''q2'' ?r3 ?r4"
    using race_step.cancels [of ?r3 0 CancelReturned ?on "[''q1'']" "''q2''"]
    by (simp add: race_start_def cancel_turn_def fresh_cancel_state_def)
  ultimately have "(race_step ''q2'')\<^sup>*\<^sup>* ?r0 ?r4"
    by (meson rtranclp.rtrancl_into_rtrancl rtranclp.rtrancl_refl)
  then show ?thesis by (intro exI [of _ ?r4]) (simp add: quiet_race_def fresh_cancel_state_def)
qed

section \<open>The transaction's flags\<close>

text \<open>
  \<open>end_tran\<close> on an open transaction: the abort flag is read, the epoch moved, the flag cleared, and
  then the request goes out. The flag read and the kind of the request are kept at the turn.
\<close>

datatype end_pc = EndCalled | FlagRead bool | EpochMoved bool | FlagCleared bool | RequestSent bool

definition end_turn ::
    "('w, 'n, 'd, 's, 'z, 'o, 't, 'p) env \<Rightarrow> bool \<Rightarrow> end_pc \<Rightarrow> 'w sys \<Rightarrow> end_pc \<times> 'w sys" where
  "end_turn e commit pc s =
     (case pc of
        EndCalled \<Rightarrow> (FlagRead (aborted s), s)
      | FlagRead a \<Rightarrow> (EpochMoved a, s\<lparr>epoch := epoch s + 1\<rparr>)
      | EpochMoved a \<Rightarrow> (FlagCleared a, s\<lparr>aborted := False\<rparr>)
      | FlagCleared a \<Rightarrow>
          (RequestSent (commit \<and> \<not> a),
           snd (call (if commit \<and> \<not> a then e_commit e else e_rollback e) s))
      | RequestSent c \<Rightarrow> (RequestSent c, s))"

text \<open>\<open>note_statement_error\<close>: the mode is loaded, and then the flag stored.\<close>

datatype note_pc = NoteCalled | ModeManual | NoteReturned

definition note_turn :: "note_pc \<Rightarrow> 'w sys \<Rightarrow> note_pc \<times> 'w sys" where
  "note_turn pc s =
     (case pc of
        NoteCalled \<Rightarrow> (if autocommit s then NoteReturned else ModeManual, s)
      | ModeManual \<Rightarrow> (NoteReturned, s\<lparr>aborted := True\<rparr>)
      | NoteReturned \<Rightarrow> (NoteReturned, s))"

lemma end_turns:
  assumes "in_transaction e s" and "end_turn e commit EndCalled s = (p1, s1)"
    and "end_turn e commit p1 s1 = (p2, s2)" and "end_turn e commit p2 s2 = (p3, s3)"
    and "end_turn e commit p3 s3 = (p4, s4)"
  shows "(snd (end_tran e commit s))\<lparr>dead := d\<rparr> = s4\<lparr>dead := d\<rparr>"
  using assms
  by (auto simp: end_turn_def end_tran_def session_defs call_world map_error_on_eq Let_def split: sum.split)

lemma note_turns:
  assumes "note_turn NoteCalled s = (p1, s1)" and "note_turn p1 s1 = (p2, s2)"
  shows "txn_note_statement_error s = s2"
  using assms by (auto simp: note_turn_def txn_note_statement_error_def split: if_splits)

text \<open>The end of a transaction, and the failures of any number of statements, over one state.\<close>

record 'w txn_race =
  shared :: "'w sys"
  ender :: end_pc
  noters :: "nat \<Rightarrow> note_pc"

inductive txn_step ::
    "('w, 'n, 'd, 's, 'z, 'o, 't, 'p) env \<Rightarrow> bool \<Rightarrow> 'w txn_race \<Rightarrow> 'w txn_race \<Rightarrow> bool" for e commit where
  ends: "end_turn e commit (ender r) (shared r) = (pc, s) \<Longrightarrow>
     txn_step e commit r (r\<lparr>ender := pc, shared := s\<rparr>)"
| marks: "note_turn (noters r i) (shared r) = (pc, s) \<Longrightarrow>
     txn_step e commit r (r\<lparr>noters := (noters r)(i := pc), shared := s\<rparr>)"
| coordinator: "txn_step e commit r (r\<lparr>shared := (shared r)\<lparr>world := w\<rparr>\<rparr>)"

definition txn_start :: "'w sys \<Rightarrow> 'w txn_race" where
  "txn_start s = \<lparr>shared = s, ender = EndCalled, noters = (\<lambda>i. NoteCalled)\<rparr>"

text \<open>
  The epoch has moved exactly when the ender is past it, and a flag set before the ender's read is
  what it read.
\<close>

definition txn_phase :: "'w sys \<Rightarrow> bool \<Rightarrow> 'w txn_race \<Rightarrow> bool" where
  "txn_phase s0 commit r \<longleftrightarrow>
     autocommit (shared r) = autocommit s0 \<and>
     epoch (shared r) =
       (case ender r of EndCalled \<Rightarrow> epoch s0 | FlagRead _ \<Rightarrow> epoch s0 | _ \<Rightarrow> epoch s0 + 1) \<and>
     (aborted s0 \<longrightarrow>
       (case ender r of
          EndCalled \<Rightarrow> aborted (shared r) | FlagRead a \<Rightarrow> a | EpochMoved a \<Rightarrow> a | FlagCleared a \<Rightarrow> a
        | RequestSent c \<Rightarrow> \<not> c))"

lemma txn_phase_step:
  assumes "txn_step e commit r r'" and "txn_phase s0 commit r"
  shows "txn_phase s0 commit r'"
  using assms
  by cases (auto simp: txn_phase_def end_turn_def note_turn_def call_world
      split: end_pc.splits note_pc.splits if_splits)

lemma txn_phase_reach:
  "(txn_step e commit)\<^sup>*\<^sup>* r r' \<Longrightarrow> txn_phase s0 commit r \<Longrightarrow> txn_phase s0 commit r'"
  by (induction rule: rtranclp_induct) (auto intro: txn_phase_step)

lemma txn_phase_start: "ender r = EndCalled \<Longrightarrow> txn_phase (shared r) commit r"
  by (simp add: txn_phase_def)

text \<open>
  C8: Ending a transaction while its statements run. However the turns interleave with the failures of
  other statements and whatever the coordinator does: once the request to end it is out, a
  statement of the transaction that checks whether its result set has died finds that it has, so that
  closing it sends nothing; before the epoch moves no statement is taken for dead; and a transaction
  aborted before the call is never sent a commit.
\<close>

theorem ending_races:
  assumes "ender r0 = EndCalled" and "(txn_step e commit)\<^sup>*\<^sup>* r0 r"
  shows "(\<forall>c. ender r = RequestSent c \<longrightarrow> txn_outlived (epoch (shared r0)) (shared r)) \<and>
    (ender r \<in> {EndCalled, FlagRead True, FlagRead False} \<longrightarrow>
      \<not> txn_outlived (epoch (shared r0)) (shared r)) \<and>
    (aborted (shared r0) \<longrightarrow> ender r \<noteq> RequestSent True)"
  using txn_phase_reach [OF assms(2) txn_phase_start [OF assms(1)]]
  by (auto simp: txn_phase_def txn_outlived_def split: end_pc.splits)

text \<open>
  The read of the flag and its clearing are two operations, and a failure noted between them is
  forgotten: it is marked before the request goes out, and the request is still a commit.
\<close>

theorem failure_between_is_forgotten:
  assumes "\<not> autocommit s" and "\<not> aborted s"
  shows "\<exists>r r'. (txn_step e True)\<^sup>*\<^sup>* (txn_start s) r \<and> noters r 0 = NoteReturned \<and> aborted (shared r) \<and>
     (txn_step e True)\<^sup>*\<^sup>* r r' \<and> ender r' = RequestSent True \<and> \<not> aborted (shared r')"
proof -
  let ?r0 = "txn_start s"
  let ?r1 = "?r0\<lparr>ender := FlagRead False\<rparr>"
  let ?r2 = "?r1\<lparr>noters := (\<lambda>i. NoteCalled)(0 := ModeManual)\<rparr>"
  let ?r3 = "?r1\<lparr>noters := (\<lambda>i. NoteCalled)(0 := NoteReturned), shared := s\<lparr>aborted := True\<rparr>\<rparr>"
  let ?s4 = "s\<lparr>aborted := True, epoch := epoch s + 1\<rparr>" and ?s5 = "s\<lparr>aborted := False, epoch := epoch s + 1\<rparr>"
  let ?r4 = "?r3\<lparr>ender := EpochMoved False, shared := ?s4\<rparr>"
  let ?r5 = "?r3\<lparr>ender := FlagCleared False, shared := ?s5\<rparr>"
  let ?r6 = "?r3\<lparr>ender := RequestSent True, shared := snd (call (e_commit e) ?s5)\<rparr>"
  have 1: "txn_step e True ?r0 ?r1"
    using txn_step.ends [of e True ?r0 "FlagRead False" s] assms(2) by (simp add: txn_start_def end_turn_def)
  have 2: "txn_step e True ?r1 ?r2"
    using txn_step.marks [of ?r1 0 ModeManual s e True] assms(1) by (simp add: txn_start_def note_turn_def)
  have 3: "txn_step e True ?r2 ?r3"
    using txn_step.marks [of ?r2 0 NoteReturned "s\<lparr>aborted := True\<rparr>" e True]
    by (simp add: txn_start_def note_turn_def)
  have 4: "txn_step e True ?r3 ?r4"
    using txn_step.ends [of e True ?r3 "EpochMoved False" ?s4] by (simp add: txn_start_def end_turn_def)
  have 5: "txn_step e True ?r4 ?r5"
    using txn_step.ends [of e True ?r4 "FlagCleared False" ?s5] by (simp add: txn_start_def end_turn_def)
  have 6: "txn_step e True ?r5 ?r6"
    using txn_step.ends [of e True ?r5 "RequestSent True" "snd (call (e_commit e) ?s5)"]
    by (simp add: txn_start_def end_turn_def)
  have "(txn_step e True)\<^sup>*\<^sup>* ?r0 ?r3" and "(txn_step e True)\<^sup>*\<^sup>* ?r3 ?r6"
    using 1 2 3 4 5 6 by (meson rtranclp.rtrancl_into_rtrancl rtranclp.rtrancl_refl)+
  then show ?thesis by (intro exI [of _ ?r3] exI [of _ ?r6]) simp
qed

theorem failure_between_is_forgotten_witness:
  "\<exists>r'. ender r' = RequestSent True \<and> \<not> aborted (shared (r' :: demo_world txn_race))"
  using failure_between_is_forgotten [of "(initial_sys ([], True))\<lparr>autocommit := False\<rparr>" demo_env]
  by (auto simp: initial_sys_def)

theorem ending_races_witness:
  "ender ((txn_start ((initial_sys ([], True))\<lparr>autocommit := False\<rparr> :: demo_world sys))
     \<lparr>ender := FlagRead False\<rparr>) = FlagRead False \<and>
   \<not> txn_outlived 0 ((initial_sys ([], True))\<lparr>autocommit := False\<rparr> :: demo_world sys)"
proof -
  let ?s = "(initial_sys ([], True))\<lparr>autocommit := False\<rparr> :: demo_world sys"
  have "txn_step demo_env True (txn_start ?s) ((txn_start ?s)\<lparr>ender := FlagRead False\<rparr>)"
    using txn_step.ends [of demo_env True "txn_start ?s" "FlagRead False" ?s]
    by (simp add: txn_start_def end_turn_def initial_sys_def)
  then have "(txn_step demo_env True)\<^sup>*\<^sup>* (txn_start ?s) ((txn_start ?s)\<lparr>ender := FlagRead False\<rparr>)"
    by (rule r_into_rtranclp)
  from ending_races [OF _ this] show ?thesis by (simp add: txn_start_def initial_sys_def)
qed

end
