(* ===== verification/Type_Info.thy ===== *)
theory Type_Info
  imports Type_Names
begin

text \<open>
  The rows of \<open>SQLGetTypeInfo\<close> and the bare type name of a column (\<open>src/src/backend/info.rs\<close>).

  \<open>type_info_row\<close> holds what the driver sets through the core's builder: a field the driver leaves
  alone is \<open>None\<close>, since the default behind it is the core's. The core's formula for the largest
  column size of a type, \<open>catalog_column_size\<close>, is the parameter \<open>catsz\<close> (type, greatest
  precision, greatest scale).
\<close>

section \<open>The bare type name\<close>

definition trino_bare_type_name :: "string \<Rightarrow> sql_type \<Rightarrow> string" where
  "trino_bare_type_name native sql_ty =
     (case parse_type_name native of
        Some ty \<Rightarrow> type_name ty
      | None \<Rightarrow> if sql_ty = EXT_W_VARCHAR then type_name TnVarchar else [])"

section \<open>The rows\<close>

record type_info_row =
  ti_name :: string
  ti_type :: sql_type
  ti_size :: int
  ti_affixes :: "(string \<times> string) option"
  ti_create_params :: "string option"
  ti_case_sensitive :: "bool option"
  ti_preferred :: "bool option"
  ti_unsigned :: "bool option"
  ti_auto_unique :: "bool option"
  ti_scale_range :: "(int \<times> int) option"
  ti_radix :: "int option"
  ti_verbose :: "(sql_type \<times> string) option"

text \<open>\<open>TypeInfoRow::new\<close> with its column size, and the builder methods that come in groups.\<close>

definition new_row :: "string \<Rightarrow> sql_type \<Rightarrow> int \<Rightarrow> type_info_row" where
  "new_row nm ty sz =
     \<lparr>ti_name = nm, ti_type = ty, ti_size = sz, ti_affixes = None, ti_create_params = None,
      ti_case_sensitive = None, ti_preferred = None, ti_unsigned = None, ti_auto_unique = None,
      ti_scale_range = None, ti_radix = None, ti_verbose = None\<rparr>"

definition with_affixes :: "string \<Rightarrow> type_info_row \<Rightarrow> type_info_row" where
  "with_affixes prefix r = r\<lparr>ti_affixes := Some (prefix, [sq])\<rparr>"

definition exact_numeric :: "int \<Rightarrow> type_info_row \<Rightarrow> type_info_row" where
  "exact_numeric max_scale r =
     r\<lparr>ti_unsigned := Some False, ti_auto_unique := Some False,
       ti_scale_range := Some (0, max_scale), ti_radix := Some 10\<rparr>"

definition approximate_numeric :: "type_info_row \<Rightarrow> type_info_row" where
  "approximate_numeric r = r\<lparr>ti_unsigned := Some False, ti_radix := Some 2\<rparr>"

definition character :: "string \<Rightarrow> type_info_row \<Rightarrow> type_info_row" where
  "character params r =
     (with_affixes [sq] r)\<lparr>ti_create_params := Some params, ti_case_sensitive := Some True\<rparr>"

definition MAX_DECIMAL_PRECISION :: int where "MAX_DECIMAL_PRECISION = 38"
definition MAX_DECIMAL_SCALE :: int where "MAX_DECIMAL_SCALE = 38"
definition TRINO_TZ_OFFSET_SUFFIX_LEN :: int where "TRINO_TZ_OFFSET_SUFFIX_LEN = 6"
definition TRINO_TZ_TIMESTAMP_SPACE_LEN :: int where "TRINO_TZ_TIMESTAMP_SPACE_LEN = 1"

definition temporal :: "string \<Rightarrow> string \<Rightarrow> type_info_row \<Rightarrow> type_info_row" where
  "temporal keyword code r =
     (with_affixes (keyword @ [CHR '' '', sq]) r)
       \<lparr>ti_create_params := Some ''precision'',
        ti_scale_range := Some (0, MAX_FRACTIONAL_SECONDS_PRECISION), ti_verbose := Some (DATETIME, code)\<rparr>"

definition preferred :: "type_info_row \<Rightarrow> type_info_row" where
  "preferred r = r\<lparr>ti_preferred := Some True\<rparr>"

text \<open>A row of the driver's own type, with the core's size for the largest precision and scale.\<close>

definition type_row :: "column_size_fn \<Rightarrow> trino_type_name \<Rightarrow> int \<Rightarrow> int \<Rightarrow> type_info_row" where
  "type_row catsz t p s = new_row (type_name t) (type_sql_type t) (catsz (type_sql_type t) p s)"

text \<open>The rows, in the order of the list: from the intervals to VARBINARY, to DOUBLE, to the end.\<close>

definition leading_rows :: "column_size_fn \<Rightarrow> type_info_row list" where
  "leading_rows catsz =
     [with_affixes [sq] (type_row catsz TnIntervalDayToSecond i32_max 0),
      with_affixes [sq] (type_row catsz TnIntervalYearToMonth i32_max 0),
      (with_affixes [sq] (type_row catsz TnJson i32_max 0))\<lparr>ti_case_sensitive := Some True\<rparr>,
      with_affixes [sq] (type_row catsz TnUuid 36 0),
      preferred (character ''max length'' (type_row catsz TnVarchar i32_max 0)),
      character ''length'' (type_row catsz TnChar u16_max 0),
      type_row catsz TnBoolean 0 0,
      exact_numeric 0 (type_row catsz TnTinyInt 0 0),
      exact_numeric 0 (type_row catsz TnBigInt 0 0),
      with_affixes [CHR ''X'', sq] (type_row catsz TnVarbinary i32_max 0)]"

definition number_rows :: "column_size_fn \<Rightarrow> type_info_row list" where
  "number_rows catsz =
     [character ''length'' (new_row ''SQL_CHAR'' ANSI_CHAR (catsz ANSI_CHAR u16_max 0)),
      exact_numeric MAX_DECIMAL_SCALE
        ((type_row catsz TnDecimal MAX_DECIMAL_PRECISION MAX_DECIMAL_SCALE)
           \<lparr>ti_create_params := Some ''precision,scale''\<rparr>),
      exact_numeric 0 (type_row catsz TnInteger 0 0),
      exact_numeric 0 (type_row catsz TnSmallInt 0 0),
      approximate_numeric (type_row catsz TnReal 0 0),
      approximate_numeric (type_row catsz TnDouble 0 0)]"

definition trailing_rows :: "column_size_fn \<Rightarrow> type_info_row list" where
  "trailing_rows catsz =
     (let time_size = catsz TIME 0 MAX_FRACTIONAL_SECONDS_PRECISION;
          timestamp_size = catsz TIMESTAMP 0 MAX_FRACTIONAL_SECONDS_PRECISION in
      [character ''max length'' (new_row ''SQL_VARCHAR'' ANSI_VARCHAR (catsz ANSI_VARCHAR i32_max 0)),
       (with_affixes (''DATE '' @ [sq]) (type_row catsz TnDate 0 0))\<lparr>ti_verbose := Some (DATETIME, ''SQL_CODE_DATE'')\<rparr>,
       preferred (temporal ''TIME'' ''SQL_CODE_TIME'' (type_row catsz TnTime 0 MAX_FRACTIONAL_SECONDS_PRECISION)),
       temporal ''TIME'' ''SQL_CODE_TIME''
         (new_row (type_name TnTimeWithTimeZone) TIME (time_size + TRINO_TZ_OFFSET_SUFFIX_LEN)),
       preferred (temporal ''TIMESTAMP'' ''SQL_CODE_TIMESTAMP''
         (type_row catsz TnTimestamp 0 MAX_FRACTIONAL_SECONDS_PRECISION)),
       temporal ''TIMESTAMP'' ''SQL_CODE_TIMESTAMP''
         (new_row (type_name TnTimestampWithTimeZone) TIMESTAMP
           (timestamp_size + TRINO_TZ_TIMESTAMP_SPACE_LEN + TRINO_TZ_OFFSET_SUFFIX_LEN))])"

definition trino_type_info :: "column_size_fn \<Rightarrow> type_info_row list" where
  "trino_type_info catsz = leading_rows catsz @ number_rows catsz @ trailing_rows catsz"

definition get_type_info :: "column_size_fn \<Rightarrow> type_info_row list" where
  "get_type_info = trino_type_info"

section \<open>The names and types of the rows\<close>

text \<open>The rows name each of the driver's types once, and two names of the ANSI aliases.\<close>

definition reported_key :: "trino_type_name \<Rightarrow> string \<times> sql_type" where
  "reported_key t = (type_name t, type_sql_type t)"

definition row_types_1 :: "trino_type_name list" where
  "row_types_1 =
     [TnIntervalDayToSecond, TnIntervalYearToMonth, TnJson, TnUuid, TnVarchar, TnChar, TnBoolean,
      TnTinyInt, TnBigInt, TnVarbinary]"

definition row_types_2 :: "trino_type_name list" where
  "row_types_2 = [TnDecimal, TnInteger, TnSmallInt, TnReal, TnDouble]"

definition row_types_3 :: "trino_type_name list" where
  "row_types_3 = [TnDate, TnTime, TnTimeWithTimeZone, TnTimestamp, TnTimestampWithTimeZone]"

definition row_keys :: "(string \<times> sql_type) list" where
  "row_keys =
     map reported_key row_types_1 @ [(''SQL_CHAR'', ANSI_CHAR)] @
     map reported_key row_types_2 @ [(''SQL_VARCHAR'', ANSI_VARCHAR)] @
     map reported_key row_types_3"

lemma row_types_complete: "set row_types_1 \<union> set row_types_2 \<union> set row_types_3 = UNIV"
proof -
  have "t \<in> set row_types_1 \<union> set row_types_2 \<union> set row_types_3" for t
    by (cases t) (simp_all add: row_types_1_def row_types_2_def row_types_3_def)
  then show ?thesis by blast
qed

lemma set_row_keys:
  "set row_keys = range reported_key \<union> {(''SQL_CHAR'', ANSI_CHAR), (''SQL_VARCHAR'', ANSI_VARCHAR)}"
  by (simp only: row_keys_def set_append set_map row_types_complete [symmetric] image_Un
      list.set) blast

named_theorems row_defs \<open>the builders of the type info rows\<close>

declare new_row_def [row_defs] with_affixes_def [row_defs] exact_numeric_def [row_defs]
  approximate_numeric_def [row_defs] character_def [row_defs] temporal_def [row_defs]
  preferred_def [row_defs]

lemma row_keys_of_rows: "map (\<lambda>r. (ti_name r, ti_type r)) (trino_type_info catsz) = row_keys"
  by (simp add: trino_type_info_def leading_rows_def number_rows_def trailing_rows_def
      type_row_def row_keys_def row_types_1_def row_types_2_def row_types_3_def
      reported_key_def row_defs Let_def)

lemma row_names_distinct: "distinct (map fst row_keys)"
  by (simp add: row_keys_def row_types_1_def row_types_2_def row_types_3_def reported_key_def)

lemma type_in_row_keys: "(type_name t, type_sql_type t) \<in> set row_keys"
  using set_row_keys by (auto simp: reported_key_def)

lemma bare_name_in_row_keys:
  assumes "sql_ty = trino_type_name_to_sql_type native"
  shows "(trino_bare_type_name native sql_ty, sql_ty) \<in> set row_keys"
proof (cases "parse_type_name native")
  case None
  then show ?thesis
    using assms type_in_row_keys [of TnVarchar]
    by (simp add: trino_bare_type_name_def trino_type_name_to_sql_type_def)
next
  case (Some t)
  then show ?thesis
    using assms type_in_row_keys [of t]
    by (simp add: trino_bare_type_name_def trino_type_name_to_sql_type_def)
qed

text \<open>Row names answer a lookup: the row a name selects is unique.\<close>

lemma row_of_key:
  "(n, ty) \<in> set row_keys \<Longrightarrow>
     \<exists>!r. r \<in> set (trino_type_info catsz) \<and> ti_name r = n"
proof -
  assume k: "(n, ty) \<in> set row_keys"
  let ?rows = "trino_type_info catsz"
  have names: "map ti_name ?rows = map fst row_keys"
    using arg_cong [OF row_keys_of_rows [of catsz], of "map fst"] by (simp add: comp_def)
  then have "distinct (map ti_name ?rows)" using row_names_distinct by simp
  then have inj: "inj_on ti_name (set ?rows)" by (simp add: distinct_map)
  have "n \<in> set (map ti_name ?rows)" using k names by (metis fst_conv image_eqI set_map)
  then show ?thesis using inj by (auto simp: inj_on_def)
qed


end
