(* ===== verification/Statement.thy ===== *)
theory Statement
  imports Session_State Type_Info Params
begin

text \<open>
  The life of a statement (\<open>src/src/backend/execute.rs\<close>): submitting it, streaming its pages,
  reading cells, closing it.

  \<open>statement\<close> is \<open>TrinoStatement\<close>. Its shared handles are the token of its cancel state and three
  flags for whether it holds the client, the connection's transaction state and its liveness flag;
  the wall-clock counters are left out. A call takes the statement and the shared state and
  returns both: a panic leaves them as they were when it unwound. A loop over the pages of a
  query is a \<open>partial_function (option)\<close>, \<open>None\<close> being a loop that never ends.
\<close>

section \<open>Data\<close>

record descriptor =
  d_name :: string
  d_sql_type :: sql_type
  d_type_name :: string
  d_precision :: int
  d_scale :: int

datatype value_warning = FractionalTruncation

record ('d, 's, 'z, 'o) statement =
  pending_sql :: "string option"
  st_columns :: "descriptor list"
  trino_types :: "(string \<times> trino_ty) list"
  st_zone :: "('z, 'o) session_zone"
  raw_columns :: "column list"
  batch :: "('d, 's) column_value list list"
  truncated_cells :: "(nat \<times> nat) set"
  pending_warning :: "value_warning option"
  batch_cursor :: nat
  fetch_failed :: bool
  next_uri :: "string option"
  st_query_id :: "string option"
  has_client :: bool
  has_runtime :: bool
  st_token :: "nat option"
  has_txn :: bool
  txn_epoch :: "64 word"
  has_liveness :: bool
  page_count :: "32 word"
  empty_page_count :: "32 word"
  total_rows :: "64 word"

datatype fetch_result = FetchRow | NoData

section \<open>Rows of a page\<close>

text \<open>\<open>convert_rows\<close>: every cell converted, and the places of the cells that lost digits.\<close>

definition convert_row ::
    "('n, 'd, 's) json_ext \<Rightarrow> ('z, 'o, 't) chrono_ext \<Rightarrow> 't \<Rightarrow> ('z, 'o) session_zone
       \<Rightarrow> (string \<times> trino_ty) list \<Rightarrow> 'n json list \<Rightarrow> ('d, 's) column_value list run" where
  "convert_row x c now zone types row =
     run_seq (map (\<lambda>(val, _, ty). json_to_column_value x c now val ty zone) (zip row types))"

definition truncated_in :: "(string \<times> trino_ty) list \<Rightarrow> 'n rows \<Rightarrow> (nat \<times> nat) set" where
  "truncated_in types rows =
     set (concat (map (\<lambda>(i, row).
       map (\<lambda>(j, _). (i, j))
         (filter (\<lambda>(j, val, _, ty). discards_fractional_seconds val ty)
           (enumerate 0 (zip row types)))) (enumerate 0 rows)))"

definition convert_rows ::
    "('n, 'd, 's) json_ext \<Rightarrow> ('z, 'o, 't) chrono_ext \<Rightarrow> 't \<Rightarrow> 'n rows \<Rightarrow> (string \<times> trino_ty) list
       \<Rightarrow> ('z, 'o) session_zone
       \<Rightarrow> (('d, 's) column_value list list \<times> (nat \<times> nat) set) run" where
  "convert_rows x c now rows types zone =
     bind_run (run_seq (map (convert_row x c now zone types) rows))
       (\<lambda>b. Ret (b, truncated_in types rows))"

definition decode_page_rows ::
    "('w, 'n, 'd, 's, 'z, 'o, 't, 'p) env \<Rightarrow> 'p option \<Rightarrow> column list \<Rightarrow> 'w sys
       \<Rightarrow> (client_error + 'n rows) \<times> 'w sys" where
  "decode_page_rows e data raw s =
     (case data of
        None \<Rightarrow> (Inr [], s)
      | Some d \<Rightarrow> call (e_decode_page e d (if raw = [] then None else Some raw)) s)"

section \<open>Submitting\<close>

lemma length_trim_end: "length (trim_end s) \<le> length s"
proof -
  obtain u where "s = trim_end s @ u" using trim_end_prefix [of s] by blast
  then show ?thesis by (metis le_add1 length_append)
qed

function strip_trailing :: "string \<Rightarrow> string" where
  "strip_trailing trimmed =
     (if trimmed \<noteq> [] \<and> last trimmed = CHR '';''
      then strip_trailing (trim_end (butlast trimmed))
      else trimmed)"
  by pat_completeness auto

termination
proof (relation "measure length")
  fix t :: string
  assume t: "t \<noteq> [] \<and> last t = CHR '';''"
  have "length (trim_end (butlast t)) \<le> length (butlast t)" by (rule length_trim_end)
  also have "\<dots> < length t" using t by simp
  finally show "(trim_end (butlast t), t) \<in> measure length" by simp
qed simp

declare strip_trailing.simps [simp del]

definition strip_trailing_semicolons :: "string \<Rightarrow> string" where
  "strip_trailing_semicolons sql = strip_trailing (trim_end sql)"

text \<open>The description of one result column, and its type for the conversion.\<close>

definition describe_column ::
    "('w, 'n, 'd, 's, 'z, 'o, 't, 'p) env \<Rightarrow> column \<Rightarrow> descriptor \<times> (string \<times> trino_ty)" where
  "describe_column e col =
     (let native = col_ty col;
          ty = (case e_from_column e col of Some t \<Rightarrow> t | None \<Rightarrow> TyUnknown);
          sql_ty = (case parse_type_name native of
                      Some t \<Rightarrow> type_sql_type t | None \<Rightarrow> trino_ty_to_sql_type ty);
          precision =
            (case Option.bind (type_name_precision (e_column_size e) native)
                    to_u32 of
               Some p \<Rightarrow> p
             | None \<Rightarrow> trino_ty_precision (e_column_size e) (e_undeterminable e) ty);
          scale =
            (case Option.bind (type_name_scale native) to_i16 of
               Some sc \<Rightarrow> sc | None \<Rightarrow> trino_ty_scale ty)
      in (\<lparr>d_name = col_name col, d_sql_type = sql_ty,
           d_type_name = trino_bare_type_name native sql_ty,
           d_precision = precision, d_scale = scale\<rparr>,
          (col_name col, ty)))"

text \<open>
  Polling for the first page that carries column metadata: \<open>pc\<close> pages seen, \<open>ec\<close> of them empty.
\<close>

partial_function (option) poll_metadata ::
    "('w, 'n, 'd, 's, 'z, 'o, 't, 'p) env \<Rightarrow> 'p page \<Rightarrow> 32 word \<Rightarrow> 32 word \<Rightarrow> 'w sys
       \<Rightarrow> ((trino_error + 'p page \<times> 32 word \<times> 32 word) \<times> 'w sys) option" where
  "poll_metadata e page pc ec s =
     (case pg_columns page of
        Some _ \<Rightarrow> Some (Inr (page, pc, ec), s)
      | None \<Rightarrow>
          (case pg_error page of
             Some q \<Rightarrow> (let (m, s1) = statement_error (e_error_of e q) s in Some (Inl m, s1))
           | None \<Rightarrow>
               (case pg_next page of
                  None \<Rightarrow> Some (Inl (General ''query returned no columns and no next page''), s)
                | Some url \<Rightarrow>
                    (case call (e_get_next e url) s of
                       (Inl err, s1) \<Rightarrow>
                         (let (m, s2) = statement_error err s1 in Some (Inl m, s2))
                     | (Inr page', s1) \<Rightarrow> poll_metadata e page' (pc + 1) (ec + 1) s1))))"

text \<open>
  \<open>exec_direct\<close>: the transaction first, then the session zone, then the request. The query id is
  published before the polling starts.
\<close>

definition new_statement ::
    "'p page \<Rightarrow> descriptor list \<Rightarrow> (string \<times> trino_ty) list \<Rightarrow> ('z, 'o) session_zone
       \<Rightarrow> column list \<Rightarrow> ('d, 's) column_value list list \<times> (nat \<times> nat) set \<Rightarrow> nat \<Rightarrow> 64 word
       \<Rightarrow> 32 word \<Rightarrow> 32 word \<Rightarrow> ('d, 's, 'z, 'o) statement" where
  "new_statement page descs types zone raw bt t ep pc ec =
     \<lparr>pending_sql = None, st_columns = descs, trino_types = types, st_zone = zone,
      raw_columns = raw, batch = fst bt, truncated_cells = snd bt, pending_warning = None,
      batch_cursor = 0, fetch_failed = False, next_uri = pg_next page,
      st_query_id = Some (pg_id page), has_client = True, has_runtime = True,
      st_token = Some t, has_txn = True, txn_epoch = ep, has_liveness = True,
      page_count = pc, empty_page_count = ec, total_rows = of_nat (length (fst bt))\<rparr>"

text \<open>What follows the polling: the columns and the rows of the page that carries them.\<close>

definition first_batch ::
    "('w, 'n, 'd, 's, 'z, 'o, 't, 'p) env \<Rightarrow> nat \<Rightarrow> ('z, 'o) session_zone \<Rightarrow> 'p page \<Rightarrow> 32 word
       \<Rightarrow> 32 word \<Rightarrow> 'w sys \<Rightarrow> (trino_error + ('d, 's, 'z, 'o) statement) run \<times> 'w sys" where
  "first_batch e t zone page pc ec s =
     (case pg_error page of
        Some q \<Rightarrow> (let (m, s1) = statement_error (e_error_of e q) s in (Ret (Inl m), s1))
      | None \<Rightarrow>
          (let raw = (case pg_columns page of None \<Rightarrow> [] | Some cs \<Rightarrow> cs);
               described = map (describe_column e) raw;
               types = map snd described in
           case decode_page_rows e (pg_data page) raw s of
             (Inl err, s1) \<Rightarrow> (let (m, s2) = statement_error err s1 in (Ret (Inl m), s2))
           | (Inr rows, s1) \<Rightarrow>
               (case convert_rows (e_json e) (e_chrono e) (e_now e (world s1)) rows types zone of
                  Panic \<Rightarrow> (Panic, s1)
                | Ret bt \<Rightarrow>
                    (Ret (Inr (new_statement page (map fst described) types zone raw bt t
                      (epoch s1) pc ec)), s1))))"

definition exec_direct ::
    "('w, 'n, 'd, 's, 'z, 'o, 't, 'p) env \<Rightarrow> ('z, 'o) conn \<Rightarrow> nat \<Rightarrow> string \<Rightarrow> 'w sys
       \<Rightarrow> ((trino_error + ('d, 's, 'z, 'o) statement) run \<times> 'w sys) option" where
  "exec_direct e cn t sql0 s =
     (let sql = strip_trailing_semicolons sql0 in
      case ensure_transaction e s of
        (Inl m, s1) \<Rightarrow> Some (Ret (Inl m), s1)
      | (Inr _, s1) \<Rightarrow>
          (let zone = connection_session_zone e cn s1 in
           case call (e_get e sql) s1 of
             (Inl err, s2) \<Rightarrow> (let (m, s3) = statement_error err s2 in Some (Ret (Inl m), s3))
           | (Inr page, s2) \<Rightarrow>
               (case poll_metadata e page 1 0 (begin_query t (pg_id page) s2) of
                  None \<Rightarrow> None
                | Some (Inl m, s3) \<Rightarrow> Some (Ret (Inl m), s3)
                | Some (Inr (page', pc, ec), s3) \<Rightarrow> Some (first_batch e t zone page' pc ec s3))))"

text \<open>\<open>prepare\<close>: the text is kept, and nothing is sent.\<close>

definition prepare :: "('z, 'o, 't) chrono_ext \<Rightarrow> string \<Rightarrow> ('d, 's, 'z, 'o) statement" where
  "prepare c sql =
     \<lparr>pending_sql = Some sql, st_columns = [], trino_types = [], st_zone = SessionZone_UTC c,
      raw_columns = [], batch = [], truncated_cells = {}, pending_warning = None,
      batch_cursor = 0, fetch_failed = False, next_uri = None, st_query_id = None,
      has_client = False, has_runtime = False, st_token = None, has_txn = False, txn_epoch = 0,
      has_liveness = False, page_count = 0, empty_page_count = 0, total_rows = 0\<rparr>"

section \<open>The state of a result set\<close>

definition column_out_of_range :: "nat \<Rightarrow> nat \<Rightarrow> trino_error" where
  "column_out_of_range col have_cols =
     from_odbc_error (odbc_general
       (''column '' @ show_nat col @ '' out of range (have '' @ show_nat have_cols @ '' columns)'')
       invalid_descriptor_index)"

definition column_index_must_be_positive :: trino_error where
  "column_index_must_be_positive =
     from_odbc_error (odbc_general ''column index must be >= 1'' invalid_descriptor_index)"

definition result_set_died :: "('d, 's, 'z, 'o) statement \<Rightarrow> 'w sys \<Rightarrow> bool" where
  "result_set_died st s \<longleftrightarrow> has_txn st \<and> txn_outlived (txn_epoch st) s"

definition statement_cancelled :: "('d, 's, 'z, 'o) statement \<Rightarrow> 'w sys \<Rightarrow> bool" where
  "statement_cancelled st s =
     (case st_token st of None \<Rightarrow> False | Some t \<Rightarrow> is_cancelled t s)"

definition map_client_error ::
    "('d, 's, 'z, 'o) statement \<Rightarrow> client_error \<Rightarrow> 'w sys \<Rightarrow> trino_error \<times> 'w sys" where
  "map_client_error st err s =
     (let s1 = (if has_txn st then txn_note_statement_error s else s) in
      if has_liveness st then map_error_on err s1 else (map_trino_error err, s1))"

text \<open>Both ways a fetch ends drop the buffered rows; only a failure marks the statement.\<close>

definition discard_rows :: "('d, 's, 'z, 'o) statement \<Rightarrow> ('d, 's, 'z, 'o) statement" where
  "discard_rows st = st\<lparr>batch := [], truncated_cells := {}, batch_cursor := 0, next_uri := None\<rparr>"

definition abandon_result_set :: "('d, 's, 'z, 'o) statement \<Rightarrow> ('d, 's, 'z, 'o) statement" where
  "abandon_result_set st = (discard_rows st)\<lparr>fetch_failed := True\<rparr>"

definition end_page_fetch ::
    "trino_error \<Rightarrow> ('d, 's, 'z, 'o) statement \<Rightarrow> ('d, 's, 'z, 'o) statement" where
  "end_page_fetch err st =
     (case err of OperationCancelled _ _ \<Rightarrow> discard_rows st | _ \<Rightarrow> abandon_result_set st)"

section \<open>Fetching\<close>

text \<open>
  One turn of the loop of \<open>fetch\<close>: it ends the call, goes round again, or unwinds with a panic.
\<close>

datatype turn = Finish "trino_error + fetch_result" | Again | Crash

definition no_handle :: "string \<Rightarrow> trino_error" where
  "no_handle what =
     from_odbc_error (odbc_general (''no '' @ what @ '' available for streaming fetch'') general_error)"

text \<open>A request of the fetch failed: classify it, and end the result set.\<close>

definition page_failed ::
    "('d, 's, 'z, 'o) statement \<Rightarrow> client_error \<Rightarrow> 'w sys
       \<Rightarrow> turn \<times> ('d, 's, 'z, 'o) statement \<times> 'w sys" where
  "page_failed st err s =
     (let (m, s1) = map_client_error st err s in (Finish (Inl m), end_page_fetch m st, s1))"

text \<open>The page that arrived: its own error, or its rows.\<close>

definition take_page ::
    "('w, 'n, 'd, 's, 'z, 'o, 't, 'p) env \<Rightarrow> 'p page \<Rightarrow> ('d, 's, 'z, 'o) statement \<Rightarrow> 'w sys
       \<Rightarrow> turn \<times> ('d, 's, 'z, 'o) statement \<times> 'w sys" where
  "take_page e page st s =
     (case pg_error page of
        Some q \<Rightarrow> page_failed st (e_error_of e q) s
      | None \<Rightarrow>
          (let st1 = st\<lparr>next_uri := pg_next page\<rparr> in
           case decode_page_rows e (pg_data page) (raw_columns st1) s of
             (Inl err, s1) \<Rightarrow> page_failed st1 err s1
           | (Inr rows, s1) \<Rightarrow>
               (case convert_rows (e_json e) (e_chrono e) (e_now e (world s1)) rows
                       (trino_types st1) (st_zone st1) of
                  Panic \<Rightarrow> (Crash, st1, s1)
                | Ret (b, tr) \<Rightarrow>
                    (Again,
                     st1\<lparr>batch := b, truncated_cells := tr,
                         empty_page_count := empty_page_count st1 + (if b = [] then 1 else 0),
                         total_rows := total_rows st1 + of_nat (length b),
                         batch_cursor := 0\<rparr>, s1))))"

definition fetch_turn ::
    "('w, 'n, 'd, 's, 'z, 'o, 't, 'p) env \<Rightarrow> ('d, 's, 'z, 'o) statement \<Rightarrow> 'w sys
       \<Rightarrow> turn \<times> ('d, 's, 'z, 'o) statement \<times> 'w sys" where
  "fetch_turn e st s =
     (if statement_cancelled st s
      then (Finish (Inl cancelled_between_requests), end_page_fetch cancelled_between_requests st, s)
      else if batch_cursor st < length (batch st)
      then (Finish (Inr FetchRow), st\<lparr>batch_cursor := batch_cursor st + 1\<rparr>, s)
      else
        (case next_uri st of
           None \<Rightarrow> (Finish (Inr NoData), st, s)
         | Some url \<Rightarrow>
             (let st1 = st\<lparr>next_uri := None\<rparr> in
              if \<not> has_client st1 then (Finish (Inl (no_handle ''client'')), st1, s)
              else if \<not> has_runtime st1 then (Finish (Inl (no_handle ''runtime'')), st1, s)
              else
                (let st2 = st1\<lparr>page_count := page_count st1 + 1\<rparr> in
                 case call (e_get_next e url) s of
                   (Inl err, s1) \<Rightarrow> page_failed st2 err s1
                 | (Inr page, s1) \<Rightarrow> take_page e page st2 s1))))"

partial_function (option) fetch_loop ::
    "('w, 'n, 'd, 's, 'z, 'o, 't, 'p) env \<Rightarrow> ('d, 's, 'z, 'o) statement \<Rightarrow> 'w sys
       \<Rightarrow> ((trino_error + fetch_result) run \<times> ('d, 's, 'z, 'o) statement \<times> 'w sys) option" where
  "fetch_loop e st s =
     (case fetch_turn e st s of
        (Finish r, st1, s1) \<Rightarrow> Some (Ret r, st1, s1)
      | (Crash, st1, s1) \<Rightarrow> Some (Panic, st1, s1)
      | (Again, st1, s1) \<Rightarrow> fetch_loop e st1 s1)"

definition abandoned_error :: trino_error where
  "abandoned_error =
     from_odbc_error (odbc_general ''the result set was abandoned by an earlier fetch failure''
       invalid_cursor_state)"

definition fetch ::
    "('w, 'n, 'd, 's, 'z, 'o, 't, 'p) env \<Rightarrow> ('d, 's, 'z, 'o) statement \<Rightarrow> 'w sys
       \<Rightarrow> ((trino_error + fetch_result) run \<times> ('d, 's, 'z, 'o) statement \<times> 'w sys) option" where
  "fetch e st s =
     (if fetch_failed st then Some (Ret (Inl abandoned_error), st, s) else fetch_loop e st s)"

section \<open>Reading\<close>

text \<open>\<open>get_data\<close>: the index into the batch panics out of range.\<close>

definition get_data ::
    "nat \<Rightarrow> ('d, 's, 'z, 'o) statement
       \<Rightarrow> (trino_error + ('d, 's) column_value) run \<times> ('d, 's, 'z, 'o) statement" where
  "get_data col st =
     (if batch_cursor st = 0
      then (Ret (Inl (from_odbc_error
              (odbc_general ''get_data called before fetch'' general_error))), st)
      else if col = 0 then (Ret (Inl column_index_must_be_positive), st)
      else
        (let idx = col - 1;
             st1 = st\<lparr>pending_warning :=
               (if truncated_cells st \<noteq> {} \<and> (batch_cursor st - 1, idx) \<in> truncated_cells st
                then Some FractionalTruncation else None)\<rparr>
         in if batch_cursor st - 1 < length (batch st)
            then (let row = batch st ! (batch_cursor st - 1) in
                  (Ret (if idx < length row then Inr (row ! idx)
                        else Inl (column_out_of_range col (length row))), st1))
            else (Panic, st1)))"

definition take_value_warning ::
    "('d, 's, 'z, 'o) statement \<Rightarrow> value_warning option \<times> ('d, 's, 'z, 'o) statement" where
  "take_value_warning st = (pending_warning st, st\<lparr>pending_warning := None\<rparr>)"

definition column_count :: "('d, 's, 'z, 'o) statement \<Rightarrow> int" where
  "column_count st =
     (case to_i16 (int (length (st_columns st))) of Some n \<Rightarrow> n | None \<Rightarrow> i16_max)"

definition describe_col :: "nat \<Rightarrow> ('d, 's, 'z, 'o) statement \<Rightarrow> trino_error + descriptor" where
  "describe_col col st =
     (if col = 0 then Inl column_index_must_be_positive
      else if col - 1 < length (st_columns st) then Inr (st_columns st ! (col - 1))
      else Inl (column_out_of_range col (length (st_columns st))))"

definition row_count :: "('d, 's, 'z, 'o) statement \<Rightarrow> int option" where
  "row_count st = None"

section \<open>Closing\<close>

text \<open>The drain: every remaining page is requested, until the last or the first failure.\<close>

partial_function (option) drain ::
    "('w, 'n, 'd, 's, 'z, 'o, 't, 'p) env \<Rightarrow> ('d, 's, 'z, 'o) statement \<Rightarrow> string option \<Rightarrow> 'w sys
       \<Rightarrow> (trino_error option \<times> 'w sys) option" where
  "drain e st next s =
     (case next of
        None \<Rightarrow> Some (None, s)
      | Some url \<Rightarrow>
          (case call (e_get_next e url) s of
             (Inr page, s1) \<Rightarrow> drain e st (pg_next page) s1
           | (Inl err, s1) \<Rightarrow> (let (m, s2) = map_client_error st err s1 in Some (Some m, s2))))"

definition closed :: "('d, 's, 'z, 'o) statement \<Rightarrow> ('d, 's, 'z, 'o) statement" where
  "closed st = (discard_rows st)\<lparr>st_query_id := None, fetch_failed := False\<rparr>"

definition close_cursor ::
    "('w, 'n, 'd, 's, 'z, 'o, 't, 'p) env \<Rightarrow> ('d, 's, 'z, 'o) statement \<Rightarrow> 'w sys
       \<Rightarrow> ((trino_error + unit) \<times> ('d, 's, 'z, 'o) statement \<times> 'w sys) option" where
  "close_cursor e st s =
     (case (if statement_cancelled st s \<or> result_set_died st s then Some (None, s)
            else if has_client st \<and> has_runtime st then drain e st (next_uri st) s
            else Some (None, s)) of
        None \<Rightarrow> None
      | Some (None, s1) \<Rightarrow> Some (Inr (), closed st, s1)
      | Some (Some m, s1) \<Rightarrow> Some (Inl m, closed st, s1))"

text \<open>\<open>Drop\<close>: a result set with pages left is closed, and the outcome thrown away.\<close>

definition drop_statement ::
    "('w, 'n, 'd, 's, 'z, 'o, 't, 'p) env \<Rightarrow> ('d, 's, 'z, 'o) statement \<Rightarrow> 'w sys \<Rightarrow> 'w sys option" where
  "drop_statement e st s =
     (if next_uri st \<noteq> None
      then map_option (\<lambda>(_, _, s1). s1) (close_cursor e st s) else Some s)"

section \<open>Executing a prepared statement\<close>

text \<open>
  \<open>execute\<close>: the parameters are rendered into the template, the text is submitted, and the new
  result set takes the place of the old one, which is dropped after.
\<close>

definition execute ::
    "('w, 'n, 'd, 's, 'z, 'o, 't, 'p) env \<Rightarrow> ('z, 'o) conn \<Rightarrow> nat \<Rightarrow> ('d, 's) column_value list
       \<Rightarrow> ('d, 's, 'z, 'o) statement \<Rightarrow> 'w sys
       \<Rightarrow> ((trino_error + unit) run \<times> ('d, 's, 'z, 'o) statement \<times> 'w sys) option" where
  "execute e cn t params st s =
     (case pending_sql st of
        None \<Rightarrow> Some (Ret (Inl (General ''execute called without a prepared statement'')), st, s)
      | Some template \<Rightarrow>
          (case interpolate_params (e_json e) (e_chrono e) template params of
             Inl m \<Rightarrow> Some (Ret (Inl m), st, s)
           | Inr sql \<Rightarrow>
               (case exec_direct e cn t sql s of
                  None \<Rightarrow> None
                | Some (Panic, s1) \<Rightarrow> Some (Panic, st, s1)
                | Some (Ret (Inl m), s1) \<Rightarrow> Some (Ret (Inl m), st, s1)
                | Some (Ret (Inr st1), s1) \<Rightarrow>
                    map_option (\<lambda>s2. (Ret (Inr ()), st1\<lparr>pending_sql := Some template\<rparr>, s2))
                      (drop_statement e st s1))))"

section \<open>Well-formed statements\<close>

text \<open>
  What holds of a statement at every moment: the cursor is inside the batch, a marked lost cell is a
  cell of the batch, a failed statement has nothing left, and pages still to fetch come with the
  handles to fetch them.
\<close>

definition wf_statement :: "('d, 's, 'z, 'o) statement \<Rightarrow> bool" where
  "wf_statement st \<longleftrightarrow>
     batch_cursor st \<le> length (batch st) \<and>
     (\<forall>(i, j) \<in> truncated_cells st. i < length (batch st) \<and> j < length (batch st ! i)) \<and>
     (fetch_failed st \<longrightarrow> batch st = [] \<and> next_uri st = None) \<and>
     (next_uri st \<noteq> None \<longrightarrow> has_client st \<and> has_runtime st)"

named_theorems stmt_defs \<open>the small operations on a statement\<close>

declare discard_rows_def [stmt_defs] abandon_result_set_def [stmt_defs] closed_def [stmt_defs]
  prepare_def [stmt_defs] new_statement_def [stmt_defs]

lemma convert_rows_shape:
  assumes "convert_rows x c now rows types zone = Ret (b, tr)" and "(i, j) \<in> tr"
  shows "i < length b \<and> j < length (b ! i)"
proof -
  from assms(1) have b: "map (convert_row x c now zone types) rows = map Ret b"
    and tr: "tr = truncated_in types rows"
    by (auto simp: convert_rows_def bind_run_Ret_iff run_seq_Ret_iff)
  from assms(2) have i: "i < length rows" and j: "j < length (zip (rows ! i) types)"
    by (auto simp: tr truncated_in_def in_set_enumerate_eq)
  have len: "length b = length rows" using arg_cong [OF b, of length] by simp
  have "convert_row x c now zone types (rows ! i) = Ret (b ! i)"
    using arg_cong [OF b, of "\<lambda>l. l ! i"] i len by simp
  then have "length (b ! i) = length (zip (rows ! i) types)"
    unfolding convert_row_def by (drule_tac run_seq_length) simp
  then show ?thesis using i j len by simp
qed

lemma end_page_fetch_simps [simp]:
  "batch (end_page_fetch m st) = []" "truncated_cells (end_page_fetch m st) = {}"
  "batch_cursor (end_page_fetch m st) = 0" "next_uri (end_page_fetch m st) = None"
  "st_token (end_page_fetch m st) = st_token st"
  "has_txn (end_page_fetch m st) = has_txn st"
  "fetch_failed (end_page_fetch m st) =
     (fetch_failed st \<or> (case m of OperationCancelled _ _ \<Rightarrow> False | _ \<Rightarrow> True))"
  by (simp_all add: end_page_fetch_def stmt_defs split: trino_error.split)

lemma wf_end_page_fetch: "wf_statement (end_page_fetch m st)"
  by (simp add: wf_statement_def)

lemma wf_closed: "wf_statement (closed st)"
  by (simp add: wf_statement_def stmt_defs)

lemma wf_prepare: "wf_statement (prepare c sql)"
  by (simp add: wf_statement_def stmt_defs)

lemma page_failed_eq:
  "page_failed st err s =
     (Finish (Inl (map_trino_error err)), end_page_fetch (map_trino_error err) st,
      snd (map_client_error st err s))"
  by (simp add: page_failed_def map_client_error_def map_error_on_eq Let_def)

lemma take_page_wf:
  assumes "take_page e page st s = (tn, st', s')" and "has_client st" and "has_runtime st"
    and "\<not> fetch_failed st" and "wf_statement st"
  shows "wf_statement st'"
proof (cases "pg_error page")
  case (Some q)
  with assms show ?thesis by (auto simp: take_page_def page_failed_eq wf_end_page_fetch)
next
  case None
  obtain d s1 where d: "decode_page_rows e (pg_data page) (raw_columns st) s = (d, s1)"
    by (meson surj_pair)
  show ?thesis
  proof (cases d)
    case (Inl err)
    with assms None d show ?thesis
      by (auto simp: take_page_def page_failed_eq wf_end_page_fetch Let_def)
  next
    case (Inr rows)
    show ?thesis
    proof (cases "convert_rows (e_json e) (e_chrono e) (e_now e (world s1)) rows (trino_types st)
        (st_zone st)")
      case (Ret bt)
      obtain b tr where bt: "bt = (b, tr)" by (cases bt)
      with Ret have shape: "\<forall>(i, j) \<in> tr. i < length b \<and> j < length (b ! i)"
        using convert_rows_shape [of "e_json e" "e_chrono e"] by fast
      have "batch st' = b" "truncated_cells st' = tr" "batch_cursor st' = 0"
        "\<not> fetch_failed st'" "has_client st'" "has_runtime st'"
        using assms(1-4) None d Inr Ret bt by (auto simp: take_page_def Let_def)
      with shape show ?thesis by (simp add: wf_statement_def)
    next
      case Panic
      have "st' = st\<lparr>next_uri := pg_next page\<rparr>"
        using assms(1) None d Inr Panic by (simp add: take_page_def Let_def)
      then show ?thesis using assms(2-5) by (simp add: wf_statement_def)
    qed
  qed
qed

lemma fetch_turn_request:
  assumes "next_uri st = Some url" and "\<not> statement_cancelled st s"
    and "\<not> batch_cursor st < length (batch st)" and "has_client st" and "has_runtime st"
  shows "fetch_turn e st s =
    (let st2 = st\<lparr>next_uri := None, page_count := page_count st + 1\<rparr> in
     case call (e_get_next e url) s of
       (Inl err, s1) \<Rightarrow> page_failed st2 err s1
     | (Inr page, s1) \<Rightarrow> take_page e page st2 s1)"
  using assms by (simp add: fetch_turn_def Let_def)

lemma fetch_turn_wf:
  assumes "fetch_turn e st s = (tn, st', s')" and "wf_statement st" and "\<not> fetch_failed st"
  shows "wf_statement st'"
proof (cases "statement_cancelled st s \<or> batch_cursor st < length (batch st) \<or> next_uri st = None")
  case True
  with assms show ?thesis
    by (auto simp: fetch_turn_def wf_end_page_fetch wf_statement_def split: if_splits)
next
  case False
  then obtain url where url: "next_uri st = Some url" by auto
  let ?st2 = "st\<lparr>next_uri := None, page_count := page_count st + 1\<rparr>"
  have hs: "has_client st" "has_runtime st" using assms(2) url by (auto simp: wf_statement_def)
  have wf2: "wf_statement ?st2" using assms(2) by (simp add: wf_statement_def)
  obtain r s1 where r: "call (e_get_next e url) s = (r, s1)" by (meson surj_pair)
  show ?thesis
  proof (cases r)
    case (Inl err)
    with False assms(1) url hs r show ?thesis
      by (auto simp: fetch_turn_def page_failed_eq wf_end_page_fetch Let_def)
  next
    case (Inr page)
    with False assms(1) url hs r have "take_page e page ?st2 s1 = (tn, st', s')"
      by (simp add: fetch_turn_def Let_def)
    from take_page_wf [OF this _ _ _ wf2] show ?thesis using hs assms(3) by simp
  qed
qed

lemma first_batch_wf:
  assumes "first_batch e t zone page pc ec s = (Ret (Inr st), s')"
  shows "wf_statement st"
proof -
  from assms obtain types b tr raw descs ep rows now where
    st: "st = new_statement page descs types zone raw (b, tr) t ep pc ec" and
    "convert_rows (e_json e) (e_chrono e) now rows types zone = Ret (b, tr)"
    by (auto simp: first_batch_def prod.case_eq_if Let_def
        split: option.splits sum.splits run.splits)
  then show ?thesis
    using convert_rows_shape by (fastforce simp: wf_statement_def stmt_defs)
qed

lemma exec_direct_wf:
  assumes "exec_direct e cn t sql s = Some (Ret (Inr st), s')"
  shows "wf_statement st"
  using assms first_batch_wf
  by (auto simp: exec_direct_def prod.case_eq_if Let_def split: option.splits sum.splits prod.splits)

lemma wf_pending [simp]: "wf_statement (st\<lparr>pending_sql := p\<rparr>) = wf_statement st"
  and wf_warning [simp]: "wf_statement (st\<lparr>pending_warning := w\<rparr>) = wf_statement st"
  by (simp_all add: wf_statement_def)

lemma execute_wf:
  assumes "execute e cn t params st s = Some (r, st', s')" and "wf_statement st"
  shows "wf_statement st'"
  using assms exec_direct_wf
  by (auto simp: execute_def split: option.splits sum.splits run.splits prod.splits)

lemma get_data_wf: "wf_statement st \<Longrightarrow> wf_statement (snd (get_data col st))"
  by (simp add: get_data_def Let_def)

lemma get_data_no_panic: "wf_statement st \<Longrightarrow> fst (get_data col st) \<noteq> Panic"
  by (auto simp: get_data_def Let_def wf_statement_def)

lemma close_cursor_closed:
  "close_cursor e st s = Some (r, st', s') \<Longrightarrow> st' = closed st"
  by (auto simp: close_cursor_def split: option.splits if_splits)

section \<open>The statement as a state machine\<close>

text \<open>
  A statement and the shared state, and what can happen to them: an application's call on the
  statement, one turn of its fetch loop, or anything another thread or the coordinator does to the
  shared state in between.
\<close>

inductive statement_step ::
    "('w, 'n, 'd, 's, 'z, 'o, 't, 'p) env \<Rightarrow> ('d, 's, 'z, 'o) statement \<times> 'w sys
       \<Rightarrow> ('d, 's, 'z, 'o) statement \<times> 'w sys \<Rightarrow> bool" for e where
  interference: "statement_step e (st, s) (st, s')"
| fetch_turn_step: "\<not> fetch_failed st \<Longrightarrow> fetch_turn e st s = (tn, st', s') \<Longrightarrow>
     statement_step e (st, s) (st', s')"
| read_step: "statement_step e (st, s) (snd (get_data col st), s)"
| warning_step: "statement_step e (st, s) (snd (take_value_warning st), s)"
| close_step: "close_cursor e st s = Some (r, st', s') \<Longrightarrow> statement_step e (st, s) (st', s')"
| execute_step: "execute e cn t params st s = Some (r, st', s') \<Longrightarrow>
     statement_step e (st, s) (st', s')"

inductive reachable_statement ::
    "('w, 'n, 'd, 's, 'z, 'o, 't, 'p) env \<Rightarrow> ('d, 's, 'z, 'o) statement \<Rightarrow> 'w sys \<Rightarrow> bool" for e where
  prepared: "reachable_statement e (prepare (e_chrono e) sql) s"
| executed: "exec_direct e cn t sql s = Some (Ret (Inr st), s') \<Longrightarrow> reachable_statement e st s'"
| stepped: "reachable_statement e st s \<Longrightarrow> statement_step e (st, s) (st', s') \<Longrightarrow>
     reachable_statement e st' s'"

inductive_cases statement_stepE: "statement_step e (st, s) (st', s')"

lemma statement_step_wf:
  assumes "statement_step e (st, s) (st', s')" and "wf_statement st"
  shows "wf_statement st'"
  using assms
  by (elim statement_stepE)
     (auto simp: get_data_wf take_value_warning_def wf_closed dest: close_cursor_closed
       intro: fetch_turn_wf execute_wf)

lemma reachable_wf: "reachable_statement e st s \<Longrightarrow> wf_statement st"
  by (induction rule: reachable_statement.induct)
     (auto simp: wf_prepare intro: exec_direct_wf statement_step_wf)

lemma fetch_turn_has_handles:
  assumes wf: "wf_statement st"
  shows "fst (fetch_turn e st s) \<noteq> Finish (Inl (no_handle what))"
proof -
  have mapped: "map_trino_error err \<noteq> no_handle what" for err what
    by (cases err)
       (simp_all add: map_trino_error_def no_handle_def from_odbc_error_def query_cause_def Let_def
         prod.case_eq_if)
  have failed: "fst (page_failed st2 err s2) \<noteq> Finish (Inl (no_handle what))" for st2 err s2 what
    using mapped by (simp add: page_failed_eq)
  have page: "fst (take_page e page st2 s2) \<noteq> Finish (Inl (no_handle what))" for page st2 s2 what
    using failed by (auto simp: take_page_def Let_def split: option.split sum.split prod.split run.split)
  show ?thesis
  proof (cases "statement_cancelled st s \<or> batch_cursor st < length (batch st) \<or> next_uri st = None")
    case True
    then show ?thesis
      by (auto simp: fetch_turn_def no_handle_def from_odbc_error_def cancelled_between_requests_def)
  next
    case False
    then obtain url where "next_uri st = Some url" by auto
    with False wf show ?thesis
      by (auto simp: fetch_turn_request wf_statement_def Let_def page failed split: prod.split sum.split)
  qed
qed

text \<open>
  C3: Whatever an application does with a statement, and whatever other threads and the coordinator
  do in between, the statement stays well formed: the cursor is inside the buffered page, so reading
  a cell never panics; a marked lost cell is a cell of the page; a statement whose fetch failed
  keeps no row and no page to ask for; and a page to fetch always comes with the handles to fetch
  it, so the two internal errors of \<open>fetch\<close> never occur.
\<close>

theorem reachable_statement_ok:
  assumes "reachable_statement e st s"
  shows "wf_statement st \<and> fst (get_data col st) \<noteq> Panic \<and>
    fst (fetch_turn e st s) \<noteq> Finish (Inl (no_handle ''client'')) \<and>
    fst (fetch_turn e st s) \<noteq> Finish (Inl (no_handle ''runtime''))"
proof -
  have wf: "wf_statement st" using assms by (rule reachable_wf)
  show ?thesis using wf get_data_no_panic fetch_turn_has_handles by blast
qed

section \<open>The statement terminator\<close>

lemma strip_trailing_suffix:
  "\<exists>u. t = strip_trailing t @ u \<and> list_all (\<lambda>c. c = CHR '';'' \<or> is_ws c) u"
proof (induction t rule: strip_trailing.induct)
  case (1 t)
  show ?case
  proof (cases "t \<noteq> [] \<and> last t = CHR '';''")
    case False
    then have "strip_trailing t = t" by (auto simp: strip_trailing.simps [of t])
    then show ?thesis by (intro exI [of _ "[]"]) simp
  next
    case True
    obtain u where u: "trim_end (butlast t) = strip_trailing (trim_end (butlast t)) @ u"
      "list_all (\<lambda>c. c = CHR '';'' \<or> is_ws c) u"
      using 1 [OF True] by blast
    obtain v where v: "butlast t = trim_end (butlast t) @ v" "list_all is_ws v"
      using trim_end_prefix [of "butlast t"] by blast
    have "t = butlast t @ [CHR '';'']" using True by (metis append_butlast_last_id)
    also have "\<dots> = strip_trailing t @ u @ v @ [CHR '';'']"
      using True u(1) v(1) strip_trailing.simps [of t] by (metis append_assoc)
    finally show ?thesis
      using u(2) v(2) by (intro exI [of _ "u @ v @ [CHR '';'']"]) (auto simp: list_all_iff)
  qed
qed

lemma trim_end_last: "trim_end s \<noteq> [] \<Longrightarrow> \<not> is_ws (last (trim_end s))"
  by (simp add: trim_end_def last_rev hd_dropWhile)

lemma strip_trailing_clean:
  "t = [] \<or> \<not> is_ws (last t) \<Longrightarrow> strip_trailing t \<noteq> [] \<Longrightarrow>
     last (strip_trailing t) \<noteq> CHR '';'' \<and> \<not> is_ws (last (strip_trailing t))"
proof (induction t rule: strip_trailing.induct)
  case (1 t)
  show ?case
  proof (cases "t \<noteq> [] \<and> last t = CHR '';''")
    case True
    then show ?thesis
      using 1 trim_end_last [of "butlast t"] by (simp add: strip_trailing.simps [of t]) blast
  next
    case False
    then show ?thesis using "1.prems" by (auto simp: strip_trailing.simps [of t])
  qed
qed

text \<open>
  The text sent is the application's less a run of terminators and white space at its end, and
  nothing else; it ends in neither; and sending it again through the same function changes nothing.
\<close>

theorem statement_terminator_stripped:
  "(\<exists>u. sql = strip_trailing_semicolons sql @ u \<and> list_all (\<lambda>c. c = CHR '';'' \<or> is_ws c) u) \<and>
   (strip_trailing_semicolons sql = [] \<or>
      last (strip_trailing_semicolons sql) \<noteq> CHR '';'' \<and>
      \<not> is_ws (last (strip_trailing_semicolons sql))) \<and>
   strip_trailing_semicolons (strip_trailing_semicolons sql) = strip_trailing_semicolons sql"
proof -
  let ?x = "strip_trailing_semicolons sql"
  obtain u where u: "trim_end sql = ?x @ u" "list_all (\<lambda>c. c = CHR '';'' \<or> is_ws c) u"
    using strip_trailing_suffix [of "trim_end sql"] by (auto simp: strip_trailing_semicolons_def)
  obtain v where v: "sql = trim_end sql @ v" "list_all is_ws v" using trim_end_prefix by blast
  have "sql = ?x @ u @ v" using u(1) v(1) by simp
  then have 1: "\<exists>u. sql = ?x @ u \<and> list_all (\<lambda>c. c = CHR '';'' \<or> is_ws c) u"
    using u(2) v(2) by (intro exI [of _ "u @ v"]) (auto simp: list_all_iff)
  have 2: "?x = [] \<or> last ?x \<noteq> CHR '';'' \<and> \<not> is_ws (last ?x)"
    using strip_trailing_clean [of "trim_end sql"] trim_end_last [of sql]
    by (auto simp: strip_trailing_semicolons_def)
  have "trim_end ?x = ?x"
  proof (cases "?x = []")
    case False
    then have "?x = butlast ?x @ [last ?x]" by simp
    then show ?thesis using 2 False trim_end_snoc [of "butlast ?x" "last ?x"] by simp
  qed simp
  then have "strip_trailing_semicolons ?x = ?x"
    using 2 strip_trailing.simps [of ?x] by (auto simp: strip_trailing_semicolons_def [of ?x])
  then show ?thesis using 1 2 by simp
qed

lemma begin_query_state:
  "\<not> poisoned (cancels s t) \<Longrightarrow> query_id (cancels (begin_query t q s) t) = Some q"
  "\<not> is_cancelled t (begin_query t q s)"
  "t' \<noteq> t \<Longrightarrow> cancels (begin_query t q s) t' = cancels s t'"
  by (auto simp: session_defs Let_def)

section \<open>A concrete run\<close>

text \<open>A query of one text column over the scripted coordinator: three pages, the second empty.\<close>

definition demo_column :: column where
  "demo_column = \<lparr>col_name = ''a'', col_ty = ''varchar''\<rparr>"

definition demo_page :: "demo_rows \<Rightarrow> string option \<Rightarrow> demo_rows page" where
  "demo_page data nx =
     \<lparr>pg_id = ''q1'', pg_columns = Some [demo_column], pg_error = None, pg_next = nx,
      pg_data = Some data\<rparr>"

definition demo_conn :: "(unit, int) conn" where
  "demo_conn =
     \<lparr>cn_dbms_version = ''476'', cn_server_major = 476, cn_configured_time_zone = None,
      cn_server_time_zone = Named (), cn_data_source_name = [], cn_server_name = [],
      cn_user_name = [], cn_catalog = None\<rparr>"

definition demo_rest :: "(client_error + demo_rows page) list" where
  "demo_rest = [Inr (demo_page [] (Some ''u2'')), Inr (demo_page [[JStr ''y'']] None)]"

definition demo_start :: "bool \<Rightarrow> (client_error + demo_rows page) list \<Rightarrow> demo_world sys" where
  "demo_start auto script = (initial_sys (script, \<not> auto))\<lparr>autocommit := auto\<rparr>"

definition demo_statement :: "string option \<Rightarrow> (int, int, unit, int) statement" where
  "demo_statement nx =
     new_statement (demo_page [[JStr ''x'']] nx) [fst (describe_column demo_env demo_column)]
       [(''a'', TyVarchar)] (Named ()) [demo_column] ([[CString ''x'']], {}) 0 0 1 0"

lemma demo_convert:
  "convert_rows demo_json demo_chrono now [[JStr t]] [(n, TyVarchar)] z = Ret ([[CString t]], {})"
  "convert_rows demo_json demo_chrono now [] types z = Ret ([], {})"
  by (simp_all add: convert_rows_def convert_row_def truncated_in_def json_to_column_value.simps
      discards_fractional_seconds.simps wire_text_def)

lemma demo_page_simps [simp]:
  "pg_id (demo_page d nx) = ''q1''" "pg_columns (demo_page d nx) = Some [demo_column]"
  "pg_error (demo_page d nx) = None" "pg_next (demo_page d nx) = nx" "pg_data (demo_page d nx) = Some d"
  by (simp_all add: demo_page_def)

lemma demo_column_type: "snd (describe_column demo_env demo_column) = (''a'', TyVarchar)"
  by (simp add: describe_column_def demo_column_def Let_def)

lemma demo_zone: "connection_session_zone demo_env demo_conn s = Named ()"
  by (simp add: connection_session_zone_def effective_session_zone_def demo_conn_def or_else_def)

lemma demo_start_simps [simp]:
  "world (demo_start auto script) = (script, \<not> auto)" "autocommit (demo_start auto script) = auto"
  "epoch (demo_start auto script) = 0" "cancels (demo_start auto script) t = fresh_cancel_state"
  by (simp_all add: demo_start_def initial_sys_def)

lemma demo_exec:
  "exec_direct demo_env demo_conn 0 ''q;'' (demo_start auto (Inr (demo_page [[JStr ''x'']] nx) # rest)) =
     Some (Ret (Inr (demo_statement nx)), begin_query 0 ''q1'' (demo_start auto rest))"
proof -
  have ensure: "ensure_transaction demo_env (demo_start auto script) = (Inr (), demo_start auto script)"
    for script
    by (simp add: ensure_transaction_def in_transaction_def)
  have get: "call (demo_reply sql) (demo_start auto (Inr (demo_page [[JStr ''x'']] nx) # rest)) =
      (Inr (demo_page [[JStr ''x'']] nx), demo_start auto rest)" for sql
    by (simp add: call_world demo_reply_def) (simp add: demo_start_def initial_sys_def)
  have state: "world (begin_query 0 q (demo_start auto rest)) = (rest, \<not> auto)"
    "epoch (begin_query 0 q (demo_start auto rest)) = 0" for q
    by (simp_all add: session_defs)
  have poll: "poll_metadata demo_env (demo_page [[JStr ''x'']] nx) 1 0 s =
      Some (Inr (demo_page [[JStr ''x'']] nx, 1, 0), s)" for s
    by (simp add: poll_metadata.simps)
  have decode: "decode_page_rows demo_env (Some d) raw s = (Inr d, s)" for d raw and s :: "demo_world sys"
    by (simp add: decode_page_rows_def call_world)
  show ?thesis
    by (simp add: exec_direct_def Let_def ensure get poll demo_zone first_batch_def decode
        demo_column_type demo_convert demo_statement_def state
        new_statement_def)
qed

lemma demo_reachable:
  "reachable_statement demo_env (demo_statement nx) (begin_query 0 ''q1'' (demo_start auto rest))"
  by (rule reachable_statement.executed [OF demo_exec])

lemma demo_wf: "wf_statement (demo_statement nx)"
  using demo_reachable reachable_wf by blast

lemma demo_statement_simps [simp]:
  "batch (demo_statement nx) = [[CString ''x'']]" "next_uri (demo_statement nx) = nx"
  "st_token (demo_statement nx) = Some 0" "has_txn (demo_statement nx)"
  "\<not> fetch_failed (demo_statement nx)" "batch_cursor (demo_statement nx) = 0"
  "trino_types (demo_statement nx) = [(''a'', TyVarchar)]" "st_zone (demo_statement nx) = Named ()"
  "raw_columns (demo_statement nx) = [demo_column]" "txn_epoch (demo_statement nx) = 0"
  by (simp_all add: demo_statement_def new_statement_def)

theorem reachable_statement_ok_witness:
  "fst (get_data 7 (demo_statement (Some ''u1''))) \<noteq> Panic"
  using reachable_statement_ok [OF demo_reachable [of "Some ''u1''" True demo_rest], of 7] by blast

end
