(* ===== verification/Statement_Fetch.thy ===== *)
theory Statement_Fetch
  imports Statement
begin

text \<open>
  How a result set ends: by a failed fetch, by a cancellation, and by being closed.
\<close>

section \<open>How a fetch ends\<close>

definition is_cancellation :: "trino_error \<Rightarrow> bool" where
  "is_cancellation m = (case m of OperationCancelled _ _ \<Rightarrow> True | _ \<Rightarrow> False)"

text \<open>A result set that ended with the error \<open>m\<close>.\<close>

definition ended_with :: "trino_error \<Rightarrow> ('d, 's, 'z, 'o) statement \<Rightarrow> bool" where
  "ended_with m st \<longleftrightarrow>
     batch st = [] \<and> truncated_cells st = {} \<and> batch_cursor st = 0 \<and> next_uri st = None \<and>
     fetch_failed st = (\<not> is_cancellation m)"

lemma fetch_loop_last_turn:
  assumes "fetch_loop e st s = Some res" and "I st s"
    and "\<And>st s st1 s1. \<lbrakk>I st s; fetch_turn e st s = (Again, st1, s1)\<rbrakk> \<Longrightarrow> I st1 s1"
  shows "\<exists>st0 s0 tn. I st0 s0 \<and> fetch_turn e st0 s0 = (tn, snd res) \<and>
    ((\<exists>x. tn = Finish x \<and> fst res = Ret x) \<or> tn = Crash \<and> fst res = Panic)"
  using assms(2,3)
proof (induction rule: fetch_loop.raw_induct [OF _ assms(1)])
  case step: (1 loop e st s res)
  obtain tn st1 s1 where turn: "fetch_turn e st s = (tn, st1, s1)" by (metis prod_cases3)
  show ?case
  proof (cases "tn = Again")
    case True
    then have "loop e st1 s1 = Some res" using step(2) turn by simp
    then show ?thesis using step(1) [OF _ step(4) [OF step(3)]] turn True step(4) by blast
  next
    case False
    then have "snd res = (st1, s1) \<and>
        ((\<exists>x. tn = Finish x \<and> fst res = Ret x) \<or> tn = Crash \<and> fst res = Panic)"
      using step(2) turn by (cases tn) auto
    then show ?thesis using step(3) turn by (intro exI [of _ st] exI [of _ s] exI [of _ tn]) simp
  qed
qed

lemma is_cancellation_simps [simp]:
  "is_cancellation cancelled_between_requests" "\<not> is_cancellation abandoned_error"
  "\<not> is_cancellation (no_handle what)"
  by (simp_all add: is_cancellation_def cancelled_between_requests_def abandoned_error_def
      no_handle_def from_odbc_error_def)

lemma ended_end_page_fetch: "\<not> fetch_failed st \<Longrightarrow> ended_with m (end_page_fetch m st)"
  by (cases m) (simp_all add: ended_with_def is_cancellation_def)

lemma page_failed_ended:
  "\<not> fetch_failed st \<Longrightarrow> page_failed st err s = (tn, st', s') \<Longrightarrow>
     \<exists>m. tn = Finish (Inl m) \<and> ended_with m st'"
  by (auto simp: page_failed_eq ended_end_page_fetch)

text \<open>
  A turn on a live well-formed statement: it goes round with a live one, unwinds, delivers, or ends
  the result set.
\<close>

lemma take_page_result:
  assumes "take_page e page st s = (tn, st', s')" and "\<not> fetch_failed st"
  shows "case tn of
      Finish (Inl m) \<Rightarrow> ended_with m st'
    | Finish (Inr r) \<Rightarrow> False
    | _ \<Rightarrow> \<not> fetch_failed st'"
proof (cases "pg_error page")
  case (Some q)
  then show ?thesis
    using assms page_failed_ended [of st "e_error_of e q" s tn st' s'] by (auto simp: take_page_def)
next
  case None
  let ?st1 = "st\<lparr>next_uri := pg_next page\<rparr>"
  obtain d s1 where d: "decode_page_rows e (pg_data page) (raw_columns st) s = (d, s1)"
    by (meson surj_pair)
  show ?thesis
  proof (cases d)
    case (Inl err)
    then have "page_failed ?st1 err s1 = (tn, st', s')"
      using assms None d by (simp add: take_page_def)
    then show ?thesis using page_failed_ended [of ?st1 err s1 tn st' s'] assms(2) by auto
  next
    case (Inr rows)
    then show ?thesis using assms None d by (auto simp: take_page_def Let_def split: run.splits)
  qed
qed

lemma fetch_turn_result:
  assumes "fetch_turn e st s = (tn, st', s')" and "wf_statement st" and "\<not> fetch_failed st"
  shows "case tn of
      Finish (Inl m) \<Rightarrow> ended_with m st'
    | Finish (Inr NoData) \<Rightarrow> st' = st \<and> s' = s
    | _ \<Rightarrow> \<not> fetch_failed st'"
proof (cases "statement_cancelled st s \<or> batch_cursor st < length (batch st) \<or> next_uri st = None")
  case True
  with assms show ?thesis
    by (auto simp: fetch_turn_def ended_end_page_fetch split: if_splits)
next
  case False
  then obtain url where url: "next_uri st = Some url" by auto
  let ?st2 = "st\<lparr>next_uri := None, page_count := page_count st + 1\<rparr>"
  have hs: "has_client st" "has_runtime st" using assms(2) url by (auto simp: wf_statement_def)
  obtain r s1 where r: "call (e_get_next e url) s = (r, s1)" by (meson surj_pair)
  show ?thesis
  proof (cases r)
    case (Inl err)
    with False assms(1) url hs r have "page_failed ?st2 err s1 = (tn, st', s')"
      by (simp add: fetch_turn_request Let_def)
    then show ?thesis using page_failed_ended [of ?st2 err s1 tn st' s'] assms(3) by auto
  next
    case (Inr page)
    with False assms(1) url hs r have "take_page e page ?st2 s1 = (tn, st', s')"
      by (simp add: fetch_turn_request Let_def)
    from take_page_result [OF this] assms(3) show ?thesis
      by (auto split: turn.splits sum.splits)
  qed
qed

lemma again_live:
  assumes "wf_statement st \<and> \<not> fetch_failed st" and "fetch_turn e st s = (Again, st1, s1)"
  shows "wf_statement st1 \<and> \<not> fetch_failed st1"
  using fetch_turn_result [OF assms(2)] fetch_turn_wf [OF assms(2)] assms(1) by simp

lemma fetch_loop_last_live:
  assumes "fetch_loop e st s = Some res" and "wf_statement st \<and> \<not> fetch_failed st"
  shows "\<exists>st0 s0 tn. (wf_statement st0 \<and> \<not> fetch_failed st0) \<and>
    fetch_turn e st0 s0 = (tn, snd res) \<and>
    ((\<exists>x. tn = Finish x \<and> fst res = Ret x) \<or> tn = Crash \<and> fst res = Panic)"
  by (rule fetch_loop_last_turn [where I = "\<lambda>st s. wf_statement st \<and> \<not> fetch_failed st", OF assms])
     (rule again_live)

lemma fetch_ended:
  assumes "fetch e st s = Some (Ret (Inl m), st', s')" and "wf_statement st"
  shows "ended_with m st'"
proof (cases "fetch_failed st")
  case True
  with assms show ?thesis by (auto simp: fetch_def ended_with_def wf_statement_def) 
next
  case False
  with assms(1) have loop: "fetch_loop e st s = Some (Ret (Inl m), st', s')" by (simp add: fetch_def)
  have start: "wf_statement st \<and> \<not> fetch_failed st" using assms(2) False by simp
  from fetch_loop_last_live [OF loop start] obtain st0 s0
    where "wf_statement st0" "\<not> fetch_failed st0"
      and turn: "fetch_turn e st0 s0 = (Finish (Inl m), st', s')"
    by auto
  then show ?thesis using fetch_turn_result [OF turn] by simp
qed

lemma fetch_after_end:
  assumes "ended_with m st"
  shows "fetch e st s =
    Some (if \<not> is_cancellation m then Ret (Inl abandoned_error)
          else if statement_cancelled st s then Ret (Inl cancelled_between_requests)
          else Ret (Inr NoData), st, s)"
proof -
  have "discard_rows st = st" using assms by (simp add: ended_with_def stmt_defs)
  then show ?thesis
    using assms
    by (auto simp: fetch_def ended_with_def fetch_loop.simps fetch_turn_def end_page_fetch_def
        cancelled_between_requests_def)
qed

text \<open>
  C9: How a result set ends badly. After any fetch that reports an error, no row can be read any
  more, no page will be asked for, and the next fetch sends nothing: after a failure it reports
  24000; after a cancellation it reports HY008 if this statement's own cancellation is recorded, and
  otherwise - the query was cancelled by somebody else, such as an administrator - that the result
  set is at its end.
\<close>

theorem failed_fetch_ends_result_set:
  assumes "fetch e st s = Some (Ret (Inl m), st', s')" and "wf_statement st"
  shows "fst (get_data col st') =
      Ret (Inl (from_odbc_error (odbc_general ''get_data called before fetch'' general_error))) \<and>
    next_uri st' = None \<and>
    (\<forall>s2. fetch e st' s2 =
       Some (if \<not> is_cancellation m then Ret (Inl abandoned_error)
             else if statement_cancelled st' s2 then Ret (Inl cancelled_between_requests)
             else Ret (Inr NoData), st', s2)) \<and>
    sqlstate (to_odbc_error abandoned_error) = ''24000'' \<and>
    sqlstate (to_odbc_error cancelled_between_requests) = ''HY008''"
proof -
  have "ended_with m st'" using fetch_ended [OF assms] .
  then show ?thesis
    using fetch_after_end [of m st' e]
    by (simp add: ended_with_def get_data_def abandoned_error_def cancelled_between_requests_def
        error_defs from_odbc_error_def)
qed

text \<open>
  \<open>SQLCancel\<close> stops the statement it names. With a query recorded under the token, whatever the
  coordinator answers to the request to delete it, the statement's next fetch reports HY008 without
  asking for a page, its rows are gone, and closing it sends nothing.
\<close>

theorem cancel_stops_statement:
  assumes "st_token st = Some t" and "\<not> poisoned (cancels s t)"
    and "query_id (cancels s t) = Some q" and "wf_statement st" and "\<not> fetch_failed st"
  shows "fetch e st (snd (cancel e t s)) =
      Some (Ret (Inl cancelled_between_requests), discard_rows st, snd (cancel e t s)) \<and>
    close_cursor e st (snd (cancel e t s)) = Some (Inr (), closed st, snd (cancel e t s))"
proof -
  have "statement_cancelled st (snd (cancel e t s))"
    using assms(1-3)
    by (auto simp: cancel_def statement_cancelled_def session_defs call_world map_error_on_eq Let_def
        split: sum.split)
  then show ?thesis
    using assms(5)
    by (simp add: fetch_def fetch_loop.simps fetch_turn_def end_page_fetch_def
        cancelled_between_requests_def close_cursor_def)
qed

section \<open>Closing\<close>

text \<open>
  C13: Closing a cursor always leaves a statement that can be used again - no rows, no pages, no
  failure - whatever the drain met. It sends nothing when the query was cancelled, or when the
  transaction of the result set has ended; in particular after \<open>SQLEndTran\<close> has ended the open
  transaction a result set belongs to, closing it sends nothing, whatever the outcome of the request
  that ended it.
\<close>

theorem close_cursor_contract:
  assumes "close_cursor e st s = Some (r, st', s')"
  shows "batch st' = [] \<and> next_uri st' = None \<and> \<not> fetch_failed st' \<and> batch_cursor st' = 0 \<and>
    (statement_cancelled st s \<or> result_set_died st s \<longrightarrow> r = Inr () \<and> s' = s) \<and>
    (has_txn st \<and> txn_epoch st = epoch s0 \<and> in_transaction e s0 \<and> s = snd (end_tran e commit s0) \<longrightarrow>
      r = Inr () \<and> s' = s)"
proof -
  have "has_txn st \<and> txn_epoch st = epoch s0 \<and> in_transaction e s0 \<and> s = snd (end_tran e commit s0) \<Longrightarrow>
      result_set_died st s"
    by (auto simp: result_set_died_def end_tran_def session_defs call_world map_error_on_eq Let_def
        split: sum.split)
  then show ?thesis
    using assms close_cursor_closed [OF assms]
    by (auto simp: close_cursor_def stmt_defs)
qed

section \<open>A concrete end\<close>

text \<open>A fetch against a coordinator with nothing more to say fails.\<close>

lemma demo_fetch_fails:
  "fetch demo_env ((demo_statement (Some ''u1''))\<lparr>batch_cursor := 1\<rparr>)
     (begin_query 0 ''q1'' (demo_start auto [])) =
   Some (Ret (Inl (map_trino_error (ErrOther ''no more responses''))),
     end_page_fetch (map_trino_error (ErrOther ''no more responses''))
       ((demo_statement (Some ''u1''))\<lparr>batch_cursor := 1, next_uri := None, page_count := 2\<rparr>),
     snd (map_client_error (demo_statement None) (ErrOther ''no more responses'')
       (begin_query 0 ''q1'' (demo_start auto []))))"
proof -
  let ?st = "(demo_statement (Some ''u1''))\<lparr>batch_cursor := 1\<rparr>"
  let ?s = "begin_query 0 ''q1'' (demo_start auto [])"
  have "\<not> statement_cancelled ?st ?s"
    by (simp add: statement_cancelled_def begin_query_state)
  moreover have "call (demo_reply ''u1'') ?s = (Inl (ErrOther ''no more responses''), ?s)"
    by (simp add: call_world session_defs demo_reply_def)
  ultimately have "fetch_turn demo_env ?st ?s =
      page_failed (?st\<lparr>next_uri := None, page_count := 2\<rparr>) (ErrOther ''no more responses'') ?s"
    by (simp add: fetch_turn_request demo_statement_def new_statement_def)
  then show ?thesis
    by (simp add: fetch_def fetch_loop.simps page_failed_eq map_client_error_def demo_statement_def
        new_statement_def)
qed

lemma demo_wf_read: "wf_statement ((demo_statement nx)\<lparr>batch_cursor := 1\<rparr>)"
  using demo_wf [of nx] by (simp add: wf_statement_def demo_statement_def new_statement_def)

theorem failed_fetch_ends_result_set_witness:
  "sqlstate (to_odbc_error abandoned_error) = ''24000''"
  using failed_fetch_ends_result_set [OF demo_fetch_fails demo_wf_read] by blast

theorem cancel_stops_statement_witness:
  "fst (the (fetch demo_env (demo_statement (Some ''u1''))
     (snd (cancel demo_env 0 (begin_query 0 ''q1'' (demo_start True demo_rest)))))) =
   Ret (Inl cancelled_between_requests)"
proof -
  have "\<not> poisoned (cancels (begin_query 0 ''q1'' (demo_start True demo_rest)) 0)"
    and "query_id (cancels (begin_query 0 ''q1'' (demo_start True demo_rest)) 0) = Some ''q1''"
    by (simp_all add: session_defs)
  from cancel_stops_statement [OF demo_statement_simps(3) this demo_wf demo_statement_simps(5),
      where e = demo_env and ?nx1 = "Some ''u1''"]
  show ?thesis by simp
qed

theorem close_cursor_contract_witness:
  "\<not> fetch_failed (closed (demo_statement (Some ''u1'')))"
proof -
  have "close_cursor demo_env (demo_statement (Some ''u1''))
      (snd (cancel demo_env 0 (begin_query 0 ''q1'' (demo_start True demo_rest)))) =
    Some (Inr (), closed (demo_statement (Some ''u1'')),
      snd (cancel demo_env 0 (begin_query 0 ''q1'' (demo_start True demo_rest))))"
    by (simp add: close_cursor_def statement_cancelled_def cancel_def session_defs call_world)
  from close_cursor_contract [OF this] show ?thesis by blast
qed

end
