(* ===== verification/Statement_Rows.thy ===== *)
theory Statement_Rows
  imports Statement_Fetch
begin

text \<open>
  Submitting a statement and reading its rows: the interface a reader of rows relies on, and the rows of
  a query delivered through it, against the coordinator's pages.
\<close>

section \<open>Streaming\<close>

text \<open>
  What an application does with a result set: fetch until the end, keeping each row. \<open>read_rows n\<close>
  makes at most \<open>n\<close> calls; the flag says that the end was reached.
\<close>

fun read_rows :: "('st \<Rightarrow> ('r option \<times> 'st) option) \<Rightarrow> nat \<Rightarrow> 'st \<Rightarrow> ('r list \<times> bool \<times> 'st) option" where
  "read_rows next_row 0 st = Some ([], False, st)"
| "read_rows next_row (Suc n) st =
     (case next_row st of
        None \<Rightarrow> None
      | Some (None, st1) \<Rightarrow> Some ([], True, st1)
      | Some (Some r, st1) \<Rightarrow>
          map_option (\<lambda>(rs, ended, st2). (r # rs, ended, st2)) (read_rows next_row n st1))"

text \<open>
  The contract of a row source: \<open>holds st rows\<close> says that \<open>rows\<close> are what the source has still to
  give, and each call gives the next of them, or the end and nothing else ever after.
\<close>

locale row_source =
  fixes next_row :: "'st \<Rightarrow> ('r option \<times> 'st) option"
    and holds :: "'st \<Rightarrow> 'r list \<Rightarrow> bool"
  assumes at_end: "holds st [] \<Longrightarrow> \<exists>st'. next_row st = Some (None, st') \<and> holds st' []"
    and at_row: "holds st (r # rs) \<Longrightarrow> \<exists>st'. next_row st = Some (Some r, st') \<and> holds st' rs"
begin

lemma reads_prefix:
  assumes "holds st rows" and "n \<le> length rows"
  shows "\<exists>st'. read_rows next_row n st = Some (take n rows, False, st') \<and> holds st' (drop n rows)"
  using assms
proof (induction n arbitrary: st rows)
  case (Suc n)
  then obtain r rs where rows: "rows = r # rs" by (cases rows) auto
  from Suc.prems at_row obtain st1 where "next_row st = Some (Some r, st1)" "holds st1 rs"
    unfolding rows by blast
  with Suc.IH [of st1 rs] Suc.prems rows show ?case by auto
qed simp

lemma reads_all:
  assumes "holds st rows" and "length rows < n"
  shows "\<exists>st'. read_rows next_row n st = Some (rows, True, st') \<and> holds st' []"
  using assms
proof (induction rows arbitrary: st n)
  case Nil
  then obtain n' where "n = Suc n'" by (cases n) auto
  then show ?case using at_end [OF Nil.prems(1)] by auto
next
  case (Cons r rs)
  then obtain n' where n: "n = Suc n'" by (cases n) auto
  from Cons.prems at_row obtain st1 where "next_row st = Some (Some r, st1)" "holds st1 rs" by blast
  with Cons.IH [of st1 n'] Cons.prems n show ?case by auto
qed

end

text \<open>One fetch of a statement as a call of a row source: the row is the one under the cursor.\<close>

definition current_row :: "('d, 's, 'z, 'o) statement \<Rightarrow> ('d, 's) column_value list option" where
  "current_row st =
     (if 0 < batch_cursor st \<and> batch_cursor st \<le> length (batch st)
      then Some (batch st ! (batch_cursor st - 1)) else None)"

definition fetch_row ::
    "('w, 'n, 'd, 's, 'z, 'o, 't, 'p) env \<Rightarrow> ('d, 's, 'z, 'o) statement \<times> 'w sys
       \<Rightarrow> (('d, 's) column_value list option \<times> ('d, 's, 'z, 'o) statement \<times> 'w sys) option" where
  "fetch_row e sts =
     (case fetch e (fst sts) (snd sts) of
        Some (Ret (Inr FetchRow), st1, s1) \<Rightarrow>
          map_option (\<lambda>r. (Some r, st1, s1)) (current_row st1)
      | Some (Ret (Inr NoData), st1, s1) \<Rightarrow> Some (None, st1, s1)
      | _ \<Rightarrow> None)"

text \<open>
  The pages the coordinator will still give from \<open>url\<close> on: each arrives, decodes and converts, and
  the last names no next page. Their rows, in order.
\<close>

inductive page_chain ::
    "('w, 'n, 'd, 's, 'z, 'o, 't, 'p) env \<Rightarrow> (string \<times> trino_ty) list \<Rightarrow> ('z, 'o) session_zone
       \<Rightarrow> column list \<Rightarrow> string option \<Rightarrow> 'w sys \<Rightarrow> ('d, 's) column_value list list \<Rightarrow> bool"
  for e types zone raw where
  last_page: "page_chain e types zone raw None s []"
| page: "\<lbrakk>call (e_get_next e url) s = (Inr pg, s1); pg_error pg = None;
     decode_page_rows e (pg_data pg) raw s1 = (Inr rows, s2);
     convert_rows (e_json e) (e_chrono e) (e_now e (world s2)) rows types zone = Ret (b, tr);
     page_chain e types zone raw (pg_next pg) s2 rest\<rbrakk> \<Longrightarrow>
   page_chain e types zone raw (Some url) s (b @ rest)"

definition delivers ::
    "('w, 'n, 'd, 's, 'z, 'o, 't, 'p) env \<Rightarrow> ('d, 's, 'z, 'o) statement \<times> 'w sys
       \<Rightarrow> ('d, 's) column_value list list \<Rightarrow> bool" where
  "delivers e sts rows \<longleftrightarrow>
     (let st = fst sts; s = snd sts in
      \<not> fetch_failed st \<and> \<not> statement_cancelled st s \<and> has_client st \<and> has_runtime st \<and>
      batch_cursor st \<le> length (batch st) \<and>
      (\<exists>rest. page_chain e (trino_types st) (st_zone st) (raw_columns st) (next_uri st) s rest \<and>
              rows = drop (batch_cursor st) (batch st) @ rest))"

lemma decode_frame: "cancels (snd (decode_page_rows e data raw s)) = cancels s"
  by (simp add: decode_page_rows_def split: option.split)

lemma fetch_loop_buffered:
  assumes "batch_cursor st < length (batch st)" and "\<not> statement_cancelled st s"
  shows "fetch_loop e st s = Some (Ret (Inr FetchRow), st\<lparr>batch_cursor := batch_cursor st + 1\<rparr>, s)"
  using assms by (simp add: fetch_loop.simps fetch_turn_def)

text \<open>A page that arrived is the new batch.\<close>

lemma take_page_Again:
  assumes "pg_error pg = None"
    and "decode_page_rows e (pg_data pg) (raw_columns st) s = (Inr rows, s2)"
    and "convert_rows (e_json e) (e_chrono e) (e_now e (world s2)) rows (trino_types st)
           (st_zone st) = Ret (b, tr)"
  shows "\<exists>st'. take_page e pg st s = (Again, st', s2) \<and> batch st' = b \<and> batch_cursor st' = 0 \<and>
    next_uri st' = pg_next pg \<and> trino_types st' = trino_types st \<and> st_zone st' = st_zone st \<and>
    raw_columns st' = raw_columns st \<and> fetch_failed st' = fetch_failed st \<and>
    has_client st' = has_client st \<and> has_runtime st' = has_runtime st \<and> st_token st' = st_token st"
  using assms by (simp add: take_page_def Let_def)

lemma fetch_loop_streams:
  assumes "page_chain e types zone raw nx s rest"
    and "trino_types st = types" "st_zone st = zone" "raw_columns st = raw" "next_uri st = nx"
    and "\<not> fetch_failed st" "\<not> statement_cancelled st s" "has_client st" "has_runtime st"
    and "batch_cursor st = length (batch st)"
  shows "\<exists>st' s'. fetch_loop e st s =
      Some (Ret (Inr (if rest = [] then NoData else FetchRow)), st', s') \<and>
    delivers e (st', s') (tl rest) \<and> (rest \<noteq> [] \<longrightarrow> current_row st' = Some (hd rest))"
  using assms
proof (induction arbitrary: st rule: page_chain.induct)
  case (last_page s)
  then have "fetch_loop e st s = Some (Ret (Inr NoData), st, s)"
    by (simp add: fetch_loop.simps fetch_turn_def)
  then show ?case using last_page page_chain.last_page by (auto simp: delivers_def)
next
  case (page url s pg s1 rows s2 b tr rest)
  let ?st2 = "st\<lparr>next_uri := None, page_count := page_count st + 1\<rparr>"
  obtain st1 where tp: "take_page e pg ?st2 s1 = (Again, st1, s2)"
    and b1: "batch st1 = b" "batch_cursor st1 = 0" "next_uri st1 = pg_next pg"
    and keep: "trino_types st1 = types" "st_zone st1 = zone" "raw_columns st1 = raw"
      "\<not> fetch_failed st1" "has_client st1" "has_runtime st1" "st_token st1 = st_token st"
    using take_page_Again [OF page.hyps(2), of e ?st2 s1 rows s2 b tr] page.hyps(3,4) page.prems
    by auto
  have "fetch_turn e st s = take_page e pg ?st2 s1"
    using page.hyps(1) page.prems by (simp add: fetch_turn_request Let_def)
  then have again: "fetch_loop e st s = fetch_loop e st1 s2"
    using tp by (simp add: fetch_loop.simps [of e st s])
  have "cancels s2 = cancels s"
    using decode_frame [of e "pg_data pg" raw s1] page.hyps(1,3) call_frame(5) [of "e_get_next e url" s]
    by simp
  then have live: "\<not> statement_cancelled st1 s2"
    using page.prems keep by (simp add: statement_cancelled_def is_cancelled_def split: option.splits)
  show ?case
  proof (cases b)
    case Nil
    then show ?thesis
      using page.IH [of st1] again b1 keep live by simp
  next
    case (Cons r rs)
    then have "fetch_loop e st1 s2 = Some (Ret (Inr FetchRow), st1\<lparr>batch_cursor := 1\<rparr>, s2)"
      using fetch_loop_buffered [of st1 s2 e] b1 live by simp
    moreover have "delivers e (st1\<lparr>batch_cursor := 1\<rparr>, s2) (rs @ rest)"
      using page.hyps(5) b1 keep live Cons by (auto simp: delivers_def statement_cancelled_def)
    ultimately show ?thesis
      using again Cons b1 by (simp add: current_row_def)
  qed
qed

lemma fetch_row_at_end:
  assumes "delivers e sts []"
  shows "\<exists>sts'. fetch_row e sts = Some (None, sts') \<and> delivers e sts' []"
proof -
  obtain st s where sts: "sts = (st, s)" by (cases sts)
  from assms obtain rest where
    chain: "page_chain e (trino_types st) (st_zone st) (raw_columns st) (next_uri st) s rest"
    and rest: "drop (batch_cursor st) (batch st) @ rest = []"
    and live: "\<not> fetch_failed st" "\<not> statement_cancelled st s" "has_client st" "has_runtime st"
      "batch_cursor st \<le> length (batch st)"
    by (auto simp: delivers_def sts Let_def)
  from fetch_loop_streams [OF chain refl refl refl refl live(1-4)] rest live
  show ?thesis by (auto simp: fetch_row_def sts fetch_def)
qed

lemma fetch_row_at_row:
  assumes "delivers e sts (r # rs)"
  shows "\<exists>sts'. fetch_row e sts = Some (Some r, sts') \<and> delivers e sts' rs"
proof -
  obtain st s where sts: "sts = (st, s)" by (cases sts)
  from assms obtain rest where
    chain: "page_chain e (trino_types st) (st_zone st) (raw_columns st) (next_uri st) s rest"
    and rows: "r # rs = drop (batch_cursor st) (batch st) @ rest"
    and live: "\<not> fetch_failed st" "\<not> statement_cancelled st s" "has_client st" "has_runtime st"
      "batch_cursor st \<le> length (batch st)"
    by (auto simp: delivers_def sts Let_def)
  show ?thesis
  proof (cases "batch_cursor st < length (batch st)")
    case True
    let ?st1 = "st\<lparr>batch_cursor := batch_cursor st + 1\<rparr>"
    have d: "drop (batch_cursor st) (batch st) =
        batch st ! batch_cursor st # drop (batch_cursor st + 1) (batch st)"
      using True by (simp add: Cons_nth_drop_Suc)
    have "delivers e (?st1, s) rs"
      using chain rows live True d by (auto simp: delivers_def statement_cancelled_def)
    moreover have "fetch e st s = Some (Ret (Inr FetchRow), ?st1, s)"
      using fetch_loop_buffered [OF True live(2)] live(1) by (simp add: fetch_def)
    moreover have "current_row ?st1 = Some r" using True rows d by (simp add: current_row_def)
    ultimately show ?thesis by (simp add: fetch_row_def sts)
  next
    case False
    with rows live have "rest = r # rs" "batch_cursor st = length (batch st)" by auto
    with fetch_loop_streams [OF chain refl refl refl refl live(1-4)] live(1)
    show ?thesis by (auto simp: fetch_row_def sts fetch_def)
  qed
qed

interpretation fetching: row_source "fetch_row e" "delivers e" for e
  by unfold_locales (fact fetch_row_at_end fetch_row_at_row)+

lemma poll_cancels:
  assumes "poll_metadata e page pc ec s = Some r"
  shows "cancels (snd r) = cancels s"
proof (induction rule: poll_metadata.raw_induct [OF _ assms])
  case step: (1 poll e page pc ec s r)
  show ?case
  proof (cases "pg_columns page = None \<and> pg_error page = None \<and> pg_next page \<noteq> None")
    case False
    then show ?thesis
      using step(2) by (auto simp: statement_error_def map_error_on_eq split: option.splits)
  next
    case True
    then obtain url where url: "pg_next page = Some url" by auto
    obtain p s1 where c: "call (e_get_next e url) s = (p, s1)" by (meson surj_pair)
    then have s1: "cancels s1 = cancels s" using call_frame(5) [of "e_get_next e url" s] by simp
    show ?thesis
    proof (cases p)
      case (Inl err)
      then show ?thesis
        using step(2) True url c s1 by (auto simp: statement_error_def map_error_on_eq)
    next
      case (Inr page')
      then have "poll e page' (pc + 1) (ec + 1) s1 = Some r" using step(2) True url c by simp
      from step(1) [OF this] s1 show ?thesis by simp
    qed
  qed
qed

lemma first_batch_state:
  assumes "first_batch e t zone page pc ec s = (Ret (Inr st), s')"
  shows "cancels s' = cancels s \<and> st_token st = Some t \<and> \<not> fetch_failed st \<and> has_client st \<and>
    has_runtime st \<and> has_txn st \<and> has_liveness st \<and> batch_cursor st = 0 \<and> st_zone st = zone \<and>
    txn_epoch st = epoch s' \<and> pending_sql st = None \<and> next_uri st = pg_next page \<and>
    st_query_id st = Some (pg_id page)"
  using assms decode_frame
  by (auto simp: first_batch_def prod.case_eq_if Let_def new_statement_def
      split: option.splits sum.splits run.splits)

lemma ensure_frame:
  assumes "ensure_transaction e s = (Inr u, s1)"
  shows "cancels s1 = cancels s \<and> autocommit s1 = autocommit s"
  using assms
  by (auto simp: ensure_transaction_def map_error_on_eq call_world split: if_splits sum.splits)

lemma exec_direct_steps:
  assumes "exec_direct e cn t sql s = Some (Ret (Inr st), s')"
  shows "\<exists>s1 page s2 page' pc ec s3. ensure_transaction e s = (Inr (), s1) \<and>
    call (e_get e (strip_trailing_semicolons sql)) s1 = (Inr page, s2) \<and>
    poll_metadata e page 1 0 (begin_query t (pg_id page) s2) = Some (Inr (page', pc, ec), s3) \<and>
    first_batch e t (connection_session_zone e cn s1) page' pc ec s3 = (Ret (Inr st), s')"
  using assms
  by (auto simp: exec_direct_def Let_def split: prod.splits sum.splits option.splits)

text \<open>
  C10: A submitted statement. The text sent is the application's without its trailing terminators;
  the zone its values are read in is the session's before the submission; when \<open>exec_direct\<close>
  returns, the query the first response named is the one \<open>SQLCancel\<close> reaches through the statement's
  token, no cancellation is pending, other statements' tokens are untouched, the result set belongs
  to the transaction that is open now, and no row has been consumed.
\<close>

theorem exec_direct_result:
  assumes "exec_direct e cn t sql s = Some (Ret (Inr st), s')" and "\<not> poisoned (cancels s t)"
  shows "\<exists>s1 page s2. ensure_transaction e s = (Inr (), s1) \<and>
    call (e_get e (strip_trailing_semicolons sql)) s1 = (Inr page, s2) \<and>
    st_zone st = connection_session_zone e cn s1 \<and>
    query_id (cancels s' t) = Some (pg_id page) \<and> \<not> is_cancelled t s' \<and> st_token st = Some t \<and>
    \<not> result_set_died st s' \<and> batch_cursor st = 0 \<and>
    (\<forall>t'. t' \<noteq> t \<longrightarrow> cancels s' t' = cancels s t')"
proof -
  obtain s1 page s2 page' pc ec s3 where
    en: "ensure_transaction e s = (Inr (), s1)" and
    get: "call (e_get e (strip_trailing_semicolons sql)) s1 = (Inr page, s2)" and
    poll: "poll_metadata e page 1 0 (begin_query t (pg_id page) s2) = Some (Inr (page', pc, ec), s3)" and
    fb: "first_batch e t (connection_session_zone e cn s1) page' pc ec s3 = (Ret (Inr st), s')"
    using exec_direct_steps [OF assms(1)] by auto
  have s2: "cancels s2 = cancels s"
    using get call_frame(5) [of "e_get e (strip_trailing_semicolons sql)" s1] ensure_frame [OF en]
    by simp
  have s': "cancels s' = cancels (begin_query t (pg_id page) s2)"
    using first_batch_state [OF fb] poll_cancels [OF poll] by simp
  have "query_id (cancels s' t) = Some (pg_id page)" "\<not> is_cancelled t s'"
    "\<forall>t'. t' \<noteq> t \<longrightarrow> cancels s' t' = cancels s t'"
    using begin_query_state(1) [of s2 t "pg_id page"] begin_query_state(2) [of t "pg_id page" s2]
      begin_query_state(3) [of _ t "pg_id page" s2] assms(2) s2 s'
    by (simp_all add: is_cancelled_def)
  then show ?thesis
    using en get first_batch_state [OF fb] by (auto simp: result_set_died_def txn_outlived_def)
qed

lemma exec_direct_not_cancelled:
  assumes "exec_direct e cn t sql s = Some (Ret (Inr st), s')"
  shows "\<not> statement_cancelled st s' \<and> \<not> fetch_failed st \<and> has_client st \<and> has_runtime st \<and>
    batch_cursor st = 0"
proof -
  obtain s1 page s2 page' pc ec s3 where
    poll: "poll_metadata e page 1 0 (begin_query t (pg_id page) s2) = Some (Inr (page', pc, ec), s3)" and
    fb: "first_batch e t (connection_session_zone e cn s1) page' pc ec s3 = (Ret (Inr st), s')"
    using exec_direct_steps [OF assms] by auto
  have "cancels s' = cancels (begin_query t (pg_id page) s2)"
    using first_batch_state [OF fb] poll_cancels [OF poll] by simp
  then have "\<not> is_cancelled t s'" using begin_query_state(2) by (simp add: is_cancelled_def)
  then show ?thesis using first_batch_state [OF fb] by (simp add: statement_cancelled_def)
qed

text \<open>
  C2: A query's rows are delivered once each and in order. If the pages the coordinator will give
  after the first batch all arrive, decode and convert, with however many empty pages among them,
  then reading to the end yields the rows of the first batch followed by the rows of the pages, and
  the end is reported after the last; reading less yields a prefix.
\<close>

theorem query_rows_delivered:
  assumes "exec_direct e cn t sql s = Some (Ret (Inr st), s')"
    and "page_chain e (trino_types st) (st_zone st) (raw_columns st) (next_uri st) s' rest"
  shows "(length (batch st @ rest) < n \<longrightarrow>
      (\<exists>sts. read_rows (fetch_row e) n (st, s') = Some (batch st @ rest, True, sts))) \<and>
    (n \<le> length (batch st @ rest) \<longrightarrow>
      (\<exists>sts. read_rows (fetch_row e) n (st, s') = Some (take n (batch st @ rest), False, sts)))"
proof -
  have "delivers e (st, s') (batch st @ rest)"
    using assms(2) exec_direct_not_cancelled [OF assms(1)] by (auto simp: delivers_def)
  then show ?thesis using fetching.reads_all fetching.reads_prefix by blast
qed

theorem exec_direct_result_witness:
  "query_id (cancels (begin_query 0 ''q1'' (demo_start True demo_rest)) 0) = Some ''q1''"
  using exec_direct_result [OF demo_exec [of True "Some ''u1''" demo_rest]]
  by (auto simp: fresh_cancel_state_def call_world demo_reply_def ensure_transaction_def)

lemma demo_chain:
  "page_chain demo_env [(''a'', TyVarchar)] (Named ()) [demo_column] (Some ''u1'')
     (begin_query 0 ''q1'' (demo_start True demo_rest)) [[CString ''y'']]"
proof -
  let ?s = "begin_query 0 ''q1'' (demo_start True demo_rest)"
  let ?s1 = "?s\<lparr>world := ([Inr (demo_page [[JStr ''y'']] None)], False)\<rparr>"
  let ?s2 = "?s\<lparr>world := ([], False)\<rparr>"
  have c1: "call (e_get_next demo_env ''u1'') ?s = (Inr (demo_page [] (Some ''u2'')), ?s1)"
    by (simp add: call_world session_defs demo_reply_def demo_rest_def)
  have c2: "call (e_get_next demo_env ''u2'') ?s1 = (Inr (demo_page [[JStr ''y'']] None), ?s2)"
    by (simp add: call_world demo_reply_def)
  have d: "decode_page_rows demo_env (Some p) [demo_column] s = (Inr p, s)" for p and s :: "demo_world sys"
    by (simp add: decode_page_rows_def call_world)
  have last: "page_chain demo_env [(''a'', TyVarchar)] (Named ()) [demo_column] (Some ''u2'') ?s1
      ([[CString ''y'']] @ [])"
    by (rule page_chain.page [where tr = "{}" and rows = "[[JStr ''y'']]", OF c2])
       (simp_all add: d demo_convert page_chain.last_page)
  have "page_chain demo_env [(''a'', TyVarchar)] (Named ()) [demo_column] (Some ''u1'') ?s
      ([] @ [[CString ''y'']])"
    by (rule page_chain.page [where tr = "{}" and rows = "[]", OF c1]) (use last in \<open>simp_all add: d demo_convert\<close>)
  then show ?thesis by simp
qed

theorem query_rows_delivered_witness:
  "\<exists>sts. read_rows (fetch_row demo_env) 5
     (demo_statement (Some ''u1''), begin_query 0 ''q1'' (demo_start True demo_rest)) =
     Some ([[CString ''x''], [CString ''y'']], True, sts)"
  using query_rows_delivered [OF demo_exec [of True "Some ''u1''" demo_rest], of "[[CString ''y'']]" 5]
    demo_chain
  by simp

end
