(* ===== verification/Statement_Loops.thy ===== *)
theory Statement_Loops
  imports Statement_Fetch
begin

text \<open>
  The loops over pages return, against a coordinator that ends its queries.
\<close>

section \<open>The loops end\<close>

text \<open>
  A coordinator that ends its queries: \<open>budget\<close> bounds the pages it will still announce, and every
  response that announces one more spends some of it. Decoding a page does not add to it.
\<close>

definition ends_queries :: "('w, 'n, 'd, 's, 'z, 'o, 't, 'p) env \<Rightarrow> ('w \<Rightarrow> nat) \<Rightarrow> bool" where
  "ends_queries e budget \<longleftrightarrow>
     (\<forall>url w page w'. e_get_next e url w = (Inr page, w') \<and> pg_next page \<noteq> None \<longrightarrow>
        budget w' < budget w) \<and>
     (\<forall>d cols w. budget (snd (e_decode_page e d cols w)) \<le> budget w)"

lemma ends_queries_next:
  assumes "ends_queries e budget" and "call (e_get_next e url) s = (Inr page, s1)"
    and "pg_next page \<noteq> None"
  shows "budget (world s1) < budget (world s)"
proof -
  have "e_get_next e url (world s) = (Inr page, world s1)"
    using assms(2) by (auto simp: call_world prod_eq_iff)
  then show ?thesis using assms(1,3) unfolding ends_queries_def by blast
qed

lemma ends_queries_decode:
  assumes "ends_queries e budget"
  shows "budget (world (snd (decode_page_rows e d raw s))) \<le> budget (world s)"
  using assms by (simp add: decode_page_rows_def ends_queries_def call_world split: option.split)

lemma poll_ends:
  assumes "ends_queries e budget"
  shows "poll_metadata e page pc ec s \<noteq> None"
proof (induction "budget (world s)" arbitrary: page pc ec s rule: less_induct)
  case less
  show ?case
  proof (cases "pg_columns page = None \<and> pg_error page = None \<and> pg_next page \<noteq> None")
    case False
    then show ?thesis
      by (auto simp: poll_metadata.simps [of e page] prod.case_eq_if split: option.splits)
  next
    case True
    then obtain url where url: "pg_next page = Some url" by auto
    obtain p s1 where c: "call (e_get_next e url) s = (p, s1)" by (meson surj_pair)
    show ?thesis
    proof (cases p)
      case (Inl err)
      then show ?thesis
        using True url c by (simp add: poll_metadata.simps [of e page] prod.case_eq_if)
    next
      case (Inr page')
      have eq: "poll_metadata e page pc ec s = poll_metadata e page' (pc + 1) (ec + 1) s1"
        using True url c Inr by (simp add: poll_metadata.simps [of e page])
      show ?thesis
      proof (cases "pg_next page' = None")
        case False
        then have "budget (world s1) < budget (world s)"
          using ends_queries_next [OF assms] c Inr by blast
        then show ?thesis using less eq by simp
      next
        case last: True
        then show ?thesis unfolding eq
          by (auto simp: poll_metadata.simps [of e page'] prod.case_eq_if split: option.splits)
      qed
    qed
  qed
qed

lemma drain_ends:
  assumes "ends_queries e budget"
  shows "drain e st nx s \<noteq> None"
proof (induction "budget (world s)" arbitrary: nx s rule: less_induct)
  case less
  show ?case
  proof (cases nx)
    case None
    then show ?thesis by (simp add: drain.simps)
  next
    case (Some url)
    obtain p s1 where c: "call (e_get_next e url) s = (p, s1)" by (meson surj_pair)
    show ?thesis
    proof (cases p)
      case (Inl err)
      then show ?thesis using Some c by (simp add: drain.simps [of e st "Some url"] prod.case_eq_if)
    next
      case (Inr page)
      have eq: "drain e st nx s = drain e st (pg_next page) s1"
        using Some c Inr by (simp add: drain.simps [of e st "Some url"])
      show ?thesis
      proof (cases "pg_next page")
        case None
        then show ?thesis using eq by (simp add: drain.simps [of e st "None"])
      next
        case more: (Some u)
        then have "budget (world s1) < budget (world s)"
          using ends_queries_next [OF assms] c Inr by blast
        then show ?thesis using less eq by simp
      qed
    qed
  qed
qed

text \<open>What a turn that goes round again has done: a page was asked for, and spent budget if it was
  not the last.\<close>

lemma take_page_again:
  assumes "take_page e page st s = (Again, st', s')"
  shows "next_uri st' = pg_next page \<and> s' = snd (decode_page_rows e (pg_data page) (raw_columns st) s)"
  using assms
  by (auto simp: take_page_def page_failed_eq Let_def split: option.splits sum.splits prod.splits run.splits)

lemma fetch_turn_again:
  assumes "ends_queries e budget" and "fetch_turn e st s = (Again, st', s')"
  shows "next_uri st \<noteq> None \<and> (next_uri st' = None \<or> budget (world s') < budget (world s))"
proof -
  from assms(2) obtain url where url: "next_uri st = Some url"
    and free: "\<not> statement_cancelled st s" "\<not> batch_cursor st < length (batch st)"
      "has_client st" "has_runtime st"
    by (auto simp: fetch_turn_def Let_def split: if_splits option.splits)
  let ?st2 = "st\<lparr>next_uri := None, page_count := page_count st + 1\<rparr>"
  obtain r s1 where c: "call (e_get_next e url) s = (r, s1)" by (meson surj_pair)
  from assms(2) obtain page where r: "r = Inr page" and t: "take_page e page ?st2 s1 = (Again, st', s')"
    using url free c by (cases r) (auto simp: fetch_turn_request page_failed_eq Let_def)
  have "budget (world s') \<le> budget (world s1)"
    using take_page_again [OF t] ends_queries_decode [OF assms(1)] by simp
  moreover have "pg_next page \<noteq> None \<Longrightarrow> budget (world s1) < budget (world s)"
    using ends_queries_next [OF assms(1)] c r by blast
  ultimately show ?thesis using take_page_again [OF t] url by (cases "pg_next page") auto
qed

lemma fetch_loop_last:
  assumes "next_uri st = None"
  shows "fetch_loop e st s \<noteq> None"
  using assms by (simp add: fetch_loop.simps [of e st] fetch_turn_def)

lemma fetch_loop_ends:
  assumes "ends_queries e budget"
  shows "fetch_loop e st s \<noteq> None"
proof (induction "budget (world s)" arbitrary: st s rule: less_induct)
  case less
  obtain tn st1 s1 where turn: "fetch_turn e st s = (tn, st1, s1)" by (metis prod_cases3)
  show ?case
  proof (cases tn)
    case Again
    then have eq: "fetch_loop e st s = fetch_loop e st1 s1"
      using turn by (simp add: fetch_loop.simps [of e st])
    from fetch_turn_again [OF assms] turn Again
    have "next_uri st1 = None \<or> budget (world s1) < budget (world s)" by simp
    then show ?thesis using less fetch_loop_last eq by metis
  qed (use turn in \<open>simp_all add: fetch_loop.simps [of e st]\<close>)
qed

text \<open>
  C11: Against a coordinator that ends its queries, no loop over pages runs forever: submitting,
  re-executing, fetching and closing always return, whatever errors, empty pages or cancellations
  they meet, and whatever state the statement is in.
\<close>

theorem loops_return:
  assumes "ends_queries e budget"
  shows "fetch e st s \<noteq> None \<and> close_cursor e st s \<noteq> None \<and> exec_direct e cn t sql s \<noteq> None \<and>
    execute e cn t params st s \<noteq> None"
proof -
  have close: "close_cursor e st s \<noteq> None" for st s
    using drain_ends [OF assms, of st "next_uri st" s]
    by (auto simp: close_cursor_def split: option.splits)
  have exec: "exec_direct e cn t sql s \<noteq> None" for sql s
  proof
    assume "exec_direct e cn t sql s = None"
    then obtain page s2 where "poll_metadata e page 1 0 s2 = None"
      by (auto simp: exec_direct_def Let_def prod.case_eq_if split: sum.splits option.splits)
    then show False using poll_ends [OF assms, of page 1 0 s2] by simp
  qed
  have drop: "drop_statement e st s \<noteq> None" for st s
    using close [of st s] by (auto simp: drop_statement_def)
  have "execute e cn t params st s \<noteq> None"
  proof
    assume "execute e cn t params st s = None"
    then have "(\<exists>sql. exec_direct e cn t sql s = None) \<or> (\<exists>s1. drop_statement e st s1 = None)"
      by (auto simp: execute_def split: option.splits sum.splits run.splits prod.splits)
    then show False using exec drop by blast
  qed
  then show ?thesis using close exec fetch_loop_ends [OF assms] by (simp add: fetch_def)
qed

lemma demo_ends: "ends_queries demo_env (\<lambda>w. length (fst w))"
  by (auto simp: ends_queries_def demo_reply_def split: list.splits)

theorem loops_return_witness: "fetch demo_env (demo_statement (Some ''u1'')) (demo_start True []) \<noteq> None"
  using loops_return [OF demo_ends] by blast

end
