(* ===== verification/Statement_Failures.thy ===== *)
theory Statement_Failures
  imports Statement_Rows
begin

text \<open>
  Every failure of a statement of a manual-commit connection marks the connection's transaction.
\<close>

section \<open>Failures abort the transaction\<close>

lemma statement_error_state:
  "autocommit (snd (statement_error err s)) = autocommit s \<and>
   aborted (snd (statement_error err s)) = (aborted s \<or> \<not> autocommit s)"
  by (simp add: statement_error_def note_aborted)

lemma poll_error:
  assumes "poll_metadata e page pc ec s = Some r" and "\<not> autocommit s"
  shows "\<not> autocommit (snd r) \<and> (\<forall>m. fst r = Inl m \<longrightarrow>
    aborted (snd r) \<or> m = General ''query returned no columns and no next page'')"
  using assms(2)
proof (induction rule: poll_metadata.raw_induct [OF _ assms(1)])
  case step: (1 poll e page pc ec s r)
  show ?case
  proof (cases "pg_columns page = None \<and> pg_error page = None \<and> pg_next page \<noteq> None")
    case False
    then show ?thesis
      using step(2,3)
      by (auto simp: statement_error_state prod.case_eq_if split: option.splits)
  next
    case True
    then obtain url where url: "pg_next page = Some url" by auto
    obtain p s1 where c: "call (e_get_next e url) s = (p, s1)" by (meson surj_pair)
    then have s1: "autocommit s1 = autocommit s" using call_frame(1) [of "e_get_next e url" s] by simp
    show ?thesis
    proof (cases p)
      case (Inl err)
      then show ?thesis
        using step(2,3) True url c s1 by (auto simp: statement_error_state prod.case_eq_if)
    next
      case (Inr page')
      then have "poll e page' (pc + 1) (ec + 1) s1 = Some r" using step(2) True url c by simp
      from step(1) [OF this] s1 step(3) show ?thesis by simp
    qed
  qed
qed

lemma decode_autocommit: "autocommit (snd (decode_page_rows e d raw s)) = autocommit s"
  by (simp add: decode_page_rows_def split: option.split)

lemma first_batch_error:
  assumes "first_batch e t zone page pc ec s = (Ret (Inl m), s')" and "\<not> autocommit s"
  shows "aborted s'"
proof (cases "pg_error page")
  case (Some q)
  then show ?thesis
    using assms by (auto simp: statement_error_state first_batch_def prod.case_eq_if)
next
  case None
  obtain raw where raw: "raw = (case pg_columns page of None \<Rightarrow> [] | Some cs \<Rightarrow> cs)" by simp
  obtain d s1 where d: "decode_page_rows e (pg_data page) raw s = (d, s1)" by (meson surj_pair)
  then have "autocommit s1 = autocommit s"
    using decode_autocommit [of e "pg_data page" raw s] by simp
  then show ?thesis
    using assms None d raw
    by (cases d) (auto simp: statement_error_state first_batch_def Let_def prod.case_eq_if split: run.splits)
qed

lemma page_failed_aborts:
  "page_failed st err s = (tn, st', s') \<Longrightarrow> has_txn st \<Longrightarrow> \<not> autocommit s \<Longrightarrow>
     aborted s' \<and> \<not> autocommit s' \<and> has_txn st'"
  by (cases "has_liveness st") (auto simp: page_failed_eq map_client_error_def note_aborted)

lemma take_page_aborts:
  assumes "take_page e page st s = (tn, st', s')" and "has_txn st" and "\<not> autocommit s"
  shows "\<not> autocommit s' \<and> has_txn st' \<and> (\<forall>m. tn = Finish (Inl m) \<longrightarrow> aborted s')"
proof (cases "pg_error page")
  case (Some q)
  then have "page_failed st (e_error_of e q) s = (tn, st', s')" using assms by (simp add: take_page_def)
  from page_failed_aborts [OF this] assms show ?thesis by blast
next
  case None
  let ?st1 = "st\<lparr>next_uri := pg_next page\<rparr>"
  obtain d s1 where d: "decode_page_rows e (pg_data page) (raw_columns st) s = (d, s1)"
    by (meson surj_pair)
  then have a: "\<not> autocommit s1"
    using decode_autocommit [of e "pg_data page" "raw_columns st" s] assms(3) by simp
  show ?thesis
  proof (cases d)
    case (Inl err)
    then have "page_failed ?st1 err s1 = (tn, st', s')"
      using assms None d by (simp add: take_page_def)
    from page_failed_aborts [OF this] a assms(2) show ?thesis by simp
  next
    case (Inr rows)
    then show ?thesis using assms None d a by (auto simp: take_page_def Let_def split: run.splits)
  qed
qed

lemma fetch_turn_aborts:
  assumes "fetch_turn e st s = (tn, st', s')" and "has_txn st" and "\<not> autocommit s"
  shows "\<not> autocommit s' \<and> has_txn st' \<and> (\<forall>m. tn = Finish (Inl m) \<longrightarrow>
    aborted s' \<or> m = cancelled_between_requests \<or> (\<exists>what. m = no_handle what))"
proof (cases "statement_cancelled st s \<or> batch_cursor st < length (batch st) \<or> next_uri st = None \<or>
    \<not> has_client st \<or> \<not> has_runtime st")
  case True
  with assms show ?thesis
    by (auto simp: fetch_turn_def Let_def split: if_splits option.splits)
next
  case False
  then obtain url where url: "next_uri st = Some url" by auto
  let ?st2 = "st\<lparr>next_uri := None, page_count := page_count st + 1\<rparr>"
  obtain r s1 where c: "call (e_get_next e url) s = (r, s1)" by (meson surj_pair)
  then have a: "\<not> autocommit s1" using call_frame(1) [of "e_get_next e url" s] assms(3) by simp
  show ?thesis
  proof (cases r)
    case (Inl err)
    with False assms(1) url c have "page_failed ?st2 err s1 = (tn, st', s')"
      by (simp add: fetch_turn_request Let_def)
    from page_failed_aborts [OF this] a assms(2) show ?thesis by simp
  next
    case (Inr page)
    with False assms(1) url c have "take_page e page ?st2 s1 = (tn, st', s')"
      by (simp add: fetch_turn_request Let_def)
    from take_page_aborts [OF this] a assms(2) show ?thesis by simp
  qed
qed

lemma exec_direct_error:
  assumes "exec_direct e cn t sql s = Some (Ret (Inl m), s')" and "\<not> autocommit s"
  shows "aborted s' \<or> fst (ensure_transaction e s) = Inl m \<or>
    m = General ''query returned no columns and no next page''"
proof (cases "ensure_transaction e s")
  case (Pair r s1)
  show ?thesis
  proof (cases r)
    case (Inl m1)
    then show ?thesis using assms(1) Pair by (simp add: exec_direct_def)
  next
    case (Inr u)
    then have a1: "\<not> autocommit s1" using ensure_frame [of e s u s1] Pair assms(2) by simp
    obtain g s2 where c: "call (e_get e (strip_trailing_semicolons sql)) s1 = (g, s2)"
      by (meson surj_pair)
    then have a2: "\<not> autocommit s2"
      using call_frame(1) [of "e_get e (strip_trailing_semicolons sql)" s1] a1 by simp
    show ?thesis
    proof (cases g)
      case (Inl err)
      then have "s' = snd (statement_error err s2)"
        using assms(1) Pair Inr c by (simp add: exec_direct_def Let_def prod.case_eq_if)
      then show ?thesis using a2 by (simp add: statement_error_state)
    next
      case page: (Inr page)
      let ?s = "begin_query t (pg_id page) s2"
      have a3: "\<not> autocommit ?s" using a2 by (simp add: session_defs)
      obtain p s3 where poll: "poll_metadata e page 1 0 ?s = Some (p, s3)"
        using assms(1) Pair Inr c page by (auto simp: exec_direct_def split: option.splits)
      show ?thesis
      proof (cases p)
        case (Inl m1)
        then have "m1 = m" "s3 = s'"
          using assms(1) Pair Inr c page poll by (auto simp: exec_direct_def)
        then show ?thesis using poll_error [OF poll a3] Inl by auto
      next
        case got: (Inr q)
        obtain page' pc ec where q: "q = (page', pc, ec)" by (cases q) auto
        have fb: "first_batch e t (connection_session_zone e cn s1) page' pc ec s3 = (Ret (Inl m), s')"
          using assms(1) Pair Inr c page poll got q by (simp add: exec_direct_def)
        have "\<not> autocommit s3" using poll_error [OF poll a3] by simp
        from first_batch_error [OF fb this] show ?thesis by blast
      qed
    qed
  qed
qed

definition manual_live :: "('d, 's, 'z, 'o) statement \<Rightarrow> 'w sys \<Rightarrow> bool" where
  "manual_live st s \<longleftrightarrow> has_txn st \<and> \<not> autocommit s \<and> wf_statement st \<and> \<not> fetch_failed st"

lemma again_manual_live:
  "manual_live st s \<Longrightarrow> fetch_turn e st s = (Again, st1, s1) \<Longrightarrow> manual_live st1 s1"
  using again_live [of st e s st1 s1] fetch_turn_aborts [of e st s Again st1 s1]
  by (simp add: manual_live_def)

lemma fetch_loop_last_manual:
  assumes "fetch_loop e st s = Some res" and "manual_live st s"
  shows "\<exists>st0 s0 tn. manual_live st0 s0 \<and> fetch_turn e st0 s0 = (tn, snd res) \<and>
    ((\<exists>x. tn = Finish x \<and> fst res = Ret x) \<or> tn = Crash \<and> fst res = Panic)"
  by (rule fetch_loop_last_turn [where I = manual_live, OF assms]) (rule again_manual_live)

lemma fetch_error:
  assumes "fetch e st s = Some (Ret (Inl m), st', s')" and "has_txn st" and "\<not> autocommit s"
    and "wf_statement st"
  shows "aborted s' \<or> m = abandoned_error \<or> m = cancelled_between_requests"
proof (cases "fetch_failed st")
  case True
  then show ?thesis using assms(1) by (simp add: fetch_def)
next
  case False
  then have "fetch_loop e st s = Some (Ret (Inl m), st', s')" and "manual_live st s"
    using assms by (simp_all add: fetch_def manual_live_def)
  from fetch_loop_last_manual [OF this] obtain st0 s0
    where live: "manual_live st0 s0" and turn: "fetch_turn e st0 s0 = (Finish (Inl m), st', s')"
    by auto
  then have "m \<noteq> no_handle what" for what
    using fetch_turn_has_handles [of st0 e s0 what] by (auto simp: manual_live_def)
  then show ?thesis using fetch_turn_aborts [OF turn] live by (auto simp: manual_live_def)
qed

text \<open>
  C5: In manual-commit mode every failure of a statement is known to the connection. When submitting
  a statement fails, the transaction is marked aborted, unless it could not even be begun - or the
  coordinator ended the query without columns, an error the driver raises itself and does not mark.
  When a fetch fails, it is marked as well, unless the failure is the statement's own: cancelled
  between requests, or already abandoned.
\<close>

theorem failures_mark_transaction:
  assumes "\<not> autocommit s"
  shows "(exec_direct e cn t sql s = Some (Ret (Inl m), s') \<longrightarrow>
      aborted s' \<or> fst (ensure_transaction e s) = Inl m \<or>
      m = General ''query returned no columns and no next page'') \<and>
    (reachable_statement e st s0 \<and> has_txn st \<and> fetch e st s = Some (Ret (Inl m), st', s') \<longrightarrow>
      aborted s' \<or> m = abandoned_error \<or> m = cancelled_between_requests)"
  using exec_direct_error fetch_error reachable_wf assms by metis

lemma demo_read_reachable:
  "reachable_statement demo_env ((demo_statement (Some ''u1''))\<lparr>batch_cursor := 1\<rparr>)
     (begin_query 0 ''q1'' (demo_start auto []))"
proof (rule reachable_statement.stepped [OF demo_reachable])
  show "statement_step demo_env (demo_statement (Some ''u1''), begin_query 0 ''q1'' (demo_start auto []))
      ((demo_statement (Some ''u1''))\<lparr>batch_cursor := 1\<rparr>, begin_query 0 ''q1'' (demo_start auto []))"
    by (rule statement_step.fetch_turn_step [where tn = "Finish (Inr FetchRow)"])
       (simp_all add: fetch_turn_def statement_cancelled_def begin_query_state)
qed

lemma demo_error_plain:
  "map_trino_error (ErrOther ''no more responses'') \<noteq> abandoned_error"
  "map_trino_error (ErrOther ''no more responses'') \<noteq> cancelled_between_requests"
  by (simp_all add: map_trino_error_def query_cause_def abandoned_error_def from_odbc_error_def
      cancelled_between_requests_def)

theorem failures_mark_transaction_witness:
  "aborted (snd (map_client_error (demo_statement None) (ErrOther ''no more responses'')
     (begin_query 0 ''q1'' (demo_start False []))))"
proof -
  have manual: "\<not> autocommit (begin_query 0 ''q1'' (demo_start False []))" by (simp add: session_defs)
  show ?thesis
    using conjunct2 [OF failures_mark_transaction [OF manual], rule_format,
        OF conjI [OF demo_read_reachable conjI [OF _ demo_fetch_fails [of False]]]]
      demo_error_plain
    by simp
qed

end
