(* ===== verification/Connection.thy ===== *)
theory Connection
  imports Session_State Conn_Params Sql_Quoting
begin

text \<open>
  Connecting (\<open>src/src/backend.rs\<close>): the timeouts, the choice of authentication and the shared OAuth
  logins, the configuration of the HTTP client, and the validation and probing of a new session.

  The client library's builder is the record \<open>client_config\<close>: one field per builder method, \<open>None\<close>
  when the driver does not call it and the library's default stands. What reads files and builds
  the client is the record \<open>connect_ext\<close>; the core's request is \<open>connect_request\<close>.
\<close>

section \<open>Timeouts and names\<close>

definition NO_TIMEOUT :: int where
  "NO_TIMEOUT = u32_max"

definition request_timeout :: "int option \<Rightarrow> int \<Rightarrow> int" where
  "request_timeout connection_timeout from_connection_string =
     (case connection_timeout of
        Some secs \<Rightarrow> if secs = 0 then NO_TIMEOUT else secs
      | None \<Rightarrow> if from_connection_string = 0 then NO_TIMEOUT else from_connection_string)"

definition login_deadline :: "int option \<Rightarrow> int option" where
  "login_deadline login_timeout =
     (case login_timeout of None \<Rightarrow> None | Some secs \<Rightarrow> if secs = 0 then None else Some secs)"

definition session_user_name :: "string option \<Rightarrow> string option \<Rightarrow> string option \<Rightarrow> string" where
  "session_user_name probed sess_user user =
     (case or_else (or_else probed sess_user) user of None \<Rightarrow> [] | Some n \<Rightarrow> n)"

section \<open>Authentication\<close>

datatype auth_choice = AuthNone | AuthBasic | AuthJwt | AuthExternal

definition resolve_auth ::
    "bool \<Rightarrow> string option \<Rightarrow> string option \<Rightarrow> bool \<Rightarrow> bool \<Rightarrow> trino_error + auth_choice" where
  "resolve_auth is_secure password access_token external may_prompt =
     (if external then
        (if access_token \<noteq> None \<or> password \<noteq> None
         then Inl (AuthConfig (''ExternalAuthentication cannot be combined with a password or an access '' @
                ''token; provide only one''))
         else if \<not> is_secure
         then Inl (AuthConfig (''ExternalAuthentication requires Protocol=https; the bearer token it '' @
                ''obtains will not be sent over plain HTTP''))
         else if \<not> may_prompt
         then Inl (AuthConfig (''ExternalAuthentication needs to show a login URL, and this connection '' @
                ''was made with SQL_DRIVER_NOPROMPT; supply AccessToken instead''))
         else Inr AuthExternal)
      else if access_token \<noteq> None then
        (if password \<noteq> None
         then Inl (AuthConfig ''both a password and an access token were supplied; provide only one'')
         else if \<not> is_secure
         then Inl (AuthConfig
                ''an access token requires Protocol=https; it will not be sent over plain HTTP'')
         else Inr AuthJwt)
      else if is_secure then Inr AuthBasic else Inr AuthNone)"

text \<open>
  The logins of the process. An \<open>Auth\<close> made for the interactive flow carries a login of its own,
  shared by its copies: a number, next to the budget it was made with.
\<close>

record oauth2_key =
  ok_secure :: bool
  ok_host :: string
  ok_port :: int
  ok_user :: "string option"

datatype auth = Basic string "string option" | Jwt string | OAuth2 nat int

record logins =
  login_cache :: "oauth2_key \<Rightarrow> auth option"
  next_login :: nat
  login_poisoned :: bool

definition oauth2_auth :: "oauth2_key \<Rightarrow> int \<Rightarrow> logins \<Rightarrow> (trino_error + auth) \<times> logins" where
  "oauth2_auth key poll_timeout l =
     (if login_poisoned l
      then (Inl (from_odbc_error
              (odbc_general ''the OAuth2 login cache is poisoned'' general_error)), l)
      else
        (case login_cache l key of
           Some a \<Rightarrow> (Inr a, l)
         | None \<Rightarrow>
             (let a = OAuth2 (next_login l) poll_timeout in
              (Inr a, l\<lparr>login_cache := (login_cache l)(key := Some a), next_login := next_login l + 1\<rparr>))))"

section \<open>The configuration of the client\<close>

record ('z, 'e, 'x, 'c, 'i) client_config =
  cb_user :: "string option"
  cb_host :: string
  cb_port :: int
  cb_secure :: bool
  cb_source :: string
  cb_tags :: "string set"
  cb_timeout :: int
  cb_auth :: "auth option"
  cb_auth_http_insecure :: "bool option"
  cb_catalog :: "string option"
  cb_schema :: "string option"
  cb_properties :: "string_map option"
  cb_extra_credentials :: "string_map option"
  cb_resource_estimates :: "string_map option"
  cb_path :: "string option"
  cb_client_info :: "string option"
  cb_trace_token :: "string option"
  cb_session_user :: "string option"
  cb_locale :: "string option"
  cb_roles :: "(string \<rightharpoonup> selected_role) option"
  cb_timezone :: "'z option"
  cb_extra_headers :: "string_map option"
  cb_capabilities :: "string set option"
  cb_proxy :: "('x \<times> (string \<times> string) option) option"
  cb_compression_disabled :: bool
  cb_max_attempts :: "int option"
  cb_encoding :: "'e option"
  cb_tls :: "tls_verification option"
  cb_ssl :: "('c option \<times> 'i option) option"

text \<open>
  The client library's proxy and certificate readers, with the text of their errors; its builder,
  with the error text and the texts of its causes, which gives the world of the new client; and the
  start of the runtime.
\<close>

record ('w, 'z, 'e, 'x, 'c, 'i) connect_ext =
  x_proxy :: "string \<Rightarrow> string + 'x"
  x_root_cert :: "string \<Rightarrow> string + 'c"
  x_identity :: "string \<Rightarrow> string + 'i"
  x_build :: "('z, 'e, 'x, 'c, 'i) client_config \<Rightarrow> (string \<times> string list) + 'w"
  x_runtime :: "string option"
  x_client :: "('z, 'e) client_ext"
  x_parse_version :: "string \<Rightarrow> (int \<times> int \<times> int) option"
  x_format_version :: "int \<Rightarrow> int \<Rightarrow> int \<Rightarrow> string"

record connect_request =
  rq_params :: conn_string
  rq_connection_timeout :: "int option"
  rq_login_timeout :: "int option"
  rq_prompter :: bool
  rq_dsn :: "string option"

text \<open>\<open>if !map.is_empty() { builder = ... }\<close>.\<close>

definition non_empty_map :: "('a \<rightharpoonup> 'b) \<Rightarrow> ('a \<rightharpoonup> 'b) option" where
  "non_empty_map m = (if m = Map.empty then None else Some m)"

text \<open>The authentication of a connection, and the logins after it.\<close>

definition connect_auth ::
    "('z, 'e) conn_params \<Rightarrow> bool \<Rightarrow> logins \<Rightarrow> (trino_error + auth option) \<times> logins" where
  "connect_auth p may_prompt l =
     (case resolve_auth (p_secure p) (p_password p) (p_access_token p) (p_external_authentication p)
             may_prompt of
        Inl m \<Rightarrow> (Inl m, l)
      | Inr AuthExternal \<Rightarrow>
          (if \<not> may_prompt
           then (Inl (AuthConfig ''ExternalAuthentication was selected without a prompter''), l)
           else
             (case oauth2_auth \<lparr>ok_secure = p_secure p, ok_host = p_host p, ok_port = p_port p,
                     ok_user = p_user p\<rparr> (p_external_auth_timeout p) l of
                (Inl m, l') \<Rightarrow> (Inl m, l')
              | (Inr a, l') \<Rightarrow> (Inr (Some a), l')))
      | Inr AuthJwt \<Rightarrow> (Inr (map_option Jwt (p_access_token p)), l)
      | Inr AuthBasic \<Rightarrow> (Inr (map_option (\<lambda>u. Basic u (p_password p)) (p_user p)), l)
      | Inr AuthNone \<Rightarrow> (Inr None, l))"

definition connect_proxy ::
    "('w, 'z, 'e, 'x, 'c, 'i) connect_ext \<Rightarrow> ('z, 'e) conn_params
       \<Rightarrow> trino_error + ('x \<times> (string \<times> string) option) option" where
  "connect_proxy x p =
     (case p_proxy p of
        None \<Rightarrow> Inr None
      | Some url \<Rightarrow>
          (case x_proxy x url of
             Inl txt \<Rightarrow> Inl (General (''invalid value for '' @ PARAM_PROXY @ '': '' @ txt))
           | Inr px \<Rightarrow> Inr (Some (px, proxy_credentials p))))"

text \<open>The TLS group, which applies over https only.\<close>

definition connect_ssl ::
    "('w, 'z, 'e, 'x, 'c, 'i) connect_ext \<Rightarrow> ('z, 'e) conn_params
       \<Rightarrow> trino_error + tls_verification option \<times> ('c option \<times> 'i option) option" where
  "connect_ssl x p =
     (if \<not> p_secure p then Inr (None, None)
      else
        bind_res (case p_certificate p of
            None \<Rightarrow> Inr None
          | Some path \<Rightarrow>
              (case x_root_cert x path of
                 Inl txt \<Rightarrow> Inl (General (''failed to read certificate at '' @ path @ '': '' @ txt))
               | Inr c \<Rightarrow> Inr (Some c)))
        (\<lambda>root.
        bind_res (case p_client_certificate p of
            None \<Rightarrow> Inr None
          | Some path \<Rightarrow>
              (case x_identity x path of
                 Inl txt \<Rightarrow> Inl (General (''failed to read client certificate at '' @ path @ '': '' @ txt))
               | Inr i \<Rightarrow> Inr (Some i)))
        (\<lambda>ident.
        Inr (Some (p_tls p), if root = None \<and> ident = None then None else Some (root, ident)))))"

definition configure ::
    "('w, 'z, 'e, 'x, 'c, 'i) connect_ext \<Rightarrow> connect_request \<Rightarrow> ('z, 'e) conn_params \<Rightarrow> logins
       \<Rightarrow> (trino_error + ('z, 'e, 'x, 'c, 'i) client_config) \<times> logins" where
  "configure x rq p l =
     (case connect_auth p (rq_prompter rq) l of
        (Inl m, l') \<Rightarrow> (Inl m, l')
      | (Inr v_auth, l') \<Rightarrow>
          (bind_res (connect_proxy x p) (\<lambda>v_proxy.
           bind_res (connect_ssl x p) (\<lambda>(v_tls, v_ssl).
           Inr \<lparr>cb_user = p_user p, cb_host = p_host p, cb_port = p_port p, cb_secure = p_secure p,
             cb_source = p_source p, cb_tags = p_client_tags p,
             cb_timeout = request_timeout (rq_connection_timeout rq) (p_query_timeout p),
             cb_auth = v_auth,
             cb_auth_http_insecure = (if v_auth = None then None else Some False),
             cb_catalog = p_catalog p, cb_schema = p_schema p,
             cb_properties = non_empty_map (p_session_properties p),
             cb_extra_credentials = non_empty_map (p_extra_credentials p),
             cb_resource_estimates = non_empty_map (p_resource_estimates p),
             cb_path = p_path p, cb_client_info = p_client_info p,
             cb_trace_token = p_trace_token p, cb_session_user = p_session_user p,
             cb_locale = p_locale p, cb_roles = non_empty_map (p_roles p),
             cb_timezone = p_time_zone p, cb_extra_headers = non_empty_map (p_extra_headers p),
             cb_capabilities =
               (if p_client_capabilities p = {} then None else Some (p_client_capabilities p)),
             cb_proxy = v_proxy, cb_compression_disabled = p_compression_disabled p,
             cb_max_attempts = p_max_attempts p, cb_encoding = p_spooling_encoding p,
             cb_tls = v_tls, cb_ssl = v_ssl\<rparr>)), l'))"

section \<open>Queries that are read whole\<close>

definition query_all_rows_within ::
    "('w, 'n, 'd, 's, 'z, 'o, 't, 'p) env \<Rightarrow> string \<Rightarrow> int option \<Rightarrow> 'w sys
       \<Rightarrow> (trino_error + 'n rows) \<times> 'w sys" where
  "query_all_rows_within e sql deadline s =
     (case (case deadline of
              Some d \<Rightarrow> call (e_get_all_within e d sql) s
            | None \<Rightarrow> (let (r, s1) = call (e_get_all e sql) s in (Some r, s1))) of
        (None, s1) \<Rightarrow>
          (Inl (QueryTimeout (''timed out after '' @ show_int (the deadline) @ '' seconds'')), s1)
      | (Some (Inl err), s1) \<Rightarrow> (let (m, s2) = statement_error err s1 in (Inl m, s2))
      | (Some (Inr rows), s1) \<Rightarrow> (Inr rows, s1))"

definition query_all_rows ::
    "('w, 'n, 'd, 's, 'z, 'o, 't, 'p) env \<Rightarrow> string \<Rightarrow> 'w sys
       \<Rightarrow> (trino_error + 'n rows) \<times> 'w sys" where
  "query_all_rows e sql s = query_all_rows_within e sql None s"

definition validation_query :: "string option \<Rightarrow> string" where
  "validation_query catalog =
     (case catalog of
        Some cat \<Rightarrow> ''SHOW SCHEMAS FROM '' @ [dq] @ replace_str [dq] [dq, dq] cat @ [dq] @
          '' LIKE '' @ [sq, sq]
      | None \<Rightarrow> ''SELECT 1'')"

definition validate_connection ::
    "('w, 'n, 'd, 's, 'z, 'o, 't, 'p) env \<Rightarrow> string option \<Rightarrow> int option \<Rightarrow> 'w sys
       \<Rightarrow> (trino_error + unit) \<times> 'w sys" where
  "validate_connection e catalog login_timeout s =
     (let (r, s1) = query_all_rows_within e (validation_query catalog) login_timeout s in
      (validation_outcome r, s1))"

record ('z, 'o) session_probe =
  sp_dbms_version :: string
  sp_server_major :: int
  sp_user :: "string option"
  sp_time_zone :: "('z, 'o) session_zone option"

definition probe_default :: "('z, 'o) session_probe" where
  "probe_default = \<lparr>sp_dbms_version = [], sp_server_major = 0, sp_user = None, sp_time_zone = None\<rparr>"

text \<open>The text in a column of the one row of the probe.\<close>

definition probe_column :: "'n rows \<Rightarrow> nat \<Rightarrow> string option" where
  "probe_column rows i =
     (case rows of
        [] \<Rightarrow> None
      | r # _ \<Rightarrow> if i < length r then as_str (r ! i) else None)"

definition probe_session ::
    "('w, 'n, 'd, 's, 'z, 'o, 't, 'p) env \<Rightarrow> ('w, 'z, 'e, 'x, 'c, 'i) connect_ext \<Rightarrow> 'w sys
       \<Rightarrow> ('z, 'o) session_probe \<times> 'w sys" where
  "probe_session e x s =
     (case query_all_rows e ''SELECT version(), current_user, current_timezone()'' s of
        (Inl m, s1) \<Rightarrow> (probe_default, s1)
      | (Inr rows, s1) \<Rightarrow>
          (let probe = probe_default
                 \<lparr>sp_user := probe_column rows 1,
                  sp_time_zone := Option.bind (probe_column rows 2) (session_zone_parse (e_chrono e))\<rparr>
           in (case probe_column rows 0 of
                 None \<Rightarrow> probe
               | Some raw \<Rightarrow>
                   (case x_parse_version x raw of
                      None \<Rightarrow> probe
                    | Some (major, minor, release) \<Rightarrow>
                        probe\<lparr>sp_dbms_version :=
                                x_format_version x major minor release @ '' ('' @ raw @ '')'',
                              sp_server_major := major\<rparr>), s1)))"

section \<open>Connecting\<close>

definition opt_text :: "string option \<Rightarrow> string" where
  "opt_text m = (case m of None \<Rightarrow> [] | Some t \<Rightarrow> t)"

text \<open>Everything before the first request: the parameters, the client and the runtime.\<close>

definition open_client ::
    "('w, 'z, 'e, 'x, 'c, 'i) connect_ext \<Rightarrow> connect_request \<Rightarrow> logins
       \<Rightarrow> (trino_error + ('z, 'e) conn_params \<times> 'w) \<times> logins" where
  "open_client x rq l =
     (case try_from (x_client x) (rq_params rq) of
        Inl m \<Rightarrow> (Inl m, l)
      | Inr p \<Rightarrow>
          (case configure x rq p l of
             (Inl m, l') \<Rightarrow> (Inl m, l')
           | (Inr cfg, l') \<Rightarrow>
               (case x_build x cfg of
                  Inl (txt, causes) \<Rightarrow>
                    (Inl (General (''failed to build Trino client: '' @ append_causes txt causes)), l')
                | Inr w \<Rightarrow>
                    (case x_runtime x of
                       Some io \<Rightarrow> (Inl (Runtime io), l')
                     | None \<Rightarrow> (Inr (p, w), l')))))"

definition new_conn ::
    "('z, 'o, 't) chrono_ext \<Rightarrow> connect_request \<Rightarrow> ('z, 'e) conn_params
       \<Rightarrow> ('z, 'o) session_probe \<Rightarrow> ('z, 'o) conn" where
  "new_conn c rq p probe =
     \<lparr>cn_dbms_version = sp_dbms_version probe, cn_server_major = sp_server_major probe,
      cn_configured_time_zone = map_option Named (p_time_zone p),
      cn_server_time_zone =
        (case sp_time_zone probe of Some z \<Rightarrow> z | None \<Rightarrow> SessionZone_UTC c),
      cn_data_source_name = opt_text (rq_dsn rq), cn_server_name = p_host p,
      cn_user_name = session_user_name (sp_user probe) (p_session_user p) (p_user p),
      cn_catalog = p_catalog p\<rparr>"

definition connect ::
    "('w, 'n, 'd, 's, 'z, 'o, 't, 'p) env \<Rightarrow> ('w, 'z, 'e, 'x, 'c, 'i) connect_ext
       \<Rightarrow> connect_request \<Rightarrow> logins
       \<Rightarrow> (trino_error + ('z, 'o) conn \<times> 'w sys) \<times> logins" where
  "connect e x rq l =
     (case open_client x rq l of
        (Inl m, l') \<Rightarrow> (Inl m, l')
      | (Inr (p, w), l') \<Rightarrow>
          (case validate_connection e (p_catalog p) (login_deadline (rq_login_timeout rq))
                  (initial_sys w) of
             (Inl m, s1) \<Rightarrow> (Inl m, l')
           | (Inr _, s1) \<Rightarrow>
               (let (probe, s2) = probe_session e x s1
                in (Inr (new_conn (e_chrono e) rq p probe, s2), l'))))"

definition current_catalog ::
    "('w, 'n, 'd, 's, 'z, 'o, 't, 'p) env \<Rightarrow> ('z, 'o) conn \<Rightarrow> 'w sys \<Rightarrow> string option" where
  "current_catalog e cn s = or_else (e_session_catalog e (world s)) (cn_catalog cn)"

definition driver_name :: string where
  "driver_name = ''stackable-odbc-trino''"

definition dbms_name :: string where
  "dbms_name = ''Trino''"

definition dbms_version :: "('z, 'o) conn \<Rightarrow> string" where
  "dbms_version cn = cn_dbms_version cn"

section \<open>Credentials\<close>

lemma resolve_auth_Inr:
  "resolve_auth sec pw tok ext prompt = Inr c \<longleftrightarrow>
     (c = AuthExternal \<and> ext \<and> sec \<and> prompt \<and> tok = None \<and> pw = None) \<or>
     (c = AuthJwt \<and> \<not> ext \<and> sec \<and> tok \<noteq> None \<and> pw = None) \<or>
     (c = AuthBasic \<and> \<not> ext \<and> sec \<and> tok = None) \<or> (c = AuthNone \<and> \<not> ext \<and> \<not> sec \<and> tok = None)"
  by (auto simp: resolve_auth_def)

text \<open>The logins the driver makes: one number each, and no two identities share one.\<close>

definition wf_logins :: "logins \<Rightarrow> bool" where
  "wf_logins l \<longleftrightarrow>
     (\<forall>k a. login_cache l k = Some a \<longrightarrow> (\<exists>i t. a = OAuth2 i t \<and> i < next_login l)) \<and>
     (\<forall>k k' i t t'. login_cache l k = Some (OAuth2 i t) \<longrightarrow> login_cache l k' = Some (OAuth2 i t') \<longrightarrow> k = k')"

lemma wf_loginsD:
  assumes "wf_logins l" and "login_cache l k = Some a"
  obtains i t where "a = OAuth2 i t" and "i < next_login l"
  using assms unfolding wf_logins_def by blast

lemma oauth2_auth_ok:
  assumes "wf_logins l" and "oauth2_auth k t l = (Inr a, l')"
  shows "wf_logins l' \<and> login_cache l' k = Some a \<and> (\<exists>i t'. a = OAuth2 i t')"
proof (cases "login_cache l k")
  case None
  then show ?thesis
  proof -
    have eq: "a = OAuth2 (next_login l) t"
      "l' = l\<lparr>login_cache := (login_cache l)(k \<mapsto> a), next_login := next_login l + 1\<rparr>"
      using assms(2) None by (auto simp: oauth2_auth_def Let_def split: if_splits)
    have "login_cache l k' \<noteq> Some (OAuth2 (next_login l) t')" for k' t'
      using assms(1) by (auto elim: wf_loginsD)
    then show ?thesis
      using assms(1) unfolding eq wf_logins_def by (auto simp: less_Suc_eq) blast
  qed
next
  case (Some b)
  then show ?thesis
    using assms by (auto simp: oauth2_auth_def elim: wf_loginsD split: if_splits)
qed

lemma connect_auth_Inr:
  assumes "connect_auth p prompt l = (Inr a, l')" and "wf_logins l"
  shows "a = None \<and> \<not> p_external_authentication p \<or> p_secure p \<and>
    ((\<exists>u. a = Some (Basic u (p_password p)) \<and> p_user p = Some u \<and> p_access_token p = None \<and>
       \<not> p_external_authentication p) \<or>
     (\<exists>t. a = Some (Jwt t) \<and> p_access_token p = Some t \<and> p_password p = None \<and>
       \<not> p_external_authentication p) \<or>
     (\<exists>i t. a = Some (OAuth2 i t) \<and> p_external_authentication p \<and> p_password p = None \<and>
       p_access_token p = None))"
proof (cases "resolve_auth (p_secure p) (p_password p) (p_access_token p)
    (p_external_authentication p) prompt")
  case (Inl m)
  then show ?thesis using assms by (simp add: connect_auth_def)
next
  case (Inr c)
  then show ?thesis
    using assms Inr [unfolded resolve_auth_Inr]
    by (cases c) (auto simp: connect_auth_def dest: oauth2_auth_ok split: prod.splits sum.splits)
qed

lemma configure_Inr:
  assumes "configure x rq p l = (Inr cfg, l')"
  shows "connect_auth p (rq_prompter rq) l = (Inr (cb_auth cfg), l') \<and>
    connect_ssl x p = Inr (cb_tls cfg, cb_ssl cfg) \<and> cb_user cfg = p_user p \<and>
    cb_secure cfg = p_secure p \<and>
    cb_timeout cfg = request_timeout (rq_connection_timeout rq) (p_query_timeout p)"
  using assms
  by (auto simp: configure_def bind_res_Inr_iff split: prod.splits sum.splits)

lemma try_from_password: "try_from x ps = Inr p \<Longrightarrow> p_password p = cs_password ps"
  unfolding try_from_def bind_res_Inr_iff by (elim exE conjE) auto


text \<open>A client, a probe and a coordinator for the witnesses.\<close>

definition demo_connect :: "(demo_world, unit, string, string, string, string) connect_ext" where
  "demo_connect =
     \<lparr>x_proxy = Inr, x_root_cert = Inr, x_identity = Inr, x_build = (\<lambda>cfg. Inr ([], False)),
      x_runtime = None,
      x_client = \<lparr>parse_tz = (\<lambda>z. Some ()), spooling_of = Some\<rparr>, x_parse_version = (\<lambda>v. None),
      x_format_version = (\<lambda>a b c. [])\<rparr>"

definition demo_request :: connect_request where
  "demo_request = \<lparr>rq_params = demo_string, rq_connection_timeout = None,
     rq_login_timeout = Some 5, rq_prompter = False, rq_dsn = Some ''demo''\<rparr>"

definition no_logins :: logins where
  "no_logins = \<lparr>login_cache = Map.empty, next_login = 0, login_poisoned = False\<rparr>"

lemma no_logins_ok: "wf_logins no_logins"
  by (simp add: wf_logins_def no_logins_def)

lemma demo_params:
  "\<exists>p. try_from (x_client demo_connect) demo_string = Inr p \<and> p_secure p \<and>
     p_user p = Some ''alice'' \<and> p_password p = None \<and> p_access_token p = None \<and>
     \<not> p_external_authentication p \<and> p_proxy p = None \<and> p_certificate p = Some ''ca.pem'' \<and>
     p_client_certificate p = None"
proof -
  have n: "parse_u16 ''8443'' = Some 8443" "parse_u64 ''3'' = Some 3"
    by (simp_all add: parse_int_def parse_digits_def digits_val_def digit_val_def str_simps)
  show ?thesis
    by (simp add: demo_connect_def try_from_def demo_string_def param_keys
        PARAM_TOKEN_def PARAM_ACCESS_TOKEN_def required_def read_port_def n read_bool_def
        read_user_def read_secure_def opt_or_def DEFAULT_PROTOCOL_def eq_ignore_ascii_case_def
        str_simps parse_tls_verification_def parse_tls_one_def check_certificates_def read_pairs_def
        read_proxy_def check_proxy_def read_time_zone_def read_encoding_def
        read_external_timeout_def read_max_attempts_def parse_positive_def read_query_timeout_def
        timeout_key_def or_else_def)
qed

lemma demo_configured:
  "\<exists>p cfg. try_from (x_client demo_connect) (rq_params demo_request) = Inr p \<and>
     configure demo_connect demo_request p no_logins = (Inr cfg, no_logins) \<and>
     cb_auth cfg = Some (Basic ''alice'' None) \<and> p_secure p"
proof -
  obtain p where p: "try_from (x_client demo_connect) demo_string = Inr p" "p_secure p"
      "p_user p = Some ''alice''" "p_password p = None" "p_access_token p = None"
      "\<not> p_external_authentication p" "p_proxy p = None" "p_certificate p = Some ''ca.pem''"
      "p_client_certificate p = None"
    using demo_params by blast
  then have "connect_auth p (rq_prompter demo_request) no_logins =
      (Inr (Some (Basic ''alice'' None)), no_logins)"
    by (simp add: connect_auth_def resolve_auth_def)
  moreover have "connect_proxy demo_connect p = Inr None"
    using p by (simp add: connect_proxy_def)
  moreover have "connect_ssl demo_connect p = Inr (Some (p_tls p), Some (Some ''ca.pem'', None))"
    using p by (simp add: connect_ssl_def demo_connect_def)
  ultimately show ?thesis
    using p by (simp add: configure_def demo_request_def)
qed


section \<open>One interactive login per identity\<close>

definition request_logins :: "(oauth2_key \<times> int) list \<Rightarrow> logins \<Rightarrow> logins" where
  "request_logins rs l = fold (\<lambda>(k, t) l. snd (oauth2_auth k t l)) rs l"

lemma request_logins_keep:
  "wf_logins l \<Longrightarrow> wf_logins (request_logins rs l) \<and>
     (\<forall>k a. login_cache l k = Some a \<longrightarrow> login_cache (request_logins rs l) k = Some a)"
proof (induction rs arbitrary: l)
  case Nil
  then show ?case by (simp add: request_logins_def)
next
  case (Cons r rs)
  obtain k t where r: "r = (k, t)" by fastforce
  define l' where "l' = snd (oauth2_auth k t l)"
  have "wf_logins l'"
    using Cons.prems oauth2_auth_ok [of l k t]
    by (cases "oauth2_auth k t l"; cases "fst (oauth2_auth k t l)")
      (auto simp: l'_def oauth2_auth_def Let_def split: if_splits option.splits)
  moreover have "login_cache l k' = Some a \<Longrightarrow> login_cache l' k' = Some a" for k' a
    by (auto simp: l'_def oauth2_auth_def Let_def split: option.split)
  ultimately show ?case
    using Cons.IH [of l'] by (simp add: request_logins_def r l'_def)
qed

fun login_number :: "auth \<Rightarrow> nat option" where
  "login_number (OAuth2 i t) = Some i"
| "login_number _ = None"

text \<open>
  C16: One interactive login per identity. Whatever logins other connections ask for in between, two
  successful requests are given the same login exactly when they name the same coordinator, transport
  and user; the later one is given the very authentication of the first, whose own polling budget
  stands whatever the later connection configured.
\<close>

theorem one_login_per_identity:
  assumes "wf_logins l" and "oauth2_auth k t l = (Inr a, l1)"
    and "oauth2_auth k' t' (request_logins rs l1) = (Inr b, l2)"
  shows "(login_number a = login_number b \<longleftrightarrow> k = k') \<and> (k = k' \<longrightarrow> a = b) \<and>
    login_number a \<noteq> None \<and> login_number b \<noteq> None \<and> wf_logins l2"
proof -
  have l1: "wf_logins l1" "login_cache l1 k = Some a"
    using oauth2_auth_ok [OF assms(1,2)] by auto
  then have m: "wf_logins (request_logins rs l1)" "login_cache (request_logins rs l1) k = Some a"
    using request_logins_keep by blast+
  have l2: "wf_logins l2" "login_cache l2 k' = Some b" "\<exists>i u. b = OAuth2 i u"
    using oauth2_auth_ok [OF m(1) assms(3)] by auto
  have k: "login_cache l2 k = Some a"
    using m(2) assms(3) by (auto simp: oauth2_auth_def Let_def split: option.splits if_splits)
  obtain i u j v where ab: "a = OAuth2 i u" "b = OAuth2 j v"
    using l2(1,3) k by (auto elim: wf_loginsD)
  have "i = j \<Longrightarrow> k = k'"
    using l2(1) l2(2) k unfolding ab wf_logins_def by blast
  then show ?thesis
    using l2 k ab by auto
qed

theorem one_login_per_identity_witness:
  "\<exists>a b l2. let k = \<lparr>ok_secure = True, ok_host = ''trino'', ok_port = 443, ok_user = None\<rparr> in
     oauth2_auth (k\<lparr>ok_user := Some ''bob''\<rparr>) 9 (request_logins [(k, 7)] (snd (oauth2_auth k 120 no_logins)))
       = (Inr b, l2) \<and> fst (oauth2_auth k 120 no_logins) = Inr a \<and> login_number a \<noteq> login_number b"
proof -
  let ?k = "\<lparr>ok_secure = True, ok_host = ''trino'', ok_port = 443, ok_user = None\<rparr>"
  let ?l1 = "snd (oauth2_auth ?k 120 no_logins)"
  have a: "oauth2_auth ?k 120 no_logins = (Inr (OAuth2 0 120), ?l1)"
    by (simp add: oauth2_auth_def no_logins_def Let_def)
  obtain b l2 where b: "oauth2_auth (?k\<lparr>ok_user := Some ''bob''\<rparr>) 9 (request_logins [(?k, 7)] ?l1) = (Inr b, l2)"
    by (simp add: oauth2_auth_def no_logins_def Let_def request_logins_def)
  from one_login_per_identity [OF no_logins_ok a b]
  have "login_number (OAuth2 0 120) \<noteq> login_number b" by simp
  with a b show ?thesis
    unfolding Let_def by (metis fst_conv)
qed

section \<open>A new connection\<close>

lemma login_deadline_positive: "login_deadline t = Some d \<Longrightarrow> t = Some d \<and> d \<noteq> 0"
  by (auto simp: login_deadline_def split: option.splits if_splits)

lemma query_within_auto:
  assumes "query_all_rows_within e sql d s = (r, s')"
  shows "autocommit s' = autocommit s \<and> epoch s' = epoch s \<and> cancels s' = cancels s \<and>
    (autocommit s \<longrightarrow> aborted s' = aborted s)"
  using assms
  by (cases "autocommit s")
    (auto simp: query_all_rows_within_def statement_error_def map_error_on_eq call_world Let_def
      txn_note_statement_error_def split: option.splits sum.splits)

lemma probe_session_auto:
  assumes "probe_session e x s = (probe, s')"
  shows "autocommit s' = autocommit s \<and> epoch s' = epoch s \<and> cancels s' = cancels s \<and>
    (autocommit s \<longrightarrow> aborted s' = aborted s)"
proof -
  obtain r where "query_all_rows_within e ''SELECT version(), current_user, current_timezone()'' None s = (r, s')"
    using assms
    by (auto simp: probe_session_def query_all_rows_def Let_def split: prod.splits sum.splits)
  then show ?thesis by (rule query_within_auto)
qed

lemma validation_states:
  assumes "validation_outcome (Inl m) = Inl f"
  shows "sqlstate (to_odbc_error f) \<in> {''28000'', ''HYT00'', ''08001''}"
  using assms
  by (cases m) (auto simp: validation_outcome_def to_odbc_error_def odbc_general_def connection_failed_def)



end
