(* ===== verification/Catalog.thy ===== *)
theory Catalog
  imports Connection Type_Info
begin

text \<open>
  The catalog functions (\<open>src/src/backend/metadata.rs\<close>): the conditions and references of their
  queries, the treatment of a catalog that does not exist, and the conversion of the rows of
  \<open>information_schema\<close> to the rows of the ODBC core, which sorts them.
\<close>

section \<open>Conditions\<close>

text \<open>Scanning with the previous character: a wildcard is escaped when a backslash precedes it.\<close>

fun wildcard_from :: "char option \<Rightarrow> string \<Rightarrow> bool" where
  "wildcard_from prev [] \<longleftrightarrow> False"
| "wildcard_from prev (c # cs) \<longleftrightarrow>
     (c = CHR ''%'' \<or> c = CHR ''_'') \<and> (prev = None \<or> prev \<noteq> Some bsl) \<or> wildcard_from (Some c) cs"

definition has_odbc_wildcards :: "string \<Rightarrow> bool" where
  "has_odbc_wildcards s \<longleftrightarrow> wildcard_from None s"

definition unescape_wildcards :: "string \<Rightarrow> string" where
  "unescape_wildcards s =
     replace_str [bsl, CHR ''%''] ''%'' (replace_str [bsl, CHR ''_''] ''_'' s)"

definition push_filter :: "string list \<Rightarrow> string \<Rightarrow> string \<Rightarrow> string list" where
  "push_filter conditions col value =
     (let escaped = replace_str [sq] [sq, sq] value in
      if has_odbc_wildcards escaped
      then conditions @ [col @ '' LIKE '' @ [sq] @ escaped @ [sq] @ '' ESCAPE '' @ [sq, bsl, sq]]
      else conditions @ [col @ '' = '' @ [sq] @ unescape_wildcards escaped @ [sq]])"

definition TRINO_CATALOG_NOT_FOUND :: int where
  "TRINO_CATALOG_NOT_FOUND = 44"

definition information_schema_ref :: "string option \<Rightarrow> string \<Rightarrow> string" where
  "information_schema_ref catalog table =
     (case (case catalog of
              None \<Rightarrow> None
            | Some c \<Rightarrow> if c \<noteq> [] \<and> c \<noteq> ''%'' \<and> \<not> has_odbc_wildcards c then Some c else None) of
        Some cat \<Rightarrow>
          [dq] @ replace_str [dq] [dq, dq] (unescape_wildcards cat) @ [dq] @
            ''.information_schema.'' @ table
      | None \<Rightarrow> ''information_schema.'' @ table)"

text \<open>An argument that filters: not absent, not empty and not the match-all pattern.\<close>

definition filtering :: "string option \<Rightarrow> string option" where
  "filtering m = (case m of None \<Rightarrow> None | Some s \<Rightarrow> if s \<noteq> [] \<and> s \<noteq> ''%'' then Some s else None)"

definition push_if :: "string \<Rightarrow> string option \<Rightarrow> string list \<Rightarrow> string list" where
  "push_if col arg conditions =
     (case filtering arg of None \<Rightarrow> conditions | Some v \<Rightarrow> push_filter conditions col v)"

definition where_text :: "string list \<Rightarrow> string" where
  "where_text conditions =
     (if conditions = [] then [] else '' WHERE '' @ join '' AND '' conditions)"

definition build_tables_where_clause ::
    "string option \<Rightarrow> string option \<Rightarrow> string option \<Rightarrow> string" where
  "build_tables_where_clause catalog schema table =
     where_text (push_if ''table_name'' table
       (push_if ''table_schema'' schema (push_if ''table_catalog'' catalog [])))"

definition build_columns_where_clause ::
    "string option \<Rightarrow> string option \<Rightarrow> string option \<Rightarrow> string option \<Rightarrow> string" where
  "build_columns_where_clause catalog schema table col =
     where_text (push_if ''column_name'' col (push_if ''table_name'' table
       (push_if ''table_schema'' schema (push_if ''table_catalog'' catalog []))))"

section \<open>The lookup\<close>

definition trino_error_code :: "trino_error \<Rightarrow> int option" where
  "trino_error_code err = (case err of Query _ native \<Rightarrow> Some native | _ \<Rightarrow> None)"

definition query_information_schema ::
    "('w, 'n, 'd, 's, 'z, 'o, 't, 'p) env \<Rightarrow> string \<Rightarrow> 'w sys
       \<Rightarrow> (trino_error + 'n rows) \<times> 'w sys" where
  "query_information_schema e sql s =
     (let in_txn = in_transaction e s in
      case query_all_rows e sql s of
        (Inl m, s1) \<Rightarrow>
          if trino_error_code m = Some TRINO_CATALOG_NOT_FOUND \<and> \<not> in_txn then (Inr [], s1)
          else (Inl m, s1)
      | (Inr rows, s1) \<Rightarrow> (Inr rows, s1))"

text \<open>The first value of a row, as text.\<close>

definition first_text :: "'n json list \<Rightarrow> string option" where
  "first_text row = (case row of [] \<Rightarrow> None | v # _ \<Rightarrow> as_str v)"

definition catalogs ::
    "('w, 'n, 'd, 's, 'z, 'o, 't, 'p) env \<Rightarrow> 'w sys \<Rightarrow> (trino_error + string list) \<times> 'w sys" where
  "catalogs e s =
     (case query_all_rows e ''SELECT table_cat FROM system.jdbc.catalogs'' s of
        (Inl m, s1) \<Rightarrow> (Inl m, s1)
      | (Inr rows, s1) \<Rightarrow> (Inr (List.map_filter first_text rows), s1))"

definition schemas ::
    "('w, 'n, 'd, 's, 'z, 'o, 't, 'p) env \<Rightarrow> 'w sys \<Rightarrow> (trino_error + string list) \<times> 'w sys" where
  "schemas e s =
     (case query_all_rows e ''SELECT table_schem FROM system.jdbc.schemas'' s of
        (Inl m, s1) \<Rightarrow> (Inl m, s1)
      | (Inr rows, s1) \<Rightarrow> (Inr (List.map_filter first_text rows), s1))"

definition TABLE_TYPE_TABLE :: string where "TABLE_TYPE_TABLE = ''TABLE''"
definition TABLE_TYPE_VIEW :: string where "TABLE_TYPE_VIEW = ''VIEW''"

definition table_types :: "string list" where
  "table_types = [TABLE_TYPE_TABLE, TABLE_TYPE_VIEW]"

section \<open>Tables\<close>

record table_row =
  tr_catalog :: "string option"
  tr_schema :: "string option"
  tr_name :: string
  tr_type :: string

definition table_row_of :: "string list \<Rightarrow> 'n json list \<Rightarrow> table_row option" where
  "table_row_of allowed row =
     (case row of
        cat # sch # nm # ty # _ \<Rightarrow>
          (case as_str nm of
             None \<Rightarrow> None
           | Some n \<Rightarrow>
               (case map_option to_uppercase (as_str ty) of
                  None \<Rightarrow> None
                | Some raw \<Rightarrow>
                    (let odbc_type =
                       (if raw = ''BASE TABLE'' then Some TABLE_TYPE_TABLE
                        else if raw = ''VIEW'' then Some TABLE_TYPE_VIEW else None)
                     in case odbc_type of
                          None \<Rightarrow> None
                        | Some t \<Rightarrow>
                            if allowed \<noteq> [] \<and> t \<notin> set allowed then None
                            else Some \<lparr>tr_catalog = as_str cat, tr_schema = as_str sch,
                              tr_name = n, tr_type = t\<rparr>)))
      | _ \<Rightarrow> None)"

definition tables_query :: "string option \<Rightarrow> string option \<Rightarrow> string option \<Rightarrow> string" where
  "tables_query catalog schema table =
     ''SELECT table_catalog, table_schema, table_name, table_type FROM '' @
     information_schema_ref catalog ''tables'' @ build_tables_where_clause catalog schema table"

definition tables ::
    "('w, 'n, 'd, 's, 'z, 'o, 't, 'p) env \<Rightarrow> string option \<Rightarrow> string option \<Rightarrow> string option
       \<Rightarrow> string list \<Rightarrow> 'w sys \<Rightarrow> (trino_error + table_row list) \<times> 'w sys" where
  "tables e catalog schema table types s =
     (case query_information_schema e (tables_query catalog schema table) s of
        (Inl m, s1) \<Rightarrow> (Inl m, s1)
      | (Inr rows, s1) \<Rightarrow>
          (Inr (List.map_filter (table_row_of (map to_uppercase types)) rows), s1))"

section \<open>Columns\<close>

definition parse_trino_precision_scale :: "column_size_fn \<Rightarrow> string \<Rightarrow> int option \<times> int option" where
  "parse_trino_precision_scale colsz data_type =
     (type_name_precision colsz data_type, type_name_scale data_type)"

definition BYTES_PER_CHAR :: int where "BYTES_PER_CHAR = 4"
definition NUM_PREC_RADIX_DECIMAL :: int where "NUM_PREC_RADIX_DECIMAL = 10"

definition verbose_type :: "sql_type \<Rightarrow> sql_type \<times> string option" where
  "verbose_type concise =
     (case concise of
        DATE \<Rightarrow> (DATETIME, Some ''SQL_CODE_DATE'')
      | TIME \<Rightarrow> (DATETIME, Some ''SQL_CODE_TIME'')
      | TIMESTAMP \<Rightarrow> (DATETIME, Some ''SQL_CODE_TIMESTAMP'')
      | other \<Rightarrow> (other, None))"

definition char_octet_length :: "sql_type \<Rightarrow> int option \<Rightarrow> int option" where
  "char_octet_length ty ty_precision =
     (let is_character = ty \<in> {EXT_W_VARCHAR, EXT_W_CHAR, ANSI_VARCHAR, ANSI_CHAR} in
      if is_character then Option.bind ty_precision (\<lambda>n. to_i32 (n * BYTES_PER_CHAR)) else None)"

datatype nullable = SqlNoNulls | SqlNullable | SqlNullableUnknown

text \<open>
  \<open>cr_is_nullable\<close> is the value whose spelling fills \<open>IS_NULLABLE\<close>; the spelling is the core's.
\<close>

record column_row =
  cr_catalog :: "string option"
  cr_schema :: "string option"
  cr_table :: string
  cr_column :: string
  cr_data_type :: sql_type
  cr_type_name :: string
  cr_column_size :: "int option"
  cr_decimal_digits :: "int option"
  cr_num_prec_radix :: "int option"
  cr_nullable :: nullable
  cr_column_def :: "string option"
  cr_sql_data_type :: sql_type
  cr_sql_datetime_sub :: "string option"
  cr_char_octet_length :: "int option"
  cr_ordinal :: int
  cr_is_nullable :: nullable

text \<open>The closures \<open>get_str\<close> and \<open>get_i32\<close> over the values of a row.\<close>

definition get_str :: "'n json list \<Rightarrow> nat \<Rightarrow> string option" where
  "get_str vals i = (if i < length vals then as_str (vals ! i) else None)"

definition get_i32 :: "('n, 'd, 's) json_ext \<Rightarrow> 'n json list \<Rightarrow> nat \<Rightarrow> int option" where
  "get_i32 x vals i = (if i < length vals then Option.bind (as_i64 x (vals ! i)) to_i32 else None)"

definition nullable_of :: "string \<Rightarrow> nullable" where
  "nullable_of txt =
     (if eq_ignore_ascii_case txt ''YES'' then SqlNullable
      else if eq_ignore_ascii_case txt ''NO'' then SqlNoNulls else SqlNullableUnknown)"

definition is_numeric :: "sql_type \<Rightarrow> bool" where
  "is_numeric ty \<longleftrightarrow> ty \<in> {EXT_TINY_INT, SMALLINT, INTEGER, EXT_BIG_INT, REAL, DOUBLE, DECIMAL}"

text \<open>What a column row says of the column's type, from its declared text.\<close>

definition typed_column ::
    "column_size_fn \<Rightarrow> string \<Rightarrow> column_row \<Rightarrow> column_row" where
  "typed_column colsz data_type_raw r =
     (let sql_ty = trino_type_name_to_sql_type data_type_raw;
          (ty_precision, ty_scale) = parse_trino_precision_scale colsz data_type_raw;
          (verbose, datetime_sub) = verbose_type sql_ty
      in r\<lparr>cr_data_type := sql_ty,
           cr_type_name := trino_bare_type_name data_type_raw sql_ty,
           cr_column_size := ty_precision,
           cr_decimal_digits :=
             (if sql_ty \<in> {DECIMAL, TIME, TIMESTAMP} then Option.bind ty_scale to_i16 else None),
           cr_num_prec_radix := (if is_numeric sql_ty then Some NUM_PREC_RADIX_DECIMAL else None),
           cr_sql_data_type := verbose, cr_sql_datetime_sub := datetime_sub,
           cr_char_octet_length := char_octet_length sql_ty ty_precision\<rparr>)"

definition column_row_of ::
    "('n, 'd, 's) json_ext \<Rightarrow> column_size_fn \<Rightarrow> 'n json list \<Rightarrow> column_row option" where
  "column_row_of x colsz vals =
     (case get_str vals 2 of
        None \<Rightarrow> None
      | Some table_name \<Rightarrow>
          (case get_str vals 3 of
             None \<Rightarrow> None
           | Some colname \<Rightarrow>
               (case get_i32 x vals 4 of
                  None \<Rightarrow> None
                | Some ordinal \<Rightarrow>
                    (let null = nullable_of (opt_text (get_str vals 6)) in
                     Some (typed_column colsz (opt_text (get_str vals 7))
                       \<lparr>cr_catalog = get_str vals 0, cr_schema = get_str vals 1,
                        cr_table = table_name, cr_column = colname,
                        cr_data_type = EXT_W_VARCHAR, cr_type_name = [], cr_column_size = None,
                        cr_decimal_digits = None, cr_num_prec_radix = None, cr_nullable = null,
                        cr_column_def = get_str vals 5, cr_sql_data_type = EXT_W_VARCHAR,
                        cr_sql_datetime_sub = None, cr_char_octet_length = None,
                        cr_ordinal = ordinal, cr_is_nullable = null\<rparr>)))))"

definition columns_query ::
    "string option \<Rightarrow> string option \<Rightarrow> string option \<Rightarrow> string option \<Rightarrow> string" where
  "columns_query catalog schema table col =
     ''SELECT table_catalog, table_schema, table_name, column_name, '' @
     ''ordinal_position, column_default, is_nullable, data_type FROM '' @
     information_schema_ref catalog ''columns'' @ build_columns_where_clause catalog schema table col"

definition columns ::
    "('w, 'n, 'd, 's, 'z, 'o, 't, 'p) env \<Rightarrow> string option \<Rightarrow> string option \<Rightarrow> string option
       \<Rightarrow> string option \<Rightarrow> 'w sys \<Rightarrow> (trino_error + column_row list) \<times> 'w sys" where
  "columns e catalog schema table col s =
     (case query_information_schema e (columns_query catalog schema table col) s of
        (Inl m, s1) \<Rightarrow> (Inl m, s1)
      | (Inr rows, s1) \<Rightarrow>
          (Inr (List.map_filter (column_row_of (e_json e) (e_column_size e)) rows), s1))"

section \<open>Privileges\<close>

record privilege_row =
  pr_catalog :: "string option"
  pr_schema :: "string option"
  pr_table :: string
  pr_grantor :: "string option"
  pr_grantee :: string
  pr_privilege :: string
  pr_is_grantable :: "string option"

definition table_privilege_row :: "'n json list \<Rightarrow> privilege_row option" where
  "table_privilege_row vals =
     (case (get_str vals 2, get_str vals 4, get_str vals 5) of
        (Some table_name, Some grantee, Some privilege) \<Rightarrow>
          Some \<lparr>pr_catalog = get_str vals 0, pr_schema = get_str vals 1, pr_table = table_name,
            pr_grantor = get_str vals 3, pr_grantee = grantee, pr_privilege = privilege,
            pr_is_grantable = get_str vals 6\<rparr>
      | _ \<Rightarrow> None)"

definition privileges_query :: "string option \<Rightarrow> string option \<Rightarrow> string option \<Rightarrow> string" where
  "privileges_query catalog schema table =
     ''SELECT table_catalog, table_schema, table_name, grantor, grantee, '' @
     ''privilege_type, is_grantable FROM '' @
     information_schema_ref catalog ''table_privileges'' @
     build_tables_where_clause catalog schema table"

definition table_privileges ::
    "('w, 'n, 'd, 's, 'z, 'o, 't, 'p) env \<Rightarrow> string option \<Rightarrow> string option \<Rightarrow> string option
       \<Rightarrow> 'w sys \<Rightarrow> (trino_error + privilege_row list) \<times> 'w sys" where
  "table_privileges e catalog schema table s =
     (case query_information_schema e (privileges_query catalog schema table) s of
        (Inl m, s1) \<Rightarrow> (Inl m, s1)
      | (Inr rows, s1) \<Rightarrow> (Inr (List.map_filter table_privilege_row rows), s1))"

text \<open>
  The catalog functions Trino has nothing to answer with. None of them reaches the network, and
  each answers no rows, whatever its arguments.
\<close>

definition column_privileges :: "'w sys \<Rightarrow> (trino_error + 'r list) \<times> 'w sys" where
  "column_privileges s = (Inr [], s)"

definition procedures :: "'w sys \<Rightarrow> (trino_error + 'r list) \<times> 'w sys" where
  "procedures s = (Inr [], s)"

definition procedure_columns :: "'w sys \<Rightarrow> (trino_error + 'r list) \<times> 'w sys" where
  "procedure_columns s = (Inr [], s)"

definition primary_keys :: "'w sys \<Rightarrow> (trino_error + 'r list) \<times> 'w sys" where
  "primary_keys s = (Inr [], s)"

definition foreign_keys :: "'w sys \<Rightarrow> (trino_error + 'r list) \<times> 'w sys" where
  "foreign_keys s = (Inr [], s)"

definition statistics :: "'w sys \<Rightarrow> (trino_error + 'r list) \<times> 'w sys" where
  "statistics s = (Inr [], s)"

definition special_columns :: "'w sys \<Rightarrow> (trino_error + 'r list) \<times> 'w sys" where
  "special_columns s = (Inr [], s)"

end
