(* ===== verification/Catalog_Patterns.thy ===== *)
theory Catalog_Patterns
  imports Catalog
begin

text \<open>
  What the conditions of the catalog functions select. The specification side is the pattern value
  argument of ODBC, with the backslash as its escape character, and SQL's \<open>LIKE ... ESCAPE\<close>; the
  theorems relate the text \<open>push_filter\<close> writes to them.
\<close>

section \<open>Patterns\<close>

datatype pat = Lit char | AnyChar | AnySeq

definition escapable :: "char \<Rightarrow> bool" where
  "escapable c \<longleftrightarrow> c = CHR ''%'' \<or> c = CHR ''_'' \<or> c = bsl"

definition plain_pat :: "char \<Rightarrow> pat" where
  "plain_pat c = (if c = CHR ''%'' then AnySeq else if c = CHR ''_'' then AnyChar else Lit c)"

text \<open>An ODBC pattern: a backslash that escapes nothing stands for itself.\<close>

fun odbc_pattern :: "string \<Rightarrow> pat list" where
  "odbc_pattern [] = []"
| "odbc_pattern [c] = [plain_pat c]"
| "odbc_pattern (c # d # cs) =
     (if c = bsl \<and> escapable d then Lit d # odbc_pattern cs else plain_pat c # odbc_pattern (d # cs))"

text \<open>SQL's \<open>LIKE\<close>: the escape character before anything else is an error.\<close>

fun like_pattern :: "string \<Rightarrow> pat list option" where
  "like_pattern [] = Some []"
| "like_pattern [c] = (if c = bsl then None else Some [plain_pat c])"
| "like_pattern (c # d # cs) =
     (if c = bsl then (if escapable d then map_option (\<lambda>ps. Lit d # ps) (like_pattern cs) else None)
      else map_option (\<lambda>ps. plain_pat c # ps) (like_pattern (d # cs)))"

function pat_match :: "pat list \<Rightarrow> string \<Rightarrow> bool" where
  "pat_match [] s \<longleftrightarrow> s = []"
| "pat_match (Lit c # ps) s \<longleftrightarrow> (case s of [] \<Rightarrow> False | d # ds \<Rightarrow> d = c \<and> pat_match ps ds)"
| "pat_match (AnyChar # ps) s \<longleftrightarrow> (case s of [] \<Rightarrow> False | d # ds \<Rightarrow> pat_match ps ds)"
| "pat_match (AnySeq # ps) s \<longleftrightarrow>
     pat_match ps s \<or> (case s of [] \<Rightarrow> False | d # ds \<Rightarrow> pat_match (AnySeq # ps) ds)"
  by pat_completeness auto
termination by (relation "measure (\<lambda>(ps, s). length ps + length s)") auto

datatype condition = Equals string | Like string

definition selects :: "condition \<Rightarrow> string \<Rightarrow> bool option" where
  "selects c nm =
     (case c of
        Equals l \<Rightarrow> Some (nm = l)
      | Like p \<Rightarrow> map_option (\<lambda>ps. pat_match ps nm) (like_pattern p))"

definition like_escape :: string where
  "like_escape = '' ESCAPE '' @ [sq, bsl, sq]"

definition condition_text :: "string \<times> condition \<Rightarrow> string" where
  "condition_text cc =
     (case snd cc of
        Equals l \<Rightarrow> fst cc @ '' = '' @ sql_literal l
      | Like p \<Rightarrow> fst cc @ '' LIKE '' @ sql_literal p @ like_escape)"

definition condition_of :: "string \<Rightarrow> condition" where
  "condition_of v = (if has_odbc_wildcards v then Like v else Equals (unescape_wildcards v))"

section \<open>The text of a condition\<close>

lemma wildcard_double: "wildcard_from p (double_char sq s) = wildcard_from p s"
  by (induction p s rule: wildcard_from.induct) auto

text \<open>One replacement, as a recursion on the text.\<close>

fun unescape_one :: "char \<Rightarrow> string \<Rightarrow> string" where
  "unescape_one w [] = []"
| "unescape_one w [c] = [c]"
| "unescape_one w (c # d # cs) =
     (if c = bsl \<and> d = w then w # unescape_one w cs else c # unescape_one w (d # cs))"

lemma replace_str_unescape: "replace_str [bsl, w] [w] s = unescape_one w s"
  by (induction w s rule: unescape_one.induct) auto

lemma unescape_double:
  "w \<noteq> sq \<Longrightarrow> unescape_one w (double_char sq s) = double_char sq (unescape_one w s)"
proof (induction w s rule: unescape_one.induct)
  case (2 w c)
  then show ?case by simp
next
  case (3 w c d cs)
  have "unescape_one w (sq # xs) = sq # unescape_one w xs" for xs
    by (cases xs) simp_all
  moreover have "d \<noteq> sq \<Longrightarrow> double_char sq (d # cs) = d # double_char sq cs" by simp
  ultimately show ?case using 3 by (auto split: if_splits)
qed simp

lemma push_filter_condition:
  "push_filter conds col v = conds @ [condition_text (col, condition_of v)]"
  by (simp add: push_filter_def condition_of_def has_odbc_wildcards_def replace_str_double
      wildcard_double unescape_wildcards_def replace_str_unescape unescape_double condition_text_def
      sql_literal_def like_escape_def Let_def)

text \<open>The filters of a query: the arguments that filter, in order.\<close>

definition filters :: "(string \<times> string option) list \<Rightarrow> (string \<times> condition) list" where
  "filters args =
     List.map_filter (\<lambda>(col, arg). map_option (\<lambda>v. (col, condition_of v)) (filtering arg)) args"

lemma push_if_filters:
  "push_if col arg conds = conds @ map condition_text (filters [(col, arg)])"
  by (simp add: push_if_def filters_def List.map_filter_simps push_filter_condition
      split: option.split)

lemma filters_append: "filters (xs @ ys) = filters xs @ filters ys"
  by (simp add: filters_def List.map_filter_def)

section \<open>Reading a clause back\<close>

definition read_condition :: "string \<Rightarrow> string \<Rightarrow> (condition \<times> string) option" where
  "read_condition col text =
     (case strip_prefix (col @ '' = '') text of
        Some t \<Rightarrow> map_option (\<lambda>(l, r). (Equals l, r)) (read_quoted sq t)
      | None \<Rightarrow>
          (case strip_prefix (col @ '' LIKE '') text of
             None \<Rightarrow> None
           | Some t \<Rightarrow>
               (case read_quoted sq t of
                  None \<Rightarrow> None
                | Some (p, r) \<Rightarrow> map_option (\<lambda>r'. (Like p, r')) (strip_prefix like_escape r))))"

fun read_conditions :: "string list \<Rightarrow> string \<Rightarrow> (string \<times> condition) list option" where
  "read_conditions [] t = (if t = [] then Some [] else None)"
| "read_conditions (col # cols) t =
     (case read_condition col t of
        None \<Rightarrow> None
      | Some (c, r) \<Rightarrow>
          (if cols = [] then (if r = [] then Some [(col, c)] else None)
           else
             (case strip_prefix '' AND '' r of
                None \<Rightarrow> None
              | Some r' \<Rightarrow> map_option (\<lambda>cs. (col, c) # cs) (read_conditions cols r'))))"

lemma strip_prefix_append: "strip_prefix p (p @ r) = Some r"
  by (simp add: strip_prefix_Some)

lemma strip_prefix_common: "strip_prefix (p @ q) (p @ r) = strip_prefix q r"
  by (induction p) simp_all

lemma read_condition_text:
  assumes "\<not> starts_with r sq"
  shows "read_condition col (condition_text (col, c) @ r) = Some (c, r)"
proof (cases c)
  case (Equals l)
  have "strip_prefix (col @ '' = '') (col @ '' = '' @ sql_literal l @ r) = Some (sql_literal l @ r)"
    by (simp only: strip_prefix_Some append_assoc)
  then show ?thesis
    using assms Equals by (simp add: read_condition_def condition_text_def lit.quote_reads)
next
  case (Like p)
  have "strip_prefix (col @ '' = '') (col @ '' LIKE '' @ t) = None" for t
    by (simp only: strip_prefix_common) simp
  moreover have "strip_prefix (col @ '' LIKE '') (col @ '' LIKE '' @ sql_literal p @ like_escape @ r) =
      Some (sql_literal p @ like_escape @ r)"
    by (simp only: strip_prefix_Some append_assoc)
  moreover have "\<not> starts_with (like_escape @ r) sq"
    by (simp add: like_escape_def starts_with_def)
  ultimately show ?thesis
    using Like by (simp add: read_condition_def condition_text_def lit.quote_reads strip_prefix_append)
qed

lemma read_conditions_join:
  "read_conditions (map fst cs) (join '' AND '' (map condition_text cs)) = Some cs"
proof (induction cs)
  case Nil
  then show ?case by simp
next
  case (Cons c cs)
  obtain col k where c: "c = (col, k)" by fastforce
  show ?case
  proof (cases cs)
    case Nil
    then show ?thesis
      using read_condition_text [of "[]" col k] by (simp add: c starts_with_def)
  next
    case (Cons d ds)
    let ?rest = "join '' AND '' (map condition_text cs)"
    have "join '' AND '' (map condition_text (c # cs)) = condition_text (col, k) @ '' AND '' @ ?rest"
      using Cons by (simp add: c)
    moreover have "\<not> starts_with ('' AND '' @ ?rest) sq" by (simp add: starts_with_def)
    ultimately show ?thesis
      using Cons Cons.IH read_condition_text [of "'' AND '' @ ?rest" col k]
      by (simp add: c strip_prefix_append)
  qed
qed

definition read_where :: "string list \<Rightarrow> string \<Rightarrow> (string \<times> condition) list option" where
  "read_where cols t =
     (if cols = [] then (if t = [] then Some [] else None)
      else Option.bind (strip_prefix '' WHERE '' t) (read_conditions cols))"

lemma read_where_text: "read_where (map fst cs) (where_text (map condition_text cs)) = Some cs"
  by (simp add: read_where_def where_text_def strip_prefix_append read_conditions_join)

text \<open>The catalog that a reference names: an exact one.\<close>

definition named_catalog :: "string option \<Rightarrow> string option" where
  "named_catalog catalog =
     (case filtering catalog of
        None \<Rightarrow> None
      | Some c \<Rightarrow> if has_odbc_wildcards c then None else Some (unescape_wildcards c))"

lemma information_schema_ref_eq:
  "information_schema_ref catalog table =
     (case named_catalog catalog of
        None \<Rightarrow> ''information_schema.'' @ table
      | Some c \<Rightarrow> sql_identifier c @ ''.information_schema.'' @ table)"
  by (auto simp: information_schema_ref_def named_catalog_def filtering_def sql_identifier_def
      split: option.split)

lemma named_catalog_quoted:
  "read_quoted dq (sql_identifier c @ ''.information_schema.'' @ table) =
     Some (c, ''.information_schema.'' @ table)"
  by (rule ident.quote_reads) (simp add: starts_with_def)

lemma reference_reads:
  "(case named_catalog cat of
      None \<Rightarrow> information_schema_ref cat table = ''information_schema.'' @ table
    | Some c \<Rightarrow> read_quoted dq (information_schema_ref cat table) =
        Some (c, ''.information_schema.'' @ table))"
  by (cases "named_catalog cat")
    (simp_all only: information_schema_ref_eq option.case named_catalog_quoted)

text \<open>
  C20: No argument of a catalog function changes the shape of its query. Whatever the arguments hold,
  the clause of \<open>SQLTables\<close> and that of \<open>SQLColumns\<close> read back, by the rules of SQL literals, as
  exactly one condition for each argument that filters, in order and on its own column; the
  reference reads back as the one catalog it names, or names none; and the statement that validates
  a connection names the configured catalog.
\<close>

theorem catalog_queries_read_back:
  "let cs = filters [(''table_catalog'', cat), (''table_schema'', sch), (''table_name'', tbl)];
       cs' = cs @ filters [(''column_name'', col)] in
   read_where (map fst cs) (build_tables_where_clause cat sch tbl) = Some cs \<and>
   read_where (map fst cs') (build_columns_where_clause cat sch tbl col) = Some cs' \<and>
   (case named_catalog cat of
      None \<Rightarrow> information_schema_ref cat table = ''information_schema.'' @ table
    | Some c \<Rightarrow> read_quoted dq (information_schema_ref cat table) =
        Some (c, ''.information_schema.'' @ table)) \<and>
   Option.bind (strip_prefix ''SHOW SCHEMAS FROM '' (validation_query (Some c'))) (read_quoted dq) =
     Some (c', '' LIKE '' @ [sq, sq])"
proof -
  have f: "filters [(a, x), (b, y), (c, z)] = filters [(a, x)] @ filters [(b, y)] @ filters [(c, z)]"
    for a b c x y z
    using filters_append [of "[(a, x)]" "[(b, y), (c, z)]"] filters_append [of "[(b, y)]" "[(c, z)]"]
    by simp
  have tables: "build_tables_where_clause cat sch tbl = where_text (map condition_text
      (filters [(''table_catalog'', cat), (''table_schema'', sch), (''table_name'', tbl)]))"
    by (simp add: build_tables_where_clause_def push_if_filters f)
  have columns: "build_columns_where_clause cat sch tbl col = where_text (map condition_text
      (filters [(''table_catalog'', cat), (''table_schema'', sch), (''table_name'', tbl)] @
       filters [(''column_name'', col)]))"
    by (simp add: build_columns_where_clause_def push_if_filters f)
  have val: "validation_query (Some c') = ''SHOW SCHEMAS FROM '' @ sql_identifier c' @ '' LIKE '' @ [sq, sq]"
    by (simp add: validation_query_def sql_identifier_def)
  have q: "Option.bind (strip_prefix ''SHOW SCHEMAS FROM '' (validation_query (Some c'))) (read_quoted dq) =
      Some (c', '' LIKE '' @ [sq, sq])"
    unfolding val by (simp only: strip_prefix_append bind.simps)
      (rule ident.quote_reads, simp add: starts_with_def)
  show ?thesis
    unfolding Let_def tables columns
    by (intro conjI read_where_text reference_reads q)
qed

section \<open>What a filter selects\<close>

fun double_backslash :: "string \<Rightarrow> bool" where
  "double_backslash (c # d # cs) \<longleftrightarrow> c = bsl \<and> d = bsl \<or> double_backslash (d # cs)"
| "double_backslash _ \<longleftrightarrow> False"

fun unescape_both :: "string \<Rightarrow> string" where
  "unescape_both [] = []"
| "unescape_both [c] = [c]"
| "unescape_both (c # d # cs) =
     (if c = bsl \<and> (d = CHR ''%'' \<or> d = CHR ''_'') then d # unescape_both cs
      else c # unescape_both (d # cs))"

lemma unescape_one_cons: "c \<noteq> bsl \<Longrightarrow> unescape_one w (c # s) = c # unescape_one w s"
  by (cases s) simp_all

lemma double_backslash_tail: "\<not> double_backslash (c # cs) \<Longrightarrow> \<not> double_backslash cs"
  by (cases cs) simp_all

lemma unescape_wildcards_both:
  "\<not> double_backslash s \<Longrightarrow> unescape_wildcards s = unescape_both s"
  unfolding unescape_wildcards_def replace_str_unescape
proof (induction s rule: unescape_both.induct)
  case (3 c d cs)
  show ?case
  proof (cases "c = bsl")
    case True
    then have d: "d \<noteq> bsl" using 3(3) by simp
    then have "unescape_one w (d # cs) = d # unescape_one w cs" for w by (rule unescape_one_cons)
    then show ?thesis
      using 3 True d double_backslash_tail [of d cs] double_backslash_tail [of c "d # cs"]
      by (auto simp: unescape_one_cons)
  next
    case False
    then show ?thesis
      using 3 double_backslash_tail [of c "d # cs"] by (simp add: unescape_one_cons)
  qed
qed simp_all

lemma odbc_pattern_literal:
  assumes "\<not> double_backslash s" and "\<not> wildcard_from p s" and "p \<noteq> Some bsl"
  shows "odbc_pattern s = map Lit (unescape_both s)"
  using assms
proof (induction s arbitrary: p rule: unescape_both.induct)
  case (2 c)
  then show ?case by (auto simp: plain_pat_def)
next
  case (3 c d cs)
  show ?case
  proof (cases "c = bsl")
    case True
    then have d: "d \<noteq> bsl" and nd: "\<not> double_backslash (d # cs)" using 3(3) by auto
    show ?thesis
    proof (cases "d = CHR ''%'' \<or> d = CHR ''_''")
      case esc: True
      then have "\<not> wildcard_from (Some d) cs" using 3(4) True by auto
      then show ?thesis
        using 3(1) [of "Some d"] True esc d double_backslash_tail [OF nd]
        by (auto simp: escapable_def)
    next
      case False
      then have "\<not> wildcard_from None (d # cs)" using 3(4) True by auto
      then show ?thesis
        using 3(2) [of None] True False d nd by (auto simp: escapable_def plain_pat_def)
    qed
  next
    case False
    then have "c \<noteq> CHR ''%'' \<and> c \<noteq> CHR ''_''" and "\<not> wildcard_from (Some c) (d # cs)"
      using 3(4,5) by auto
    then show ?thesis
      using 3(2) [of "Some c"] 3(3) False double_backslash_tail [of c "d # cs"]
      by (auto simp: plain_pat_def)
  qed
qed simp

lemma like_pattern_odbc: "like_pattern p = Some ps \<Longrightarrow> odbc_pattern p = ps"
  by (induction p arbitrary: ps rule: like_pattern.induct) (auto split: if_splits)

lemma pat_match_literal: "pat_match (map Lit l) s \<longleftrightarrow> s = l"
  by (induction l arbitrary: s) (auto split: list.split)

text \<open>
  C21: A catalog function lists exactly the names its argument matches. For an argument without a
  doubled backslash, the condition selects a name just when the ODBC pattern matches it - by
  equality when no wildcard is left unescaped, and by \<open>LIKE\<close> otherwise - except that SQL refuses a
  \<open>LIKE\<close> pattern in which a backslash escapes nothing.
\<close>

theorem filter_selects_matching:
  assumes "\<not> double_backslash v"
  shows "\<exists>c. push_filter conds col v = conds @ [condition_text (col, c)] \<and>
    (\<forall>nm. selects c nm = Some (pat_match (odbc_pattern v) nm) \<or>
       selects c nm = None \<and> like_pattern v = None \<and> has_odbc_wildcards v)"
proof (intro exI conjI allI)
  show "push_filter conds col v = conds @ [condition_text (col, condition_of v)]"
    by (rule push_filter_condition)
  fix nm
  show "selects (condition_of v) nm = Some (pat_match (odbc_pattern v) nm) \<or>
    selects (condition_of v) nm = None \<and> like_pattern v = None \<and> has_odbc_wildcards v"
  proof (cases "has_odbc_wildcards v")
    case True
    then show ?thesis
      by (cases "like_pattern v") (auto simp: condition_of_def selects_def dest: like_pattern_odbc)
  next
    case False
    then have "odbc_pattern v = map Lit (unescape_wildcards v)"
      using odbc_pattern_literal [of v None] assms
      by (simp add: has_odbc_wildcards_def unescape_wildcards_both)
    then show ?thesis
      using False by (simp add: condition_of_def selects_def pat_match_literal)
  qed
qed

theorem filter_selects_matching_witness:
  "\<exists>c. push_filter [] ''table_name'' (''call'' @ [bsl] @ ''_center'') = [condition_text (''table_name'', c)] \<and>
     selects c ''call_center'' = Some True"
proof -
  let ?v = "''call'' @ [bsl] @ ''_center''"
  have "\<not> double_backslash ?v" by simp
  from filter_selects_matching [OF this, of "[]" "''table_name''"]
  obtain c where c: "push_filter [] ''table_name'' ?v = [condition_text (''table_name'', c)]"
    and s: "\<forall>nm. selects c nm = Some (pat_match (odbc_pattern ?v) nm) \<or>
       selects c nm = None \<and> like_pattern ?v = None \<and> has_odbc_wildcards ?v"
    by auto
  have "pat_match (odbc_pattern ?v) ''call_center''" by (simp add: escapable_def plain_pat_def)
  moreover have "\<not> has_odbc_wildcards ?v" by (simp add: has_odbc_wildcards_def)
  ultimately have "selects c ''call_center'' = Some True" using s by (metis (full_types))
  with c show ?thesis by blast
qed

text \<open>
  The escape character escaped. A doubled backslash is a literal backslash of an ODBC pattern, as
  it is of the \<open>LIKE\<close> the driver writes, but not of its test for wildcards nor of its unescaping: the
  exact name \<open>a\<close>, backslash, \<open>b\<close> is looked up with two backslashes and not found, and a wildcard
  after an escaped backslash is taken for a literal, so that names the pattern matches are left out.
\<close>

theorem doubled_backslash_defects:
  "push_filter [] ''table_name'' [CHR ''a'', bsl, bsl, CHR ''b''] =
     [condition_text (''table_name'', Equals [CHR ''a'', bsl, bsl, CHR ''b''])] \<and>
   pat_match (odbc_pattern [CHR ''a'', bsl, bsl, CHR ''b'']) [CHR ''a'', bsl, CHR ''b''] \<and>
   selects (Equals [CHR ''a'', bsl, bsl, CHR ''b'']) [CHR ''a'', bsl, CHR ''b''] = Some False \<and>
   push_filter [] ''table_name'' [CHR ''a'', bsl, bsl, CHR ''%''] =
     [condition_text (''table_name'', Equals [CHR ''a'', bsl, CHR ''%''])] \<and>
   pat_match (odbc_pattern [CHR ''a'', bsl, bsl, CHR ''%'']) [CHR ''a'', bsl, CHR ''z''] \<and>
   selects (Equals [CHR ''a'', bsl, CHR ''%'']) [CHR ''a'', bsl, CHR ''z''] = Some False"
  by (simp add: push_filter_condition condition_of_def has_odbc_wildcards_def
      unescape_wildcards_def replace_str_unescape escapable_def plain_pat_def selects_def)

end
