(* ===== verification/Describe_Param.thy ===== *)
theory Describe_Param
  imports Statement Connection "HOL-Library.Multiset"
begin

text \<open>
  The description of a statement's parameters (\<open>src/src/backend/describe_param.rs\<close>): the three
  requests behind it, the reading of their rows, and the connection's cache of one description.
  The cache is passed along beside the shared state; its lock is held for the whole call.
\<close>

section \<open>Descriptors\<close>

record param_desc =
  pd_sql_type :: sql_type
  pd_size :: int
  pd_digits :: int

record cached_params =
  cp_sql :: string
  cp_params :: "param_desc list"

definition DESCRIBE_PARAM_STATEMENT :: string where
  "DESCRIBE_PARAM_STATEMENT = ''stackable_odbc_describe_input''"

definition param_descriptor :: "column_size_fn \<Rightarrow> string \<Rightarrow> param_desc" where
  "param_descriptor colsz nm =
     (let d0 = \<lparr>pd_sql_type = trino_type_name_to_sql_type nm, pd_size = 0, pd_digits = 0\<rparr>;
          d1 = (case Option.bind (type_name_precision colsz nm) to_u64 of
                  Some p \<Rightarrow> d0\<lparr>pd_size := p\<rparr> | None \<Rightarrow> d0)
      in (case Option.bind (type_name_scale nm) to_i16 of
            Some sc \<Rightarrow> d1\<lparr>pd_digits := sc\<rparr> | None \<Rightarrow> d1))"

text \<open>A row that has a position and a type; any other row is left out.\<close>

definition input_row ::
    "('n, 'd, 's) json_ext \<Rightarrow> column_size_fn \<Rightarrow> 'n json list \<Rightarrow> (int \<times> param_desc) option" where
  "input_row x colsz row =
     (case row of
        [] \<Rightarrow> None
      | p # rest \<Rightarrow>
          (case Option.bind (as_i64 x p) to_u64 of
             None \<Rightarrow> None
           | Some position \<Rightarrow>
               (case rest of
                  [] \<Rightarrow> None
                | t # _ \<Rightarrow> map_option (\<lambda>nm. (position, param_descriptor colsz nm)) (as_str t))))"

definition describe_input_rows_to_params ::
    "('n, 'd, 's) json_ext \<Rightarrow> column_size_fn \<Rightarrow> 'n rows \<Rightarrow> param_desc list" where
  "describe_input_rows_to_params x colsz rows =
     map snd (sort_key fst (List.map_filter (input_row x colsz) rows))"

section \<open>The round trip\<close>

definition execute_statement ::
    "('w, 'n, 'd, 's, 'z, 'o, 't, 'p) env \<Rightarrow> string \<Rightarrow> 'w sys \<Rightarrow> (trino_error + unit) \<times> 'w sys" where
  "execute_statement e sql s =
     (case call (e_execute e sql) s of
        (Inl err, s1) \<Rightarrow> (let (m, s2) = map_error_on err s1 in (Inl m, s2))
      | (Inr _, s1) \<Rightarrow> (Inr (), s1))"

definition prepare_text :: "string \<Rightarrow> string" where
  "prepare_text sql =
     ''PREPARE '' @ DESCRIBE_PARAM_STATEMENT @ '' FROM '' @ strip_trailing_semicolons sql"

definition fetch_input_params ::
    "('w, 'n, 'd, 's, 'z, 'o, 't, 'p) env \<Rightarrow> string \<Rightarrow> 'w sys
       \<Rightarrow> (trino_error + param_desc list) \<times> 'w sys" where
  "fetch_input_params e sql s =
     (case execute_statement e (prepare_text sql) s of
        (Inl m, s1) \<Rightarrow> (Inl m, s1)
      | (Inr _, s1) \<Rightarrow>
          (let (described, s2) =
                 query_all_rows e (''DESCRIBE INPUT '' @ DESCRIBE_PARAM_STATEMENT) s1;
               (_, s3) = execute_statement e (''DEALLOCATE PREPARE '' @ DESCRIBE_PARAM_STATEMENT) s2
           in (bind_res described (\<lambda>rows.
                 Inr (describe_input_rows_to_params (e_json e) (e_column_size e) rows)), s3)))"

definition describe_param ::
    "('w, 'n, 'd, 's, 'z, 'o, 't, 'p) env \<Rightarrow> string \<Rightarrow> nat \<Rightarrow> cached_params option \<Rightarrow> 'w sys
       \<Rightarrow> (trino_error + param_desc option) \<times> cached_params option \<times> 'w sys" where
  "describe_param e sql parameter_number cache s =
     (if parameter_number = 0 then (Inr None, cache, s)
      else
        (let index = parameter_number - 1;
             answer = (\<lambda>c. case c of
                None \<Rightarrow> None
              | Some cp \<Rightarrow> if index < length (cp_params cp) then Some (cp_params cp ! index) else None)
         in if (case cache of None \<Rightarrow> True | Some cp \<Rightarrow> cp_sql cp \<noteq> sql)
            then
              (let in_txn = in_transaction e s in
               case fetch_input_params e sql s of
                 (Inr ps, s1) \<Rightarrow>
                   (let cache' = Some \<lparr>cp_sql = sql, cp_params = ps\<rparr>
                    in (Inr (answer cache'), cache', s1))
               | (Inl m, s1) \<Rightarrow> if \<not> in_txn then (Inr None, cache, s1) else (Inl m, cache, s1))
            else (Inr (answer cache), cache, s)))"

section \<open>The order of the rows\<close>

text \<open>The row of a parameter: its position as a number, and the name of its type.\<close>

definition input_of :: "(int \<Rightarrow> 'n) \<Rightarrow> int \<times> string \<Rightarrow> 'n json list" where
  "input_of num pt = [JNum (num (fst pt)), JStr (snd pt)]"

definition positions :: "'a list \<Rightarrow> (int \<times> 'a) list" where
  "positions ts = zip (map int [0..<length ts]) ts"

lemma fst_positions: "map fst (positions ts) = map int [0..<length ts]"
  by (simp add: positions_def)

lemma positions_map: "positions (map f ts) = map (map_prod id f) (positions ts)"
  by (simp add: positions_def zip_map2 map_prod_def)

lemma sort_positions:
  assumes "mset ps = mset (positions ts)"
  shows "map snd (sort_key fst ps) = ts"
proof -
  have "distinct (map fst (positions ts))" unfolding fst_positions by (simp add: distinct_map)
  then have "inj_on fst (set ps)" using mset_eq_setD [OF assms] by (simp add: distinct_map)
  moreover have "sorted (map fst (positions ts))"
    unfolding fst_positions by (simp add: sorted_wrt_map)
  ultimately have "sort_key fst ps = positions ts"
    using assms by (intro sort_key_inj_key_eq)
  then show ?thesis by (simp add: positions_def)
qed

lemma input_row_of:
  assumes "num_i64 x (num i) = Some i" and "to_u64 i = Some i"
  shows "input_row x colsz (input_of num (i, t)) = Some (i, param_descriptor colsz t)"
  using assms by (simp add: input_of_def input_row_def as_i64_def as_str_def)

lemma input_rows:
  assumes "\<forall>(i, t) \<in> set ps. num_i64 x (num i) = Some i \<and> to_u64 i = Some i"
  shows "List.map_filter (input_row x colsz) (map (input_of num) ps) =
    map (map_prod id (param_descriptor colsz)) ps"
  using assms by (induction ps) (auto simp: List.map_filter_simps input_row_of)

text \<open>
  C24: Whatever order \<open>DESCRIBE INPUT\<close> lists the parameters in, the description of parameter \<open>n\<close> is
  made from the type Trino gives at position \<open>n - 1\<close>: the rows are sorted by the position they state,
  and none is lost.
\<close>

theorem described_in_position_order:
  assumes "mset ps = mset (positions ts)" and "int (length ts) \<le> u64_max"
    and "\<forall>i < length ts. num_i64 x (num (int i)) = Some (int i)"
  shows "describe_input_rows_to_params x colsz (map (input_of num) ps) =
    map (param_descriptor colsz) ts"
proof -
  have "set ps = set (positions ts)" using assms(1) by (rule mset_eq_setD)
  then have "\<forall>(i, t) \<in> set ps. num_i64 x (num i) = Some i \<and> to_u64 i = Some i"
    using assms(2,3) by (auto simp: positions_def set_zip fits_def)
  moreover have "mset (map (map_prod id (param_descriptor colsz)) ps) =
      mset (positions (map (param_descriptor colsz) ts))"
    using assms(1) by (simp add: positions_map)
  ultimately show ?thesis
    by (simp add: describe_input_rows_to_params_def input_rows sort_positions)
qed

theorem described_in_position_order_witness:
  "describe_input_rows_to_params demo_json (\<lambda>t p s. 0)
     (map (input_of id) [(1, ''bigint''), (0, ''boolean'')]) =
   map (param_descriptor (\<lambda>t p s. 0)) [''boolean'', ''bigint'']"
  by (rule described_in_position_order)
    (simp_all add: positions_def demo_json_def fits_def less_Suc_eq upt_rec)

section \<open>Requests and answers\<close>

definition answer_of :: "cached_params option \<Rightarrow> nat \<Rightarrow> param_desc option" where
  "answer_of cache n =
     (case cache of
        None \<Rightarrow> None
      | Some cp \<Rightarrow> if n - 1 < length (cp_params cp) then Some (cp_params cp ! (n - 1)) else None)"

definition cached_for :: "string \<Rightarrow> cached_params option \<Rightarrow> bool" where
  "cached_for sql cache \<longleftrightarrow> (\<exists>cp. cache = Some cp \<and> cp_sql cp = sql)"

lemma describe_param_cases:
  assumes "0 < n"
  shows "describe_param e sql n cache s =
    (if cached_for sql cache then (Inr (answer_of cache n), cache, s)
     else
       (case fetch_input_params e sql s of
          (Inr ps, s1) \<Rightarrow>
            (Inr (answer_of (Some \<lparr>cp_sql = sql, cp_params = ps\<rparr>) n),
             Some \<lparr>cp_sql = sql, cp_params = ps\<rparr>, s1)
        | (Inl m, s1) \<Rightarrow> if in_transaction e s then (Inl m, cache, s1) else (Inr None, cache, s1)))"
  using assms
  by (auto simp: describe_param_def answer_of_def cached_for_def Let_def
      split: option.split prod.split sum.split)

lemma execute_statement_world:
  "world (snd (execute_statement e sql s)) = snd (e_execute e sql (world s))"
  by (simp add: execute_statement_def call_world map_error_on_eq Let_def split: sum.split)

lemma fetch_input_params_prepared:
  assumes "fst (e_execute e (prepare_text sql) (world s)) = Inr ()"
  shows "\<exists>s1. world s1 = snd (e_execute e (prepare_text sql) (world s)) \<and>
    world (snd (fetch_input_params e sql s)) =
      snd (e_execute e (''DEALLOCATE PREPARE '' @ DESCRIBE_PARAM_STATEMENT)
        (world (snd (query_all_rows e (''DESCRIBE INPUT '' @ DESCRIBE_PARAM_STATEMENT) s1))))"
proof -
  let ?s1 = "s\<lparr>world := snd (e_execute e (prepare_text sql) (world s))\<rparr>"
  have "execute_statement e (prepare_text sql) s = (Inr (), ?s1)"
    using assms by (simp add: execute_statement_def call_world)
  then have "world (snd (fetch_input_params e sql s)) =
      snd (e_execute e (''DEALLOCATE PREPARE '' @ DESCRIBE_PARAM_STATEMENT)
        (world (snd (query_all_rows e (''DESCRIBE INPUT '' @ DESCRIBE_PARAM_STATEMENT) ?s1))))"
    by (simp add: fetch_input_params_def Let_def split_beta execute_statement_world)
  moreover have "world ?s1 = snd (e_execute e (prepare_text sql) (world s))" by simp
  ultimately show ?thesis by blast
qed

lemma fetch_input_params_unprepared:
  assumes "fst (e_execute e (prepare_text sql) (world s)) = Inl err"
  shows "fetch_input_params e sql s =
    (Inl (map_trino_error err),
     s\<lparr>world := snd (e_execute e (prepare_text sql) (world s)),
       dead := liveness_note (dead s) (map_trino_error err)\<rparr>)"
  using assms
  by (simp add: fetch_input_params_def execute_statement_def call_world map_error_on_eq Let_def)



text \<open>
  A description that fails inside a transaction is not recorded as a statement failure when it
  is the \<open>PREPARE\<close> that fails. The coordinator has aborted the transaction, as the function's own
  comment says, and the application is told of the failure, but the connection's flag stays clear:
  the next commit is sent to the coordinator instead of being turned into a rollback and 25S03.
  The same failure met by \<open>exec_direct\<close> sets the flag.
\<close>

theorem failed_prepare_not_marked:
  assumes "\<not> cached_for sql cache" and "0 < n" and "in_transaction e s"
    and "fst (e_execute e (prepare_text sql) (world s)) = Inl err"
    and "e_in_transaction e (snd (e_execute e (prepare_text sql) (world s)))"
    and "\<not> aborted s" and "\<not> autocommit s"
  shows "\<exists>s'. describe_param e sql n cache s = (Inl (map_trino_error err), cache, s') \<and> \<not> aborted s' \<and>
    fst (end_tran e True s') = (case fst (e_commit e (world s')) of
        Inl err' \<Rightarrow> Inl (map_trino_error err') | Inr _ \<Rightarrow> Inr ()) \<and>
    aborted (snd (statement_error err s))"
proof -
  let ?s' = "s\<lparr>world := snd (e_execute e (prepare_text sql) (world s)),
    dead := liveness_note (dead s) (map_trino_error err)\<rparr>"
  have "describe_param e sql n cache s = (Inl (map_trino_error err), cache, ?s')"
    using assms by (simp add: describe_param_cases fetch_input_params_unprepared)
  moreover have "fst (end_tran e True ?s') = (case fst (e_commit e (world ?s')) of
        Inl err' \<Rightarrow> Inl (map_trino_error err') | Inr _ \<Rightarrow> Inr ())"
    using assms(5,6)
    by (simp add: end_tran_def in_transaction_def txn_ended_def call_world map_error_on_eq Let_def
        split: sum.split)
  moreover have "\<not> aborted ?s'" using assms(6) by simp
  ultimately show ?thesis using assms(7) statement_error_aborts by blast
qed

theorem failed_prepare_not_marked_witness:
  "\<exists>s'. describe_param (demo_env\<lparr>e_execute := \<lambda>sql w. (Inl (ErrOther ''x''), w)\<rparr>) ''SELECT ?'' 1 None
     ((initial_sys ([], True))\<lparr>autocommit := False\<rparr>) = (Inl (map_trino_error (ErrOther ''x'')), None, s') \<and>
   \<not> aborted s'"
proof -
  let ?e = "demo_env\<lparr>e_execute := \<lambda>sql w. (Inl (ErrOther ''x''), w)\<rparr>"
  let ?s = "(initial_sys ([], True))\<lparr>autocommit := False\<rparr> :: demo_world sys"
  have "\<not> cached_for ''SELECT ?'' None" by (simp add: cached_for_def)
  moreover have "in_transaction ?e ?s" "e_in_transaction ?e (snd (e_execute ?e (prepare_text ''SELECT ?'') (world ?s)))"
      "fst (e_execute ?e (prepare_text ''SELECT ?'') (world ?s)) = Inl (ErrOther ''x'')"
      "\<not> aborted ?s" "\<not> autocommit ?s"
    by (simp_all add: in_transaction_def initial_sys_def demo_env_def)
  ultimately show ?thesis
    using failed_prepare_not_marked [of "''SELECT ?''" None 1 ?e ?s "ErrOther ''x''"] by auto
qed

end
