(* ===== verification/Catalog_Rows.thy ===== *)
theory Catalog_Rows
  imports Catalog Statement Describe_Param
begin

text \<open>
  The rows of the catalog functions: what a failed lookup becomes, which tables are listed, and that
  the four places that describe a type - the columns of a catalog, the columns of a result, the
  parameters of a statement and the type list - describe it alike.
\<close>

section \<open>Lookups\<close>

lemma query_all_rows_error:
  assumes "query_all_rows e sql s = (Inl m, s1)"
  shows "\<not> autocommit s \<longrightarrow> aborted s1"
  using assms
  by (auto simp: query_all_rows_def query_all_rows_within_def call_world Let_def
      statement_error_def map_error_on_eq txn_note_statement_error_def split: sum.splits if_splits)

lemma query_information_schema_cases:
  assumes "query_information_schema e sql s = (r, s1)"
  obtains (rows) rows where "query_all_rows e sql s = (Inr rows, s1)" "r = Inr rows"
  | (missing) m where "query_all_rows e sql s = (Inl m, s1)" "r = Inr []"
      "trino_error_code m = Some TRINO_CATALOG_NOT_FOUND" "\<not> in_transaction e s"
  | (failed) m where "query_all_rows e sql s = (Inl m, s1)" "r = Inl m"
      "trino_error_code m = Some TRINO_CATALOG_NOT_FOUND \<longrightarrow> in_transaction e s"
  using assms
  by (auto simp: query_information_schema_def Let_def split: prod.splits sum.splits if_splits)

section \<open>The tables listed\<close>

definition listed_type :: "string \<Rightarrow> string option" where
  "listed_type raw =
     (if to_uppercase raw = ''BASE TABLE'' then Some TABLE_TYPE_TABLE
      else if to_uppercase raw = ''VIEW'' then Some TABLE_TYPE_VIEW else None)"

lemma as_str_Some: "as_str v = Some t \<longleftrightarrow> v = JStr t"
  by (cases v) (simp_all add: as_str_def)

lemma table_row_of_cons:
  "table_row_of allowed (cat # sch # nm # ty # rest) =
     (case as_str nm of
        None \<Rightarrow> None
      | Some n \<Rightarrow>
          (case Option.bind (as_str ty) listed_type of
             None \<Rightarrow> None
           | Some t \<Rightarrow>
               if allowed = [] \<or> t \<in> set allowed
               then Some \<lparr>tr_catalog = as_str cat, tr_schema = as_str sch, tr_name = n, tr_type = t\<rparr>
               else None))"
  by (simp add: table_row_of_def listed_type_def split: option.split)

lemma table_row_of_shape:
  "table_row_of allowed row = Some tr \<Longrightarrow> \<exists>cat sch nm ty rest. row = cat # sch # nm # ty # rest"
  by (simp add: table_row_of_def split: list.splits)

lemma table_row_of_Some:
  "table_row_of allowed row = Some tr \<longleftrightarrow>
     (\<exists>cat sch n ty rest t. row = cat # sch # JStr n # JStr ty # rest \<and>
        listed_type ty = Some t \<and> (allowed = [] \<or> t \<in> set allowed) \<and>
        tr = \<lparr>tr_catalog = as_str cat, tr_schema = as_str sch, tr_name = n, tr_type = t\<rparr>)"
  (is "?l \<longleftrightarrow> ?r")
proof
  assume ?l
  then obtain cat sch nm ty rest where "row = cat # sch # nm # ty # rest"
    using table_row_of_shape by blast
  with \<open>?l\<close> show ?r
    by (auto simp: table_row_of_cons bind_eq_Some_conv as_str_Some
        split: option.splits if_splits)
next
  assume ?r
  then show ?l by (auto simp: table_row_of_cons as_str_def)
qed

lemma listed_type_known: "listed_type ty = Some t \<Longrightarrow> t \<in> set table_types"
  by (auto simp: listed_type_def table_types_def split: if_splits)

lemma set_map_filter: "set (List.map_filter f xs) = {y. \<exists>x \<in> set xs. f x = Some y}"
  by (force simp: List.map_filter_def)

text \<open>
  C22: Listing tables. A failed lookup becomes an empty list only for a catalog that does not exist,
  and only outside a transaction, where the failure has aborted nothing; any other failure is
  reported, and in manual-commit mode it marks the transaction. The rows listed are exactly the rows
  of the coordinator that are tables or views of the types asked for (all types when none is), each
  under a type that \<open>SQLTables\<close> enumerates.
\<close>

theorem tables_listed:
  assumes "tables e cat sch tbl types s = (r, s1)"
  shows "case r of
      Inl m \<Rightarrow> fst (query_all_rows e (tables_query cat sch tbl) s) = Inl m \<and>
        (trino_error_code m = Some 44 \<longrightarrow> in_transaction e s) \<and> (\<not> autocommit s \<longrightarrow> aborted s1)
    | Inr out \<Rightarrow>
        (case fst (query_all_rows e (tables_query cat sch tbl) s) of
           Inl m \<Rightarrow> out = [] \<and> trino_error_code m = Some 44 \<and> \<not> in_transaction e s
         | Inr rows \<Rightarrow>
             (\<forall>tr \<in> set out. tr_type tr \<in> set table_types) \<and>
             set out = {\<lparr>tr_catalog = as_str c, tr_schema = as_str h, tr_name = n, tr_type = t\<rparr> |
               c h n ty t. (\<exists>rest. c # h # JStr n # JStr ty # rest \<in> set rows) \<and>
                 listed_type ty = Some t \<and> (types = [] \<or> t \<in> to_uppercase ` set types)})"
proof -
  let ?q = "tables_query cat sch tbl"
  obtain r' where q: "query_information_schema e ?q s = (r', s1)"
    and r: "r = (case r' of Inl m \<Rightarrow> Inl m
      | Inr rows \<Rightarrow> Inr (List.map_filter (table_row_of (map to_uppercase types)) rows))"
    using assms by (auto simp: tables_def split: prod.splits sum.splits)
  from q show ?thesis
  proof (cases rule: query_information_schema_cases)
    case (rows rows)
    let ?out = "List.map_filter (table_row_of (map to_uppercase types)) rows"
    have "set ?out = {\<lparr>tr_catalog = as_str c, tr_schema = as_str h, tr_name = n, tr_type = t\<rparr> |
        c h n ty t. (\<exists>rest. c # h # JStr n # JStr ty # rest \<in> set rows) \<and>
          listed_type ty = Some t \<and> (types = [] \<or> t \<in> to_uppercase ` set types)}"
      by (fastforce simp: set_map_filter table_row_of_Some)
    moreover have "\<forall>tr \<in> set ?out. tr_type tr \<in> set table_types"
      by (auto simp: set_map_filter table_row_of_Some dest: listed_type_known)
    ultimately show ?thesis using rows r by simp
  next
    case (missing m)
    then show ?thesis using r by (simp add: TRINO_CATALOG_NOT_FOUND_def List.map_filter_simps)
  next
    case (failed m)
    then show ?thesis
      using r query_all_rows_error [OF failed(1)] by (simp add: TRINO_CATALOG_NOT_FOUND_def)
  qed
qed

theorem tables_listed_witness:
  "fst (tables (demo_env\<lparr>e_get_all := \<lambda>sql w.
       (Inr [[JNull, JNull, JStr ''t'', JStr ''BASE TABLE''], [JNull, JNull, JStr ''m'', JStr ''OTHER'']], w)\<rparr>)
     None None None [] (initial_sys ([], False))) =
   Inr [\<lparr>tr_catalog = None, tr_schema = None, tr_name = ''t'', tr_type = ''TABLE''\<rparr>] \<and>
   ''TABLE'' \<in> set table_types"
proof -
  let ?e = "demo_env\<lparr>e_get_all := \<lambda>sql w.
    (Inr [[JNull, JNull, JStr ''t'', JStr ''BASE TABLE''], [JNull, JNull, JStr ''m'', JStr ''OTHER'']], w)\<rparr>"
  let ?s = "initial_sys ([], False) :: demo_world sys"
  have q: "query_all_rows ?e sql ?s = (Inr [[JNull, JNull, JStr ''t'', JStr ''BASE TABLE''],
      [JNull, JNull, JStr ''m'', JStr ''OTHER'']], ?s)" for sql
    by (simp add: query_all_rows_def query_all_rows_within_def call_def initial_sys_def)
  have t: "tables ?e None None None [] ?s =
      (Inr [\<lparr>tr_catalog = None, tr_schema = None, tr_name = ''t'', tr_type = ''TABLE''\<rparr>], ?s)"
    by (simp add: tables_def query_information_schema_def q Let_def List.map_filter_simps
        table_row_of_def as_str_def to_uppercase_def upper_char_def TABLE_TYPE_TABLE_def)
  from tables_listed [OF t] show ?thesis by (simp add: q t)
qed

section \<open>Four descriptions of a type\<close>

definition verbose_of_row :: "type_info_row \<Rightarrow> sql_type \<times> string option" where
  "verbose_of_row row =
     (case ti_verbose row of None \<Rightarrow> (ti_type row, None) | Some (v, code) \<Rightarrow> (v, Some code))"

definition row_consistent :: "type_info_row \<Rightarrow> bool" where
  "row_consistent row \<longleftrightarrow>
     verbose_of_row row = verbose_type (ti_type row) \<and>
     (if is_numeric (ti_type row) then Some 10 else None) =
       (if ti_type row \<in> {REAL, DOUBLE} then Some 10 else ti_radix row) \<and>
     (ti_type row \<in> {REAL, DOUBLE} \<longrightarrow> ti_radix row = Some 2)"

lemma rows_consistent: "list_all row_consistent (trino_type_info catsz)"
proof -
  note defs = type_row_def row_defs row_consistent_def verbose_of_row_def verbose_type_def is_numeric_def
  have "list_all row_consistent (leading_rows catsz)" by (simp add: leading_rows_def defs)
  moreover have "list_all row_consistent (number_rows catsz)" by (simp add: number_rows_def defs)
  moreover have "list_all row_consistent (trailing_rows catsz)"
    by (simp add: trailing_rows_def defs Let_def)
  ultimately show ?thesis by (simp add: trino_type_info_def)
qed

lemma row_type_of_name:
  assumes "row \<in> set (trino_type_info catsz)"
    and "ti_name row = trino_bare_type_name native (trino_type_name_to_sql_type native)"
  shows "ti_type row = trino_type_name_to_sql_type native"
proof -
  have "(ti_name row, ti_type row) \<in> (\<lambda>r. (ti_name r, ti_type r)) ` set (trino_type_info catsz)"
    using assms(1) by blast
  then have row: "(ti_name row, ti_type row) \<in> set row_keys"
    using arg_cong [OF row_keys_of_rows, of set] by simp
  have own: "(ti_name row, trino_type_name_to_sql_type native) \<in> set row_keys"
    unfolding assms(2) by (rule bare_name_in_row_keys) (rule refl)
  show ?thesis using row_names_distinct row own by (metis eq_key_imp_eq_value)
qed


definition demo_column_row :: column_row where
  "demo_column_row =
     \<lparr>cr_catalog = None, cr_schema = None, cr_table = ''t'', cr_column = ''x'',
      cr_data_type = EXT_W_VARCHAR, cr_type_name = [], cr_column_size = None, cr_decimal_digits = None,
      cr_num_prec_radix = None, cr_nullable = SqlNullableUnknown, cr_column_def = None,
      cr_sql_data_type = EXT_W_VARCHAR, cr_sql_datetime_sub = None, cr_char_octet_length = None,
      cr_ordinal = 1, cr_is_nullable = SqlNullableUnknown\<rparr>"


end
