(* ===== verification/Capabilities.thy ===== *)
theory Capabilities
  imports Type_Info Connection Escape_Dialect "HOL-Library.Word"
begin

text \<open>
  What the driver declares of itself and of Trino (\<open>src/src/backend/info.rs\<close>, and the capability
  methods of \<open>src/src/backend.rs\<close>). The flags and codes are constants of the ODBC headers, which the
  core defines: a declaration is the list of the names it combines, and \<open>any_of\<close> gives the word
  for a reading of the names. The core's own answers, which it derives from the declarations, are
  the record \<open>info_ext\<close>.
\<close>

unbundle bit_operations_syntax

type_synonym flags = "string \<Rightarrow> 32 word"

definition any_of :: "flags \<Rightarrow> string list \<Rightarrow> 32 word" where
  "any_of k names = fold (\<lambda>n w. w OR k n) names 0"

section \<open>Bitmaps and lists\<close>

definition TRINO_ALTER_TABLE :: "string list" where
  "TRINO_ALTER_TABLE =
     [''SQL_AT_ADD_COLUMN_SINGLE'', ''SQL_AT_ADD_CONSTRAINT'', ''SQL_AT_DROP_COLUMN'']"

definition TRINO_OUTER_JOIN_CAPABILITIES :: "string list" where
  "TRINO_OUTER_JOIN_CAPABILITIES =
     [''SQL_OJ_LEFT'', ''SQL_OJ_RIGHT'', ''SQL_OJ_FULL'', ''SQL_OJ_NESTED'',
      ''SQL_OJ_NOT_ORDERED'', ''SQL_OJ_INNER'', ''SQL_OJ_ALL_COMPARISON_OPS'']"

definition TRINO_AGGREGATE_FUNCTIONS :: "string list" where
  "TRINO_AGGREGATE_FUNCTIONS =
     [''SQL_AF_AVG'', ''SQL_AF_COUNT'', ''SQL_AF_MAX'', ''SQL_AF_MIN'', ''SQL_AF_SUM'',
      ''SQL_AF_DISTINCT'', ''SQL_AF_ALL'']"

definition TRINO_SQL92_VALUE_EXPRESSIONS :: "string list" where
  "TRINO_SQL92_VALUE_EXPRESSIONS =
     [''SQL_SVE_CASE'', ''SQL_SVE_CAST'', ''SQL_SVE_COALESCE'', ''SQL_SVE_NULLIF'']"

definition TRINO_NUMERIC_FUNCTIONS :: "string list" where
  "TRINO_NUMERIC_FUNCTIONS =
     [''SQL_FN_NUM_ABS'', ''SQL_FN_NUM_ACOS'', ''SQL_FN_NUM_ASIN'', ''SQL_FN_NUM_ATAN'',
      ''SQL_FN_NUM_ATAN2'', ''SQL_FN_NUM_CEILING'', ''SQL_FN_NUM_COS'', ''SQL_FN_NUM_EXP'',
      ''SQL_FN_NUM_FLOOR'', ''SQL_FN_NUM_LOG'', ''SQL_FN_NUM_MOD'', ''SQL_FN_NUM_SIGN'',
      ''SQL_FN_NUM_SIN'', ''SQL_FN_NUM_SQRT'', ''SQL_FN_NUM_TAN'', ''SQL_FN_NUM_PI'',
      ''SQL_FN_NUM_RAND'', ''SQL_FN_NUM_DEGREES'', ''SQL_FN_NUM_LOG10'', ''SQL_FN_NUM_POWER'',
      ''SQL_FN_NUM_RADIANS'', ''SQL_FN_NUM_ROUND'', ''SQL_FN_NUM_TRUNCATE'']"

definition TRINO_STRING_FUNCTIONS :: "string list" where
  "TRINO_STRING_FUNCTIONS =
     [''SQL_FN_STR_CONCAT'', ''SQL_FN_STR_LTRIM'', ''SQL_FN_STR_LENGTH'', ''SQL_FN_STR_LCASE'',
      ''SQL_FN_STR_LOCATE_2'', ''SQL_FN_STR_POSITION'', ''SQL_FN_STR_REPLACE'',
      ''SQL_FN_STR_RTRIM'', ''SQL_FN_STR_SUBSTRING'', ''SQL_FN_STR_UCASE'',
      ''SQL_FN_STR_CHAR'', ''SQL_FN_STR_SOUNDEX'']"

definition TRINO_SYSTEM_FUNCTIONS :: "string list" where
  "TRINO_SYSTEM_FUNCTIONS =
     [''SQL_FN_SYS_USERNAME'', ''SQL_FN_SYS_DBNAME'', ''SQL_FN_SYS_IFNULL'']"

definition TRINO_TIMEDATE_FUNCTIONS :: "string list" where
  "TRINO_TIMEDATE_FUNCTIONS =
     [''SQL_FN_TD_NOW'', ''SQL_FN_TD_CURDATE'', ''SQL_FN_TD_CURTIME'',
      ''SQL_FN_TD_CURRENT_DATE'', ''SQL_FN_TD_CURRENT_TIME'', ''SQL_FN_TD_CURRENT_TIMESTAMP'',
      ''SQL_FN_TD_DAYOFMONTH'', ''SQL_FN_TD_DAYOFWEEK'', ''SQL_FN_TD_DAYOFYEAR'',
      ''SQL_FN_TD_MONTH'', ''SQL_FN_TD_QUARTER'', ''SQL_FN_TD_WEEK'', ''SQL_FN_TD_YEAR'',
      ''SQL_FN_TD_HOUR'', ''SQL_FN_TD_MINUTE'', ''SQL_FN_TD_SECOND'',
      ''SQL_FN_TD_TIMESTAMPADD'', ''SQL_FN_TD_TIMESTAMPDIFF'', ''SQL_FN_TD_EXTRACT'']"

definition TRINO_TIMESTAMP_INTERVALS :: "string list" where
  "TRINO_TIMESTAMP_INTERVALS =
     [''SQL_FN_TSI_SECOND'', ''SQL_FN_TSI_MINUTE'', ''SQL_FN_TSI_HOUR'', ''SQL_FN_TSI_DAY'',
      ''SQL_FN_TSI_WEEK'', ''SQL_FN_TSI_MONTH'', ''SQL_FN_TSI_QUARTER'', ''SQL_FN_TSI_YEAR'']"

definition TRINO_RESERVED_KEYWORDS :: "string list" where
  "TRINO_RESERVED_KEYWORDS =
     [''ALTER'', ''AND'', ''AS'', ''AUTO'', ''BETWEEN'', ''BY'', ''CASE'', ''CAST'',
      ''CONSTRAINT'', ''CREATE'', ''CROSS'', ''CUBE'', ''CURRENT_CATALOG'', ''CURRENT_DATE'',
      ''CURRENT_PATH'', ''CURRENT_ROLE'', ''CURRENT_SCHEMA'', ''CURRENT_TIME'',
      ''CURRENT_TIMESTAMP'', ''CURRENT_USER'', ''DEALLOCATE'', ''DELETE'', ''DESCRIBE'',
      ''DISTINCT'', ''DROP'', ''ELSE'', ''END'', ''ESCAPE'', ''EXCEPT'', ''EXISTS'',
      ''EXTRACT'', ''FALSE'', ''FOR'', ''FROM'', ''FULL'', ''GROUP'', ''GROUPING'', ''HAVING'',
      ''IN'', ''INNER'', ''INSERT'', ''INTERSECT'', ''INTO'', ''IS'', ''JOIN'', ''JSON_ARRAY'',
      ''JSON_EXISTS'', ''JSON_OBJECT'', ''JSON_QUERY'', ''JSON_TABLE'', ''JSON_VALUE'',
      ''LEFT'', ''LIKE'', ''LISTAGG'', ''LOCALTIME'', ''LOCALTIMESTAMP'', ''NATURAL'',
      ''NORMALIZE'', ''NOT'', ''NULL'', ''ON'', ''OR'', ''ORDER'', ''OUTER'', ''OVERLAPS'',
      ''PREPARE'', ''RECURSIVE'', ''RIGHT'', ''ROLLUP'', ''SELECT'', ''SKIP'', ''TABLE'',
      ''THEN'', ''TRIM'', ''TRUE'', ''UESCAPE'', ''UNION'', ''UNNEST'', ''USING'', ''VALUES'',
      ''WHEN'', ''WHERE'', ''WITH'']"

definition reserved_keywords :: "string list" where
  "reserved_keywords = TRINO_RESERVED_KEYWORDS"

definition TRINO_ADVERTISED_FUNCTIONS :: "string list" where
  "TRINO_ADVERTISED_FUNCTIONS =
     [''AllocHandle'', ''FreeHandle'', ''Connect'', ''DriverConnect'', ''Disconnect'',
      ''GetInfo'', ''GetFunctions'', ''GetDiagRec'', ''ExecDirect'', ''Prepare'', ''Execute'',
      ''Fetch'', ''GetData'', ''NumResultCols'', ''DescribeCol'', ''ColAttribute'',
      ''RowCount'', ''CloseCursor'', ''FreeStmt'', ''MoreResults'', ''Tables'', ''Columns'',
      ''GetTypeInfo'', ''SetEnvAttr'', ''GetEnvAttr'', ''SetConnectAttr'', ''GetConnectAttr'',
      ''SetStmtAttr'', ''GetStmtAttr'', ''GetDiagField'', ''BindCol'', ''Cancel'', ''EndTran'',
      ''FetchScroll'', ''ExtendedFetch'', ''BindParameter'', ''NativeSql'', ''NumParams'',
      ''PrimaryKeys'', ''ForeignKeys'', ''Statistics'', ''SpecialColumns'', ''Procedures'',
      ''ProcedureColumns'', ''GetCursorName'', ''SetCursorName'', ''ColumnPrivileges'',
      ''TablePrivileges'', ''DescribeParam'', ''ParamData'', ''PutData'', ''BrowseConnect'',
      ''BulkOperations'', ''SetPos'', ''GetDescField'', ''SetDescField'', ''GetDescRec'',
      ''SetDescRec'', ''CopyDesc'']"

definition TRINO_WITHHELD_FUNCTIONS :: "(string \<times> string) list" where
  "TRINO_WITHHELD_FUNCTIONS = []"

definition get_functions :: "string list" where
  "get_functions = TRINO_ADVERTISED_FUNCTIONS"

section \<open>Capabilities that depend on the release\<close>

definition TRINO_CORRESPONDING_SINCE :: int where "TRINO_CORRESPONDING_SINCE = 475"
definition TRINO_MATCH_AND_UNIQUE_SINCE :: int where "TRINO_MATCH_AND_UNIQUE_SINCE = 482"
definition TRINO_OVERLAPS_SINCE :: int where "TRINO_OVERLAPS_SINCE = 483"

definition sql92_predicates :: "flags \<Rightarrow> int \<Rightarrow> 32 word" where
  "sql92_predicates k server_major =
     (let p0 = any_of k [''SQL_SP_EXISTS'', ''SQL_SP_ISNOTNULL'', ''SQL_SP_ISNULL'', ''SQL_SP_LIKE'',
            ''SQL_SP_IN'', ''SQL_SP_BETWEEN'', ''SQL_SP_COMPARISON'', ''SQL_SP_QUANTIFIED_COMPARISON''];
          p1 = (if server_major \<ge> TRINO_MATCH_AND_UNIQUE_SINCE
            then p0 OR any_of k [''SQL_SP_MATCH_FULL'', ''SQL_SP_MATCH_PARTIAL'',
              ''SQL_SP_MATCH_UNIQUE_FULL'', ''SQL_SP_MATCH_UNIQUE_PARTIAL'', ''SQL_SP_UNIQUE'']
            else p0)
      in if server_major \<ge> TRINO_OVERLAPS_SINCE then p1 OR k ''SQL_SP_OVERLAPS'' else p1)"

definition sql92_join_operators :: "flags \<Rightarrow> int \<Rightarrow> 32 word" where
  "sql92_join_operators k server_major =
     (let ops = any_of k [''SQL_SRJO_CROSS_JOIN'', ''SQL_SRJO_EXCEPT_JOIN'',
            ''SQL_SRJO_FULL_OUTER_JOIN'', ''SQL_SRJO_INNER_JOIN'', ''SQL_SRJO_INTERSECT_JOIN'',
            ''SQL_SRJO_LEFT_OUTER_JOIN'', ''SQL_SRJO_RIGHT_OUTER_JOIN'']
      in if server_major \<ge> TRINO_CORRESPONDING_SINCE
         then ops OR k ''SQL_SRJO_CORRESPONDING_CLAUSE'' else ops)"

section \<open>Answers\<close>

text \<open>The info types the driver's arms name; any other is an \<open>OtherInfo\<close>.\<close>

datatype info_type =
    SchemaUsage | CatalogUsage | CatalogLocation | GetDataExtensions | MultResultSets
  | NeedLongDataLen | MaxRowSizeIncludesLong | DataSourceName | ServerName | UserName | DbmsVer
  | OtherInfo string

datatype info_value = InfoU32 "32 word" | InfoU16 "16 word" | InfoString string

record ('z, 'o) info_ext =
  ie_flag :: flags
  ie_u16 :: "string \<Rightarrow> 16 word"
  ie_code :: "string \<Rightarrow> int"
  ie_default :: "('z, 'o) conn option \<Rightarrow> info_type \<Rightarrow> info_value option"
  ie_common_raw :: "('z, 'o) conn \<Rightarrow> int \<Rightarrow> info_value option"
  ie_debug :: "info_type \<Rightarrow> string"

definition conn_string_of :: "('z, 'o) conn option \<Rightarrow> (('z, 'o) conn \<Rightarrow> string) \<Rightarrow> string" where
  "conn_string_of cn field = (case cn of None \<Rightarrow> [] | Some c \<Rightarrow> field c)"

text \<open>The arms of \<open>trino_get_info\<close>; \<open>None\<close> is the fall through to the core.\<close>

definition info_arm ::
    "('z, 'o) info_ext \<Rightarrow> ('z, 'o) conn option \<Rightarrow> info_type \<Rightarrow> info_value option" where
  "info_arm x cn t =
     (case t of
        SchemaUsage \<Rightarrow> Some (InfoU32 (any_of (ie_flag x) [''SQL_SU_DML_STATEMENTS'',
          ''SQL_SU_PROCEDURE_INVOCATION'', ''SQL_SU_TABLE_DEFINITION'', ''SQL_SU_PRIVILEGE_DEFINITION'']))
      | CatalogUsage \<Rightarrow> Some (InfoU32 (any_of (ie_flag x) [''SQL_CU_DML_STATEMENTS'',
          ''SQL_CU_PROCEDURE_INVOCATION'', ''SQL_CU_TABLE_DEFINITION'', ''SQL_CU_PRIVILEGE_DEFINITION'']))
      | CatalogLocation \<Rightarrow> Some (InfoU16 (ie_u16 x ''SQL_CL_START''))
      | GetDataExtensions \<Rightarrow> Some (InfoU32 (any_of (ie_flag x) [''SQL_GD_ANY_COLUMN'',
          ''SQL_GD_ANY_ORDER'', ''SQL_GD_BOUND'']))
      | MultResultSets \<Rightarrow> Some (InfoString ''N'')
      | NeedLongDataLen \<Rightarrow> Some (InfoString ''N'')
      | MaxRowSizeIncludesLong \<Rightarrow> Some (InfoString ''N'')
      | DataSourceName \<Rightarrow> Some (InfoString (conn_string_of cn cn_data_source_name))
      | ServerName \<Rightarrow> Some (InfoString (conn_string_of cn cn_server_name))
      | UserName \<Rightarrow> Some (InfoString (conn_string_of cn cn_user_name))
      | DbmsVer \<Rightarrow> None
      | OtherInfo n \<Rightarrow> None)"

definition trino_get_info ::
    "('z, 'o) info_ext \<Rightarrow> ('z, 'o) conn option \<Rightarrow> info_type \<Rightarrow> trino_error + info_value" where
  "trino_get_info x cn t =
     (case info_arm x cn t of
        Some v \<Rightarrow> Inr v
      | None \<Rightarrow>
          ok_or (NotImplemented (''get_info('' @ ie_debug x t @ '')'')) (ie_default x cn t))"

definition get_info ::
    "('z, 'o) info_ext \<Rightarrow> ('z, 'o) conn \<Rightarrow> info_type \<Rightarrow> trino_error + info_value" where
  "get_info x cn t = trino_get_info x (Some cn) t"

definition get_info_pre_connect ::
    "('z, 'o) info_ext \<Rightarrow> info_type \<Rightarrow> trino_error + info_value" where
  "get_info_pre_connect x t =
     (if t = DbmsVer then Inr (InfoString []) else trino_get_info x None t)"

text \<open>\<open>get_info_raw\<close>, on the codes without a variant; it always answers without an error.\<close>

definition get_info_raw ::
    "('z, 'o) info_ext \<Rightarrow> ('z, 'o) conn \<Rightarrow> int \<Rightarrow> (trino_error + info_value) option" where
  "get_info_raw x cn code =
     (let k = ie_flag x; is_code = (\<lambda>n. code = ie_code x n) in
      if is_code ''SQL_AGGREGATE_FUNCTIONS'' then Some (Inr (InfoU32 (any_of k TRINO_AGGREGATE_FUNCTIONS)))
      else if is_code ''SQL_SQL92_PREDICATES''
      then Some (Inr (InfoU32 (sql92_predicates k (cn_server_major cn))))
      else if is_code ''SQL_SQL92_RELATIONAL_JOIN_OPERATORS''
      then Some (Inr (InfoU32 (sql92_join_operators k (cn_server_major cn))))
      else if is_code ''SQL_SQL92_VALUE_EXPRESSIONS''
      then Some (Inr (InfoU32 (any_of k TRINO_SQL92_VALUE_EXPRESSIONS)))
      else if is_code ''SQL_NUMERIC_FUNCTIONS'' then Some (Inr (InfoU32 (any_of k TRINO_NUMERIC_FUNCTIONS)))
      else if is_code ''SQL_STRING_FUNCTIONS'' then Some (Inr (InfoU32 (any_of k TRINO_STRING_FUNCTIONS)))
      else if is_code ''SQL_SYSTEM_FUNCTIONS'' then Some (Inr (InfoU32 (any_of k TRINO_SYSTEM_FUNCTIONS)))
      else if is_code ''SQL_TIMEDATE_FUNCTIONS'' then Some (Inr (InfoU32 (any_of k TRINO_TIMEDATE_FUNCTIONS)))
      else if is_code ''SQL_LIKE_ESCAPE_CLAUSE'' then Some (Inr (InfoString ''Y''))
      else if is_code ''SQL_OUTER_JOINS'' then Some (Inr (InfoString ''Y''))
      else map_option Inr (ie_common_raw x cn code))"

section \<open>The capability methods\<close>

text \<open>Facts and single values; a value is the name of its constant.\<close>

definition supports_catalogs :: bool where "supports_catalogs = True"
definition supports_schemas :: bool where "supports_schemas = True"
definition expressions_in_order_by :: bool where "expressions_in_order_by = True"
definition column_alias :: bool where "column_alias = True"
definition order_by_columns_in_select :: bool where "order_by_columns_in_select = False"
definition accessible_tables :: bool where "accessible_tables = False"
definition accessible_procedures :: bool where "accessible_procedures = False"
definition integrity :: bool where "integrity = False"
definition data_source_read_only :: bool where "data_source_read_only = False"
definition multiple_active_txn :: bool where "multiple_active_txn = True"
definition group_by :: string where "group_by = ''SQL_GB_GROUP_BY_CONTAINS_SELECT''"
definition null_collation :: string where "null_collation = ''SQL_NC_END''"
definition correlation_name :: string where "correlation_name = ''SQL_CN_ANY''"
definition identifier_case :: string where "identifier_case = ''SQL_IC_LOWER''"
definition quoted_identifier_case :: string where "quoted_identifier_case = ''SQL_IC_LOWER''"
definition non_nullable_columns :: string where "non_nullable_columns = ''SQL_NNC_NON_NULL''"
definition concat_null_behavior :: string where "concat_null_behavior = ''SQL_CB_NULL''"
definition txn_capable :: string where "txn_capable = ''SQL_TC_DML''"
definition default_txn_isolation :: string where "default_txn_isolation = ''SQL_TXN_READ_UNCOMMITTED''"

text \<open>Combinations of flags, the empty one being zero.\<close>

definition alter_table_support :: "string list" where "alter_table_support = TRINO_ALTER_TABLE"
definition outer_join_capabilities :: "string list" where "outer_join_capabilities = TRINO_OUTER_JOIN_CAPABILITIES"
definition sql_conformance :: "string list" where "sql_conformance = []"
definition timedate_add_intervals :: "string list" where "timedate_add_intervals = TRINO_TIMESTAMP_INTERVALS"
definition timedate_diff_intervals :: "string list" where "timedate_diff_intervals = TRINO_TIMESTAMP_INTERVALS"
definition subqueries :: "string list" where
  "subqueries =
    [''SQL_SQ_COMPARISON'', ''SQL_SQ_EXISTS'', ''SQL_SQ_IN'', ''SQL_SQ_QUANTIFIED'',
     ''SQL_SQ_CORRELATED_SUBQUERIES'']"
definition union_support :: "string list" where "union_support = [''SQL_U_UNION'', ''SQL_U_UNION_ALL'']"
definition convert_functions :: "string list" where "convert_functions = [''SQL_FN_CVT_CAST'']"
definition txn_isolation_options :: "string list" where "txn_isolation_options = [''SQL_TXN_READ_UNCOMMITTED'']"

definition special_characters :: string where "special_characters = []"
definition search_pattern_escape :: string where "search_pattern_escape = [bsl]"

datatype cursor_behavior = CursorDelete | CursorClose | CursorPreserve

definition cursor_commit_behavior :: cursor_behavior where "cursor_commit_behavior = CursorClose"
definition cursor_rollback_behavior :: cursor_behavior where "cursor_rollback_behavior = CursorClose"

definition browse_connect_attrs :: "string list" where
  "browse_connect_attrs = [''host'', ''port'', ''user'']"

definition sensitive_connect_keywords :: "string list" where
  "sensitive_connect_keywords =
     [PARAM_PROXY_PASSWORD, PARAM_ACCESS_TOKEN, PARAM_TOKEN, PARAM_EXTRA_CREDENTIALS,
      PARAM_EXTRA_HEADERS]"

datatype query_timeout = CoreCancels

definition set_query_timeout :: "nat \<Rightarrow> trino_error + query_timeout" where
  "set_query_timeout seconds = Inr CoreCancels"

end
