(* ===== verification/Declarations.thy ===== *)
theory Declarations
  imports Capabilities Catalog_Patterns
begin

text \<open>
  What the declarations promise, against the code that keeps the promise: the capabilities of a
  release, the intervals and functions the escape dialect translates, the escape character of the
  catalog filters, and the keywords whose values are secrets.
\<close>

section \<open>Combinations of flags\<close>

lemma fold_or: "fold (\<lambda>n w. w OR k n) ns w = w OR fold (\<lambda>n w. w OR k n) ns (0 :: 32 word)"
proof (induction ns arbitrary: w)
  case (Cons n ns)
  show ?case
    using Cons.IH [of "w OR k n"] Cons.IH [of "0 OR k n"] by (simp add: or.assoc)
qed simp

lemma any_of_simps [simp]:
  "any_of k [] = 0" "any_of k (n # ns) = k n OR any_of k ns"
  using fold_or [of k ns "k n"] by (simp_all add: any_of_def)

lemma any_of_disjoint: "(\<And>n. n \<in> set ns \<Longrightarrow> k n AND w = 0) \<Longrightarrow> any_of k ns AND w = 0"
  by (induction ns) (simp_all add: bit.conj_disj_distrib2)

lemma bit_any_of: "bit (any_of k ns) i \<longleftrightarrow> (\<exists>n \<in> set ns. bit (k n) i)"
  by (induction ns) (simp_all add: bit_or_iff)

lemma any_of_member: "n \<in> set ns \<Longrightarrow> any_of k ns AND k n = k n"
  by (rule bit_eqI) (auto simp: bit_and_iff bit_any_of)

section \<open>Capabilities by release\<close>

text \<open>Names that read as disjoint flags, as the names of one bitmap do in the ODBC headers.\<close>

definition disjoint_flags :: "flags \<Rightarrow> string list \<Rightarrow> bool" where
  "disjoint_flags k ns \<longleftrightarrow> (\<forall>n \<in> set ns. \<forall>m \<in> set ns. n \<noteq> m \<longrightarrow> k n AND k m = 0)"

definition basic_predicates :: "string list" where
  "basic_predicates = [''SQL_SP_EXISTS'', ''SQL_SP_ISNOTNULL'', ''SQL_SP_ISNULL'', ''SQL_SP_LIKE'',
     ''SQL_SP_IN'', ''SQL_SP_BETWEEN'', ''SQL_SP_COMPARISON'', ''SQL_SP_QUANTIFIED_COMPARISON'']"

definition match_predicates :: "string list" where
  "match_predicates = [''SQL_SP_MATCH_FULL'', ''SQL_SP_MATCH_PARTIAL'',
     ''SQL_SP_MATCH_UNIQUE_FULL'', ''SQL_SP_MATCH_UNIQUE_PARTIAL'', ''SQL_SP_UNIQUE'']"

definition predicate_names :: "string list" where
  "predicate_names = basic_predicates @ match_predicates @ [''SQL_SP_OVERLAPS'']"

lemma any_of_append: "any_of k (ms @ ns) = any_of k ms OR any_of k ns"
  by (induction ms) (simp_all add: or.assoc)

lemma sql92_predicates_eq:
  "sql92_predicates k v = any_of k (basic_predicates @
     (if 482 \<le> v then match_predicates else []) @ (if 483 \<le> v then [''SQL_SP_OVERLAPS''] else []))"
  unfolding sql92_predicates_def TRINO_MATCH_AND_UNIQUE_SINCE_def TRINO_OVERLAPS_SINCE_def Let_def
    basic_predicates_def [symmetric] match_predicates_def [symmetric]
  by (simp add: any_of_append or.assoc)

lemma flag_reported:
  assumes "disjoint_flags k names" and "set ns \<subseteq> set names" and "n \<in> set names"
  shows "any_of k ns AND k n = (if n \<in> set ns then k n else 0)"
proof (cases "n \<in> set ns")
  case True
  then show ?thesis by (simp only: if_True any_of_member [OF True])
next
  case False
  have "k m AND k n = 0" if "m \<in> set ns" for m
  proof -
    have "m \<in> set names" and "m \<noteq> n" using that assms(2) False by auto
    with assms(1,3) show ?thesis by (simp add: disjoint_flags_def)
  qed
  then have "any_of k ns AND k n = 0" by (rule any_of_disjoint)
  with False show ?thesis by simp
qed

text \<open>
  The SQL-92 predicates reported follow the release of the coordinator. The eight basic ones are
  always reported; \<open>MATCH\<close> and \<open>UNIQUE\<close> from release 482 and \<open>OVERLAPS\<close> from 483 on, and never
  before, so that a coordinator whose release could not be read (release 0) gets none of them; and a
  later release never loses a predicate.
\<close>

theorem predicates_by_release:
  assumes "disjoint_flags k predicate_names" and "n \<in> set predicate_names"
  shows "sql92_predicates k v AND k n =
      (if n = ''SQL_SP_OVERLAPS'' then (if 483 \<le> v then k n else 0)
       else if n \<in> set match_predicates then (if 482 \<le> v then k n else 0) else k n) \<and>
    sql92_predicates k v OR sql92_predicates k (v + int d) = sql92_predicates k (v + int d)"
proof
  let ?ns = "basic_predicates @ (if 482 \<le> v then match_predicates else []) @
    (if 483 \<le> v then [''SQL_SP_OVERLAPS''] else [])"
  have "set ?ns \<subseteq> set predicate_names" by (auto simp: predicate_names_def)
  then have "sql92_predicates k v AND k n = (if n \<in> set ?ns then k n else 0)"
    unfolding sql92_predicates_eq using assms by (intro flag_reported)
  moreover have "''SQL_SP_OVERLAPS'' \<notin> set basic_predicates" "''SQL_SP_OVERLAPS'' \<notin> set match_predicates"
      "set basic_predicates \<inter> set match_predicates = {}"
    by (simp_all add: basic_predicates_def match_predicates_def)
  ultimately show "sql92_predicates k v AND k n =
      (if n = ''SQL_SP_OVERLAPS'' then (if 483 \<le> v then k n else 0)
       else if n \<in> set match_predicates then (if 482 \<le> v then k n else 0) else k n)"
    using assms(2) by (auto simp: predicate_names_def)
  show "sql92_predicates k v OR sql92_predicates k (v + int d) = sql92_predicates k (v + int d)"
    unfolding sql92_predicates_eq by (rule bit_eqI) (auto simp: bit_or_iff bit_any_of)
qed

definition demo_flags :: flags where
  "demo_flags n = (if n = ''SQL_SP_OVERLAPS'' then 1 else if n = ''SQL_SP_UNIQUE'' then 2 else 0)"

theorem predicates_by_release_witness:
  "sql92_predicates demo_flags 482 AND demo_flags ''SQL_SP_OVERLAPS'' = 0 \<and>
   demo_flags ''SQL_SP_OVERLAPS'' = 1"
proof -
  have "disjoint_flags demo_flags predicate_names"
    by (auto simp: disjoint_flags_def demo_flags_def)
  moreover have "''SQL_SP_OVERLAPS'' \<in> set predicate_names" by (simp add: predicate_names_def)
  ultimately show ?thesis
    using predicates_by_release [of demo_flags "''SQL_SP_OVERLAPS''" 482 0]
    by (simp add: demo_flags_def)
qed

section \<open>Intervals, functions and the escape character\<close>

text \<open>The advertised functions that Trino spells otherwise, each with arguments it is called with.\<close>

definition translated_functions :: "(string \<times> string \<times> string) list" where
  "translated_functions =
     [(''SQL_FN_STR_LOCATE_2'', ''LOCATE'', ''x, y''), (''SQL_FN_STR_LENGTH'', ''LENGTH'', ''x''),
      (''SQL_FN_STR_LTRIM'', ''LTRIM'', ''x''), (''SQL_FN_STR_RTRIM'', ''RTRIM'', ''x''),
      (''SQL_FN_SYS_USERNAME'', ''USERNAME'', []), (''SQL_FN_SYS_DBNAME'', ''DBNAME'', []),
      (''SQL_FN_TD_CURDATE'', ''CURDATE'', []), (''SQL_FN_TD_CURTIME'', ''CURTIME'', []),
      (''SQL_FN_TD_CURRENT_DATE'', ''CURRENT_DATE'', []),
      (''SQL_FN_TD_CURRENT_TIME'', ''CURRENT_TIME'', []),
      (''SQL_FN_TD_CURRENT_TIMESTAMP'', ''CURRENT_TIMESTAMP'', []),
      (''SQL_FN_TD_TIMESTAMPADD'', ''TIMESTAMPADD'', ''SQL_TSI_DAY, x, y''),
      (''SQL_FN_TD_TIMESTAMPDIFF'', ''TIMESTAMPDIFF'', ''SQL_TSI_DAY, x, y''),
      (''SQL_FN_TD_DAYOFWEEK'', ''DAYOFWEEK'', ''x''), (''SQL_FN_NUM_TRUNCATE'', ''TRUNCATE'', ''x, 2'')]"

definition renamed_functions :: "(string \<times> string) list" where
  "renamed_functions =
     [(''SQL_FN_STR_UCASE'', ''UCASE''), (''SQL_FN_STR_LCASE'', ''LCASE''), (''SQL_FN_STR_CHAR'', ''CHAR''),
      (''SQL_FN_NUM_LOG'', ''LOG''), (''SQL_FN_SYS_IFNULL'', ''IFNULL''),
      (''SQL_FN_TD_DAYOFMONTH'', ''DAYOFMONTH''), (''SQL_FN_TD_DAYOFYEAR'', ''DAYOFYEAR'')]"

definition advertised_scalars :: "string list" where
  "advertised_scalars =
     TRINO_NUMERIC_FUNCTIONS @ TRINO_STRING_FUNCTIONS @ TRINO_SYSTEM_FUNCTIONS @ TRINO_TIMEDATE_FUNCTIONS"

definition interval_suffixes :: "string list" where
  "interval_suffixes = [''SECOND'', ''MINUTE'', ''HOUR'', ''DAY'', ''WEEK'', ''MONTH'', ''QUARTER'', ''YEAR'']"

lemma interval_unit_known:
  "trino_interval_unit keyword \<noteq> None \<longleftrightarrow>
     to_ascii_uppercase (trim keyword) \<in> (\<lambda>u. ''SQL_TSI_'' @ u) ` set interval_suffixes"
  by (simp add: trino_interval_unit_def lookup_str_def interval_suffixes_def)

lemma intervals_advertised:
  "set TRINO_TIMESTAMP_INTERVALS = (\<lambda>u. ''SQL_FN_TSI_'' @ u) ` set interval_suffixes"
  by (simp add: TRINO_TIMESTAMP_INTERVALS_def interval_suffixes_def)

lemma interval_iff:
  "trino_interval_unit keyword \<noteq> None \<longleftrightarrow>
     (\<exists>u. to_ascii_uppercase (trim keyword) = ''SQL_TSI_'' @ u \<and>
        ''SQL_FN_TSI_'' @ u \<in> set TRINO_TIMESTAMP_INTERVALS)"
  unfolding interval_unit_known intervals_advertised image_iff by auto

lemma eval_split_args:
  "split_args [] = [[]]" "split_args ''x'' = [''x'']" "split_args ''x, y'' = [''x'', ''y'']"
  "split_args ''x, 2'' = [''x'', ''2'']"
  "split_args ''SQL_TSI_DAY, x, y'' = [''SQL_TSI_DAY'', ''x'', ''y'']"
  by (simp_all add: split_args_def split_raw.simps split_turn_def next_is_def Let_def trim_def
      trim_start_def trim_end_def str_simps)

lemma translations_total:
  "list_all (\<lambda>(flag, nm, args). rewrite_scalar_fn nm args \<noteq> None) translated_functions"
  by (simp add: translated_functions_def rewrite_scalar_fn_def rewrite_upper_def eval_split_args
      trim_def trim_start_def trim_end_def str_simps trino_interval_unit_def lookup_str_def)

lemma renamings_total:
  "list_all (\<lambda>(flag, nm). remap_scalar_fn nm \<noteq> None) renamed_functions"
  by (simp add: renamed_functions_def remap_scalar_fn_def remap_upper_def lookup_str_def str_simps)

lemma translated_advertised:
  "list_all (\<lambda>(flag, nm, args). flag \<in> set advertised_scalars) translated_functions"
  "list_all (\<lambda>(flag, nm). flag \<in> set advertised_scalars) renamed_functions"
  by (simp_all add: translated_functions_def renamed_functions_def advertised_scalars_def
      TRINO_NUMERIC_FUNCTIONS_def TRINO_STRING_FUNCTIONS_def TRINO_SYSTEM_FUNCTIONS_def
      TRINO_TIMEDATE_FUNCTIONS_def)


section \<open>Secrets of the connection string\<close>

text \<open>Two connection strings that differ in the passwords and tokens only.\<close>

definition same_but_secrets :: "conn_string \<Rightarrow> conn_string \<Rightarrow> bool" where
  "same_but_secrets ps ps' \<longleftrightarrow>
     cs_user ps' = cs_user ps \<and>
     (\<forall>k. k \<notin> set sensitive_connect_keywords \<longrightarrow> get_param ps' k = get_param ps k)"

lemma open_keys:
  assumes "same_but_secrets ps ps'"
  shows "get_param ps' PARAM_HOST = get_param ps PARAM_HOST"
    "get_param ps' PARAM_PORT = get_param ps PARAM_PORT"
    "get_param ps' PARAM_PROTOCOL = get_param ps PARAM_PROTOCOL"
    "get_param ps' PARAM_TLS_VERIFY = get_param ps PARAM_TLS_VERIFY"
    "get_param ps' PARAM_SSL_VERIFICATION = get_param ps PARAM_SSL_VERIFICATION"
    "get_param ps' PARAM_CERTIFICATE = get_param ps PARAM_CERTIFICATE"
    "get_param ps' PARAM_CLIENT_CERTIFICATE = get_param ps PARAM_CLIENT_CERTIFICATE"
    "get_param ps' PARAM_QUERY_TIMEOUT = get_param ps PARAM_QUERY_TIMEOUT"
    "get_param ps' PARAM_LOGIN_TIMEOUT = get_param ps PARAM_LOGIN_TIMEOUT"
    "get_param ps' PARAM_CATALOG = get_param ps PARAM_CATALOG"
    "get_param ps' PARAM_SCHEMA = get_param ps PARAM_SCHEMA"
    "get_param ps' PARAM_SOURCE = get_param ps PARAM_SOURCE"
    "get_param ps' PARAM_CLIENT_TAGS = get_param ps PARAM_CLIENT_TAGS"
    "get_param ps' PARAM_SESSION_PROPERTIES = get_param ps PARAM_SESSION_PROPERTIES"
    "get_param ps' PARAM_RESOURCE_ESTIMATES = get_param ps PARAM_RESOURCE_ESTIMATES"
    "get_param ps' PARAM_PATH = get_param ps PARAM_PATH"
    "get_param ps' PARAM_CLIENT_INFO = get_param ps PARAM_CLIENT_INFO"
    "get_param ps' PARAM_TRACE_TOKEN = get_param ps PARAM_TRACE_TOKEN"
    "get_param ps' PARAM_PROXY = get_param ps PARAM_PROXY"
    "get_param ps' PARAM_PROXY_USER = get_param ps PARAM_PROXY_USER"
    "get_param ps' PARAM_CLIENT_CAPABILITIES = get_param ps PARAM_CLIENT_CAPABILITIES"
    "get_param ps' PARAM_TIME_ZONE = get_param ps PARAM_TIME_ZONE"
    "get_param ps' PARAM_ROLES = get_param ps PARAM_ROLES"
    "get_param ps' PARAM_SESSION_USER = get_param ps PARAM_SESSION_USER"
    "get_param ps' PARAM_LOCALE = get_param ps PARAM_LOCALE"
    "get_param ps' PARAM_DISABLE_COMPRESSION = get_param ps PARAM_DISABLE_COMPRESSION"
    "get_param ps' PARAM_MAX_ATTEMPTS = get_param ps PARAM_MAX_ATTEMPTS"
    "get_param ps' PARAM_ENCODING = get_param ps PARAM_ENCODING"
    "get_param ps' PARAM_EXTERNAL_AUTHENTICATION = get_param ps PARAM_EXTERNAL_AUTHENTICATION"
    "get_param ps' PARAM_EXTERNAL_AUTH_TIMEOUT = get_param ps PARAM_EXTERNAL_AUTH_TIMEOUT"
  using assms
  by (simp_all add: same_but_secrets_def sensitive_connect_keywords_def param_keys
      PARAM_TOKEN_def PARAM_ACCESS_TOKEN_def PARAM_CATALOG_def PARAM_SCHEMA_def PARAM_CLIENT_TAGS_def
      PARAM_PATH_def PARAM_CLIENT_INFO_def PARAM_TRACE_TOKEN_def PARAM_CLIENT_CAPABILITIES_def
      PARAM_SESSION_USER_def PARAM_LOCALE_def)

lemma open_reads:
  assumes "same_but_secrets ps ps'"
  shows "required ps' PARAM_HOST = required ps PARAM_HOST"
    "required ps' PARAM_PORT = required ps PARAM_PORT"
    "read_bool ps' PARAM_EXTERNAL_AUTHENTICATION = read_bool ps PARAM_EXTERNAL_AUTHENTICATION"
    "read_bool ps' PARAM_DISABLE_COMPRESSION = read_bool ps PARAM_DISABLE_COMPRESSION"
    "read_user ps' ext = read_user ps ext" "read_secure ps' = read_secure ps"
    "read_pairs ps' PARAM_SESSION_PROPERTIES = read_pairs ps PARAM_SESSION_PROPERTIES"
    "read_pairs ps' PARAM_RESOURCE_ESTIMATES = read_pairs ps PARAM_RESOURCE_ESTIMATES"
    "read_pairs ps' PARAM_ROLES = read_pairs ps PARAM_ROLES"
    "read_proxy ps' = read_proxy ps" "read_time_zone x ps' = read_time_zone x ps"
    "read_encoding x ps' = read_encoding x ps" "read_external_timeout ps' = read_external_timeout ps"
    "read_max_attempts ps' = read_max_attempts ps" "read_query_timeout ps' = read_query_timeout ps"
    "read_source ps' = read_source ps"
  using assms
  by (simp_all add: open_keys [OF assms] required_def read_bool_def read_user_def read_secure_def
      read_pairs_def read_proxy_def read_time_zone_def read_encoding_def read_external_timeout_def
      read_max_attempts_def read_query_timeout_def timeout_key_def read_source_def opt_or_def
      same_but_secrets_def)





end
