(* ===== verification/Dsn_Setup.thy ===== *)
theory Dsn_Setup
  imports Conn_Params
begin

text \<open>
  The set-up dialog of a data source (\<open>src/src/backend/setup.rs\<close>) and the presentation of a login
  URL (\<open>src/src/backend/prompt.rs\<close>). The calls of the operating system and of the standard library's
  paths and processes are the record \<open>dialog_os\<close>, the JSON codec of the exchange is \<open>dialog_json\<close>;
  what the driver decides, in which order it calls them and what each failure becomes is code.
\<close>

section \<open>The verdict of a dialog\<close>

datatype config_request = Add | Config | Remove

datatype setup_error = RequestFailed string

record dialog_json =
  js_encode :: "string_map \<Rightarrow> string + string"
  js_decode :: "string \<Rightarrow> string + string_map"

definition DIALOG_SCRIPT :: string where "DIALOG_SCRIPT = ''configure-dsn.ps1''"
definition EXIT_ACCEPTED :: int where "EXIT_ACCEPTED = 0"
definition EXIT_CANCELLED :: int where "EXIT_CANCELLED = 2"

definition dialog_needed :: "bool \<Rightarrow> config_request \<Rightarrow> bool" where
  "dialog_needed hwnd_is_null request =
     (if hwnd_is_null then False
      else case request of Add \<Rightarrow> True | Config \<Rightarrow> True | Remove \<Rightarrow> False)"

definition encode_attributes :: "dialog_json \<Rightarrow> string_map \<Rightarrow> setup_error + string" where
  "encode_attributes j attributes =
     (case js_encode j attributes of
        Inr t \<Rightarrow> Inr t
      | Inl e \<Rightarrow> Inl (RequestFailed (''could not encode the data source'' @ sq #
          ''s keywords for the setup dialog: '' @ e)))"

definition interpret_outcome ::
    "dialog_json \<Rightarrow> int option \<Rightarrow> string \<Rightarrow> string \<Rightarrow> setup_error + string_map option" where
  "interpret_outcome j code stdout stderr =
     (if code = Some EXIT_ACCEPTED then
        (case js_decode j (trim stdout) of
           Inl e \<Rightarrow> Inl (RequestFailed
             (''the setup dialog returned something that is not a keyword list: '' @ e))
         | Inr attrs \<Rightarrow> Inr (Some attrs))
      else if code = Some EXIT_CANCELLED then Inr None
      else
        (let detail = trim stderr;
             detail = (if detail = [] then ''it reported no reason'' else detail);
             how = (case code of
                      Some c \<Rightarrow> ''exited with code '' @ show_int c
                    | None \<Rightarrow> ''was terminated by a signal'')
         in Inl (RequestFailed (''the setup dialog '' @ how @ '': '' @ detail))))"

section \<open>Running the dialog\<close>

text \<open>
  \<open>'m\<close> is a module handle, \<open>'p\<close> a child process, \<open>'w\<close> the world they act on.
  \<open>os_file_name m n\<close> is the answer of \<open>GetModuleFileNameW\<close> for a buffer of \<open>n\<close> characters: the
  length it returns and what it leaves in the buffer.
\<close>

record ('w, 'm, 'p) dialog_os =
  os_module :: "'m option"
  os_file_name :: "'m \<Rightarrow> nat \<Rightarrow> nat \<times> string"
  os_parent :: "string \<Rightarrow> string option"
  os_join :: "string \<Rightarrow> string \<Rightarrow> string"
  os_is_file :: "string \<Rightarrow> bool"
  os_spawn :: "string \<Rightarrow> string list \<Rightarrow> 'w \<Rightarrow> (string + 'p) \<times> 'w"
  os_has_stdin :: "'p \<Rightarrow> bool"
  os_write :: "'p \<Rightarrow> string \<Rightarrow> 'w \<Rightarrow> (string + unit) \<times> 'w"
  os_close_stdin :: "'p \<Rightarrow> 'w \<Rightarrow> 'w"
  os_wait :: "'p \<Rightarrow> 'w \<Rightarrow> (string + int option \<times> string \<times> string) \<times> 'w"
  os_lossy :: "string \<Rightarrow> string"

text \<open>The buffer doubles until the name fits; its size is passed as a \<open>u32\<close>.\<close>

partial_function (option) module_file_name ::
    "('w, 'm, 'p) dialog_os \<Rightarrow> 'm \<Rightarrow> nat \<Rightarrow> (setup_error + string) option" where
  "module_file_name os module n =
     (let (len, buf) = os_file_name os module (n mod 2 ^ 32) in
      if len = 0
      then Some (Inl (RequestFailed (''could not read the driver DLL'' @ sq # ''s own path'')))
      else if len < n then Some (Inr (take len buf))
      else module_file_name os module (n * 2))"

definition driver_directory :: "('w, 'm, 'p) dialog_os \<Rightarrow> (setup_error + string) option" where
  "driver_directory os =
     (case os_module os of
        None \<Rightarrow> Some (Inl (RequestFailed (''could not identify the driver DLL'' @ sq # ''s own module'')))
      | Some module \<Rightarrow>
          (case module_file_name os module 260 of
             None \<Rightarrow> None
           | Some (Inl e) \<Rightarrow> Some (Inl e)
           | Some (Inr path) \<Rightarrow>
               Some (ok_or (RequestFailed (''the driver DLL'' @ sq # ''s path has no directory: '' @ path))
                 (os_parent os path))))"

definition missing_script :: "string \<Rightarrow> setup_error" where
  "missing_script script =
     RequestFailed (''the setup dialog '' @ DIALOG_SCRIPT @ '' was not found beside the driver '' @
       ''(looked for '' @ script @ ''). Reinstall with install.bat, which places both together.'')"

text \<open>
  The pipe of the dialog's input is closed when its scope ends, before the wait, and also when
  writing to it fails.
\<close>

definition run_dialog ::
    "('w, 'm, 'p) dialog_os \<Rightarrow> string \<Rightarrow> 'w
       \<Rightarrow> ((setup_error + int option \<times> string \<times> string) \<times> 'w) option" where
  "run_dialog os payload w =
     (case driver_directory os of
        None \<Rightarrow> None
      | Some (Inl e) \<Rightarrow> Some (Inl e, w)
      | Some (Inr dir) \<Rightarrow>
          (let script = os_join os dir DIALOG_SCRIPT in
           if \<not> os_is_file os script then Some (Inl (missing_script script), w)
           else case os_spawn os ''powershell.exe''
               [''-NoProfile'', ''-ExecutionPolicy'', ''Bypass'', ''-File'', script, ''-Emit''] w of
             (Inl e, w1) \<Rightarrow> Some (Inl (RequestFailed (''could not run the setup dialog: '' @ e)), w1)
           | (Inr child, w1) \<Rightarrow>
               if \<not> os_has_stdin os child
               then Some (Inl (RequestFailed (''the setup dialog'' @ sq # ''s stdin was not available'')), w1)
               else case os_write os child payload w1 of
                 (Inl e, w2) \<Rightarrow>
                   Some (Inl (RequestFailed (''could not send the data source'' @ sq #
                     ''s keywords to the setup dialog: '' @ e)), os_close_stdin os child w2)
               | (Inr _, w2) \<Rightarrow>
                   (case os_wait os child (os_close_stdin os child w2) of
                      (Inl e, w3) \<Rightarrow>
                        Some (Inl (RequestFailed (''the setup dialog could not be waited on: '' @ e)), w3)
                    | (Inr (code, out, err), w3) \<Rightarrow>
                        Some (Inr (code, os_lossy os out, os_lossy os err), w3))))"

text \<open>\<open>windows\<close> is the platform the driver was built for.\<close>

definition configure_dsn ::
    "bool \<Rightarrow> dialog_json \<Rightarrow> ('w, 'm, 'p) dialog_os \<Rightarrow> bool \<Rightarrow> config_request \<Rightarrow> string_map \<Rightarrow> 'w
       \<Rightarrow> ((setup_error + string_map option) \<times> 'w) option" where
  "configure_dsn windows j os hwnd_is_null request attributes w =
     (if \<not> dialog_needed hwnd_is_null request then Some (Inr (Some attributes), w)
      else if windows then
        (case encode_attributes j attributes of
           Inl e \<Rightarrow> Some (Inl e, w)
         | Inr payload \<Rightarrow>
             (case run_dialog os payload w of
                None \<Rightarrow> None
              | Some (Inl e, w1) \<Rightarrow> Some (Inl e, w1)
              | Some (Inr (code, out, err), w1) \<Rightarrow> Some (interpret_outcome j code out err, w1)))
      else Some (Inr (Some attributes), w))"

section \<open>Presenting a login URL\<close>

text \<open>
  A prompter presents a URL in a world; \<open>log\<close> writes the log and \<open>open_that\<close> starts a browser. The
  text of the core's error is the parameter \<open>display\<close>.
\<close>

type_synonym 'w prompter = "string \<Rightarrow> 'w \<Rightarrow> (odbc_error + unit) \<times> 'w"

definition browser_present_url ::
    "(string \<Rightarrow> 'w \<Rightarrow> 'w) \<Rightarrow> (string \<Rightarrow> 'w \<Rightarrow> (string + unit) \<times> 'w) \<Rightarrow> 'w prompter" where
  "browser_present_url log open_that url w =
     (let w1 = log (''OAuth2 login required: open this URL to authenticate url='' @ url) w in
      case open_that url w1 of
        (Inl e, w2) \<Rightarrow> (Inr (), log (''could not open a browser; the login URL logged above has to '' @
          ''be opened manually e='' @ e) w2)
      | (Inr _, w2) \<Rightarrow> (Inr (), w2))"

definition redirect ::
    "(odbc_error \<Rightarrow> string) \<Rightarrow> 'w prompter \<Rightarrow> string \<Rightarrow> 'w \<Rightarrow> (client_error + unit) \<times> 'w" where
  "redirect display prompter url w =
     (case prompter url w of
        (Inl e, w1) \<Rightarrow> (Inl (ErrOAuth2 (''could not present the login URL: '' @ display e)), w1)
      | (Inr u, w1) \<Rightarrow> (Inr u, w1))"

section \<open>Properties\<close>

text \<open>
  The verdict is the exit code's alone. A dialog is cancelled exactly by the code 2, accepted exactly
  by the code 0 with a readable keyword list, and every other end is a failure that carries the
  dialog's own reason.
\<close>

lemma interpret_outcome_verdict:
  "interpret_outcome j code out err = Inr None \<longleftrightarrow> code = Some 2"
  "interpret_outcome j code out err = Inr (Some attrs) \<longleftrightarrow>
     code = Some 0 \<and> js_decode j (trim out) = Inr attrs"
  "code \<noteq> Some 0 \<Longrightarrow> code \<noteq> Some 2 \<Longrightarrow>
     \<exists>pre. interpret_outcome j code out err =
       Inl (RequestFailed (pre @ (if trim err = [] then ''it reported no reason'' else trim err)))"
proof -
  show "interpret_outcome j code out err = Inr None \<longleftrightarrow> code = Some 2"
    "interpret_outcome j code out err = Inr (Some attrs) \<longleftrightarrow>
     code = Some 0 \<and> js_decode j (trim out) = Inr attrs"
    by (auto simp: interpret_outcome_def EXIT_ACCEPTED_def EXIT_CANCELLED_def Let_def split: sum.splits)
  assume "code \<noteq> Some 0" "code \<noteq> Some 2"
  then have "interpret_outcome j code out err = Inl (RequestFailed ((''the setup dialog '' @
      (case code of Some c \<Rightarrow> ''exited with code '' @ show_int c | None \<Rightarrow> ''was terminated by a signal'')
      @ '': '') @ (if trim err = [] then ''it reported no reason'' else trim err)))"
    by (simp add: interpret_outcome_def EXIT_ACCEPTED_def EXIT_CANCELLED_def Let_def)
  then show "\<exists>pre. interpret_outcome j code out err =
      Inl (RequestFailed (pre @ (if trim err = [] then ''it reported no reason'' else trim err)))"
    by blast
qed

text \<open>
  The documented answer of \<open>GetModuleFileNameW\<close>: the name and its length where the buffer holds it
  and its terminator, and otherwise the buffer's size and the name cut to it.
\<close>

definition reports_path :: "('w, 'm, 'p) dialog_os \<Rightarrow> 'm \<Rightarrow> string \<Rightarrow> bool" where
  "reports_path os module path \<longleftrightarrow>
     (\<forall>n. os_file_name os module n =
        (if length path < n then (length path, path) else (n, take n path)))"

lemma module_file_name_whole:
  assumes "reports_path os module path" and "path \<noteq> []" and "length path < 2 ^ 31" and "0 < n"
    and "n < 2 ^ 32"
  shows "module_file_name os module n = Some (Inr path)"
  using assms(4,5)
proof (induction "length path - n" arbitrary: n rule: less_induct)
  case less
  show ?case
  proof (cases "length path < n")
    case True
    then show ?thesis
      using less.prems assms(1,2) by (simp add: module_file_name.simps [of os module n] reports_path_def)
  next
    case False
    then have "module_file_name os module (n * 2) = Some (Inr path)"
      using less assms(2,3) by (cases "length path = n") (auto intro!: less.hyps
        simp: module_file_name.simps [of os module "n * 2"] assms(1) [unfolded reports_path_def])
    then show ?thesis
      using False less.prems assms(1)
      by (simp add: module_file_name.simps [of os module n] reports_path_def)
  qed
qed

text \<open>
  The driver finds its own directory. However long the path of its library is, as long as a
  doubled buffer's size still fits a \<open>u32\<close>, the loop ends with the whole path and never with a path
  cut to the buffer.
\<close>

theorem module_path_whole:
  assumes "os_module os = Some module" and "reports_path os module path" and "path \<noteq> []"
    and "length path < 2 ^ 31"
  shows "module_file_name os module 260 = Some (Inr path) \<and>
    driver_directory os =
      (case os_parent os path of
         Some dir \<Rightarrow> Some (Inr dir)
       | None \<Rightarrow> Some (Inl (RequestFailed
           (''the driver DLL'' @ sq # ''s path has no directory: '' @ path))))"
  using module_file_name_whole [OF assms(2,3,4), of 260] assms(1)
  by (simp add: driver_directory_def split: option.split)


definition demo_os :: "(string list, unit, unit) dialog_os" where
  "demo_os =
     \<lparr>os_module = Some (),
      os_file_name = (\<lambda>m n. let path = replicate 300 (CHR ''d'') in
        if length path < n then (length path, path) else (n, take n path)),
      os_parent = (\<lambda>p. Some ''C:''), os_join = (\<lambda>d f. d @ bsl # f), os_is_file = (\<lambda>p. True),
      os_spawn = (\<lambda>prog args w. (Inr (), w @ [prog])), os_has_stdin = (\<lambda>p. True),
      os_write = (\<lambda>p t w. (Inr (), w @ [t])), os_close_stdin = (\<lambda>p w. w @ [''closed'']),
      os_wait = (\<lambda>p w. (Inr (Some 0, ''{}'', []), w @ [''waited''])), os_lossy = (\<lambda>t. t)\<rparr>"

lemma demo_reports_path: "reports_path demo_os () (replicate 300 (CHR ''d''))"
  by (simp add: reports_path_def demo_os_def Let_def)

theorem module_path_whole_witness:
  "module_file_name demo_os () 260 = Some (Inr (replicate 300 (CHR ''d''))) \<and> 260 < (300 :: nat)"
  using module_path_whole [of demo_os "()", OF _ demo_reports_path] by (simp add: demo_os_def)


text \<open>
  A login URL is always put in front of the user: presenting one with the browser logs it first and
  succeeds whatever starting the browser does, so that a login can be completed by hand; a prompter
  that cannot present it fails the login with SQLSTATE 28000 and a message that keeps the reason.
\<close>

theorem login_url_presented:
  "(\<exists>w1. redirect display (browser_present_url log open_that) url w = (Inr (), w1) \<and>
     (w1 = snd (open_that url (log (''OAuth2 login required: open this URL to authenticate url='' @ url) w)) \<or>
      (\<exists>txt. w1 = log txt (snd (open_that url
        (log (''OAuth2 login required: open this URL to authenticate url='' @ url) w)))))) \<and>
   redirect display (\<lambda>u w. (Inl e, w)) url w =
     (Inl (ErrOAuth2 (''could not present the login URL: '' @ display e)), w) \<and>
   sqlstate (to_odbc_error (map_trino_error (ErrOAuth2 (''could not present the login URL: '' @ display e)))) =
     ''28000''"
proof -
  have "\<exists>w1. redirect display (browser_present_url log open_that) url w = (Inr (), w1) \<and>
     (w1 = snd (open_that url (log (''OAuth2 login required: open this URL to authenticate url='' @ url) w)) \<or>
      (\<exists>txt. w1 = log txt (snd (open_that url
        (log (''OAuth2 login required: open this URL to authenticate url='' @ url) w)))))"
    by (auto simp: redirect_def browser_present_url_def Let_def split: prod.split sum.split)
  moreover have "sqlstate (to_odbc_error (map_trino_error
      (ErrOAuth2 (''could not present the login URL: '' @ display e)))) = ''28000''"
    by (simp add: error_defs)
  ultimately show ?thesis by (simp add: redirect_def)
qed

end
