(* ===== verification/Driver.thy ===== *)
theory Driver
  imports Statement Describe_Param Catalog
begin

text \<open>
  A connection at work: the methods of \<open>impl Backend for TrinoBackend\<close> (\<open>src/src/backend.rs\<close>) that
  act on a connection, as the steps of a machine whose state is the statements the application holds
  and the state they share. Which statements there are, and which call comes next, is the
  application's and the core's choice; a fetch is one turn of its loop, so that the calls of other
  threads fall between the turns.
\<close>

section \<open>The steps\<close>

type_synonym ('w, 'd, 's, 'z, 'o) driver =
  "(nat \<Rightarrow> ('d, 's, 'z, 'o) statement option) \<times> 'w sys"

inductive driver_work ::
    "('w, 'n, 'd, 's, 'z, 'o, 't, 'p) env \<Rightarrow> ('z, 'o) conn \<Rightarrow> ('w, 'd, 's, 'z, 'o) driver
       \<Rightarrow> ('w, 'd, 's, 'z, 'o) driver \<Rightarrow> bool" for e cn where
  submitted: "exec_direct e cn t sql s = Some (Ret (Inr st), s') \<Longrightarrow> sts i = None \<Longrightarrow>
     driver_work e cn (sts, s) (sts(i \<mapsto> st), s')"
| submit_failed: "exec_direct e cn t sql s = Some (r, s') \<Longrightarrow> driver_work e cn (sts, s) (sts, s')"
| prepared: "sts i = None \<Longrightarrow> driver_work e cn (sts, s) (sts(i \<mapsto> prepare (e_chrono e) sql), s)"
| executed: "sts i = Some st \<Longrightarrow> execute e cn t params st s = Some (r, st', s') \<Longrightarrow>
     driver_work e cn (sts, s) (sts(i \<mapsto> st'), s')"
| fetched: "sts i = Some st \<Longrightarrow> \<not> fetch_failed st \<Longrightarrow> fetch_turn e st s = (tn, st', s') \<Longrightarrow>
     driver_work e cn (sts, s) (sts(i \<mapsto> st'), s')"
| read: "sts i = Some st \<Longrightarrow> driver_work e cn (sts, s) (sts(i \<mapsto> snd (get_data col st)), s)"
| warned: "sts i = Some st \<Longrightarrow> driver_work e cn (sts, s) (sts(i \<mapsto> snd (take_value_warning st)), s)"
| closed_cursor: "sts i = Some st \<Longrightarrow> close_cursor e st s = Some (r, st', s') \<Longrightarrow>
     driver_work e cn (sts, s) (sts(i \<mapsto> st'), s')"
| dropped: "sts i = Some st \<Longrightarrow> drop_statement e st s = Some s' \<Longrightarrow>
     driver_work e cn (sts, s) (sts(i := None), s')"
| new_token: "driver_work e cn (sts, s) (sts, cancel_token t s)"
| cancelled: "driver_work e cn (sts, s) (sts, snd (cancel e t s))"
| manual: "driver_work e cn (sts, s) (sts, snd (set_autocommit e False s))"
| described: "describe_param e sql n cache s = (d, cache', s') \<Longrightarrow> driver_work e cn (sts, s) (sts, s')"
| listed_catalogs: "driver_work e cn (sts, s) (sts, snd (catalogs e s))"
| listed_schemas: "driver_work e cn (sts, s) (sts, snd (schemas e s))"
| listed_tables: "driver_work e cn (sts, s) (sts, snd (tables e c h tb types s))"
| listed_columns: "driver_work e cn (sts, s) (sts, snd (columns e c h tb col s))"
| listed_privileges: "driver_work e cn (sts, s) (sts, snd (table_privileges e c h tb s))"
| environment: "driver_work e cn (sts, s) (sts, s\<lparr>world := w\<rparr>)"

inductive driver_ending ::
    "('w, 'n, 'd, 's, 'z, 'o, 't, 'p) env \<Rightarrow> ('w, 'd, 's, 'z, 'o) driver
       \<Rightarrow> ('w, 'd, 's, 'z, 'o) driver \<Rightarrow> bool" for e where
  ended: "driver_ending e (sts, s) (sts, snd (end_tran e commit s))"
| automatic: "driver_ending e (sts, s) (sts, snd (set_autocommit e True s))"
| disconnected: "driver_ending e (sts, s) (sts, snd (disconnect e s))"

definition driver_step ::
    "('w, 'n, 'd, 's, 'z, 'o, 't, 'p) env \<Rightarrow> ('z, 'o) conn \<Rightarrow> ('w, 'd, 's, 'z, 'o) driver
       \<Rightarrow> ('w, 'd, 's, 'z, 'o) driver \<Rightarrow> bool" where
  "driver_step e cn x y \<longleftrightarrow> driver_work e cn x y \<or> driver_ending e x y"

text \<open>Work done while a transaction is open.\<close>

definition open_work ::
    "('w, 'n, 'd, 's, 'z, 'o, 't, 'p) env \<Rightarrow> ('z, 'o) conn \<Rightarrow> ('w, 'd, 's, 'z, 'o) driver
       \<Rightarrow> ('w, 'd, 's, 'z, 'o) driver \<Rightarrow> bool" where
  "open_work e cn x y \<longleftrightarrow> driver_work e cn x y \<and> in_transaction e (snd x)"

section \<open>Work keeps the mark of a failure\<close>

definition keeps :: "'w sys \<Rightarrow> 'w sys \<Rightarrow> bool" where
  "keeps s s' \<longleftrightarrow> (aborted s \<longrightarrow> aborted s') \<and> epoch s' = epoch s"

lemma keeps_refl [simp]: "keeps s s"
  by (simp add: keeps_def)

lemma keeps_trans: "keeps s s1 \<Longrightarrow> keeps s1 s2 \<Longrightarrow> keeps s s2"
  by (auto simp: keeps_def)

lemma keeps_simps [simp]:
  "keeps s (s\<lparr>world := w\<rparr>)" "keeps s (s\<lparr>dead := d\<rparr>)" "keeps s (s\<lparr>cancels := c\<rparr>)"
  "keeps s (txn_note_statement_error s)" "keeps s (begin_query t q s)" "keeps s (cancel_token t s)"
  "keeps s (snd (call f s))" "keeps s (snd (map_error_on err s))" "keeps s (snd (statement_error err s))"
  by (simp_all add: keeps_def session_defs call_world map_error_on_eq statement_error_def)

lemma keeps_call: "call f s = (r, s1) \<Longrightarrow> keeps s s1"
  using keeps_simps(7) [of s f] by simp

lemma keeps_error: "statement_error err s = (m, s1) \<Longrightarrow> keeps s s1"
  using keeps_simps(9) [of s err] by simp

lemma keeps_ensure: "in_transaction e s \<Longrightarrow> ensure_transaction e s = (r, s1) \<Longrightarrow> s1 = s"
  by (simp add: ensure_transaction_def)

lemma keeps_cancel: "keeps s (snd (cancel e t s))"
  by (simp add: keeps_def cancel_def session_defs call_world map_error_on_eq Let_def
      split: option.split sum.split)

lemma keeps_manual: "keeps s (snd (set_autocommit e False s))"
  by (simp add: keeps_def set_autocommit_def session_defs)

lemma keeps_decode: "decode_page_rows e d raw s = (r, s1) \<Longrightarrow> keeps s s1"
  by (auto simp: decode_page_rows_def dest: keeps_call split: option.splits)

lemma keeps_poll:
  assumes "poll_metadata e page pc ec s = Some r"
  shows "keeps s (snd r)"
proof (induction rule: poll_metadata.raw_induct [OF _ assms])
  case step: (1 poll e page pc ec s r)
  show ?case
  proof (cases "pg_columns page = None \<and> pg_error page = None \<and> pg_next page \<noteq> None")
    case False
    then show ?thesis
      using step(2) by (auto simp: Let_def dest: keeps_error split: option.splits prod.splits)
  next
    case True
    then obtain url where url: "pg_next page = Some url" by auto
    obtain p s1 where c: "call (e_get_next e url) s = (p, s1)" by (meson surj_pair)
    note s1 = keeps_call [OF c]
    show ?thesis
    proof (cases p)
      case (Inl err)
      then show ?thesis
        using step(2) True url c s1 by (auto dest!: keeps_error intro: keeps_trans split: prod.splits)
    next
      case (Inr page')
      then have "poll e page' (pc + 1) (ec + 1) s1 = Some r" using step(2) True url c by simp
      from step(1) [OF this] s1 show ?thesis using keeps_trans by blast
    qed
  qed
qed

lemma keeps_first_batch:
  assumes "first_batch e t zone page pc ec s = (r, s')"
  shows "keeps s s'"
  using assms
  by (auto simp: first_batch_def Let_def dest!: keeps_decode dest!: keeps_error intro: keeps_trans
      split: option.splits sum.splits prod.splits run.splits)

lemma keeps_exec_direct:
  assumes "exec_direct e cn t sql s = Some (r, s')" and "in_transaction e s"
  shows "keeps s s'"
proof -
  obtain a s1 where en: "ensure_transaction e s = (a, s1)" by (meson surj_pair)
  then have s1: "s1 = s" "a = Inr ()"
    using assms(2) by (auto simp: ensure_transaction_def)
  obtain g s2 where get: "call (e_get e (strip_trailing_semicolons sql)) s = (g, s2)" by (meson surj_pair)
  note k2 = keeps_call [OF get]
  show ?thesis
  proof (cases g)
    case (Inl err)
    then show ?thesis
      using assms(1) en s1 get k2
      by (auto simp: exec_direct_def Let_def dest!: keeps_error intro: keeps_trans split: prod.splits)
  next
    case (Inr page)
    let ?b = "begin_query t (pg_id page) s2"
    obtain res where poll: "poll_metadata e page 1 0 ?b = Some res"
      using assms(1) en s1 get Inr by (auto simp: exec_direct_def Let_def split: option.splits)
    have k3: "keeps s (snd res)"
      using k2 keeps_poll [OF poll] keeps_simps(5) [of s2 t "pg_id page"] keeps_trans by blast
    show ?thesis
      using assms(1) en s1 get Inr poll k3
      by (auto simp: exec_direct_def Let_def dest!: keeps_first_batch intro: keeps_trans
          split: sum.splits prod.splits)
  qed
qed

lemma keeps_client_error: "map_client_error st err s = (m, s1) \<Longrightarrow> keeps s s1"
  by (auto simp: map_client_error_def map_error_on_eq Let_def keeps_def session_defs split: if_splits)

lemma keeps_drain:
  assumes "drain e st nx s = Some r"
  shows "keeps s (snd r)"
proof (induction rule: drain.raw_induct [OF _ assms])
  case step: (1 dr e st nx s r)
  show ?case
  proof (cases nx)
    case None
    then show ?thesis using step(2) by auto
  next
    case (Some url)
    obtain p s1 where c: "call (e_get_next e url) s = (p, s1)" by (meson surj_pair)
    note s1 = keeps_call [OF c]
    show ?thesis
    proof (cases p)
      case (Inl err)
      then show ?thesis
        using step(2) Some c s1
        by (auto simp: Let_def dest!: keeps_client_error intro: keeps_trans split: prod.splits)
    next
      case (Inr page)
      then have "dr e st (pg_next page) s1 = Some r" using step(2) Some c by simp
      from step(1) [OF this] s1 show ?thesis using keeps_trans by blast
    qed
  qed
qed

lemma keeps_close: "close_cursor e st s = Some (r, st', s') \<Longrightarrow> keeps s s'"
  by (auto simp: close_cursor_def dest!: keeps_drain split: option.splits if_splits)

lemma keeps_drop: "drop_statement e st s = Some s' \<Longrightarrow> keeps s s'"
  by (auto simp: drop_statement_def dest: keeps_close split: if_splits)

lemma keeps_execute:
  assumes "execute e cn t params st s = Some (r, st', s')" and "in_transaction e s"
  shows "keeps s s'"
  using assms
  by (auto simp: execute_def dest!: keeps_exec_direct dest!: keeps_drop intro: keeps_trans
      split: option.splits sum.splits run.splits)

lemma keeps_page_failed: "page_failed st err s = (tn, st', s') \<Longrightarrow> keeps s s'"
  by (auto simp: page_failed_def dest: keeps_client_error split: prod.splits)

lemma keeps_take_page:
  assumes "take_page e page st s = (tn, st', s')"
  shows "keeps s s'"
  using assms
  by (auto simp: take_page_def Let_def dest!: keeps_decode dest!: keeps_page_failed intro: keeps_trans
      split: option.splits sum.splits prod.splits run.splits)

lemma keeps_fetch_turn:
  assumes "fetch_turn e st s = (tn, st', s')"
  shows "keeps s s'"
  using assms
  by (auto simp: fetch_turn_def Let_def dest!: keeps_call dest!: keeps_page_failed keeps_take_page
      intro: keeps_trans split: option.splits sum.splits prod.splits if_splits)

lemma keeps_query: "query_all_rows e sql s = (r, s1) \<Longrightarrow> keeps s s1"
  by (auto simp: query_all_rows_def query_all_rows_within_def Let_def dest!: keeps_call keeps_error
      intro: keeps_trans split: sum.splits prod.splits option.splits)

lemma keeps_information_schema: "query_information_schema e sql s = (r, s1) \<Longrightarrow> keeps s s1"
  by (auto simp: query_information_schema_def Let_def dest: keeps_query
      split: sum.splits prod.splits if_splits)

lemma keeps_catalog_functions:
  "keeps s (snd (catalogs e s))" "keeps s (snd (schemas e s))"
  "keeps s (snd (tables e c h tb types s))" "keeps s (snd (columns e c h tb col s))"
  "keeps s (snd (table_privileges e c h tb s))"
  by (auto simp: catalogs_def schemas_def tables_def columns_def table_privileges_def
      dest: keeps_query keeps_information_schema split: sum.split prod.split)

lemma keeps_execute_statement: "execute_statement e sql s = (r, s1) \<Longrightarrow> keeps s s1"
  by (auto simp: execute_statement_def map_error_on_eq Let_def dest!: keeps_call
      split: sum.splits prod.splits) (auto simp: keeps_def)

lemma keeps_fetch_input_params: "fetch_input_params e sql s = (r, s1) \<Longrightarrow> keeps s s1"
  by (auto simp: fetch_input_params_def Let_def dest!: keeps_execute_statement keeps_query
      intro: keeps_trans split: sum.splits prod.splits)

lemma keeps_describe_param: "describe_param e sql n cache s = (d, cache', s1) \<Longrightarrow> keeps s s1"
  by (auto simp: describe_param_def Let_def dest: keeps_fetch_input_params
      split: sum.splits prod.splits if_splits)

lemma open_work_keeps: "open_work e cn x y \<Longrightarrow> keeps (snd x) (snd y)"
  unfolding open_work_def
  by (elim conjE driver_work.cases)
     (auto simp: keeps_catalog_functions keeps_cancel keeps_manual
       intro: keeps_exec_direct keeps_execute keeps_fetch_turn keeps_close keeps_drop keeps_describe_param)

lemma open_run_keeps:
  assumes "(open_work e cn)\<^sup>*\<^sup>* x y"
  shows "keeps (snd x) (snd y)"
  using assms
  by (induction rule: rtranclp_induct) (auto dest: open_work_keeps intro: keeps_trans)

section \<open>Every statement, always\<close>

text \<open>The statements of a reachable state: well-formed, and a result set has the handles it uses.\<close>

inductive driver_reachable ::
    "('w, 'n, 'd, 's, 'z, 'o, 't, 'p) env \<Rightarrow> ('z, 'o) conn \<Rightarrow> ('w, 'd, 's, 'z, 'o) driver \<Rightarrow> bool"
  for e cn where
  connected: "driver_reachable e cn (Map.empty, (initial_sys w)\<lparr>dead := d\<rparr>)"
| stepped: "driver_reachable e cn x \<Longrightarrow> driver_step e cn x y \<Longrightarrow> driver_reachable e cn y"

text \<open>The state a successful connect hands out is such a start.\<close>

lemma connect_reachable:
  assumes "connect e x rq l = (Inr (cn, s), l')"
  shows "driver_reachable e cn (Map.empty, s)"
proof -
  obtain p w where o: "open_client x rq l = (Inr (p, w), l')"
    using assms by (auto simp: connect_def split: prod.splits sum.splits)
  obtain s1 probe where
    v: "validate_connection e (p_catalog p) (login_deadline (rq_login_timeout rq)) (initial_sys w) = (Inr (), s1)"
    and probe: "probe_session e x s1 = (probe, s)"
    using assms o by (auto simp: connect_def Let_def split: prod.splits sum.splits)
  obtain r where q: "query_all_rows_within e (validation_query (p_catalog p))
      (login_deadline (rq_login_timeout rq)) (initial_sys w) = (r, s1)"
    using v by (auto simp: validate_connection_def split: prod.splits)
  have "s = (initial_sys (world s))\<lparr>dead := dead s\<rparr>"
    using query_within_auto [OF q] probe_session_auto [OF probe]
    by (simp add: initial_sys_def)
  then show ?thesis by (metis driver_reachable.connected)
qed

lemma driver_work_wf:
  assumes "driver_work e cn (sts, s) (sts', s')" and "\<forall>j st. sts j = Some st \<longrightarrow> wf_statement st"
  shows "\<forall>j st. sts' j = Some st \<longrightarrow> wf_statement st"
  using assms
  by (cases rule: driver_work.cases)
     (auto simp: get_data_wf take_value_warning_def wf_closed wf_prepare
       dest: close_cursor_closed intro: exec_direct_wf execute_wf fetch_turn_wf split: if_splits)

lemma driver_reachable_wf:
  assumes "driver_reachable e cn x"
  shows "\<forall>j st. fst x j = Some st \<longrightarrow> wf_statement st"
  using assms
proof (induction rule: driver_reachable.induct)
  case (stepped x y)
  then show ?case
    using driver_work_wf [of e cn "fst x" "snd x" "fst y" "snd y"]
    by (auto simp: driver_step_def elim: driver_ending.cases)
qed simp

text \<open>A manual-commit connection whose only statement has read the one row of its first page.\<close>

lemma demo_driver_reachable:
  "driver_reachable demo_env demo_conn
     ([0 \<mapsto> (demo_statement (Some ''u1''))\<lparr>batch_cursor := 1\<rparr>],
      begin_query 0 ''q1'' (demo_start False []))"
proof -
  let ?page = "Inr (demo_page [[JStr ''x'']] (Some ''u1'')) :: client_error + demo_rows page"
  let ?st = "demo_statement (Some ''u1'')" and ?s = "begin_query 0 ''q1'' (demo_start False [])"
  have "driver_reachable demo_env demo_conn (Map.empty, initial_sys ([?page], True))"
    using driver_reachable.connected [of demo_env demo_conn False "([?page], True)"]
    by (simp add: initial_sys_def)
  moreover have "driver_step demo_env demo_conn (Map.empty, initial_sys ([?page], True))
      (Map.empty, demo_start False [?page])"
    unfolding driver_step_def
    using driver_work.manual [of demo_env demo_conn Map.empty "initial_sys ([?page], True)"]
    by (simp add: set_autocommit_def txn_set_autocommit_def demo_start_def)
  moreover have "driver_step demo_env demo_conn (Map.empty, demo_start False [?page]) ([0 \<mapsto> ?st], ?s)"
    unfolding driver_step_def
    using driver_work.submitted [OF demo_exec [of False "Some ''u1''" "[]"], of Map.empty 0] by simp
  moreover have "driver_step demo_env demo_conn ([0 \<mapsto> ?st], ?s) ([0 \<mapsto> ?st\<lparr>batch_cursor := 1\<rparr>], ?s)"
    unfolding driver_step_def
    using driver_work.fetched [of "[0 \<mapsto> ?st]" 0 ?st demo_env ?s "Finish (Inr FetchRow)"
        "?st\<lparr>batch_cursor := 1\<rparr>" ?s demo_conn]
    by (simp add: fetch_turn_def statement_cancelled_def begin_query_state)
  ultimately show ?thesis by (meson driver_reachable.stepped)
qed

end
