(* ===== verification/Spec2Isabelle.thy ===== *)
theory Spec2Isabelle
  imports Type_Names Value_Conversion Conversion_Types Conversion_Times Sql_Quoting Errors Params
    Params_Temporal Escape_Dialect Conn_Params Session_State Races Statement Statement_Rows
    Statement_Fetch Statement_Loops Statement_Failures Connection Catalog Catalog_Patterns Catalog_Rows
    Describe_Param Type_Info Capabilities Declarations Dsn_Setup Driver
begin

text \<open>
  A model of the Trino ODBC driver: the Rust crate under \<open>src/src\<close>, which implements the \<open>Backend\<close>
  trait of an ODBC core library over an HTTP client library for Trino.

  \<^bold>\<open>The program.\<close> The core exports the ODBC entry points, parses connection strings and escape
  sequences, and calls the driver. The driver connects (\<open>backend.rs\<close>), submits statements and reads
  their pages (\<open>backend/execute.rs\<close>), converts JSON cells to ODBC values (\<open>type_conversion.rs\<close>), renders
  bound values as literals (\<open>backend/params.rs\<close>), answers the catalog functions from
  \<open>information_schema\<close> (\<open>backend/metadata.rs\<close>), describes parameters (\<open>backend/describe_param.rs\<close>),
  declares its capabilities (\<open>backend/info.rs\<close>), translates escapes (\<open>escape_dialect.rs\<close>), validates
  the connection string (\<open>backend/types/connect_params.rs\<close>), and runs a set-up dialog
  (\<open>backend/setup.rs\<close>). The threads of a connection share the transaction's state, the liveness flag
  and one cancellation slot for each statement.

  \<^bold>\<open>The theories and the code.\<close>
  \<^item> \<open>Trino_Prelude\<close>: the string and integer operations of Rust's standard library that the code uses,
    result and option combinators, the ranges of the integer types. Characters are those up to U+00FF.
  \<^item> \<open>Type_Names\<close>, \<open>Value_Conversion\<close>: \<open>type_conversion.rs\<close>. The names Trino gives types, their
    parameters, sizes and digits; every conversion of a cell, with the parsers of dates, times,
    timestamps, zones and offsets. The numbers of JSON, base64, floating point and chrono's calendar
    are the records \<open>json_ext\<close> and \<open>chrono_ext\<close>; a panic is a value of its own (\<open>run\<close>).
    \<open>Conversion_Types\<close>: the type of a converted value and the absence of panics; \<open>Conversion_Times\<close>:
    what the parsers of dates, times, zones and fractions read, and what is lost.
  \<^item> \<open>Sql_Quoting\<close>: how Trino reads a quoted token, the specification side of every text the driver
    writes; its locale is interpreted for literals, identifiers and the literals of parameters.
  \<^item> \<open>Errors\<close>: \<open>TrinoError\<close>, the classification of the client's errors, the conversion to the core's
    error and back, the liveness flag (\<open>backend.rs\<close>).
  \<^item> \<open>Params\<close>: \<open>interpolate_params\<close> and \<open>render_literal\<close>; \<open>Params_Temporal\<close>: bound dates and times read
    back by the driver's own parsers. \<open>Escape_Dialect\<close>: the hooks of the escapes.
  \<^item> \<open>Conn_Params\<close>: \<open>TrinoConnectParams::try_from\<close> and its parsers. \<open>Connection\<close>: authentication, the
    shared OAuth logins, the configuration of the client, validation and the session probe.
  \<^item> \<open>Session_State\<close>: \<open>TransactionState\<close>, \<open>CancelState\<close>, \<open>Liveness\<close> and the operations on them, over the
    record \<open>env\<close> of the client's calls, each a function of an abstract world. The locale
    \<open>transaction_state\<close> is the contract of the transaction flags, interpreted on them. \<open>Races\<close>: the
    same operations cut at their atomic accesses and requests, any number of threads taking turns.
  \<^item> \<open>Statement\<close>: \<open>TrinoStatement\<close> with \<open>exec_direct\<close>, \<open>prepare\<close>, \<open>execute\<close>, \<open>fetch\<close>, \<open>get_data\<close>,
    \<open>close_cursor\<close> and \<open>drop\<close>. \<open>Statement_Rows\<close>: the rows against the coordinator's pages, through the
    locale \<open>row_source\<close> (what a consumer of rows relies on), interpreted on \<open>fetch\<close> and the read of the
    row; \<open>Statement_Fetch\<close>: how a result set ends; \<open>Statement_Loops\<close>: the loops return;
    \<open>Statement_Failures\<close>: every failure in manual-commit mode marks the transaction.
  \<^item> \<open>Catalog\<close>: every function of \<open>metadata.rs\<close>; \<open>Catalog_Patterns\<close> and \<open>Catalog_Rows\<close>: what its queries
    select and what its rows say. \<open>Describe_Param\<close>: the description of parameters and its cache.
  \<^item> \<open>Type_Info\<close>, \<open>Capabilities\<close>: \<open>info.rs\<close> and the capability methods of \<open>backend.rs\<close>;
    \<open>Declarations\<close>: what is declared against the code that carries it out.
  \<^item> \<open>Dsn_Setup\<close>: \<open>setup.rs\<close> and \<open>prompt.rs\<close>.
  \<^item> \<open>Driver\<close>: the methods of \<open>impl Backend\<close> as the steps of one machine over any number of statements,
    from the state that \<open>connect\<close> hands out.

  \<^bold>\<open>What the theorems show.\<close> Every cell converts to a value of its column's type, or to text, and
  only an out-of-range zone offset can panic; type names survive printing and parsing, and the four places
  that describe a type agree. A rendered parameter cannot leave its place in a statement, and an
  executed statement is the template woven with the literals. Reading a result set to its end gives
  exactly the coordinator's rows; statements stay well-formed; a fetch that fails ends its result set;
  a cancellation stops its statement and no other, takes effect at one of its turns whatever the
  interleaving, and returns control to the application once the coordinator has deleted the query. An
  aborted transaction is never committed, across statements and threads; while one is being ended,
  its statements find their results dead exactly once its epoch has moved. Credentials travel over TLS only, one login serves one identity, accepted
  parameters satisfy every rule of the connection string. Catalog queries read back as the conditions
  meant, and select what ODBC's patterns select. Where the code departs from its documentation a
  theorem shows it: the panic, a literal that opens a comment after a minus sign, doubled backslashes
  in patterns, a secret echoed in a diagnostic, a commit sent after a failed rollback, a failure noted between the
  read and the reset of the abort flag.

  \<^bold>\<open>Bounds and termination.\<close> Counters and epochs are words of the width of the code; values that the code
  narrows go through the checked conversions \<open>to_i16\<close> to \<open>to_u64\<close>. The loops whose end is the
  coordinator's (\<open>poll_metadata\<close>, \<open>fetch_loop\<close>, \<open>drain\<close>) and the operating system's
  (\<open>module_file_name\<close>) are \<open>partial_function (option)\<close>: not returning is \<open>None\<close>. That they return is
  proved, for every coordinator whose queries end and for every path shorter than 2^31 characters. No
  fuel bounds the model; the fuel of \<open>read_rows\<close> counts the rows an application asks for.

  \<^bold>\<open>Interleaving.\<close> Other threads and the coordinator act between the turns of a fetch
  (\<open>statement_step\<close>, \<open>driver_work\<close>); the atomics are one shared state, since the code uses
  sequentially consistent operations on it. A submission is one step of \<open>driver_work\<close>, and so are
  ending a transaction and cancelling a statement: \<open>Races\<close> takes these apart into their atomic turns,
  shows that the turns of a call make up the operation, and what holds of them in any order.

  \<^bold>\<open>Not modelled.\<close> The core and the client library are not part of the repository: what the code
  uses of them is a parameter with its documented behaviour as a hypothesis. Logging, the profiling
  times and the reference counting of the runtime and the client are left out, as they change no result.
  One reading of the clock stands for all the cells of a page. The tests, benchmarks and fuzz targets,
  the build script, the installers and the Power BI connector carry no logic of the driver; the crate
  root and the export of the C entry points are a macro of the core.
\<close>

section \<open>Properties that span components\<close>

text \<open>
  C12: A prepared statement executed with parameters. What is submitted is the stored text
  with every placeholder replaced by the literal of its value and nothing else changed; the new
  result set takes the old one's place and keeps the template, so that the statement can be executed
  again, and the old one is dropped after. With the wrong number of values nothing is sent, and
  whenever the execution fails the statement is left as it was.
\<close>

theorem prepared_execution:
  assumes "pending_sql st = Some template" and "execute e cn t params st s = Some (r, st', s')"
  shows "pending_sql st' = Some template \<and> (\<forall>m. r = Ret (Inl m) \<longrightarrow> st' = st) \<and>
    (length (segments False template) \<noteq> length params + 1 \<longrightarrow> s' = s \<and> (\<exists>m. r = Ret (Inl m))) \<and>
    (r = Ret (Inr ()) \<longrightarrow> (\<exists>ts st1 s1.
      list_all2 (\<lambda>p lit. render_literal (e_json e) (e_chrono e) p = Inr lit) params ts \<and>
      exec_direct e cn t (weave (segments False template) ts) s = Some (Ret (Inr st1), s1) \<and>
      st' = st1\<lparr>pending_sql := Some template\<rparr> \<and> drop_statement e st s1 = Some s'))"
proof (cases "interpolate_params (e_json e) (e_chrono e) template params")
  case (Inl m)
  then have "r = Ret (Inl m)" "st' = st" "s' = s" using assms by (simp_all add: execute_def)
  then show ?thesis using assms(1) by simp
next
  case (Inr sql)
  then obtain ts where ts: "length (segments False template) = length params + 1"
      "list_all2 (\<lambda>p lit. render_literal (e_json e) (e_chrono e) p = Inr lit) params ts"
      "sql = weave (segments False template) ts"
    using interpolate_Inr_iff by blast
  show ?thesis
    using assms Inr ts
    by (auto simp: execute_def split: option.splits run.splits sum.splits prod.splits)
qed

theorem prepared_execution_witness:
  "\<exists>m. execute demo_env demo_conn 0 [] (prepare demo_chrono ''SELECT ?'') (demo_start True []) =
     Some (Ret (Inl m), prepare demo_chrono ''SELECT ?'', demo_start True [])"
proof -
  let ?run = "execute demo_env demo_conn 0 [] (prepare demo_chrono ''SELECT ?'') (demo_start True [])"
  have "interpolate_params demo_json demo_chrono ''SELECT ?'' [] = Inl (not_enough 0 0)"
    by (simp add: interpolate_params_def interpolate_with_def)
  then have run: "?run = Some (Ret (Inl (not_enough 0 0)), prepare demo_chrono ''SELECT ?'', demo_start True [])"
    by (simp add: execute_def prepare_def)
  from prepared_execution [OF _ run, of "''SELECT ?''"] show ?thesis
    using run by (simp add: prepare_def)
qed



text \<open>
  What a coordinator answers for a query that has been deleted: every request for a page fails, or
  brings a page without columns whose error, like the failure, carries Trino's code of a cancelled
  query. \<open>gone\<close> is what the world is like from then on.
\<close>

definition user_cancelled :: "client_error \<Rightarrow> bool" where
  "user_cancelled err \<longleftrightarrow> (\<exists>q. err = ErrQuery q \<and> error_code q = TRINO_ERROR_USER_CANCELED)"

definition answers_deleted ::
    "('w, 'n, 'd, 's, 'z, 'o, 't, 'p) env \<Rightarrow> ('w \<Rightarrow> bool) \<Rightarrow> bool" where
  "answers_deleted e gone \<longleftrightarrow>
     (\<forall>w url. gone w \<longrightarrow>
        (case e_get_next e url w of
           (Inl err, w') \<Rightarrow> user_cancelled err \<and> gone w'
         | (Inr page, w') \<Rightarrow>
             pg_columns page = None \<and> gone w' \<and>
             (\<exists>q. pg_error page = Some q \<and> user_cancelled (e_error_of e q))))"

lemma user_cancelled_state:
  "user_cancelled err \<Longrightarrow> sqlstate (to_odbc_error (map_trino_error err)) = ''HY008''"
  by (auto simp: user_cancelled_def error_defs)

lemma deleted_poll:
  assumes "answers_deleted e gone" and "gone (world s)" and "pg_columns page = None"
    and "pg_error page = None" and "pg_next page = Some url"
  shows "\<exists>m s'. poll_metadata e page pc ec s = Some (Inl m, s') \<and>
    sqlstate (to_odbc_error m) = ''HY008'' \<and> (\<not> autocommit s \<longrightarrow> aborted s')"
proof -
  obtain a w where next1: "e_get_next e url (world s) = (a, w)" by (meson surj_pair)
  note answer = assms(1) [unfolded answers_deleted_def, rule_format, OF assms(2), of url, unfolded next1]
  show ?thesis
  proof (cases a)
    case (Inl err)
    then show ?thesis
      using assms(3-5) next1 answer user_cancelled_state
      by (auto simp: poll_metadata.simps [of e page] call_world statement_error_def
          map_error_on_eq note_aborted)
  next
    case (Inr page')
    then have "pg_columns page' = None \<and> (\<exists>q. pg_error page' = Some q \<and> user_cancelled (e_error_of e q))"
      using answer by simp
    then show ?thesis
      using assms(3-5) next1 Inr user_cancelled_state
      by (auto simp: poll_metadata.simps [of e page] poll_metadata.simps [of e page'] call_world
          statement_error_def map_error_on_eq note_aborted)
  qed
qed



end
